(* ===== verification/JsValue.thy ===== *)
theory JsValue
  imports Prelude
begin

text \<open>
  JavaScript values as the program handles them: parsed JSON plus \<open>undefined\<close> and \<open>NaN\<close>.
  Numbers are integers (timestamps, codes, property values; doubles are exact up to \<open>2^53\<close>);
  objects are association lists in insertion order. Reading a property of \<open>undefined\<close> or
  \<open>null\<close> is a \<open>TypeError\<close>, which \<open>js_prop\<close> returns as \<open>Inl\<close>; \<open>opt_prop\<close> is optional chaining.
\<close>

section \<open>Values\<close>

datatype jsval = JUndef | JNull | JBool bool | JNum int | JNaN | JStr string
  | JArr "jsval list" | JObj "(string \<times> jsval) list"

type_synonym obj = "(string \<times> jsval) list"

fun truthy :: "jsval \<Rightarrow> bool" where
  "truthy JUndef = False"
| "truthy JNull = False"
| "truthy (JBool b) = b"
| "truthy (JNum n) = (n \<noteq> 0)"
| "truthy JNaN = False"
| "truthy (JStr s) = (s \<noteq> [])"
| "truthy (JArr _) = True"
| "truthy (JObj _) = True"

text \<open>\<open>a || b\<close>, \<open>a ?? b\<close>, and a parameter default, which applies to \<open>undefined\<close> only.\<close>

definition js_or :: "jsval \<Rightarrow> jsval \<Rightarrow> jsval" where
  "js_or a b = (if truthy a then a else b)"

definition nullish :: "jsval \<Rightarrow> bool" where
  "nullish v = (v = JUndef \<or> v = JNull)"

definition js_coalesce :: "jsval \<Rightarrow> jsval \<Rightarrow> jsval" where
  "js_coalesce a b = (if nullish a then b else a)"

definition js_default :: "jsval \<Rightarrow> jsval \<Rightarrow> jsval" where
  "js_default a b = (if a = JUndef then b else a)"

lemma truthy_js_or [simp]: "truthy (js_or a b) = (truthy a \<or> truthy b)"
  by (simp add: js_or_def)

section \<open>Conversions\<close>

fun js_string :: "jsval \<Rightarrow> string" where
  "js_string JUndef = ''undefined''"
| "js_string JNull = ''null''"
| "js_string (JBool b) = (if b then ''true'' else ''false'')"
| "js_string (JNum n) = show_int n"
| "js_string JNaN = ''NaN''"
| "js_string (JStr s) = s"
| "js_string (JArr vs) =
     join '','' (map (\<lambda>v. case v of JUndef \<Rightarrow> [] | JNull \<Rightarrow> [] | _ \<Rightarrow> js_string v) vs)"
| "js_string (JObj _) = ''[object Object]''"

text \<open>
  \<open>Number(s)\<close> on strings: white space is trimmed, the empty string is 0, an optionally signed
  run of decimal digits is its value, anything else is \<open>NaN\<close> (\<open>None\<close>). Fractions, exponents and
  radix prefixes are outside the number domain of the model.
\<close>

definition is_space :: "char \<Rightarrow> bool" where
  "is_space c = (c = CHR '' '' \<or> c = CHR 0x09 \<or> c = CHR 0x0A \<or> c = CHR 0x0B \<or> c = CHR 0x0C
     \<or> c = CHR 0x0D \<or> c = CHR 0xA0)"

definition js_trim :: "string \<Rightarrow> string" where
  "js_trim s = rev (dropWhile is_space (rev (dropWhile is_space s)))"

definition number_of_digits :: "string \<Rightarrow> int option" where
  "number_of_digits s = (if s \<noteq> [] \<and> list_all is_digit s then Some (int (read_digits s)) else None)"

definition number_of_string :: "string \<Rightarrow> int option" where
  "number_of_string s =
     (case js_trim s of
        [] \<Rightarrow> Some 0
      | c # r \<Rightarrow> if c = CHR ''-'' then map_option uminus (number_of_digits r)
                 else if c = CHR ''+'' then number_of_digits r
                 else number_of_digits (c # r))"

fun js_number :: "jsval \<Rightarrow> int option" where
  "js_number JUndef = None"
| "js_number JNull = Some 0"
| "js_number (JBool b) = Some (if b then 1 else 0)"
| "js_number (JNum n) = Some n"
| "js_number JNaN = None"
| "js_number (JStr s) = number_of_string s"
| "js_number (JArr vs) = number_of_string (js_string (JArr vs))"
| "js_number (JObj _) = None"

definition num_val :: "int option \<Rightarrow> jsval" where
  "num_val n = (case n of None \<Rightarrow> JNaN | Some k \<Rightarrow> JNum k)"

lemma is_space_digit: "is_digit c \<Longrightarrow> \<not> is_space c"
  by (auto simp: is_digit_def is_space_def)

lemma dropWhile_space_digits: "list_all is_digit s \<Longrightarrow> dropWhile is_space s = s"
  by (cases s) (auto simp: is_space_digit)

lemma js_trim_no_space: "list_all (\<lambda>c. \<not> is_space c) s \<Longrightarrow> js_trim s = s"
proof -
  assume ns: "list_all (\<lambda>c. \<not> is_space c) s"
  have "dropWhile is_space t = t" if "list_all (\<lambda>c. \<not> is_space c) t" for t
    using that by (cases t) auto
  then show ?thesis using ns by (simp add: js_trim_def)
qed

lemma number_of_string_show_int [simp]: "number_of_string (show_int n) = Some n"
proof -
  have dig: "list_all (\<lambda>c. \<not> is_space c) (show_nat k)" for k
    by (auto simp: list_all_iff dest: show_nat_digits is_space_digit)
  have m: "\<not> is_space (CHR ''-'')" by (simp add: is_space_def)
  obtain c r where cr: "show_nat (nat \<bar>n\<bar>) = c # r"
    by (cases "show_nat (nat \<bar>n\<bar>)") auto
  have "is_digit c" using cr by (metis list.set_intros(1) show_nat_digits)
  then have c: "c \<noteq> CHR ''-''" "c \<noteq> CHR ''+''" by (auto simp: is_digit_def)
  have nd: "number_of_digits (show_nat (nat \<bar>n\<bar>)) = Some \<bar>n\<bar>"
    by (simp add: number_of_digits_def)
  show ?thesis
  proof (cases "n < 0")
    case True
    with m dig [of "nat (- n)"] nd show ?thesis
      by (simp add: show_int_def number_of_string_def js_trim_no_space)
  next
    case False
    with dig [of "nat n"] nd cr c show ?thesis
      by (simp add: show_int_def number_of_string_def js_trim_no_space)
  qed
qed

lemma js_number_show [simp]: "js_number (JStr (show_int n)) = Some n"
  by simp

section \<open>Objects in insertion order\<close>

definition oget :: "obj \<Rightarrow> string \<Rightarrow> jsval" where
  "oget ob k = (case map_of ob k of None \<Rightarrow> JUndef | Some v \<Rightarrow> v)"

text \<open>Assignment keeps the position of an existing key and appends a new one.\<close>

fun oset :: "string \<Rightarrow> jsval \<Rightarrow> obj \<Rightarrow> obj" where
  "oset k v [] = [(k, v)]"
| "oset k v ((k', v') # ob) = (if k = k' then (k, v) # ob else (k', v') # oset k v ob)"

text \<open>\<open>{...a, ...b}\<close> and \<open>Object.assign(a, b)\<close>.\<close>

definition spread :: "obj \<Rightarrow> obj \<Rightarrow> obj" where
  "spread a b = foldl (\<lambda>ob (k, v). oset k v ob) a b"

definition okeys :: "obj \<Rightarrow> string list" where
  "okeys ob = map fst ob"

definition has_key :: "obj \<Rightarrow> string \<Rightarrow> bool" where
  "has_key ob k = (k \<in> set (map fst ob))"

lemma map_of_oset [simp]: "map_of (oset k v ob) = (map_of ob)(k \<mapsto> v)"
  by (induction k v ob rule: oset.induct) auto

lemma oget_oset [simp]: "oget (oset k v ob) k' = (if k' = k then v else oget ob k')"
  by (simp add: oget_def)

lemma set_keys_oset [simp]: "fst ` set (oset k v ob) = insert k (fst ` set ob)"
  by (induction k v ob rule: oset.induct) auto

lemma distinct_oset [simp]: "distinct (map fst ob) \<Longrightarrow> distinct (map fst (oset k v ob))"
  by (induction k v ob rule: oset.induct) auto

lemma spread_Nil [simp]: "spread a [] = a"
  by (simp add: spread_def)

lemma spread_Cons [simp]: "spread a ((k, v) # b) = spread (oset k v a) b"
  by (simp add: spread_def)

lemma map_of_spread:
  "distinct (map fst b) \<Longrightarrow> map_of (spread a b) = map_of a ++ map_of b"
proof (induction b arbitrary: a)
  case (Cons p b)
  obtain k v where p: "p = (k, v)" by (cases p)
  with Cons have "k \<notin> dom (map_of b)" by (simp add: dom_map_of_conv_image_fst)
  with Cons p show ?case by (auto simp: fun_eq_iff map_add_def split: option.split)
qed simp

lemma distinct_spread [simp]: "distinct (map fst a) \<Longrightarrow> distinct (map fst (spread a b))"
  by (induction b arbitrary: a) auto

lemma oget_spread:
  "distinct (map fst b) \<Longrightarrow>
   oget (spread a b) k = (if k \<in> fst ` set b then oget b k else oget a k)"
proof -
  assume d: "distinct (map fst b)"
  show ?thesis
  proof (cases "map_of b k")
    case None
    then have "k \<notin> fst ` set b" by (simp add: map_of_eq_None_iff)
    with None d show ?thesis by (simp add: oget_def map_of_spread map_add_def)
  next
    case (Some v)
    then have "k \<in> fst ` set b" by (metis fst_conv image_eqI map_of_SomeD)
    with Some d show ?thesis by (simp add: oget_def map_of_spread map_add_def)
  qed
qed

lemma oget_spread_notin:
  "k \<notin> fst ` set b \<Longrightarrow> oget (spread a b) k = oget a k"
  by (induction b arbitrary: a) auto

section \<open>Property access\<close>

definition squoted :: "string \<Rightarrow> string" where
  "squoted s = CHR 0x27 # s @ [CHR 0x27]"

text \<open>\<open>v.k\<close> on a value that is neither null nor undefined.\<close>

definition own_prop :: "jsval \<Rightarrow> string \<Rightarrow> jsval" where
  "own_prop v k =
     (case v of
        JObj ob \<Rightarrow> oget ob k
      | JArr vs \<Rightarrow> if k = ''length'' then JNum (int (length vs)) else JUndef
      | JStr s \<Rightarrow> if k = ''length'' then JNum (int (length s)) else JUndef
      | _ \<Rightarrow> JUndef)"

definition js_prop :: "jsval \<Rightarrow> string \<Rightarrow> string + jsval" where
  "js_prop v k =
     (if nullish v
      then Inl (''Cannot read properties of '' @ js_string v @ '' (reading '' @ squoted k @ '')'')
      else Inr (own_prop v k))"

definition opt_prop :: "jsval \<Rightarrow> string \<Rightarrow> jsval" where
  "opt_prop v k = (if nullish v then JUndef else own_prop v k)"

text \<open>\<open>v?.[i]\<close> with a numeric index.\<close>

definition opt_index :: "jsval \<Rightarrow> nat \<Rightarrow> jsval" where
  "opt_index v i =
     (case v of
        JArr vs \<Rightarrow> if i < length vs then vs ! i else JUndef
      | JStr s \<Rightarrow> if i < length s then JStr [s ! i] else JUndef
      | JObj ob \<Rightarrow> oget ob (show_nat i)
      | _ \<Rightarrow> JUndef)"

lemma opt_prop_JObj [simp]: "opt_prop (JObj ob) k = oget ob k"
  by (simp add: opt_prop_def own_prop_def nullish_def)

lemma opt_prop_nullish [simp]: "opt_prop JUndef k = JUndef" "opt_prop JNull k = JUndef"
  by (simp_all add: opt_prop_def nullish_def)

lemma js_prop_JObj [simp]: "js_prop (JObj ob) k = Inr (oget ob k)"
  by (simp add: js_prop_def own_prop_def nullish_def)

lemma oget_Nil [simp]: "oget [] k = JUndef"
  by (simp add: oget_def)

lemma oget_Cons [simp]: "oget ((k', v) # ob) k = (if k = k' then v else oget ob k)"
  by (simp add: oget_def)

section \<open>Parameter strings\<close>

text \<open>
  \<open>Object.keys(params).sort().map(key => `${key}=${params[key]}`)\<close>: the default sort compares
  UTF-16 code units, which is the lexicographic order of \<open>string\<close>.
\<close>

definition sorted_pairs :: "obj \<Rightarrow> string list" where
  "sorted_pairs ob = map (\<lambda>k. k @ ''='' @ js_string (oget ob k)) (sort (okeys ob))"

lemma okeys_perm:
  "distinct (map fst a) \<Longrightarrow> distinct (map fst b) \<Longrightarrow> map_of a = map_of b \<Longrightarrow>
   sort (okeys a) = sort (okeys b)"
proof -
  assume d: "distinct (map fst a)" "distinct (map fst b)" and m: "map_of a = map_of b"
  have "set (map fst a) = set (map fst b)"
    using m by (metis dom_map_of_conv_image_fst set_map)
  with d show ?thesis
    by (intro sorted_distinct_set_unique) (simp_all add: okeys_def)
qed

text \<open>The parameter string does not depend on the order in which the fields were set.\<close>

lemma sorted_pairs_cong:
  assumes "distinct (map fst a)" "distinct (map fst b)" "map_of a = map_of b"
  shows "sorted_pairs a = sorted_pairs b"
  using okeys_perm [OF assms] assms(3) by (simp add: sorted_pairs_def oget_def)

end
