(* ===== verification/Base64.thy ===== *)
theory Base64
  imports Prelude
begin

text \<open>
  \<open>Buffer.from(s)\<close> (UTF-8), \<open>toString("base64")\<close>, \<open>Buffer.from(s, "base64")\<close> and
  \<open>toString("utf8")\<close>, with bytes as natural numbers below 256. Node's Base64 decoder takes
  the URL-safe alphabet too, skips every character outside the alphabet and stops at the first
  \<open>=\<close>; incomplete trailing groups give the bytes they determine.
\<close>

type_synonym bytes = "nat list"

definition byte_list :: "bytes \<Rightarrow> bool" where
  "byte_list bs = list_all (\<lambda>b. b < 256) bs"

section \<open>UTF-8 for code points below 256\<close>

definition utf8_char :: "char \<Rightarrow> bytes" where
  "utf8_char c = (let n = (of_char c :: nat) in if n < 128 then [n] else [192 + n div 64, 128 + n mod 64])"

definition utf8_encode :: "string \<Rightarrow> bytes" where
  "utf8_encode s = concat (map utf8_char s)"

text \<open>Bytes that do not form a code point below 256 are outside the character domain: \<open>None\<close>.\<close>

fun utf8_decode :: "bytes \<Rightarrow> string option" where
  "utf8_decode [] = Some []"
| "utf8_decode (b # bs) =
     (if b < 128 then map_option (Cons (char_of b)) (utf8_decode bs)
      else case bs of
             [] \<Rightarrow> None
           | d # ds \<Rightarrow>
               if (b = 194 \<or> b = 195) \<and> 128 \<le> d \<and> d < 192
               then map_option (Cons (char_of ((b - 192) * 64 + (d - 128)))) (utf8_decode ds)
               else None)"

lemma utf8_decode_char: "utf8_decode (utf8_char c @ bs) = map_option (Cons c) (utf8_decode bs)"
proof (cases "(of_char c :: nat) < 128")
  case True
  then show ?thesis by (simp add: utf8_char_def)
next
  case False
  let ?n = "of_char c :: nat"
  have n: "?n < 256" by simp
  then have "?n div 64 < 4" by linarith
  moreover have "2 \<le> ?n div 64" using False by simp
  ultimately have q: "?n div 64 = 2 \<or> ?n div 64 = 3" by linarith
  have "?n div 64 * 64 + ?n mod 64 = ?n" by simp
  moreover have "?n mod 64 < 64" by simp
  ultimately show ?thesis using False q by (auto simp: utf8_char_def Let_def)
qed

lemma utf8_roundtrip [simp]: "utf8_decode (utf8_encode s) = Some s"
  by (induction s) (simp_all add: utf8_encode_def utf8_decode_char)

lemma byte_list_utf8 [simp]: "byte_list (utf8_encode s)"
proof (induction s)
  case (Cons c s)
  have "(of_char c :: nat) < 256" by simp
  then have "192 + (of_char c :: nat) div 64 < 256" by linarith
  moreover have "128 + (of_char c :: nat) mod 64 < 256"
    using mod_less_divisor [of 64 "of_char c :: nat"] by linarith
  ultimately have bounds: "192 + (of_char c :: nat) div 64 < 256 \<and> 128 + (of_char c :: nat) mod 64 < 256"
    by blast
  with Cons bounds show ?case by (simp add: utf8_encode_def byte_list_def utf8_char_def Let_def)
qed (simp add: utf8_encode_def byte_list_def)

section \<open>Base64\<close>

definition b64_char :: "nat \<Rightarrow> char" where
  "b64_char i = char_of (if i < 26 then 65 + i else if i < 52 then 71 + i
     else if i < 62 then i - 4 else if i = 62 then 43 else 47)"

definition b64_val :: "char \<Rightarrow> nat option" where
  "b64_val c =
     (let n = (of_char c :: nat) in
      if 65 \<le> n \<and> n \<le> 90 then Some (n - 65)
      else if 97 \<le> n \<and> n \<le> 122 then Some (n - 71)
      else if 48 \<le> n \<and> n \<le> 57 then Some (n + 4)
      else if n = 43 \<or> n = 45 then Some 62
      else if n = 47 \<or> n = 95 then Some 63
      else None)"

fun b64_encode :: "bytes \<Rightarrow> string" where
  "b64_encode [] = []"
| "b64_encode [a] = [b64_char (a div 4), b64_char (a mod 4 * 16), CHR ''='', CHR ''='']"
| "b64_encode [a, b] =
     [b64_char (a div 4), b64_char (a mod 4 * 16 + b div 16), b64_char (b mod 16 * 4), CHR ''='']"
| "b64_encode (a # b # c # bs) =
     b64_char (a div 4) # b64_char (a mod 4 * 16 + b div 16)
     # b64_char (b mod 16 * 4 + c div 64) # b64_char (c mod 64) # b64_encode bs"

definition b64_sextets :: "string \<Rightarrow> nat list" where
  "b64_sextets s = List.map_filter b64_val (takeWhile (\<lambda>c. c \<noteq> CHR ''='') s)"

fun b64_pack :: "nat list \<Rightarrow> bytes" where
  "b64_pack (p # q # r # s # t) =
     (p * 4 + q div 16) # (q mod 16 * 16 + r div 4) # (r mod 4 * 64 + s) # b64_pack t"
| "b64_pack [p, q, r] = [p * 4 + q div 16, q mod 16 * 16 + r div 4]"
| "b64_pack [p, q] = [p * 4 + q div 16]"
| "b64_pack [p] = []"
| "b64_pack [] = []"

definition b64_decode :: "string \<Rightarrow> bytes" where
  "b64_decode s = b64_pack (b64_sextets s)"

lemma b64_val_char [simp]: "i < 64 \<Longrightarrow> b64_val (b64_char i) = Some i"
proof -
  assume "i < 64"
  then consider "i < 26" | "26 \<le> i" "i < 52" | "52 \<le> i" "i < 62" | "i = 62" | "i = 63"
    by linarith
  then show ?thesis
  proof cases
    case 3
    then obtain k where "i = 52 + k" using le_Suc_ex by blast
    with 3 show ?thesis by (simp add: b64_val_def b64_char_def Let_def)
  qed (simp_all add: b64_val_def b64_char_def Let_def)
qed

lemma b64_char_not_pad [simp]: "i < 64 \<Longrightarrow> b64_char i \<noteq> CHR ''=''"
proof
  assume "i < 64" "b64_char i = CHR ''=''"
  then have "b64_val (CHR ''='') = Some i" by (metis b64_val_char)
  then show False by (simp add: b64_val_def)
qed

lemma sextets_Cons [simp]: "i < 64 \<Longrightarrow> b64_sextets (b64_char i # s) = i # b64_sextets s"
  by (simp add: b64_sextets_def map_filter_simps)

lemma sextets_pad [simp]: "b64_sextets (CHR ''='' # s) = []"
  by (simp add: b64_sextets_def map_filter_simps)

lemma sextets_Nil [simp]: "b64_sextets [] = []"
  by (simp add: b64_sextets_def map_filter_simps)

lemma b64_roundtrip: "byte_list bs \<Longrightarrow> b64_decode (b64_encode bs) = bs"
proof (induction bs rule: b64_encode.induct)
  case (2 a)
  then have "a div 4 < 64" "a mod 4 * 16 < 64" by (auto simp: byte_list_def)
  then show ?case by (simp add: b64_decode_def)
next
  case (3 a b)
  then have "a div 4 < 64" "a mod 4 * 16 + b div 16 < 64" "b mod 16 * 4 < 64"
    by (auto simp: byte_list_def)
  moreover have "a div 4 * 4 + (a mod 4 * 16 + b div 16) div 16 = a"
    "(a mod 4 * 16 + b div 16) mod 16 * 16 + b mod 16 * 4 div 4 = b"
    using 3 by (auto simp: byte_list_def)
  ultimately show ?case by (simp add: b64_decode_def)
next
  case (4 a b c bs)
  then have "a div 4 < 64" "a mod 4 * 16 + b div 16 < 64" "b mod 16 * 4 + c div 64 < 64" "c mod 64 < 64"
    by (auto simp: byte_list_def)
  moreover have "a div 4 * 4 + (a mod 4 * 16 + b div 16) div 16 = a"
    "(a mod 4 * 16 + b div 16) mod 16 * 16 + (b mod 16 * 4 + c div 64) div 4 = b"
    "(b mod 16 * 4 + c div 64) mod 4 * 64 + c mod 64 = c"
    using 4 by (auto simp: byte_list_def)
  moreover have "b64_decode (b64_encode bs) = bs"
    using 4 by (simp add: byte_list_def)
  ultimately show ?case by (simp add: b64_decode_def)
qed (simp add: b64_decode_def)

text \<open>A character outside the alphabet, such as a backslash, can be inserted anywhere.\<close>

lemma sextets_skip:
  "b64_val x = None \<Longrightarrow> x \<noteq> CHR ''='' \<Longrightarrow> b64_sextets (a @ x # b) = b64_sextets (a @ b)"
  by (induction a) (auto simp: b64_sextets_def map_filter_simps split: option.split)

end
