(* ===== verification/Md5.thy ===== *)
theory Md5
  imports Base64 "HOL-Library.Word"
begin

unbundle bit_operations_syntax

text \<open>
  \<open>crypto.createHash("md5")\<close> and \<open>crypto.createHmac("md5", key)\<close> of Node's standard library,
  with \<open>digest("hex")\<close>: RFC 1321 and RFC 2104 on lists of bytes, words kept at 32 bits.
\<close>

type_synonym u32 = "32 word"

definition md5_k :: "u32 list" where
  "md5_k = [
     3614090360, 3905402710, 606105819, 3250441966, 4118548399, 1200080426,
     2821735955, 4249261313, 1770035416, 2336552879, 4294925233, 2304563134,
     1804603682, 4254626195, 2792965006, 1236535329, 4129170786, 3225465664,
     643717713, 3921069994, 3593408605, 38016083, 3634488961, 3889429448,
     568446438, 3275163606, 4107603335, 1163531501, 2850285829, 4243563512,
     1735328473, 2368359562, 4294588738, 2272392833, 1839030562, 4259657740,
     2763975236, 1272893353, 4139469664, 3200236656, 681279174, 3936430074,
     3572445317, 76029189, 3654602809, 3873151461, 530742520, 3299628645,
     4096336452, 1126891415, 2878612391, 4237533241, 1700485571, 2399980690,
     4293915773, 2240044497, 1873313359, 4264355552, 2734768916, 1309151649,
     4149444226, 3174756917, 718787259, 3951481745]"

definition md5_shift :: "nat list" where
  "md5_shift = [
     7, 12, 17, 22, 7, 12, 17, 22, 7, 12, 17, 22, 7, 12, 17, 22,
     5, 9, 14, 20, 5, 9, 14, 20, 5, 9, 14, 20, 5, 9, 14, 20,
     4, 11, 16, 23, 4, 11, 16, 23, 4, 11, 16, 23, 4, 11, 16, 23,
     6, 10, 15, 21, 6, 10, 15, 21, 6, 10, 15, 21, 6, 10, 15, 21]"

definition md5_f :: "nat \<Rightarrow> u32 \<Rightarrow> u32 \<Rightarrow> u32 \<Rightarrow> u32" where
  "md5_f i b c d =
     (if i < 16 then (b AND c) OR (NOT b AND d)
      else if i < 32 then (d AND b) OR (NOT d AND c)
      else if i < 48 then b XOR c XOR d
      else c XOR (b OR NOT d))"

definition md5_g :: "nat \<Rightarrow> nat" where
  "md5_g i =
     (if i < 16 then i
      else if i < 32 then (5 * i + 1) mod 16
      else if i < 48 then (3 * i + 5) mod 16
      else (7 * i) mod 16)"

type_synonym md5_state = "u32 \<times> u32 \<times> u32 \<times> u32"

fun md5_step :: "u32 list \<Rightarrow> md5_state \<Rightarrow> nat \<Rightarrow> md5_state" where
  "md5_step m (a, b, c, d) i =
     (d, b + word_rotl (md5_shift ! i) (md5_f i b c d + a + md5_k ! i + m ! md5_g i), b, c)"

definition md5_block :: "md5_state \<Rightarrow> u32 list \<Rightarrow> md5_state" where
  "md5_block s m =
     (case s of (a, b, c, d) \<Rightarrow>
        (case foldl (md5_step m) s [0..<64] of
           (a', b', c', d') \<Rightarrow> (a + a', b + b', c + c', d + d')))"

text \<open>Padding to a multiple of 64 bytes: \<open>0x80\<close>, zeros, the bit length in 8 little-endian bytes.\<close>

fun le_bytes :: "nat \<Rightarrow> nat \<Rightarrow> bytes" where
  "le_bytes 0 n = []"
| "le_bytes (Suc k) n = n mod 256 # le_bytes k (n div 256)"

definition md5_pad :: "bytes \<Rightarrow> bytes" where
  "md5_pad bs =
     bs @ [128] @ replicate ((119 - length bs mod 64) mod 64) 0 @ le_bytes 8 (8 * length bs)"

fun le_words :: "bytes \<Rightarrow> u32 list" where
  "le_words (a # b # c # d # r) =
     of_nat (a + 256 * b + 65536 * c + 16777216 * d) # le_words r"
| "le_words _ = []"

function md5_blocks :: "md5_state \<Rightarrow> u32 list \<Rightarrow> md5_state" where
  "md5_blocks s ws = (if length ws < 16 then s else md5_blocks (md5_block s (take 16 ws)) (drop 16 ws))"
  by pat_completeness auto
termination
  by (relation "measure (\<lambda>(s, ws). length ws)") auto

declare md5_blocks.simps [simp del]

definition md5_init :: md5_state where
  "md5_init = (1732584193, 4023233417, 2562383102, 271733878)"

definition md5_bytes :: "bytes \<Rightarrow> bytes" where
  "md5_bytes bs =
     (case md5_blocks md5_init (le_words (md5_pad bs)) of
        (a, b, c, d) \<Rightarrow> le_bytes 4 (unat a) @ le_bytes 4 (unat b) @ le_bytes 4 (unat c) @ le_bytes 4 (unat d))"

definition hexdigit :: "nat \<Rightarrow> char" where
  "hexdigit d = char_of (if d < 10 then 48 + d else 87 + d)"

definition to_hex :: "bytes \<Rightarrow> string" where
  "to_hex bs = concat (map (\<lambda>b. [hexdigit (b div 16), hexdigit (b mod 16)]) bs)"

text \<open>\<open>createHash("md5").update(s).digest("hex")\<close>: a string is hashed as its UTF-8 bytes.\<close>

definition md5_hex :: "string \<Rightarrow> string" where
  "md5_hex s = to_hex (md5_bytes (utf8_encode s))"

definition hmac_key :: "bytes \<Rightarrow> bytes" where
  "hmac_key k = (let k' = (if 64 < length k then md5_bytes k else k) in k' @ replicate (64 - length k') 0)"

definition xor_byte :: "nat \<Rightarrow> nat \<Rightarrow> nat" where
  "xor_byte x b = unat ((of_nat x :: 8 word) XOR of_nat b)"

definition hmac_md5_bytes :: "bytes \<Rightarrow> bytes \<Rightarrow> bytes" where
  "hmac_md5_bytes k m =
     md5_bytes (map (xor_byte 92) (hmac_key k) @ md5_bytes (map (xor_byte 54) (hmac_key k) @ m))"

definition hmac_md5_hex :: "string \<Rightarrow> string \<Rightarrow> string" where
  "hmac_md5_hex key msg = to_hex (hmac_md5_bytes (utf8_encode key) (utf8_encode msg))"

section \<open>Shape of digests\<close>

lemma length_le_bytes [simp]: "length (le_bytes k n) = k"
  by (induction k arbitrary: n) auto

lemma byte_list_le_bytes [simp]: "byte_list (le_bytes k n)"
  by (induction k arbitrary: n) (auto simp: byte_list_def)

lemma byte_list_append [simp]: "byte_list (a @ b) = (byte_list a \<and> byte_list b)"
  by (simp add: byte_list_def)

lemma length_md5_bytes [simp]: "length (md5_bytes bs) = 16"
  by (simp add: md5_bytes_def split: prod.split)

lemma byte_list_md5 [simp]: "byte_list (md5_bytes bs)"
  by (simp add: md5_bytes_def split: prod.split)

lemma md5_pad_blocks: "64 dvd length (md5_pad bs)"
proof -
  define q where "q = length bs div 64"
  define r where "r = length bs mod 64"
  have n: "length bs = 64 * q + r" and r: "r < 64" by (simp_all add: q_def r_def)
  have "length bs + 9 + (119 - r) mod 64 = 64 * (q + (if r \<le> 55 then 1 else 2))"
  proof (cases "r \<le> 55")
    case True
    then have "119 - r = 64 + (55 - r)" by simp
    then have "(119 - r) mod 64 = (55 - r) mod 64" by (simp only: mod_add_self1)
    also have "\<dots> = 55 - r" by simp
    finally have "(119 - r) mod 64 = 55 - r" .
    with True n show ?thesis by simp
  next
    case False
    with r have "(119 - r) mod 64 = 119 - r" by simp
    with False n r show ?thesis by simp
  qed
  then have "64 dvd length bs + 9 + (119 - r) mod 64" by (metis dvd_triv_left)
  then show ?thesis by (simp add: md5_pad_def r_def ac_simps)
qed

lemma length_to_hex [simp]: "length (to_hex bs) = 2 * length bs"
  by (induction bs) (auto simp: to_hex_def)

lemma length_md5_hex [simp]: "length (md5_hex s) = 32"
  by (simp add: md5_hex_def)

lemma length_hmac_md5_hex [simp]: "length (hmac_md5_hex k m) = 32"
  by (simp add: hmac_md5_hex_def hmac_md5_bytes_def)

lemma ascii_hexdigit: "d < 16 \<Longrightarrow> (of_char (hexdigit d) :: nat) < 128"
  by (simp add: hexdigit_def)

lemma ascii_to_hex: "byte_list bs \<Longrightarrow> ascii (to_hex bs)"
proof (induction bs)
  case (Cons b bs)
  then have "b div 16 < 16" "b mod 16 < 16" by (auto simp: byte_list_def)
  with Cons show ?case by (simp add: to_hex_def ascii_def byte_list_def ascii_hexdigit)
qed (simp add: to_hex_def ascii_def)

lemma ascii_md5_hex [simp]: "ascii (md5_hex s)"
  by (simp add: md5_hex_def ascii_to_hex)

end
