(* ===== verification/WyzeTypes.thy ===== *)
theory WyzeTypes
  imports JsValue
begin

text \<open>
  The tables of \<open>src/src/constants.js\<close> and \<open>src/src/types.js\<close>: signing secrets, application
  identifiers and base URLs, the vacuum vocabularies, and the reverse lookup of vacuum modes.
\<close>

section \<open>constants.js\<close>

definition fordAppKey :: string where "fordAppKey = ''275965684684dbdaf29a0ed9''"
definition fordAppSecret :: string where "fordAppSecret = ''4deekof1ba311c5c33a9cb8e12787e8c''"
definition oliveSigningSecret :: string where "oliveSigningSecret = ''wyze_app_secret_key_132''"
definition oliveAppId :: string where "oliveAppId = ''9319141212m2ik''"
definition webSigningSecret :: string where "webSigningSecret = ''gbJojEBViLklgwyyDikx5ztSvKBXI5oU''"
definition webAppId :: string where "webAppId = ''strv_e7f78e9e7738dc50''"
definition webAppInfo :: string where "webAppInfo = ''wyze_web_2.3.1''"
definition deviceOfflineCode :: string where "deviceOfflineCode = ''3019''"
definition c_appInfo :: string where "c_appInfo = ''wyze_android_2.19.14''"
definition c_phoneId :: string where "c_phoneId = ''wyze_developer_api''"
definition c_appName :: string where "c_appName = ''com.hualai.WyzeCam''"
definition c_appVer :: string where "c_appVer = ''wyze_developer_api''"
definition c_appVersion :: string where "c_appVersion = ''wyze_developer_api''"
definition c_sc :: string where "c_sc = ''wyze_developer_api''"
definition c_sv :: string where "c_sv = ''wyze_developer_api''"
definition c_authApiKey :: string where "c_authApiKey = ''WMXHYf79Nr5gIlt3r0r7p9Tcw5bvs6BB4U8O8nGJ''"
definition c_userAgent :: "string \<Rightarrow> string" where
  "c_userAgent packageVersion = ''unofficial-wyze-api/'' @ packageVersion"
definition c_authBaseUrl :: string where "c_authBaseUrl = ''https://auth-prod.api.wyze.com''"
definition c_apiBaseUrl :: string where "c_apiBaseUrl = ''https://api.wyzecam.com''"
definition irrigationBaseUrl :: string where
  "irrigationBaseUrl = ''https://wyze-lockwood-service.wyzecam.com/plugin/irrigation/''"
definition iot3BaseUrl :: string where "iot3BaseUrl = ''https://app.wyzecam.com''"
definition iot3AppVersion :: string where "iot3AppVersion = ''3.11.0.758''"
definition iot3AppInfo :: string where "iot3AppInfo = ''wyze_android_3.11.0.758''"
definition venusBaseUrl :: string where "venusBaseUrl = ''https://wyze-venus-service-vn.wyzecam.com''"
definition venusAppId :: string where "venusAppId = ''venp_4c30f812828de875''"
definition venusSigningSecret :: string where "venusSigningSecret = ''CVCSNoa0ALsNEpgKls6ybVTVOmGzFoiq''"
definition vacuumModels :: "string list" where "vacuumModels = [''JA_RO2'']"
definition venusPluginVersion :: string where "venusPluginVersion = ''2.35.1''"
definition vacuumFirmwareVersion :: string where "vacuumFirmwareVersion = ''1.6.113''"
definition vacuumEventTrackingUuid :: string where
  "vacuumEventTrackingUuid = ''88DBF3344D20B5597DB7C8F0AFBB4030''"

section \<open>types.js\<close>

datatype vacuum_control_type = GLOBAL_SWEEPING | RETURN_TO_CHARGING | AREA_CLEAN | QUICK_MAPPING

fun VacuumControlType :: "vacuum_control_type \<Rightarrow> int" where
  "VacuumControlType GLOBAL_SWEEPING = 0"
| "VacuumControlType RETURN_TO_CHARGING = 3"
| "VacuumControlType AREA_CLEAN = 6"
| "VacuumControlType QUICK_MAPPING = 7"

datatype vacuum_control_value = STOP | START | PAUSE | FALSE_PAUSE

fun VacuumControlValue :: "vacuum_control_value \<Rightarrow> int" where
  "VacuumControlValue STOP = 0"
| "VacuumControlValue START = 1"
| "VacuumControlValue PAUSE = 2"
| "VacuumControlValue FALSE_PAUSE = 3"

datatype vacuum_suction = QUIET | STANDARD | STRONG

fun VacuumSuctionLevel :: "vacuum_suction \<Rightarrow> int" where
  "VacuumSuctionLevel QUIET = 1"
| "VacuumSuctionLevel STANDARD = 2"
| "VacuumSuctionLevel STRONG = 3"

definition VacuumPreferenceType_SUCTION :: int where "VacuumPreferenceType_SUCTION = 1"

text \<open>One mode name has many codes; the order of the entries is the order of the object.\<close>

definition VacuumModeCodes :: "(string \<times> int list) list" where
  "VacuumModeCodes =
     [(''IDLE'', [0, 14, 29, 35, 40]),
      (''CLEANING'', [1, 30, 1101, 1201, 1301, 1401]),
      (''PAUSED'', [4, 31, 1102, 1202, 1302, 1402]),
      (''RETURNING_TO_CHARGE'', [5]),
      (''PAUSE'', [9, 27, 37]),
      (''FINISHED_RETURNING_TO_CHARGE'', [10, 32, 1103, 1203, 1303, 1403]),
      (''DOCKED_NOT_COMPLETE'', [11, 33, 1104, 1204, 1304, 1404]),
      (''FULL_FINISH_SWEEPING_ON_WAY_CHARGE'', [12, 26, 38]),
      (''SWEEPING'', [7, 25, 36]),
      (''BREAK_POINT'', [39]),
      (''QUICK_MAPPING_MAPPING'', [45]),
      (''QUICK_MAPPING_PAUSED'', [46]),
      (''QUICK_MAPPING_COMPLETED_RETURNING_TO_CHARGE'', [47]),
      (''QUICK_MAPPING_DOCKED_NOT_COMPLETE'', [48])]"

text \<open>\<open>codes.includes(code)\<close>: only a number can be equal to an element.\<close>

fun mode_lookup :: "(string \<times> int list) list \<Rightarrow> jsval \<Rightarrow> jsval" where
  "mode_lookup [] code = JNull"
| "mode_lookup ((name, codes) # rest) code =
     (if code \<in> JNum ` set codes then JStr name else mode_lookup rest code)"

definition parseVacuumMode :: "jsval \<Rightarrow> jsval" where
  "parseVacuumMode code = (if nullish code then JNull else mode_lookup VacuumModeCodes code)"

definition VacuumFaultCode :: "(int \<times> string) list" where
  "VacuumFaultCode =
     [(500, ''Lidar sensor blocked''), (501, ''Vacuum not on ground''),
      (503, ''Dustbin not installed''), (507, ''Relocation failed''),
      (508, ''Vacuum not on flat ground''), (510, ''Vacuum stuck''),
      (511, ''Failed to return to the charging station.''),
      (512, ''Failed to return to the charging station.''),
      (513, ''Mapping failed.''), (514, ''Wheels stuck''),
      (521, ''Water tank not installed''), (522, ''Mop not installed''),
      (529, ''Water tank and mop not installed''),
      (530, ''2-in-1 dustbin with water tank and mop not installed''),
      (531, ''2-in-1 dustbin with water tank not installed''),
      (567, ''Vacuum stuck in no-go zone'')]"

definition VacuumControlTypeDescription :: "(int \<times> string) list" where
  "VacuumControlTypeDescription =
     [(0, ''Clean''), (3, ''Recharge''), (6, ''Area Clean''), (7, ''Quick Mapping'')]"

definition VacuumIotPropKeys :: "string list" where
  "VacuumIotPropKeys =
     [''iot_state'', ''battary'', ''mode'', ''chargeState'', ''cleanSize'', ''cleanTime'',
      ''fault_type'', ''fault_code'', ''current_mapid'', ''count'', ''cleanlevel'',
      ''notice_save_map'', ''memory_map_update_time'', ''filter'', ''side_brush'', ''main_brush'']"

definition VacuumDeviceInfoKeys :: "string list" where
  "VacuumDeviceInfoKeys = [''mac'', ''ipaddr'', ''device_type'', ''mcu_sys_version'']"

section \<open>The mode lookup is the inverse of the code table\<close>

lemma mode_names_distinct: "distinct (map fst VacuumModeCodes)"
  by (simp add: VacuumModeCodes_def)

lemma mode_codes_distinct: "distinct (concat (map snd VacuumModeCodes))"
  by (simp add: VacuumModeCodes_def)

lemma mode_lookup_Some:
  assumes "distinct (concat (map snd tab))" "(name, codes) \<in> set tab" "c \<in> set codes"
  shows "mode_lookup tab (JNum c) = JStr name"
  using assms
proof (induction tab)
  case (Cons p tab)
  obtain n cs where p: "p = (n, cs)" by (cases p)
  show ?case
  proof (cases "(name, codes) = (n, cs)")
    case True
    with Cons p show ?thesis by auto
  next
    case False
    with Cons p have mem: "(name, codes) \<in> set tab" by auto
    then have "codes \<in> set (map snd tab)" by force
    with Cons.prems have "c \<in> set (concat (map snd tab))" by auto
    with Cons.prems(1) p have "c \<notin> set cs" by auto
    with Cons p mem show ?thesis by auto
  qed
qed simp

lemma mode_lookup_range:
  "mode_lookup tab v = JNull \<or>
   (\<exists>name codes c. (name, codes) \<in> set tab \<and> c \<in> set codes \<and> v = JNum c \<and> mode_lookup tab v = JStr name)"
proof (induction tab)
  case (Cons p tab)
  obtain n cs where p: "p = (n, cs)" by (cases p)
  show ?case using Cons p by (cases "v \<in> JNum ` set cs") auto
qed simp

lemmas mode_tables = mode_names_distinct mode_codes_distinct

text \<open>
  Vacuum modes. A known code is read as the one name that lists it, whatever the order of the
  table's entries; every other value (a code of no mode, a string, null) is read as null.
\<close>

theorem parseVacuumMode_inverse:
  "parseVacuumMode v = JStr name \<longleftrightarrow>
   (\<exists>codes c. (name, codes) \<in> set VacuumModeCodes \<and> c \<in> set codes \<and> v = JNum c)"
proof
  assume "parseVacuumMode v = JStr name"
  then show "\<exists>codes c. (name, codes) \<in> set VacuumModeCodes \<and> c \<in> set codes \<and> v = JNum c"
    using mode_lookup_range [of VacuumModeCodes v] by (auto simp: parseVacuumMode_def split: if_splits)
next
  assume "\<exists>codes c. (name, codes) \<in> set VacuumModeCodes \<and> c \<in> set codes \<and> v = JNum c"
  then show "parseVacuumMode v = JStr name"
    by (auto simp: parseVacuumMode_def nullish_def mode_lookup_Some mode_codes_distinct)
qed

end
