(* ===== verification/Crypto.thy ===== *)
theory Crypto
  imports JsValue Md5 WyzeTypes
begin

text \<open>
  \<open>src/src/crypto.js\<close>: the request signatures. The \<open>utf8\<close> package is the parameter \<open>u8\<close>; what
  the code relies on is the hypothesis \<open>utf8_ascii u8\<close>, that ASCII text is encoded as itself.
  \<open>encodeURIComponent\<close> and \<open>querystring.escape\<close> leave the same characters unescaped.
\<close>

section \<open>Percent encoding\<close>

definition uri_unreserved :: "char \<Rightarrow> bool" where
  "uri_unreserved c = (is_alnum c \<or> c \<in> set ''-_.!~*()'' \<or> c = CHR 0x27)"

definition pct_byte :: "nat \<Rightarrow> string" where
  "pct_byte b = CHR ''%'' # map upper_char [hexdigit (b div 16), hexdigit (b mod 16)]"

definition encodeURIComponent :: "string \<Rightarrow> string" where
  "encodeURIComponent s =
     concat (map (\<lambda>c. if uri_unreserved c then [c] else concat (map pct_byte (utf8_char c))) s)"

lemma uri_unreserved_ascii: "uri_unreserved c \<Longrightarrow> (of_char c :: nat) < 128"
  by (auto simp: uri_unreserved_def is_alnum_def is_digit_def is_ascii_letter_def)

lemma upper_char_ascii: "(of_char c :: nat) < 128 \<Longrightarrow> (of_char (upper_char c) :: nat) < 128"
  by (auto simp: upper_char_def Let_def)

lemma utf8_char_byte: "b \<in> set (utf8_char c) \<Longrightarrow> b < 256"
  using byte_list_utf8 [of "[c]"] by (auto simp: utf8_encode_def byte_list_def list_all_iff)

lemma ascii_pct_byte: "b < 256 \<Longrightarrow> ascii (pct_byte b)"
  by (simp add: ascii_def pct_byte_def upper_char_ascii ascii_hexdigit)

lemma ascii_encodeURIComponent [simp]: "ascii (encodeURIComponent s)"
  using ascii_pct_byte
  by (fastforce simp: ascii_def encodeURIComponent_def list_all_iff
      dest: uri_unreserved_ascii utf8_char_byte)

section \<open>Signature functions\<close>

definition utf8_ascii :: "(string \<Rightarrow> string) \<Rightarrow> bool" where
  "utf8_ascii u8 = (\<forall>s. ascii s \<longrightarrow> u8 s = s)"

definition param_pairs :: "obj \<Rightarrow> string" where
  "param_pairs ob = concat (map (\<lambda>p. p @ ''&'') (sorted_pairs ob))"

definition fordCreateSignature :: "(string \<Rightarrow> string) \<Rightarrow> string \<Rightarrow> string \<Rightarrow> obj \<Rightarrow> string" where
  "fordCreateSignature u8 url_path request_method data =
     (let body = request_method @ url_path @ param_pairs data;
          payload = slice_0_m1 body @ fordAppSecret;
          urlencoded = encodeURIComponent payload
      in md5_hex (u8 urlencoded))"

definition oliveCreateSignatureSingle :: "(string \<Rightarrow> string) \<Rightarrow> string \<Rightarrow> string \<Rightarrow> string" where
  "oliveCreateSignatureSingle u8 payload access_token =
     (let access_key = access_token @ oliveSigningSecret;
          secrestDig = md5_hex (u8 access_key)
      in hmac_md5_hex (u8 secrestDig) (u8 payload))"

definition oliveCreateSignature :: "(string \<Rightarrow> string) \<Rightarrow> obj \<Rightarrow> string \<Rightarrow> string" where
  "oliveCreateSignature u8 payload access_token =
     (let body = slice_0_m1 (param_pairs payload);
          access_key = access_token @ oliveSigningSecret;
          secrestDig = md5_hex (u8 access_key)
      in hmac_md5_hex (u8 secrestDig) (u8 body))"

text \<open>
  The body of the newer functions: an object (or array) is written as its sorted pairs, a string
  is taken as it is; \<open>Object.keys(null)\<close> and a hash update with a non-string throw.
\<close>

definition array_obj :: "jsval list \<Rightarrow> obj" where
  "array_obj vs = zip (map show_nat [0..<length vs]) vs"

definition signature_body :: "jsval \<Rightarrow> string + string" where
  "signature_body payload =
     (case payload of
        JObj ob \<Rightarrow> Inr (join ''&'' (sorted_pairs ob))
      | JArr vs \<Rightarrow> Inr (join ''&'' (sorted_pairs (array_obj vs)))
      | JNull \<Rightarrow> Inl ''Cannot convert undefined or null to object''
      | JStr s \<Rightarrow> Inr s
      | _ \<Rightarrow> Inl ''The data argument must be of type string or an instance of Buffer'')"

definition olive_create_signature :: "jsval \<Rightarrow> string \<Rightarrow> string + string" where
  "olive_create_signature payload access_token =
     (case signature_body payload of
        Inl e \<Rightarrow> Inl e
      | Inr body \<Rightarrow> Inr (hmac_md5_hex (md5_hex (access_token @ oliveSigningSecret)) body))"

definition ford_create_signature :: "string \<Rightarrow> string \<Rightarrow> obj \<Rightarrow> string" where
  "ford_create_signature url_path request_method payload =
     (let string_buf = slice_0_m1 (request_method @ url_path @ param_pairs payload) @ fordAppSecret
      in md5_hex (encodeURIComponent string_buf))"

definition iot3CreateSignature :: "string \<Rightarrow> string \<Rightarrow> string" where
  "iot3CreateSignature bodyStr access_token =
     (let accessKey = access_token @ oliveSigningSecret; secret = md5_hex accessKey
      in hmac_md5_hex secret bodyStr)"

definition venusGenerateDynamicSignature :: "string \<Rightarrow> string \<Rightarrow> string" where
  "venusGenerateDynamicSignature body access_token =
     (let accessKey = access_token @ venusSigningSecret; secret = md5_hex accessKey
      in hmac_md5_hex secret body)"

definition venusRequestId :: "jsval \<Rightarrow> string" where
  "venusRequestId nonce = (let inner = md5_hex (js_string nonce) in md5_hex inner)"

definition web_create_signature :: "jsval \<Rightarrow> string \<Rightarrow> string + string" where
  "web_create_signature payload access_token =
     (case signature_body payload of
        Inl e \<Rightarrow> Inl e
      | Inr body \<Rightarrow> Inr (hmac_md5_hex (md5_hex (access_token @ webSigningSecret)) body))"

section \<open>The shared contract\<close>

text \<open>
  A service signs a parameter object through its sorted \<open>key=value\<close> pairs. The first locale has
  what follows from that alone, that the order of the fields does not matter; the second one adds
  that the tag is \<open>HMAC-MD5(md5(token + secret), pairs joined by &)\<close>, which is what a server recomputes.
\<close>

locale pair_signature =
  fixes sign :: "obj \<Rightarrow> string \<Rightarrow> string + string"
    and tag :: "string \<Rightarrow> string list \<Rightarrow> string"
  assumes sign_tag: "sign ob token = Inr (tag token (sorted_pairs ob))"
begin

lemma field_order:
  assumes "distinct (map fst a)" "distinct (map fst b)" "map_of a = map_of b"
  shows "sign a token = sign b token"
  using sorted_pairs_cong [OF assms] by (simp add: sign_tag)

lemma never_fails: "\<exists>t. sign ob token = Inr t"
  by (simp add: sign_tag)

end

locale hmac_signature = pair_signature +
  fixes secret :: string
  assumes tag_hmac: "ascii token \<Longrightarrow> ascii (join ''&'' pairs) \<Longrightarrow>
    tag token pairs = hmac_md5_hex (md5_hex (token @ secret)) (join ''&'' pairs)"
begin

lemma server_accepts:
  "ascii token \<Longrightarrow> ascii (join ''&'' (sorted_pairs ob)) \<Longrightarrow>
   sign ob token = Inr (hmac_md5_hex (md5_hex (token @ secret)) (join ''&'' (sorted_pairs ob)))"
  by (simp add: sign_tag tag_hmac)

end

lemma slice_param_pairs: "slice_0_m1 (param_pairs ob) = join ''&'' (sorted_pairs ob)"
proof -
  have "butlast (concat (map (\<lambda>p. p @ ''&'') xs)) = join ''&'' xs" for xs :: "string list"
  proof (induction xs)
    case (Cons x xs)
    then show ?case by (cases xs) (auto simp: butlast_append)
  qed simp
  then show ?thesis by (simp add: slice_0_m1_def param_pairs_def)
qed

lemma ascii_oliveSecret [simp]: "ascii oliveSigningSecret"
  by (simp add: ascii_def oliveSigningSecret_def)

lemma ascii_append [simp]: "ascii (a @ b) = (ascii a \<and> ascii b)"
  by (simp add: ascii_def)

lemma utf8_asciiD [simp]: "utf8_ascii u8 \<Longrightarrow> ascii s \<Longrightarrow> u8 s = s"
  by (simp add: utf8_ascii_def)

lemma utf8_ascii_id [simp]: "utf8_ascii id" "utf8_ascii (\<lambda>s. s)"
  by (simp_all add: utf8_ascii_def)

interpretation olive_new: hmac_signature
  "\<lambda>ob. olive_create_signature (JObj ob)"
  "\<lambda>token pairs. hmac_md5_hex (md5_hex (token @ oliveSigningSecret)) (join ''&'' pairs)"
  oliveSigningSecret
  by unfold_locales (simp_all add: olive_create_signature_def signature_body_def)

interpretation web: hmac_signature
  "\<lambda>ob. web_create_signature (JObj ob)"
  "\<lambda>token pairs. hmac_md5_hex (md5_hex (token @ webSigningSecret)) (join ''&'' pairs)"
  webSigningSecret
  by unfold_locales (simp_all add: web_create_signature_def signature_body_def)

interpretation olive: pair_signature
  "\<lambda>ob token. Inr (oliveCreateSignature u8 ob token)"
  "\<lambda>token pairs. hmac_md5_hex (u8 (md5_hex (u8 (token @ oliveSigningSecret)))) (u8 (join ''&'' pairs))" for u8
  by unfold_locales (simp add: oliveCreateSignature_def slice_param_pairs Let_def)

interpretation ford: pair_signature
  "\<lambda>ob _. Inr (fordCreateSignature u8 path verb ob)"
  "\<lambda>_ pairs. md5_hex (u8 (encodeURIComponent
     (slice_0_m1 (verb @ path @ concat (map (\<lambda>p. p @ ''&'') pairs)) @ fordAppSecret)))" for u8 path verb
  by unfold_locales (simp add: fordCreateSignature_def param_pairs_def Let_def)

lemmas signature_defs = fordCreateSignature_def ford_create_signature_def oliveCreateSignature_def
  oliveCreateSignatureSingle_def iot3CreateSignature_def olive_create_signature_def

section \<open>Properties\<close>

text \<open>
  The two lock signatures agree. The older function (which runs the percent-encoded text
  through the utf8 package) and the newer one give the same signature for every path, method and
  payload, since percent-encoded text is ASCII.
\<close>

theorem ford_signatures_agree:
  assumes "utf8_ascii u8"
  shows "fordCreateSignature u8 url_path request_method data
       = ford_create_signature url_path request_method data"
  using assms by (simp add: fordCreateSignature_def ford_create_signature_def)

lemma ford_signatures_agree_witness:
  "fordCreateSignature (\<lambda>s. s) ''/v1/info'' ''get'' [(''uuid'', JStr ''a b'')]
   = ford_create_signature ''/v1/info'' ''get'' [(''uuid'', JStr ''a b'')]"
  by (rule ford_signatures_agree) simp

text \<open>
  The two parameter signatures of the Olive services agree on ASCII requests: the loop that
  appends \<open>key=value&\<close> and drops the last character signs the same text as the sorted pairs joined
  by \<open>&\<close>, the empty payload included.
\<close>

theorem olive_signatures_agree:
  assumes "utf8_ascii u8" "ascii token" "ascii (join ''&'' (sorted_pairs payload))"
  shows "olive_create_signature (JObj payload) token = Inr (oliveCreateSignature u8 payload token)"
  using assms
  by (simp add: oliveCreateSignature_def olive_create_signature_def signature_body_def slice_param_pairs)

lemma olive_signatures_agree_witness:
  "olive_create_signature (JObj [(''b'', JNum 1), (''a'', JStr ''x'')]) ''tok''
   = Inr (oliveCreateSignature (\<lambda>s. s) [(''b'', JNum 1), (''a'', JStr ''x'')] ''tok'')"
proof (rule olive_signatures_agree)
  show "ascii (join ''&'' (sorted_pairs [(''b'', JNum 1), (''a'', JStr ''x'')]))"
    by (simp add: sorted_pairs_def okeys_def show_int_def show_nat.simps ascii_def)
qed (simp_all add: ascii_def)

text \<open>
  A signature does not depend on the order in which the fields of the payload were set, for the
  lock, Olive and web services alike.
\<close>

theorem signatures_field_order:
  assumes "distinct (map fst a)" "distinct (map fst b)" "map_of a = map_of b"
  shows "fordCreateSignature u8 path verb a = fordCreateSignature u8 path verb b \<and>
    oliveCreateSignature u8 a token = oliveCreateSignature u8 b token \<and>
    olive_create_signature (JObj a) token = olive_create_signature (JObj b) token \<and>
    web_create_signature (JObj a) token = web_create_signature (JObj b) token"
  using ford.field_order [OF assms] olive.field_order [OF assms] olive_new.field_order [OF assms]
    web.field_order [OF assms] by simp

lemma signatures_field_order_witness:
  "fordCreateSignature (\<lambda>s. s) ''/p'' ''get'' [(''b'', JNum 1), (''a'', JNull)]
     = fordCreateSignature (\<lambda>s. s) ''/p'' ''get'' [(''a'', JNull), (''b'', JNum 1)]"
  by (rule signatures_field_order [THEN conjunct1]) (auto simp: fun_eq_iff)

end
