(* ===== verification/PayloadFactory.thy ===== *)
theory PayloadFactory
  imports Crypto
begin

text \<open>
  \<open>src/src/payloadFactory.js\<close>: the request bodies. \<open>Date.now()\<close> is the argument \<open>ms\<close>;
  \<open>Math.random()\<close> is an argument \<open>r\<close> that stands for the double \<open>r / 2^53\<close>, \<open>r < 2^53\<close>.
\<close>

definition now_string :: "int \<Rightarrow> jsval" where
  "now_string ms = JStr (show_int ms)"

definition random_below :: "nat \<Rightarrow> nat \<Rightarrow> int" where
  "random_below r n = int (r * n div 2 ^ 53)"

definition fordCreatePayload ::
  "(string \<Rightarrow> string) \<Rightarrow> int \<Rightarrow> jsval \<Rightarrow> obj \<Rightarrow> string \<Rightarrow> string \<Rightarrow> obj" where
  "fordCreatePayload u8 ms access_token payload url_path request_method =
     (let verb = to_lower request_method;
          tokenField = (if verb = ''get'' then ''access_token'' else ''accessToken'');
          augmented = oset ''timestamp'' (now_string ms)
            (oset ''key'' (JStr fordAppKey) (oset tokenField access_token payload))
      in oset ''sign'' (JStr (fordCreateSignature u8 url_path verb augmented)) augmented)"

definition oliveCreateGetPayload :: "int \<Rightarrow> jsval \<Rightarrow> string \<Rightarrow> obj" where
  "oliveCreateGetPayload ms device_mac keys =
     [(''keys'', JStr keys), (''did'', device_mac), (''nonce'', now_string ms)]"

definition oliveCreatePostPayload :: "int \<Rightarrow> jsval \<Rightarrow> jsval \<Rightarrow> string \<Rightarrow> jsval \<Rightarrow> obj" where
  "oliveCreatePostPayload ms device_mac device_model prop_key val =
     [(''did'', device_mac), (''model'', device_model), (''props'', JObj [(prop_key, val)]),
      (''is_sub_device'', JNum 0), (''nonce'', now_string ms)]"

definition oliveCreateHmsPayload :: "int \<Rightarrow> obj" where
  "oliveCreateHmsPayload ms = [(''group_id'', JStr ''hms''), (''nonce'', now_string ms)]"

definition oliveCreateUserInfoPayload :: "int \<Rightarrow> obj" where
  "oliveCreateUserInfoPayload ms = [(''nonce'', now_string ms)]"

definition oliveCreateHmsGetPayload :: "int \<Rightarrow> jsval \<Rightarrow> obj" where
  "oliveCreateHmsGetPayload ms hms_id = [(''hms_id'', hms_id), (''nonce'', now_string ms)]"

definition oliveCreateHmsPatchPayload :: "jsval \<Rightarrow> obj" where
  "oliveCreateHmsPatchPayload hms_id = [(''hms_id'', hms_id)]"

definition oliveCreateGetPayloadIrrigation :: "int \<Rightarrow> jsval \<Rightarrow> obj" where
  "oliveCreateGetPayloadIrrigation ms device_mac =
     [(''device_id'', device_mac), (''nonce'', now_string ms)]"

definition oliveCreatePostPayloadIrrigationStop :: "int \<Rightarrow> jsval \<Rightarrow> string \<Rightarrow> obj" where
  "oliveCreatePostPayloadIrrigationStop ms device_mac action =
     [(''device_id'', device_mac), (''nonce'', now_string ms), (''action'', JStr action)]"

definition oliveCreatePostPayloadIrrigationQuickRun :: "int \<Rightarrow> jsval \<Rightarrow> jsval \<Rightarrow> jsval \<Rightarrow> obj" where
  "oliveCreatePostPayloadIrrigationQuickRun ms device_mac zone_number duration =
     [(''device_id'', device_mac), (''nonce'', now_string ms),
      (''zone_runs'', JArr [JObj [(''zone_number'', zone_number), (''duration'', duration)]])]"

definition oliveCreateGetPayloadIrrigationScheduleRuns :: "int \<Rightarrow> jsval \<Rightarrow> obj" where
  "oliveCreateGetPayloadIrrigationScheduleRuns ms device_mac =
     [(''device_id'', device_mac), (''nonce'', now_string ms)]"

definition iot3CreateGetPayload :: "int \<Rightarrow> nat \<Rightarrow> jsval \<Rightarrow> jsval \<Rightarrow> jsval \<Rightarrow> obj" where
  "iot3CreateGetPayload ms r deviceMac model props =
     [(''nonce'', now_string ms),
      (''payload'', JObj [(''cmd'', JStr ''get_property''), (''props'', props),
         (''tid'', JNum (random_below r 89000 + 10000)), (''ts'', JNum ms), (''ver'', JNum 1)]),
      (''targetInfo'', JObj [(''id'', deviceMac), (''model'', model)])]"

definition iot3CreateRunActionPayload ::
  "int \<Rightarrow> nat \<Rightarrow> nat \<Rightarrow> jsval \<Rightarrow> jsval \<Rightarrow> jsval \<Rightarrow> jsval \<Rightarrow> obj" where
  "iot3CreateRunActionPayload ms r1 r2 deviceMac model action username =
     [(''nonce'', now_string ms),
      (''payload'', JObj [(''action'', action), (''cmd'', JStr ''run_action''),
         (''params'', JObj [(''action_id'', JNum (random_below r1 90000 + 10000)),
            (''type'', JNum 1), (''username'', username)]),
         (''tid'', JNum (random_below r2 89000 + 10000)), (''ts'', JNum ms), (''ver'', JNum 1)]),
      (''targetInfo'', JObj [(''id'', deviceMac), (''model'', model)])]"

section \<open>Lemmas\<close>

lemma random_below_bounds: "r < 2 ^ 53 \<Longrightarrow> 0 < n \<Longrightarrow> 0 \<le> random_below r n \<and> random_below r n < int n"
proof -
  assume r: "r < 2 ^ 53" and n: "0 < n"
  have "r * n < n * 2 ^ 53" using r n by simp
  then have "r * n div 2 ^ 53 < n" by (simp add: less_mult_imp_div_less)
  then show ?thesis by (simp add: random_below_def)
qed

lemma remove1_key_oset_new:
  "k \<notin> fst ` set ob \<Longrightarrow> filter (\<lambda>p. fst p \<noteq> k) (oset k v ob) = ob"
  by (induction k v ob rule: oset.induct) (auto simp: filter_id_conv image_iff)

lemma oget_absent: "k \<notin> fst ` set ob \<Longrightarrow> oget ob k = JUndef"
  by (metis oget_def map_of_eq_None_iff option.simps(4))

section \<open>Properties\<close>

text \<open>
  A lock request verifies. The server that takes the \<open>sign\<close> field off the payload built by
  \<open>fordCreatePayload\<close> and signs what is left, for the lower-case verb and the path, gets the value
  of that field; the token is under the name the verb needs, with the app key and the timestamp;
  fields of the caller with other names are kept.
\<close>

theorem fordCreatePayload_verifies:
  fixes payload :: obj and verb :: string and path :: string and token :: jsval and ms :: int
    and u8 :: "string \<Rightarrow> string"
  assumes "''sign'' \<notin> fst ` set payload"
  defines "p \<equiv> fordCreatePayload u8 ms token payload path verb"
  shows "oget p ''sign'' = JStr (fordCreateSignature u8 path (to_lower verb)
           (filter (\<lambda>kv. fst kv \<noteq> ''sign'') p)) \<and>
    oget p (if to_lower verb = ''get'' then ''access_token'' else ''accessToken'') = token \<and>
    oget p ''key'' = JStr fordAppKey \<and> oget p ''timestamp'' = JStr (show_int ms) \<and>
    (\<forall>k. k \<notin> {''sign'', ''access_token'', ''accessToken'', ''key'', ''timestamp''} \<longrightarrow> oget p k = oget payload k)"
  using assms(1) unfolding p_def
  by (auto simp: fordCreatePayload_def Let_def remove1_key_oset_new now_string_def)

lemma fordCreatePayload_verifies_witness:
  "oget (fordCreatePayload (\<lambda>s. s) 5 (JStr ''t'') [(''uuid'', JStr ''u'')] ''/p'' ''GET'') ''access_token'' = JStr ''t''"
  using fordCreatePayload_verifies [of "[(''uuid'', JStr ''u'')]" "\<lambda>s. s" 5 "JStr ''t''" "''/p''" "''GET''"]
  by (simp add: js_simps)

text \<open>
  Transaction and action numbers of the iot3 bodies are five digits long: \<open>tid\<close> is in
  10000..98999 and \<open>action_id\<close> in 10000..99999, for every value of the random source.
\<close>

theorem iot3_number_bounds:
  assumes "r1 < 2 ^ 53" "r2 < 2 ^ 53"
  shows "\<exists>a t. iot3CreateRunActionPayload ms r1 r2 mac model act user
      = [(''nonce'', JStr (show_int ms)),
         (''payload'', JObj [(''action'', act), (''cmd'', JStr ''run_action''),
            (''params'', JObj [(''action_id'', JNum a), (''type'', JNum 1), (''username'', user)]),
            (''tid'', JNum t), (''ts'', JNum ms), (''ver'', JNum 1)]),
         (''targetInfo'', JObj [(''id'', mac), (''model'', model)])]
    \<and> 10000 \<le> a \<and> a < 100000 \<and> 10000 \<le> t \<and> t < 99000"
  using random_below_bounds [OF assms(1), of 90000] random_below_bounds [OF assms(2), of 89000]
  by (auto simp: iot3CreateRunActionPayload_def now_string_def)

lemma iot3_number_bounds_witness:
  "\<exists>a t. iot3CreateRunActionPayload 7 (2 ^ 53 - 1) 0 JNull JNull JNull JNull
      = [(''nonce'', JStr (show_int 7)),
         (''payload'', JObj [(''action'', JNull), (''cmd'', JStr ''run_action''),
            (''params'', JObj [(''action_id'', JNum a), (''type'', JNum 1), (''username'', JNull)]),
            (''tid'', JNum t), (''ts'', JNum 7), (''ver'', JNum 1)]),
         (''targetInfo'', JObj [(''id'', JNull), (''model'', JNull)])]
    \<and> 10000 \<le> a \<and> a < 100000 \<and> 10000 \<le> t \<and> t < 99000"
  by (rule iot3_number_bounds) simp_all

end
