(* ===== verification/Effects.thy ===== *)
theory Effects
  imports Prelude
begin

text \<open>
  Asynchronous methods as state transformers that can throw and can fail to return: a program
  takes the state and gives \<open>None\<close> (it never settles) or \<open>Some\<close> of a rejection \<open>Inl e\<close> or a
  value \<open>Inr a\<close> with the final state. State changes made before a throw are kept, as in
  JavaScript. \<open>hoare\<close> is the partial-correctness triple with a post-condition for each outcome.
\<close>

type_synonym ('s, 'e, 'a) eff = "'s \<Rightarrow> (('e + 'a) \<times> 's) option"

definition ret :: "'a \<Rightarrow> ('s, 'e, 'a) eff" where
  "ret a = (\<lambda>s. Some (Inr a, s))"

definition throw :: "'e \<Rightarrow> ('s, 'e, 'a) eff" where
  "throw e = (\<lambda>s. Some (Inl e, s))"

definition bindE :: "('s, 'e, 'a) eff \<Rightarrow> ('a \<Rightarrow> ('s, 'e, 'b) eff) \<Rightarrow> ('s, 'e, 'b) eff" where
  "bindE m f = (\<lambda>s. case m s of None \<Rightarrow> None
     | Some (r, s') \<Rightarrow> (case r of Inl e \<Rightarrow> Some (Inl e, s') | Inr a \<Rightarrow> f a s'))"

definition seqE :: "('s, 'e, 'a) eff \<Rightarrow> ('s, 'e, 'b) eff \<Rightarrow> ('s, 'e, 'b) eff" where
  "seqE m n = bindE m (\<lambda>_. n)"

text \<open>\<open>try m catch (e) h e\<close>.\<close>

definition catchE :: "('s, 'e, 'a) eff \<Rightarrow> ('e \<Rightarrow> ('s, 'e, 'a) eff) \<Rightarrow> ('s, 'e, 'a) eff" where
  "catchE m h = (\<lambda>s. case m s of None \<Rightarrow> None
     | Some (r, s') \<Rightarrow> (case r of Inl e \<Rightarrow> h e s' | Inr a \<Rightarrow> Some (Inr a, s')))"

definition getS :: "('s \<Rightarrow> 'a) \<Rightarrow> ('s, 'e, 'a) eff" where
  "getS f = (\<lambda>s. Some (Inr (f s), s))"

definition modS :: "('s \<Rightarrow> 's) \<Rightarrow> ('s, 'e, unit) eff" where
  "modS f = (\<lambda>s. Some (Inr (), f s))"

definition liftE :: "'e + 'a \<Rightarrow> ('s, 'e, 'a) eff" where
  "liftE r = (\<lambda>s. Some (r, s))"

definition whenE :: "bool \<Rightarrow> ('s, 'e, unit) eff \<Rightarrow> ('s, 'e, unit) eff" where
  "whenE b m = (if b then m else ret ())"

lemmas eff_defs = ret_def throw_def bindE_def seqE_def catchE_def getS_def modS_def liftE_def
  whenE_def

section \<open>Monad laws\<close>

lemma bindE_ret [simp]: "bindE (ret a) f = f a"
  by (simp add: eff_defs)

lemma bindE_ret_right [simp]: "bindE m ret = m"
  by (auto simp: eff_defs fun_eq_iff split: option.split sum.split)

lemma bindE_assoc: "bindE (bindE m f) g = bindE m (\<lambda>a. bindE (f a) g)"
  by (auto simp: eff_defs fun_eq_iff split: option.split sum.split)

lemma bindE_throw [simp]: "bindE (throw e) f = throw e"
  by (simp add: eff_defs)

lemma bindE_liftE [simp]: "bindE (liftE (Inr a)) f = f a" "bindE (liftE (Inl e)) f = throw e"
  by (simp_all add: eff_defs)

lemma seqE_throw [simp]: "seqE (throw e) m = throw e"
  by (simp add: seqE_def)

lemma seqE_ret [simp]: "seqE (ret a) m = m"
  by (simp add: seqE_def)

lemma catchE_ret [simp]: "catchE (ret a) h = ret a"
  by (simp add: eff_defs)

lemma catchE_throw [simp]: "catchE (throw e) h = h e"
  by (simp add: eff_defs)

lemma whenE_simps [simp]: "whenE True m = m" "whenE False m = ret ()"
  by (simp_all add: whenE_def)

lemma bindE_getS_apply [simp]: "bindE (getS f) k s = k (f s) s"
  by (simp add: eff_defs)

lemma bindE_modS_apply [simp]: "bindE (modS f) k s = k () (f s)"
  by (simp add: eff_defs)

lemma seqE_modS_apply [simp]: "seqE (modS f) m s = m (f s)"
  by (simp add: eff_defs)

lemma ret_apply [simp]: "ret a s = Some (Inr a, s)"
  by (simp add: ret_def)

lemma throw_apply [simp]: "throw e s = Some (Inl e, s)"
  by (simp add: throw_def)

lemma getS_apply [simp]: "getS f s = Some (Inr (f s), s)"
  by (simp add: getS_def)

lemma modS_apply [simp]: "modS f s = Some (Inr (), f s)"
  by (simp add: modS_def)

lemma liftE_apply [simp]: "liftE r s = Some (r, s)"
  by (simp add: liftE_def)

lemma bindE_Some:
  "m s = Some (Inr a, s') \<Longrightarrow> bindE m f s = f a s'"
  "m s = Some (Inl e, s') \<Longrightarrow> bindE m f s = Some (Inl e, s')"
  "m s = None \<Longrightarrow> bindE m f s = None"
  by (simp_all add: bindE_def)

lemma seqE_Some:
  "m s = Some (Inr a, s') \<Longrightarrow> seqE m n s = n s'"
  "m s = Some (Inl e, s') \<Longrightarrow> seqE m n s = Some (Inl e, s')"
  "m s = None \<Longrightarrow> seqE m n s = None"
  by (simp_all add: seqE_def bindE_def)

lemma catchE_Some:
  "m s = Some (Inr a, s') \<Longrightarrow> catchE m h s = Some (Inr a, s')"
  "m s = Some (Inl e, s') \<Longrightarrow> catchE m h s = h e s'"
  "m s = None \<Longrightarrow> catchE m h s = None"
  by (simp_all add: catchE_def)

text \<open>Inversion: how a sequence or a handler can have settled.\<close>

lemma bindE_cases:
  assumes "bindE m f s = Some (r, s'')"
  obtains (rejected) e where "m s = Some (Inl e, s'')" "r = Inl e"
  | (returned) a s' where "m s = Some (Inr a, s')" "f a s' = Some (r, s'')"
  using assms by (auto simp: bindE_def split: option.splits sum.splits)

lemma seqE_cases:
  assumes "seqE m n s = Some (r, s'')"
  obtains (rejected) e where "m s = Some (Inl e, s'')" "r = Inl e"
  | (returned) a s' where "m s = Some (Inr a, s')" "n s' = Some (r, s'')"
  using assms by (auto simp: seqE_def elim: bindE_cases)

lemma catchE_cases:
  assumes "catchE m h s = Some (r, s'')"
  obtains (returned) a where "m s = Some (Inr a, s'')" "r = Inr a"
  | (handled) e s' where "m s = Some (Inl e, s')" "h e s' = Some (r, s'')"
  using assms by (auto simp: catchE_def split: option.splits sum.splits)

section \<open>Recursion\<close>

text \<open>Sequencing and handlers are monotone, so recursive methods can be fixed points.\<close>

lemma bindE_mono [partial_function_mono]:
  fixes m :: "('x \<Rightarrow> 'y option) \<Rightarrow> ('s, 'e, 'a) eff"
    and k :: "('x \<Rightarrow> 'y option) \<Rightarrow> 'a \<Rightarrow> ('s, 'e, 'b) eff"
  assumes "\<And>t. monotone (fun_ord option_ord) option_ord (\<lambda>f. m f t)"
    and "\<And>a t. monotone (fun_ord option_ord) option_ord (\<lambda>f. k f a t)"
  shows "monotone (fun_ord option_ord) option_ord (\<lambda>f. bindE (m f) (k f) s)"
proof (rule monotoneI)
  fix f g :: "'x \<Rightarrow> 'y option"
  assume fg: "fun_ord option_ord f g"
  have m: "option_ord (m f s) (m g s)" using assms(1) [of s] fg by (rule monotoneD [of _ _ _ f g])
  show "option_ord (bindE (m f) (k f) s) (bindE (m g) (k g) s)"
  proof (cases "m f s")
    case None
    then show ?thesis by (simp add: bindE_def flat_ord_def)
  next
    case (Some p)
    then have g: "m g s = Some p" using m by (auto simp: flat_ord_def)
    obtain r s' where p: "p = (r, s')" by (cases p)
    have "option_ord (k f a s') (k g a s')" for a using assms(2) [of a s'] fg by (rule monotoneD [of _ _ _ f g])
    with Some g p show ?thesis by (cases r) (auto simp: bindE_def flat_ord_def)
  qed
qed

lemma seqE_mono [partial_function_mono]:
  assumes "\<And>t. monotone (fun_ord option_ord) option_ord (\<lambda>f. m f t)"
    and "\<And>t. monotone (fun_ord option_ord) option_ord (\<lambda>f. k f t)"
  shows "monotone (fun_ord option_ord) option_ord (\<lambda>f. seqE (m f) (k f) s)"
  unfolding seqE_def using assms by (rule bindE_mono)

lemma catchE_mono [partial_function_mono]:
  fixes m :: "('x \<Rightarrow> 'y option) \<Rightarrow> ('s, 'e, 'a) eff"
    and k :: "('x \<Rightarrow> 'y option) \<Rightarrow> 'e \<Rightarrow> ('s, 'e, 'a) eff"
  assumes "\<And>t. monotone (fun_ord option_ord) option_ord (\<lambda>f. m f t)"
    and "\<And>a t. monotone (fun_ord option_ord) option_ord (\<lambda>f. k f a t)"
  shows "monotone (fun_ord option_ord) option_ord (\<lambda>f. catchE (m f) (k f) s)"
proof (rule monotoneI)
  fix f g :: "'x \<Rightarrow> 'y option"
  assume fg: "fun_ord option_ord f g"
  have m: "option_ord (m f s) (m g s)" using assms(1) [of s] fg by (rule monotoneD [of _ _ _ f g])
  show "option_ord (catchE (m f) (k f) s) (catchE (m g) (k g) s)"
  proof (cases "m f s")
    case None
    then show ?thesis by (simp add: catchE_def flat_ord_def)
  next
    case (Some p)
    then have g: "m g s = Some p" using m by (auto simp: flat_ord_def)
    obtain r s' where p: "p = (r, s')" by (cases p)
    have "option_ord (k f a s') (k g a s')" for a using assms(2) [of a s'] fg by (rule monotoneD [of _ _ _ f g])
    with Some g p show ?thesis by (cases r) (auto simp: catchE_def flat_ord_def)
  qed
qed

section \<open>Hoare triples\<close>

definition hoare :: "('s \<Rightarrow> bool) \<Rightarrow> ('s, 'e, 'a) eff \<Rightarrow> ('a \<Rightarrow> 's \<Rightarrow> bool) \<Rightarrow> ('e \<Rightarrow> 's \<Rightarrow> bool) \<Rightarrow> bool" where
  "hoare P m Q E = (\<forall>s. P s \<longrightarrow> (case m s of None \<Rightarrow> True
     | Some (r, s') \<Rightarrow> (case r of Inl e \<Rightarrow> E e s' | Inr a \<Rightarrow> Q a s')))"

lemma hoareI:
  assumes "\<And>s a s'. P s \<Longrightarrow> m s = Some (Inr a, s') \<Longrightarrow> Q a s'"
    and "\<And>s e s'. P s \<Longrightarrow> m s = Some (Inl e, s') \<Longrightarrow> E e s'"
  shows "hoare P m Q E"
  using assms by (auto simp: hoare_def split: option.split sum.split)

lemma hoareD_value: "hoare P m Q E \<Longrightarrow> P s \<Longrightarrow> m s = Some (Inr a, s') \<Longrightarrow> Q a s'"
  by (fastforce simp: hoare_def)

lemma hoareD_throw: "hoare P m Q E \<Longrightarrow> P s \<Longrightarrow> m s = Some (Inl e, s') \<Longrightarrow> E e s'"
  by (fastforce simp: hoare_def)

lemma hoare_conseq:
  assumes "hoare P' m Q' E'" "\<And>s. P s \<Longrightarrow> P' s" "\<And>a s. Q' a s \<Longrightarrow> Q a s" "\<And>e s. E' e s \<Longrightarrow> E e s"
  shows "hoare P m Q E"
  using assms by (fastforce simp: hoare_def split: option.splits sum.splits)

lemma hoare_ret [wp]: "hoare (Q a) (ret a) Q E"
  by (simp add: hoare_def)

lemma hoare_throw [wp]: "hoare (E e) (throw e) Q E"
  by (simp add: hoare_def)

lemma hoare_getS [wp]: "hoare (\<lambda>s. Q (f s) s) (getS f) Q E"
  by (simp add: hoare_def)

lemma hoare_modS [wp]: "hoare (\<lambda>s. Q () (f s)) (modS f) Q E"
  by (simp add: hoare_def)

lemma hoare_bindE:
  assumes "hoare P m R E" "\<And>a. hoare (R a) (f a) Q E"
  shows "hoare P (bindE m f) Q E"
proof (rule hoareI)
  fix s a s' assume "P s" "bindE m f s = Some (Inr a, s')"
  then show "Q a s'" by (elim bindE_cases) (auto dest: hoareD_value [OF assms(1)] hoareD_value [OF assms(2)])
next
  fix s e s' assume "P s" "bindE m f s = Some (Inl e, s')"
  then show "E e s'"
    by (elim bindE_cases) (auto dest: hoareD_value [OF assms(1)] hoareD_throw [OF assms(1)] hoareD_throw [OF assms(2)])
qed

lemma hoare_seqE:
  assumes "hoare P m (\<lambda>_. R) E" "hoare R n Q E"
  shows "hoare P (seqE m n) Q E"
  unfolding seqE_def using assms by (rule hoare_bindE)

lemma hoare_catchE:
  assumes "hoare P m Q R" "\<And>e. hoare (R e) (h e) Q E"
  shows "hoare P (catchE m h) Q E"
proof (rule hoareI)
  fix s a s' assume "P s" "catchE m h s = Some (Inr a, s')"
  then show "Q a s'"
    by (elim catchE_cases) (auto dest: hoareD_value [OF assms(1)] hoareD_throw [OF assms(1)] hoareD_value [OF assms(2)])
next
  fix s e s' assume "P s" "catchE m h s = Some (Inl e, s')"
  then show "E e s'"
    by (elim catchE_cases) (auto dest: hoareD_throw [OF assms(1)] hoareD_throw [OF assms(2)])
qed

section \<open>Relations between the first and the last state\<close>

text \<open>
  Many facts about a method relate the states at its start and end by a preorder: the request
  log only grows, the clock never goes back, an invariant that held still holds. The locale
  states the composition rules once; components interpret it on their own preorders.
\<close>

definition relates :: "('s \<Rightarrow> 's \<Rightarrow> bool) \<Rightarrow> ('s, 'e, 'a) eff \<Rightarrow> bool" where
  "relates R m = (\<forall>s r s'. m s = Some (r, s') \<longrightarrow> R s s')"

lemma relatesI: "(\<And>s r s'. m s = Some (r, s') \<Longrightarrow> R s s') \<Longrightarrow> relates R m"
  by (simp add: relates_def)

lemma relatesD: "relates R m \<Longrightarrow> m s = Some (r, s') \<Longrightarrow> R s s'"
  by (simp add: relates_def)

locale effect_preorder =
  fixes R :: "'s \<Rightarrow> 's \<Rightarrow> bool"
  assumes R_refl: "R s s"
    and R_trans: "R s t \<Longrightarrow> R t u \<Longrightarrow> R s u"
begin

lemma rel_ret: "relates R (ret a)"
  by (auto simp: relates_def ret_def R_refl)

lemma rel_throw: "relates R (throw e)"
  by (auto simp: relates_def throw_def R_refl)

lemma rel_getS: "relates R (getS f)"
  by (auto simp: relates_def getS_def R_refl)

lemma rel_liftE: "relates R (liftE x)"
  by (auto simp: relates_def liftE_def R_refl)

lemma rel_modS: "(\<And>s. R s (f s)) \<Longrightarrow> relates R (modS f)"
  by (auto simp: relates_def modS_def)

lemma rel_bindE: "relates R m \<Longrightarrow> (\<And>a. relates R (f a)) \<Longrightarrow> relates R (bindE m f)"
  by (fastforce simp: relates_def intro: R_trans elim!: bindE_cases)

lemma rel_seqE: "relates R m \<Longrightarrow> relates R n \<Longrightarrow> relates R (seqE m n)"
  by (simp add: seqE_def rel_bindE)

lemma rel_catchE: "relates R m \<Longrightarrow> (\<And>e. relates R (h e)) \<Longrightarrow> relates R (catchE m h)"
  by (fastforce simp: relates_def intro: R_trans elim!: catchE_cases)

lemma rel_whenE: "relates R m \<Longrightarrow> relates R (whenE b m)"
  by (simp add: whenE_def rel_ret)

lemma rel_if: "relates R m \<Longrightarrow> relates R n \<Longrightarrow> relates R (if b then m else n)"
  by simp

lemmas rel_rules = rel_ret rel_throw rel_getS rel_liftE rel_bindE rel_seqE rel_catchE rel_whenE rel_if

end

text \<open>Preservation of an invariant is such a preorder.\<close>

definition keeps :: "('s \<Rightarrow> bool) \<Rightarrow> 's \<Rightarrow> 's \<Rightarrow> bool" where
  "keeps I s s' = (I s \<longrightarrow> I s')"

interpretation keeps: effect_preorder "keeps I" for I :: "'s \<Rightarrow> bool"
  by unfold_locales (auto simp: keeps_def)

end
