(* ===== verification/JsonText.thy ===== *)
theory JsonText
  imports JsValue
begin

text \<open>
  \<open>JSON.stringify\<close> without white space and \<open>JSON.parse\<close>, as the token file, the signed request
  bodies and the signaling envelope use them. Numbers are integers, and \<open>\u\<close> escapes above
  \<open>\u00ff\<close> are outside the character domain. The parser spends one unit of fuel per nesting or
  element step; \<open>2 * length s + 1\<close> units are always enough, and more never change the result
  (\<open>pval_fuel_enough\<close>).
\<close>

section \<open>JSON.stringify\<close>

definition hex_char :: "nat \<Rightarrow> char" where
  "hex_char d = char_of (if d < 10 then 48 + d else 87 + d)"

definition hex_byte :: "nat \<Rightarrow> string" where
  "hex_byte n = [hex_char (n div 16), hex_char (n mod 16)]"

definition esc_char :: "char \<Rightarrow> string" where
  "esc_char c =
     (if c = CHR 0x22 then [CHR 0x5C, CHR 0x22]
      else if c = CHR 0x5C then [CHR 0x5C, CHR 0x5C]
      else if c = CHR 0x08 then [CHR 0x5C, CHR ''b'']
      else if c = CHR 0x0C then [CHR 0x5C, CHR ''f'']
      else if c = CHR 0x0A then [CHR 0x5C, CHR ''n'']
      else if c = CHR 0x0D then [CHR 0x5C, CHR ''r'']
      else if c = CHR 0x09 then [CHR 0x5C, CHR ''t'']
      else if (of_char c :: nat) < 32 then [CHR 0x5C] @ ''u00'' @ hex_byte (of_char c)
      else [c])"

definition json_quote :: "string \<Rightarrow> string" where
  "json_quote s = CHR 0x22 # concat (map esc_char s) @ [CHR 0x22]"

fun stringify :: "jsval \<Rightarrow> string"
  and stringify_elems :: "jsval list \<Rightarrow> string list"
  and stringify_members :: "obj \<Rightarrow> string list" where
  "stringify JUndef = ''null''"
| "stringify JNull = ''null''"
| "stringify (JBool b) = (if b then ''true'' else ''false'')"
| "stringify (JNum n) = show_int n"
| "stringify JNaN = ''null''"
| "stringify (JStr s) = json_quote s"
| "stringify (JArr vs) = ''['' @ join '','' (stringify_elems vs) @ '']''"
| "stringify (JObj ob) = ''{'' @ join '','' (stringify_members ob) @ ''}''"
| "stringify_elems [] = []"
| "stringify_elems (v # vs) = stringify v # stringify_elems vs"
| "stringify_members [] = []"
| "stringify_members ((k, v) # ob) =
     (if v = JUndef then stringify_members ob
      else (json_quote k @ '':'' @ stringify v) # stringify_members ob)"

section \<open>JSON.parse\<close>

definition json_space :: "char \<Rightarrow> bool" where
  "json_space c = (c = CHR '' '' \<or> c = CHR 0x09 \<or> c = CHR 0x0A \<or> c = CHR 0x0D)"

definition ws :: "string \<Rightarrow> string" where
  "ws s = dropWhile json_space s"

definition hex_val :: "char \<Rightarrow> nat option" where
  "hex_val c =
     (let n = (of_char c :: nat) in
      if 48 \<le> n \<and> n \<le> 57 then Some (n - 48)
      else if 97 \<le> n \<and> n \<le> 102 then Some (n - 87)
      else if 65 \<le> n \<and> n \<le> 70 then Some (n - 55)
      else None)"

definition unesc_char :: "char \<Rightarrow> char option" where
  "unesc_char e =
     (if e = CHR 0x22 \<or> e = CHR 0x5C \<or> e = CHR ''/'' then Some e
      else if e = CHR ''b'' then Some (CHR 0x08)
      else if e = CHR ''f'' then Some (CHR 0x0C)
      else if e = CHR ''n'' then Some (CHR 0x0A)
      else if e = CHR ''r'' then Some (CHR 0x0D)
      else if e = CHR ''t'' then Some (CHR 0x09)
      else None)"

definition unesc_u :: "char \<Rightarrow> char \<Rightarrow> char \<Rightarrow> char \<Rightarrow> char option" where
  "unesc_u a b c d =
     (case (hex_val a, hex_val b, hex_val c, hex_val d) of
        (Some 0, Some 0, Some x, Some y) \<Rightarrow> Some (char_of (16 * x + y))
      | _ \<Rightarrow> None)"

definition push_char :: "char \<Rightarrow> (string \<times> string) option \<Rightarrow> (string \<times> string) option" where
  "push_char c r = map_option (\<lambda>(s, t). (c # s, t)) r"

text \<open>The rest of a string literal after its opening quote.\<close>

fun pstr :: "string \<Rightarrow> (string \<times> string) option" where
  "pstr [] = None"
| "pstr (c # r) =
     (if c = CHR 0x22 then Some ([], r)
      else if c = CHR 0x5C then
        (case r of
           [] \<Rightarrow> None
         | e # r1 \<Rightarrow>
             if e = CHR ''u'' then
               (case r1 of
                  x # y # z # w # r2 \<Rightarrow>
                    (case unesc_u x y z w of None \<Rightarrow> None | Some u \<Rightarrow> push_char u (pstr r2))
                | _ \<Rightarrow> None)
             else (case unesc_char e of None \<Rightarrow> None | Some u \<Rightarrow> push_char u (pstr r1)))
      else if (of_char c :: nat) < 32 then None
      else push_char c (pstr r))"

text \<open>A number: optional minus, then \<open>0\<close> or a run of digits without leading zero.\<close>

definition pdigits :: "string \<Rightarrow> (nat \<times> string) option" where
  "pdigits s =
     (let ds = takeWhile is_digit s; r = dropWhile is_digit s in
      if ds = [] \<or> (hd ds = CHR ''0'' \<and> ds \<noteq> ''0'') then None else Some (read_digits ds, r))"

definition pnum :: "string \<Rightarrow> (jsval \<times> string) option" where
  "pnum s =
     (case s of
        [] \<Rightarrow> None
      | c # r \<Rightarrow>
          if c = CHR ''-'' then map_option (\<lambda>(n, t). (JNum (- int n), t)) (pdigits r)
          else map_option (\<lambda>(n, t). (JNum (int n), t)) (pdigits s))"

definition plit :: "string \<Rightarrow> jsval \<Rightarrow> string \<Rightarrow> (jsval \<times> string) option" where
  "plit l v s = (if prefix l s then Some (v, drop (length l) s) else None)"

fun pval :: "nat \<Rightarrow> string \<Rightarrow> (jsval \<times> string) option"
  and pelems :: "nat \<Rightarrow> string \<Rightarrow> (jsval list \<times> string) option"
  and pmembers :: "nat \<Rightarrow> string \<Rightarrow> (obj \<times> string) option" where
  "pval 0 s = None"
| "pval (Suc n) s =
     (case ws s of
        [] \<Rightarrow> None
      | c # r \<Rightarrow>
          if c = CHR 0x22 then map_option (\<lambda>(x, t). (JStr x, t)) (pstr r)
          else if c = CHR ''['' then
            (case ws r of
               [] \<Rightarrow> None
             | d # t \<Rightarrow> if d = CHR '']'' then Some (JArr [], t)
                        else map_option (\<lambda>(vs, t). (JArr vs, t)) (pelems n r))
          else if c = CHR ''{'' then
            (case ws r of
               [] \<Rightarrow> None
             | d # t \<Rightarrow> if d = CHR ''}'' then Some (JObj [], t)
                        else map_option (\<lambda>(ob, t). (JObj (spread [] ob), t)) (pmembers n r))
          else if c = CHR ''t'' then plit ''true'' (JBool True) (c # r)
          else if c = CHR ''f'' then plit ''false'' (JBool False) (c # r)
          else if c = CHR ''n'' then plit ''null'' JNull (c # r)
          else pnum (c # r))"
| "pelems 0 s = None"
| "pelems (Suc n) s =
     (case pval n s of
        None \<Rightarrow> None
      | Some (v, r) \<Rightarrow>
          (case ws r of
             [] \<Rightarrow> None
           | c # t \<Rightarrow>
               if c = CHR '','' then map_option (\<lambda>(vs, t'). (v # vs, t')) (pelems n t)
               else if c = CHR '']'' then Some ([v], t)
               else None))"
| "pmembers 0 s = None"
| "pmembers (Suc n) s =
     (case ws s of
        [] \<Rightarrow> None
      | q # r \<Rightarrow>
          if q \<noteq> CHR 0x22 then None
          else (case pstr r of
             None \<Rightarrow> None
           | Some (k, r1) \<Rightarrow>
               (case ws r1 of
                  [] \<Rightarrow> None
                | c # r2 \<Rightarrow>
                    if c \<noteq> CHR '':'' then None
                    else (case pval n r2 of
                       None \<Rightarrow> None
                     | Some (v, r3) \<Rightarrow>
                         (case ws r3 of
                            [] \<Rightarrow> None
                          | d # t \<Rightarrow>
                              if d = CHR '','' then map_option (\<lambda>(ob, t'). ((k, v) # ob, t')) (pmembers n t)
                              else if d = CHR ''}'' then Some ([(k, v)], t)
                              else None)))))"

text \<open>\<open>None\<close> is the \<open>SyntaxError\<close> that \<open>JSON.parse\<close> throws.\<close>

definition json_parse :: "string \<Rightarrow> jsval option" where
  "json_parse s =
     (case pval (2 * length s + 1) s of
        None \<Rightarrow> None
      | Some (v, r) \<Rightarrow> if ws r = [] then Some v else None)"

section \<open>String literals round-trip\<close>

lemma hex_val_char [simp]: "d < 16 \<Longrightarrow> hex_val (hex_char d) = Some d"
  by (auto simp: hex_val_def hex_char_def Let_def)

lemma unesc_u_hex_byte:
  "n < 256 \<Longrightarrow> unesc_u (CHR ''0'') (CHR ''0'') (hex_char (n div 16)) (hex_char (n mod 16)) = Some (char_of n)"
proof -
  assume "n < 256"
  then have "n div 16 < 16" "n mod 16 < 16" by auto
  moreover have "hex_val (CHR ''0'') = Some 0" by (simp add: hex_val_def)
  moreover have "16 * (n div 16) + n mod 16 = n" by simp
  ultimately show ?thesis by (simp add: unesc_u_def)
qed

lemma pstr_esc_char: "pstr (esc_char c @ r) = push_char c (pstr r)"
proof -
  have u: "pstr (CHR 0x5C # ''u00'' @ hex_byte (of_char c) @ r) = push_char c (pstr r)"
    using unesc_u_hex_byte [of "of_char c"] by (simp add: hex_byte_def)
  show ?thesis
    using u by (simp add: esc_char_def unesc_char_def)
qed

lemma pstr_quoted: "pstr (concat (map esc_char s) @ CHR 0x22 # r) = Some (s, r)"
proof (induction s)
  case (Cons c s)
  have "pstr (concat (map esc_char (c # s)) @ CHR 0x22 # r)
      = pstr (esc_char c @ (concat (map esc_char s) @ CHR 0x22 # r))"
    by simp
  also have "\<dots> = Some (c # s, r)"
    using Cons by (simp add: pstr_esc_char push_char_def del: pstr.simps)
  finally show ?case .
qed simp

section \<open>Numbers round-trip\<close>

definition no_digit :: "string \<Rightarrow> bool" where
  "no_digit r = (case r of [] \<Rightarrow> True | c # _ \<Rightarrow> \<not> is_digit c)"

lemma no_digit_simps [simp]:
  "no_digit []" "no_digit (CHR '','' # r)" "no_digit (CHR '']'' # r)" "no_digit (CHR ''}'' # r)"
  by (simp_all add: no_digit_def is_digit_def)

lemma pdigits_show_nat: "no_digit r \<Longrightarrow> pdigits (show_nat n @ r) = Some (n, r)"
proof -
  assume r: "no_digit r"
  then have "takeWhile is_digit r = []" "dropWhile is_digit r = r"
    by (cases r; simp add: no_digit_def)+
  moreover have "\<forall>c \<in> set (show_nat n). is_digit c" by (auto dest: show_nat_digits)
  ultimately have tw: "takeWhile is_digit (show_nat n @ r) = show_nat n"
      "dropWhile is_digit (show_nat n @ r) = r"
    by (simp_all add: takeWhile_append2 dropWhile_append2)
  have z: "hd (show_nat n) = CHR ''0'' \<Longrightarrow> show_nat n = ''0''"
    using show_nat_no_lead_zero [of n] by (cases "n = 0") auto
  show ?thesis using tw z by (auto simp: pdigits_def Let_def)
qed

lemma pnum_show_int: "no_digit r \<Longrightarrow> pnum (show_int n @ r) = Some (JNum n, r)"
proof (cases "n < 0")
  case True
  assume "no_digit r"
  with True show ?thesis by (simp add: show_int_def pnum_def pdigits_show_nat)
next
  case False
  assume r: "no_digit r"
  obtain c s where cs: "show_nat (nat n) = c # s" by (cases "show_nat (nat n)") auto
  then have "c \<noteq> CHR ''-''" using show_nat_hd_not_minus [of "nat n"] by simp
  with False r cs pdigits_show_nat [OF r, of "nat n"] show ?thesis
    by (simp add: show_int_def pnum_def)
qed

lemma show_int_first:
  obtains c s where "show_int n = c # s" "c = CHR ''-'' \<or> is_digit c"
proof (cases "n < 0")
  case True
  then show ?thesis using that by (simp add: show_int_def)
next
  case False
  obtain c s where cs: "show_nat (nat n) = c # s" by (cases "show_nat (nat n)") auto
  then have "is_digit c" by (metis list.set_intros(1) show_nat_digits)
  with False cs show ?thesis using that by (simp add: show_int_def)
qed

section \<open>Values round-trip\<close>

text \<open>
  What survives the text form: no \<open>undefined\<close> and no \<open>NaN\<close> inside, and no key twice.
\<close>

fun json_wf :: "jsval \<Rightarrow> bool"
  and json_wf_elems :: "jsval list \<Rightarrow> bool"
  and json_wf_members :: "obj \<Rightarrow> bool" where
  "json_wf JUndef = False"
| "json_wf JNull = True"
| "json_wf (JBool b) = True"
| "json_wf (JNum n) = True"
| "json_wf JNaN = False"
| "json_wf (JStr s) = True"
| "json_wf (JArr vs) = json_wf_elems vs"
| "json_wf (JObj ob) = (distinct (map fst ob) \<and> json_wf_members ob)"
| "json_wf_elems [] = True"
| "json_wf_elems (v # vs) = (json_wf v \<and> json_wf_elems vs)"
| "json_wf_members [] = True"
| "json_wf_members ((k, v) # ob) = (json_wf v \<and> json_wf_members ob)"

text \<open>How much fuel the parser needs for the text of a value.\<close>

fun jneed :: "jsval \<Rightarrow> nat"
  and jneed_elems :: "jsval list \<Rightarrow> nat"
  and jneed_members :: "obj \<Rightarrow> nat" where
  "jneed (JArr vs) = Suc (jneed_elems vs)"
| "jneed (JObj ob) = Suc (jneed_members ob)"
| "jneed JUndef = 1"
| "jneed JNull = 1"
| "jneed (JBool b) = 1"
| "jneed (JNum n) = 1"
| "jneed JNaN = 1"
| "jneed (JStr s) = 1"
| "jneed_elems [] = 0"
| "jneed_elems (v # vs) = Suc (max (jneed v) (jneed_elems vs))"
| "jneed_members [] = 0"
| "jneed_members ((k, v) # ob) = Suc (max (jneed v) (jneed_members ob))"

lemma json_wf_members_undef: "json_wf_members ob \<Longrightarrow> (k, JUndef) \<notin> set ob"
  by (induction ob) auto

lemma json_space_ws [simp]: "\<not> json_space c \<Longrightarrow> ws (c # r) = c # r"
  by (simp add: ws_def)

lemma json_space_chars [simp]:
  "\<not> json_space (CHR 0x22)" "\<not> json_space (CHR ''['')" "\<not> json_space (CHR ''{'')"
  "\<not> json_space (CHR '']'')" "\<not> json_space (CHR ''}'')" "\<not> json_space (CHR '','')"
  "\<not> json_space (CHR '':'')" "\<not> json_space (CHR ''t'')" "\<not> json_space (CHR ''f'')"
  "\<not> json_space (CHR ''n'')" "\<not> json_space (CHR ''-'')"
  by (simp_all add: json_space_def)

lemma is_digit_not_space [simp]: "is_digit c \<Longrightarrow> \<not> json_space c"
  by (auto simp: is_digit_def json_space_def)

text \<open>The first character of a value's text: never white space, never a closing bracket.\<close>

lemma stringify_first:
  assumes "json_wf v"
  obtains c s where "stringify v = c # s" "\<not> json_space c" "c \<noteq> CHR '']''" "c \<noteq> CHR ''}''"
proof (cases v)
  case (JNum n)
  obtain c s where "show_int n = c # s" "c = CHR ''-'' \<or> is_digit c" by (rule show_int_first)
  moreover from this have "\<not> json_space c" "c \<noteq> CHR '']''" "c \<noteq> CHR ''}''"
    by (auto simp: is_digit_def)
  ultimately show ?thesis using JNum that by simp
next
  case (JBool b)
  then show ?thesis by (cases b) (auto intro: that)
qed (use assms in \<open>auto simp: json_quote_def intro: that\<close>)

lemma pval_number:
  assumes "no_digit r"
  shows "pval (Suc n) (show_int k @ r) = Some (JNum k, r)"
proof -
  obtain c s where cs: "show_int k = c # s" "c = CHR ''-'' \<or> is_digit c" by (rule show_int_first)
  then have "\<not> json_space c" "c \<noteq> CHR 0x22" "c \<noteq> CHR ''[''" "c \<noteq> CHR ''{''"
      "c \<noteq> CHR ''t''" "c \<noteq> CHR ''f''" "c \<noteq> CHR ''n''"
    by (auto simp: is_digit_def)
  then show ?thesis using pnum_show_int [OF assms, of k] cs by simp
qed

lemma pval_string: "pval (Suc n) (json_quote s @ r) = Some (JStr s, r)"
  using pstr_quoted [of s r] by (simp add: json_quote_def)

lemma join_Cons: "xs \<noteq> [] \<Longrightarrow> join sep (x # xs) = x @ sep @ join sep xs"
  by (cases xs) auto

lemma pelems_step_last:
  assumes "pval n (stringify v @ CHR '']'' # r) = Some (v, CHR '']'' # r)"
  shows "pelems (Suc n) (stringify v @ CHR '']'' # r) = Some ([v], r)"
  using assms by simp

lemma pelems_step_more:
  assumes "pval n (stringify v @ CHR '','' # t) = Some (v, CHR '','' # t)"
    and "pelems n t = Some (vs, r)"
  shows "pelems (Suc n) (stringify v @ CHR '','' # t) = Some (v # vs, r)"
  using assms by simp

lemma pmembers_key:
  "pmembers (Suc n) (json_quote k @ '':'' @ t) =
     (case pval n t of
        None \<Rightarrow> None
      | Some (v, r3) \<Rightarrow>
          (case ws r3 of
             [] \<Rightarrow> None
           | d # t \<Rightarrow>
               if d = CHR '','' then map_option (\<lambda>(ob, t'). ((k, v) # ob, t')) (pmembers n t)
               else if d = CHR ''}'' then Some ([(k, v)], t)
               else None))"
  using pstr_quoted [of k "'':'' @ t"] by (simp add: json_quote_def)

lemma spread_fresh:
  "distinct (map fst (a @ b)) \<Longrightarrow> spread a b = a @ b"
proof (induction b arbitrary: a)
  case (Cons p b)
  obtain k v where p: "p = (k, v)" by (cases p)
  have "k \<notin> fst ` set a" using Cons.prems p by auto
  then have "oset k v a = a @ [(k, v)]" by (induction k v a rule: oset.induct) auto
  then show ?case using Cons p by simp
qed simp

lemma pval_array:
  assumes "json_wf_elems (v # vs)"
    and "pelems n (join '','' (stringify_elems (v # vs)) @ CHR '']'' # r) = Some (v # vs, r)"
  shows "pval (Suc n) (stringify (JArr (v # vs)) @ r) = Some (JArr (v # vs), r)"
proof -
  from assms(1) have "json_wf v" by simp
  then obtain c s where "stringify v = c # s" "\<not> json_space c" "c \<noteq> CHR '']''" "c \<noteq> CHR ''}''"
    by (rule stringify_first)
  moreover have "\<exists>t. join '','' (stringify_elems (v # vs)) = stringify v @ t"
    by (cases "stringify_elems vs") auto
  ultimately obtain t where "join '','' (stringify_elems (v # vs)) = c # t" by auto
  with assms \<open>\<not> json_space c\<close> \<open>c \<noteq> CHR '']''\<close> show ?thesis by simp
qed

lemma pval_object:
  assumes "json_wf (JObj ((k, v) # ob))"
    and "pmembers n (join '','' (stringify_members ((k, v) # ob)) @ CHR ''}'' # r) = Some ((k, v) # ob, r)"
  shows "pval (Suc n) (stringify (JObj ((k, v) # ob)) @ r) = Some (JObj ((k, v) # ob), r)"
proof -
  have "v \<noteq> JUndef" using assms(1) by auto
  then have "\<exists>t. join '','' (stringify_members ((k, v) # ob)) = CHR 0x22 # t"
    by (cases "stringify_members ob") (auto simp: json_quote_def)
  then obtain t where "join '','' (stringify_members ((k, v) # ob)) = CHR 0x22 # t" ..
  moreover have "spread [] ((k, v) # ob) = (k, v) # ob"
    using assms(1) spread_fresh [of "[]" "(k, v) # ob"] by simp
  ultimately show ?thesis using assms(2) by simp
qed

lemma pval_stringify_all:
  shows "json_wf v \<Longrightarrow> jneed v \<le> n \<Longrightarrow> no_digit r \<Longrightarrow> pval n (stringify v @ r) = Some (v, r)"
    and "json_wf_elems vs \<Longrightarrow> vs \<noteq> [] \<Longrightarrow> jneed_elems vs \<le> n \<Longrightarrow>
         pelems n (join '','' (stringify_elems vs) @ CHR '']'' # r) = Some (vs, r)"
    and "json_wf_members ob \<Longrightarrow> ob \<noteq> [] \<Longrightarrow> jneed_members ob \<le> n \<Longrightarrow>
         pmembers n (join '','' (stringify_members ob) @ CHR ''}'' # r) = Some (ob, r)"
proof (induction v and vs and ob arbitrary: n r and n r and n r
    rule: stringify_stringify_elems_stringify_members.induct)
  case 2
  then obtain m where "n = Suc m" by (cases n) auto
  then show ?case by (simp add: plit_def)
next
  case (3 b)
  then obtain m where "n = Suc m" by (cases n) auto
  then show ?case by (simp add: plit_def)
next
  case (4 k)
  then obtain m where "n = Suc m" by (cases n) auto
  with 4 show ?case by (simp add: pval_number del: pval.simps)
next
  case (6 s)
  then obtain m where "n = Suc m" by (cases n) auto
  then show ?case by (simp add: pval_string del: pval.simps)
next
  case (7 vs)
  then obtain m where n: "n = Suc m" "jneed_elems vs \<le> m" by (cases n) auto
  show ?case
  proof (cases vs)
    case Nil
    with n show ?thesis by simp
  next
    case (Cons v vs')
    then have "pelems m (join '','' (stringify_elems vs) @ CHR '']'' # r) = Some (vs, r)"
      using 7 n by simp
    with 7 n Cons show ?thesis by (simp only: pval_array json_wf.simps)
  qed
next
  case (8 ob)
  then obtain m where n: "n = Suc m" "jneed_members ob \<le> m" by (cases n) auto
  show ?case
  proof (cases ob)
    case Nil
    with n show ?thesis by simp
  next
    case (Cons p ob')
    obtain k v where p: "p = (k, v)" by (cases p)
    have "pmembers m (join '','' (stringify_members ob) @ CHR ''}'' # r) = Some (ob, r)"
      using 8 n Cons by simp
    with 8 n Cons p show ?thesis by (simp only: pval_object)
  qed
next
  case (10 v vs)
  then obtain m where n: "n = Suc m" "jneed v \<le> m" "jneed_elems vs \<le> m" by (cases n) auto
  show ?case
  proof (cases vs)
    case Nil
    have "pval m (stringify v @ CHR '']'' # r) = Some (v, CHR '']'' # r)" using 10 n by simp
    with Nil n show ?thesis by simp
  next
    case (Cons w ws')
    let ?t = "join '','' (stringify_elems vs) @ CHR '']'' # r"
    have "pval m (stringify v @ CHR '','' # ?t) = Some (v, CHR '','' # ?t)" using 10 n by simp
    moreover have "pelems m ?t = Some (vs, r)" using 10 n Cons by simp
    ultimately have "pelems (Suc m) (stringify v @ CHR '','' # ?t) = Some (v # vs, r)"
      by (rule pelems_step_more)
    with Cons n show ?thesis by (simp add: join_Cons del: pelems.simps)
  qed
next
  case (12 k v ob)
  then have v: "v \<noteq> JUndef" by auto
  from 12 obtain m where n: "n = Suc m" "jneed v \<le> m" "jneed_members ob \<le> m" by (cases n) auto
  show ?case
  proof (cases ob)
    case Nil
    have "pval m (stringify v @ CHR ''}'' # r) = Some (v, CHR ''}'' # r)" using 12 n v by simp
    with pmembers_key [of m k "stringify v @ CHR ''}'' # r"] Nil n v show ?thesis
      by (simp del: pmembers.simps)
  next
    case (Cons p ob')
    let ?t = "join '','' (stringify_members ob) @ CHR ''}'' # r"
    have ne: "stringify_members ob \<noteq> []" using 12 Cons by (cases p) auto
    have "pval m (stringify v @ CHR '','' # ?t) = Some (v, CHR '','' # ?t)" using 12 n v by simp
    moreover have "pmembers m ?t = Some (ob, r)" using 12 n Cons v by simp
    ultimately have "pmembers (Suc m) (json_quote k @ '':'' @ stringify v @ CHR '','' # ?t)
        = Some ((k, v) # ob, r)"
      using pmembers_key [of m k "stringify v @ CHR '','' # ?t"] by (simp del: pmembers.simps)
    with Cons n v ne show ?thesis by (simp add: join_Cons del: pmembers.simps)
  qed
qed simp_all

lemma json_quote_length [simp]: "2 \<le> length (json_quote s)"
  by (simp add: json_quote_def)

lemma join_length_Cons:
  "length (join '','' (x # xs)) + (if xs = [] then 1 else 0) = length x + 1 + length (join '','' xs)"
  by (cases xs) auto

lemma jneed_length_all:
  shows "json_wf v \<Longrightarrow> jneed v \<le> length (stringify v)"
    and "json_wf_elems vs \<Longrightarrow> jneed_elems vs \<le> length (join '','' (stringify_elems vs)) + 1"
    and "json_wf_members ob \<Longrightarrow> jneed_members ob \<le> length (join '','' (stringify_members ob)) + 1"
proof (induction v and vs and ob rule: stringify_stringify_elems_stringify_members.induct)
  case (4 n)
  obtain c s where "show_int n = c # s" by (rule show_int_first)
  then show ?case by simp
next
  case (6 s)
  show ?case by (simp add: json_quote_def)
next
  case (10 v vs)
  then show ?case using join_length_Cons [of "stringify v" "stringify_elems vs"]
    by (cases vs) (auto split: if_splits)
next
  case (12 k v ob)
  then have v: "v \<noteq> JUndef" by auto
  show ?case using 12 v join_length_Cons [of "json_quote k @ '':'' @ stringify v" "stringify_members ob"]
    by (cases ob) (auto split: if_splits)
qed auto

text \<open>Parsing what was printed gives the value back.\<close>

lemma json_roundtrip: "json_wf v \<Longrightarrow> json_parse (stringify v) = Some v"
proof -
  assume v: "json_wf v"
  have "pval (2 * length (stringify v) + 1) (stringify v @ []) = Some (v, [])"
    using v jneed_length_all(1) [OF v] by (intro pval_stringify_all(1)) auto
  then show ?thesis by (simp add: json_parse_def ws_def del: pval.simps)
qed

section \<open>The fuel is enough for every text\<close>

lemma ws_length: "length (ws s) \<le> length s"
  by (simp add: ws_def length_dropWhile_le)

lemma ws_Cons_length: "ws s = c # r \<Longrightarrow> length r < length s"
  using ws_length [of s] by simp

lemma pstr_length: "pstr s = Some (x, r) \<Longrightarrow> length r < length s"
proof (induction s arbitrary: x r rule: pstr.induct)
  case (2 c r0)
  show ?case
    using "2.prems" "2.IH"
    by (fastforce simp: push_char_def split: if_splits list.splits option.splits)
qed simp

lemma pnum_length: "pnum s = Some (v, r) \<Longrightarrow> length r < length s"
proof -
  have d: "length t < length u" if "pdigits u = Some (n, t)" for u n t
  proof -
    from that have "takeWhile is_digit u \<noteq> []" "t = dropWhile is_digit u"
      by (auto simp: pdigits_def Let_def split: if_splits)
    then show ?thesis
      by (metis append_self_conv2 length_append length_greater_0_conv less_add_same_cancel2
          takeWhile_dropWhile_id)
  qed
  assume "pnum s = Some (v, r)"
  then show ?thesis by (auto simp: pnum_def split: list.splits if_splits dest!: d)
qed

lemma plit_length: "l \<noteq> [] \<Longrightarrow> plit l v s = Some (w, r) \<Longrightarrow> length r < length s"
  by (cases s) (auto simp: plit_def split: if_splits)

lemma parse_length:
  shows "pval n s = Some (v, r) \<Longrightarrow> length r < length s"
    and "pelems n s = Some (vs, r) \<Longrightarrow> length r < length s"
    and "pmembers n s = Some (ob, r) \<Longrightarrow> length r < length s"
proof (induction n s and n s and n s arbitrary: v r and vs r and ob r
    rule: pval_pelems_pmembers.induct)
  case (2 n s)
  then obtain c t where c: "ws s = c # t" by (auto split: list.splits)
  consider (str) "c = CHR 0x22" | (arr) "c = CHR ''[''" | (obj) "c = CHR ''{''"
    | (lit) l w where "c \<noteq> CHR 0x22" "c \<noteq> CHR ''[''" "c \<noteq> CHR ''{''" "l \<noteq> []" "plit l w (c # t) = Some (v, r)"
    | (num) "pnum (c # t) = Some (v, r)"
    using "2.prems" c by (auto split: if_splits)
  then have "length r < Suc (length t)"
  proof cases
    case str
    with "2.prems" c show ?thesis by (auto dest: pstr_length)
  next
    case arr
    with "2.prems" c obtain d u where d: "ws t = d # u" by (auto split: list.splits)
    have "length q < length t" if "pelems n t = Some (a, q)" "d \<noteq> CHR '']''" for a q
      using arr c d that by (intro "2.IH"(1)) auto
    with arr c d "2.prems" ws_Cons_length [OF d] show ?thesis
      by (auto split: if_splits intro: less_SucI)
  next
    case obj
    with "2.prems" c obtain d u where d: "ws t = d # u" by (auto split: list.splits)
    have "length q < length t" if "pmembers n t = Some (a, q)" "d \<noteq> CHR ''}''" for a q
      using obj c d that by (intro "2.IH"(2)) auto
    with obj c d "2.prems" ws_Cons_length [OF d] show ?thesis
      by (auto split: if_splits intro: less_SucI)
  next
    case lit
    then show ?thesis using plit_length by fastforce
  next
    case num
    then show ?thesis using pnum_length by fastforce
  qed
  then show ?case using ws_Cons_length [OF c] by simp
next
  case (4 n s)
  from "4.prems" obtain w u where w: "pval n s = Some (w, u)" by (auto split: option.splits)
  with "4.prems" obtain c t where c: "ws u = c # t" by (auto split: list.splits)
  have "length u < length s" using "4.IH"(1) w by blast
  moreover have "length t < length u" using c by (rule ws_Cons_length)
  moreover have "length r \<le> length t"
    using "4.prems" w c "4.IH"(2) [OF w] by (fastforce split: if_splits)
  ultimately show ?case by simp
next
  case (6 n s)
  from "6.prems" obtain q t where q: "ws s = q # t" "q = CHR 0x22"
    by (auto split: list.splits if_splits)
  with "6.prems" obtain k r1 where k: "pstr t = Some (k, r1)" by (auto split: option.splits)
  with q "6.prems" obtain c r2 where c: "ws r1 = c # r2" "c = CHR '':''"
    by (auto split: list.splits if_splits)
  with q k "6.prems" obtain w r3 where w: "pval n r2 = Some (w, r3)" by (auto split: option.splits)
  with q k c "6.prems" obtain d t' where d: "ws r3 = d # t'" by (auto split: list.splits)
  have "length r3 < length r2" using "6.IH"(1) q k c w by simp
  moreover have "length r \<le> length t'"
    using "6.prems" q k c w d "6.IH"(2) by (fastforce split: if_splits)
  ultimately show ?case
    using ws_Cons_length [OF q(1)] pstr_length [OF k] ws_Cons_length [OF c(1)] ws_Cons_length [OF d]
    by simp
qed simp_all

lemma parse_fuel_step:
  shows "2 * length s < n \<Longrightarrow> pval (Suc n) s = pval n s"
    and "2 * length s + 1 < n \<Longrightarrow> pelems (Suc n) s = pelems n s"
    and "2 * length s + 1 < n \<Longrightarrow> pmembers (Suc n) s = pmembers n s"
proof (induction n arbitrary: s)
  case (Suc n)
  {
    case 1
    show ?case
    proof (cases "ws s")
      case (Cons c r)
      then have r: "2 * length r + 1 < n" using ws_Cons_length [OF Cons] 1 by simp
      show ?thesis
        using Suc(2) [OF r] Suc(3) [OF r] Cons
        by (simp only: pval.simps(2) [of "Suc n"] pval.simps(2) [of n] list.case)
    qed simp
  next
    case 2
    then have v: "pval (Suc n) s = pval n s" by (intro Suc) simp
    have e: "pelems (Suc n) t = pelems n t" if "pval n s = Some (w, u)" "ws u = c # t" for w u c t
    proof -
      have "length t < length s"
        using parse_length(1) [OF that(1)] ws_Cons_length [OF that(2)] by simp
      with 2 show ?thesis by (intro Suc) simp
    qed
    show ?case
      using e by (simp only: pelems.simps(2) [of "Suc n"] pelems.simps(2) [of n] v)
        (simp del: pelems.simps split: option.split prod.split list.split)
  next
    case 3
    have v: "pval (Suc n) r2 = pval n r2"
      if "ws s = q # r" "pstr r = Some (k, r1)" "ws r1 = c # r2" for q r k r1 c r2
    proof -
      have "length r2 < length s"
        using ws_Cons_length [OF that(1)] pstr_length [OF that(2)] ws_Cons_length [OF that(3)] by simp
      with 3 show ?thesis by (intro Suc) simp
    qed
    have e: "pmembers (Suc n) t = pmembers n t"
      if "ws s = q # r" "pstr r = Some (k, r1)" "ws r1 = c # r2" "pval n r2 = Some (w, r3)" "ws r3 = d # t"
      for q r k r1 c r2 w r3 d t
    proof -
      have "length t < length s"
        using ws_Cons_length [OF that(1)] pstr_length [OF that(2)] ws_Cons_length [OF that(3)]
          parse_length(1) [OF that(4)] ws_Cons_length [OF that(5)] by simp
      with 3 show ?thesis by (intro Suc) simp
    qed
    show ?case
      using v e by (simp only: pmembers.simps(2) [of "Suc n"] pmembers.simps(2) [of n])
        (simp del: pmembers.simps pval.simps split: option.split prod.split list.split)
  }
qed simp_all

lemma pval_fuel_enough: "2 * length s < n \<Longrightarrow> pval n s = pval (2 * length s + 1) s"
proof (induction n)
  case (Suc n)
  show ?case
  proof (cases "2 * length s < n")
    case True
    then show ?thesis using Suc parse_fuel_step(1) [OF True] by simp
  next
    case False
    with Suc.prems have "n = 2 * length s" by simp
    then show ?thesis by simp
  qed
qed simp

end
