(* ===== verification/Util.thy ===== *)
theory Util
  imports Md5
begin

text \<open>
  \<open>src/src/util.js\<close>: the AES-CBC encryption of local bulb commands and the login password hash.
  The AES-128 block cipher of OpenSSL is the pair of parameters \<open>E\<close> and \<open>D\<close> (key, block); what the
  code relies on is \<open>block_cipher E D\<close>: for a 16-byte key both map 16-byte blocks to 16-byte blocks
  and \<open>D key\<close> undoes \<open>E key\<close>. CBC chaining and Node's automatic PKCS 7 padding are modelled.
\<close>

type_synonym block_fn = "bytes \<Rightarrow> bytes \<Rightarrow> bytes"

definition block_cipher :: "block_fn \<Rightarrow> block_fn \<Rightarrow> bool" where
  "block_cipher E D = (\<forall>key b. length key = 16 \<and> length b = 16 \<and> byte_list b \<longrightarrow>
     length (E key b) = 16 \<and> byte_list (E key b) \<and> D key (E key b) = b)"

section \<open>Buffers\<close>

text \<open>\<open>Buffer.from(s, 'ascii')\<close> keeps the low byte; \<open>toString('ascii')\<close> clears the top bit.\<close>

definition buffer_ascii :: "string \<Rightarrow> bytes" where
  "buffer_ascii s = map (\<lambda>c. of_char c) s"

definition string_ascii :: "bytes \<Rightarrow> string" where
  "string_ascii bs = map (\<lambda>b. char_of (b mod 128)) bs"

definition PADDING :: nat where "PADDING = 5"
definition BLOCK_SIZE :: nat where "BLOCK_SIZE = 16"

definition pad :: "string \<Rightarrow> bytes" where
  "pad plainText =
     (let raw = buffer_ascii plainText; padNum = BLOCK_SIZE - length raw mod BLOCK_SIZE
      in raw @ replicate padNum PADDING)"

section \<open>CBC with PKCS 7 padding\<close>

definition xor_bytes :: "bytes \<Rightarrow> bytes \<Rightarrow> bytes" where
  "xor_bytes a b = map2 xor_byte a b"

fun chunks :: "nat \<Rightarrow> bytes \<Rightarrow> bytes list" where
  "chunks 0 bs = []"
| "chunks (Suc n) bs = take 16 bs # chunks n (drop 16 bs)"

fun cbc_encrypt :: "block_fn \<Rightarrow> bytes \<Rightarrow> bytes \<Rightarrow> bytes list \<Rightarrow> bytes" where
  "cbc_encrypt E key iv [] = []"
| "cbc_encrypt E key iv (b # bs) =
     (let c = E key (xor_bytes b iv) in c @ cbc_encrypt E key c bs)"

fun cbc_decrypt :: "block_fn \<Rightarrow> bytes \<Rightarrow> bytes \<Rightarrow> bytes list \<Rightarrow> bytes" where
  "cbc_decrypt D key iv [] = []"
| "cbc_decrypt D key iv (c # cs) = xor_bytes (D key c) iv @ cbc_decrypt D key c cs"

definition pkcs7_pad :: "bytes \<Rightarrow> bytes" where
  "pkcs7_pad bs = (let n = 16 - length bs mod 16 in bs @ replicate n n)"

definition pkcs7_unpad :: "bytes \<Rightarrow> bytes option" where
  "pkcs7_unpad bs =
     (if bs = [] then None
      else let n = last bs in
        if 1 \<le> n \<and> n \<le> 16 \<and> n \<le> length bs \<and> drop (length bs - n) bs = replicate n n
        then Some (take (length bs - n) bs) else None)"

definition aes_cbc_encrypt :: "block_fn \<Rightarrow> bytes \<Rightarrow> bytes \<Rightarrow> bytes \<Rightarrow> string + bytes" where
  "aes_cbc_encrypt E key iv raw =
     (if length key \<noteq> 16 then Inl ''Invalid key length''
      else if length iv \<noteq> 16 then Inl ''Invalid initialization vector''
      else let p = pkcs7_pad raw in Inr (cbc_encrypt E key iv (chunks (length p div 16) p)))"

definition aes_cbc_decrypt :: "block_fn \<Rightarrow> bytes \<Rightarrow> bytes \<Rightarrow> bytes \<Rightarrow> string + bytes" where
  "aes_cbc_decrypt D key iv enc =
     (if length key \<noteq> 16 then Inl ''Invalid key length''
      else if length iv \<noteq> 16 then Inl ''Invalid initialization vector''
      else if length enc mod 16 \<noteq> 0 then Inl ''wrong final block length''
      else case pkcs7_unpad (cbc_decrypt D key iv (chunks (length enc div 16) enc)) of
        None \<Rightarrow> Inl ''bad decrypt'' | Some bs \<Rightarrow> Inr bs)"

section \<open>The exported functions\<close>

text \<open>\<open>b64Enc.replace(/\//g, '\\/')\<close> writes a backslash before every slash.\<close>

definition escape_slash :: "string \<Rightarrow> string" where
  "escape_slash s = concat (map (\<lambda>c. if c = CHR ''/'' then [CHR 0x5C, c] else [c]) s)"

definition wyzeEncrypt :: "block_fn \<Rightarrow> string \<Rightarrow> string \<Rightarrow> string + string" where
  "wyzeEncrypt E key plain =
     (let raw = pad plain; keyBuffer = buffer_ascii key; iv = keyBuffer
      in case aes_cbc_encrypt E keyBuffer iv raw of
           Inl e \<Rightarrow> Inl e | Inr enc \<Rightarrow> Inr (escape_slash (b64_encode enc)))"

definition wyzeDecrypt :: "block_fn \<Rightarrow> string \<Rightarrow> string \<Rightarrow> string + string" where
  "wyzeDecrypt D key enc =
     (let encBuffer = b64_decode enc; keyBuffer = buffer_ascii key; iv = keyBuffer
      in case aes_cbc_decrypt D keyBuffer iv encBuffer of
           Inl e \<Rightarrow> Inl e
         | Inr decrypt \<Rightarrow> Inr (filter (\<lambda>c. c \<noteq> CHR 0x05) (string_ascii decrypt)))"

definition createPassword :: "string \<Rightarrow> string" where
  "createPassword password =
     (let hex1 = md5_hex password; hex2 = md5_hex hex1; finalHash = md5_hex hex2 in finalHash)"

section \<open>Lemmas\<close>

lemma byte_buffer_ascii [simp]: "byte_list (buffer_ascii s)"
  by (simp add: buffer_ascii_def byte_list_def list_all_iff)

lemma length_buffer_ascii [simp]: "length (buffer_ascii s) = length s"
  by (simp add: buffer_ascii_def)

lemma xor_byte_cancel: "x < 256 \<Longrightarrow> xor_byte (xor_byte x y) y = x"
  by (simp add: xor_byte_def xor.assoc unsigned_of_nat take_bit_nat_eq_self)

lemma xor_byte_bound [simp]: "xor_byte x y < 256"
  using unsigned_less [of "(of_nat x :: 8 word) XOR of_nat y", where ?'a = nat] by (simp add: xor_byte_def)

lemma length_xor_bytes [simp]: "length (xor_bytes a b) = min (length a) (length b)"
  by (simp add: xor_bytes_def)

lemma byte_list_xor [simp]: "byte_list (xor_bytes a b)"
  by (auto simp: xor_bytes_def byte_list_def list_all_iff)

lemma xor_bytes_cancel: "byte_list a \<Longrightarrow> length a = length b \<Longrightarrow> xor_bytes (xor_bytes a b) b = a"
  by (rule nth_equalityI) (auto simp: xor_bytes_def byte_list_def list_all_length xor_byte_cancel)

lemma chunks_append:
  "length a = 16 \<Longrightarrow> chunks (Suc n) (a @ bs) = a # chunks n bs"
  by simp

lemma concat_chunks: "length bs = 16 * n \<Longrightarrow> concat (chunks n bs) = bs"
  by (induction n arbitrary: bs) auto

definition is_block :: "bytes \<Rightarrow> bool" where
  "is_block b = (length b = 16 \<and> byte_list b)"

lemma chunks_blocks: "length bs = 16 * n \<Longrightarrow> byte_list bs \<Longrightarrow> list_all is_block (chunks n bs)"
proof (induction n arbitrary: bs)
  case (Suc n)
  then have "byte_list (take 16 bs)" "byte_list (drop 16 bs)"
    by (auto simp: byte_list_def list_all_iff dest: in_set_takeD in_set_dropD)
  with Suc show ?case by (auto simp: is_block_def)
qed simp

lemma cbc_roundtrip:
  assumes "block_cipher E D" "length key = 16" "is_block iv" "list_all is_block bs"
  shows "length (cbc_encrypt E key iv bs) = 16 * length bs \<and> byte_list (cbc_encrypt E key iv bs) \<and>
    cbc_decrypt D key iv (chunks (length bs) (cbc_encrypt E key iv bs)) = concat bs"
  using assms(3,4)
proof (induction bs arbitrary: iv)
  case Nil
  then show ?case by (simp add: byte_list_def)
next
  case (Cons b bs)
  let ?c = "E key (xor_bytes b iv)"
  have x: "length (xor_bytes b iv) = 16" "byte_list (xor_bytes b iv)"
    using Cons.prems by (auto simp: is_block_def)
  with assms have c: "is_block ?c" "D key ?c = xor_bytes b iv"
    by (auto simp: block_cipher_def is_block_def)
  moreover have "xor_bytes (xor_bytes b iv) iv = b"
    using Cons.prems by (intro xor_bytes_cancel) (auto simp: is_block_def)
  ultimately show ?case
    using Cons.IH [OF c(1)] Cons.prems by (auto simp: Let_def is_block_def)
qed

lemma pkcs7_roundtrip: "pkcs7_unpad (pkcs7_pad bs) = Some bs"
  by (auto simp: pkcs7_unpad_def pkcs7_pad_def Let_def last_append)

lemma pkcs7_pad_blocks: "length (pkcs7_pad bs) = 16 * (length (pkcs7_pad bs) div 16)"
proof -
  have "(length bs + (16 - length bs mod 16)) mod 16 = 0" by presburger
  then show ?thesis by (auto simp: pkcs7_pad_def Let_def)
qed

lemma byte_list_pkcs7 [simp]: "byte_list bs \<Longrightarrow> byte_list (pkcs7_pad bs)"
  by (auto simp: pkcs7_pad_def Let_def byte_list_def list_all_iff)

lemma length_chunks [simp]: "length (chunks n bs) = n"
  by (induction n arbitrary: bs) auto

lemma aes_roundtrip:
  assumes "block_cipher E D" "is_block key" "byte_list raw"
  shows "\<exists>enc. aes_cbc_encrypt E key key raw = Inr enc \<and> byte_list enc \<and> aes_cbc_decrypt D key key enc = Inr raw"
proof -
  let ?p = "pkcs7_pad raw" and ?n = "length (pkcs7_pad raw) div 16"
  have key: "length key = 16" using assms(2) by (simp add: is_block_def)
  have bl: "list_all is_block (chunks ?n ?p)"
    using pkcs7_pad_blocks assms(3) by (intro chunks_blocks) auto
  have cc: "concat (chunks ?n ?p) = ?p" by (rule concat_chunks [OF pkcs7_pad_blocks])
  show ?thesis
    using cbc_roundtrip [OF assms(1) key assms(2) bl] key cc
    by (simp add: aes_cbc_encrypt_def aes_cbc_decrypt_def Let_def pkcs7_roundtrip)
qed

lemma takeWhile_escape:
  "b64_sextets (escape_slash s) = b64_sextets s"
proof (induction s)
  case (Cons c s)
  have v: "b64_val (CHR 0x5C) = None" by (simp add: b64_val_def)
  show ?case
  proof (cases "c = CHR ''/''")
    case True
    then have "escape_slash (c # s) = [] @ CHR 0x5C # CHR ''/'' # escape_slash s"
      by (simp add: escape_slash_def)
    with v have "b64_sextets (escape_slash (c # s)) = b64_sextets (CHR ''/'' # escape_slash s)"
      using sextets_skip [of "CHR 0x5C" "[]"] by simp
    with Cons True show ?thesis by (simp add: b64_sextets_def map_filter_simps split: option.split)
  next
    case False
    then have "escape_slash (c # s) = c # escape_slash s" by (simp add: escape_slash_def)
    with Cons show ?thesis by (simp add: b64_sextets_def map_filter_simps split: option.split)
  qed
qed (simp add: escape_slash_def)

lemma escape_slash_decode: "b64_decode (escape_slash s) = b64_decode s"
  by (simp add: b64_decode_def takeWhile_escape)

lemma string_ascii_buffer: "list_all (\<lambda>c. (of_char c :: nat) < 128) s \<Longrightarrow> string_ascii (buffer_ascii s) = s"
  by (simp add: string_ascii_def buffer_ascii_def list_all_iff map_idI)

section \<open>Properties\<close>

text \<open>
  C22. Local bulb encryption round trip. With a 16-character key every ASCII text without the pad
  character is recovered by \<open>wyzeDecrypt\<close> from \<open>wyzeEncrypt\<close>'s output, through the double padding
  (the program's 0x05 block and OpenSSL's own) and the escaped slashes of the base64 text.
\<close>

theorem wyze_encrypt_roundtrip:
  assumes "block_cipher E D" "length key = 16"
    and "ascii plain" "CHR 0x05 \<notin> set plain"
  shows "\<exists>enc. wyzeEncrypt E key plain = Inr enc \<and> wyzeDecrypt D key enc = Inr plain"
proof -
  have key: "is_block (buffer_ascii key)" using assms(2) by (simp add: is_block_def)
  have "byte_list (pad plain)"
    by (auto simp: pad_def Let_def PADDING_def) (simp add: byte_list_def list_all_iff)
  then obtain enc where enc: "aes_cbc_encrypt E (buffer_ascii key) (buffer_ascii key) (pad plain) = Inr enc"
      "byte_list enc" "aes_cbc_decrypt D (buffer_ascii key) (buffer_ascii key) enc = Inr (pad plain)"
    using aes_roundtrip [OF assms(1) key] by blast
  have five: "char_of (5::nat) = (CHR 0x05 :: char)" by code_simp
  have "filter (\<lambda>c. c \<noteq> CHR 0x05) (string_ascii (pad plain)) = plain"
    using assms(3,4) string_ascii_buffer [of plain]
    by (auto simp: pad_def Let_def PADDING_def string_ascii_def ascii_def filter_id_conv five)
  with enc show ?thesis
    by (auto simp: wyzeEncrypt_def wyzeDecrypt_def Let_def escape_slash_decode b64_roundtrip)
qed

text \<open>
  A key that is not 16 characters long is refused by both directions before any block is
  processed, and decryption refuses input that is not a whole number of blocks.
\<close>

theorem wyze_bad_key:
  assumes "length key \<noteq> 16"
  shows "wyzeEncrypt E key plain = Inl ''Invalid key length'' \<and> wyzeDecrypt D key enc = Inl ''Invalid key length''"
  using assms by (simp add: wyzeEncrypt_def wyzeDecrypt_def aes_cbc_encrypt_def aes_cbc_decrypt_def)

lemma wyze_bad_key_witness:
  "wyzeEncrypt (\<lambda>k b. b) ''short'' ''x'' = Inl ''Invalid key length''"
  by (rule wyze_bad_key [THEN conjunct1]) simp

text \<open>A block cipher for the witness: exclusive or with the key is its own inverse.\<close>

definition xor_cipher :: block_fn where
  "xor_cipher key b = xor_bytes b key"

lemma block_cipher_xor: "block_cipher xor_cipher xor_cipher"
  by (auto simp: block_cipher_def xor_cipher_def xor_bytes_cancel)

lemma wyze_encrypt_roundtrip_witness:
  "\<exists>enc. wyzeEncrypt xor_cipher ''0123456789abcdef'' ''{mac:1}'' = Inr enc
     \<and> wyzeDecrypt xor_cipher ''0123456789abcdef'' enc = Inr ''{mac:1}''"
  by (rule wyze_encrypt_roundtrip [OF block_cipher_xor]) (simp_all add: ascii_def)

end
