(* ===== verification/WyzeState.thy ===== *)
theory WyzeState
  imports Effects JsonText Crypto Util
begin

text \<open>
  The state of one \<open>WyzeAPI\<close> object of \<open>src/src/index.js\<close> and its surroundings: the constructor,
  the HTTP requests it has sent, the token file, the clock and the log lines of the request path.
  \<open>env\<close> collects what is not the program's own: the server's answers, the latency, file-system
  faults, the \<open>uuid-by-string\<close> and \<open>utf8\<close> packages, \<open>Date.parse\<close>, random numbers, and what other
  asynchronous tasks of the process do to the object while it waits for a login debounce.
\<close>

section \<open>HTTP data and errors\<close>

record http_response =
  resp_status :: jsval
  resp_headers :: obj
  resp_data :: jsval

text \<open>An exception: its class, its message and, for axios errors, the response it carries.\<close>

datatype exn = Exn (ename: string) (emsg: string) (eresp: "http_response option")

definition Error :: "string \<Rightarrow> exn" where "Error m = Exn ''Error'' m None"
definition TypeError :: "string \<Rightarrow> exn" where "TypeError m = Exn ''TypeError'' m None"

definition exn_string :: "exn \<Rightarrow> string" where
  "exn_string e = ename e @ '': '' @ emsg e"

record api_error =
  retryAfter :: int
  err_message :: string
  err_code :: jsval

record api_result = http_response +
  ar_ok :: bool
  ar_error :: "api_error option"

record http_request =
  rq_method :: string
  rq_url :: string
  rq_base :: jsval
  rq_headers :: obj
  rq_params :: obj
  rq_data :: jsval

section \<open>The object\<close>

record config =
  persistPath :: jsval
  refreshTokenTimerEnabled :: jsval
  lowBatteryPercentage :: jsval
  username :: jsval
  password :: jsval
  mfaCode :: jsval
  apiKey :: jsval
  keyId :: jsval
  apiLogEnabled :: bool
  authBaseUrl :: jsval
  apiBaseUrl :: jsval
  authApiKey :: jsval
  phoneId :: jsval
  appName :: jsval
  appVer :: jsval
  appVersion :: jsval
  userAgent :: jsval
  sc :: jsval
  sv :: jsval
  cfg_fordAppKey :: jsval
  cfg_fordAppSecret :: jsval
  cfg_oliveSigningSecret :: jsval
  cfg_oliveAppId :: jsval
  appInfo :: jsval

record st =
  access_token :: jsval
  refresh_token :: jsval
  dumpData :: bool
  lastLoginAttempt :: int
  loginAttemptDebounceMilliseconds :: int
  now :: int
  disk :: "string \<rightharpoonup> string"
  fs_calls :: nat
  sent :: "http_request list"
  logs :: "string list"
  inflight_logins :: "nat list"
  unhandled :: "exn list"
  rand_calls :: nat
  stream_cache :: "(string \<rightharpoonup> obj \<times> int) option"
  capture_cache :: "(jsval \<rightharpoonup> bytes \<times> int) option"

type_synonym ('a) m = "(st, exn, 'a) eff"

record env =
  cfg :: config
  net :: "nat \<Rightarrow> http_request \<Rightarrow> exn + http_response"
  latency :: "nat \<Rightarrow> nat"
  fs_write_fault :: "nat \<Rightarrow> (exn \<times> string option) option"
  fs_read_fault :: "nat \<Rightarrow> exn option"
  uuid_of :: "jsval \<Rightarrow> exn + jsval"
  date_parse :: "jsval \<Rightarrow> int option"
  utf8pkg :: "string \<Rightarrow> string"
  random :: "nat \<Rightarrow> nat"
  random_bytes :: "nat \<Rightarrow> nat \<Rightarrow> bytes"
  aes_enc :: block_fn
  stringify_result :: "api_result \<Rightarrow> exn + string"
  others :: "st \<Rightarrow> st"

section \<open>constructor\<close>

text \<open>
  The options object, the package version of the user agent and the time of construction give
  the configuration, the fresh object and the interval of the refresh timer, if one is started.
\<close>

definition construct_config :: "string \<Rightarrow> obj \<Rightarrow> config" where
  "construct_config packageVersion options =
     (let opt = (\<lambda>k dflt. js_or (oget options k) (JStr dflt)) in
      \<lparr>persistPath = oget options ''persistPath'',
       refreshTokenTimerEnabled = js_or (oget options ''refreshTokenTimerEnabled'') (JBool False),
       lowBatteryPercentage = js_or (oget options ''lowBatteryPercentage'') (JNum 30),
       username = oget options ''username'',
       password = oget options ''password'',
       mfaCode = oget options ''mfaCode'',
       apiKey = oget options ''apiKey'',
       keyId = oget options ''keyId'',
       apiLogEnabled = truthy (oget options ''apiLogEnabled''),
       authBaseUrl = opt ''authBaseUrl'' c_authBaseUrl,
       apiBaseUrl = js_or (oget options ''apiBaseUrl'') (opt ''baseUrl'' c_apiBaseUrl),
       authApiKey = opt ''authApiKey'' c_authApiKey,
       phoneId = opt ''phoneId'' c_phoneId,
       appName = opt ''appName'' c_appName,
       appVer = opt ''appVer'' c_appVer,
       appVersion = opt ''appVersion'' c_appVersion,
       userAgent = opt ''userAgent'' (c_userAgent packageVersion),
       sc = opt ''sc'' c_sc,
       sv = opt ''sv'' c_sv,
       cfg_fordAppKey = opt ''fordAppKey'' fordAppKey,
       cfg_fordAppSecret = opt ''fordAppSecret'' fordAppSecret,
       cfg_oliveSigningSecret = opt ''oliveSigningSecret'' oliveSigningSecret,
       cfg_oliveAppId = opt ''oliveAppId'' oliveAppId,
       appInfo = opt ''appInfo'' c_appInfo\<rparr>)"

definition construct_state :: "int \<Rightarrow> (string \<rightharpoonup> string) \<Rightarrow> st" where
  "construct_state t files =
     \<lparr>access_token = JStr '''', refresh_token = JStr '''', dumpData = False, lastLoginAttempt = 0,
      loginAttemptDebounceMilliseconds = 1000, now = t, disk = files, fs_calls = 0, sent = [],
      logs = [], inflight_logins = [], unhandled = [],
      rand_calls = 0, stream_cache = None, capture_cache = None\<rparr>"

definition construct_timer :: "config \<Rightarrow> int option" where
  "construct_timer c =
     (if refreshTokenTimerEnabled c = JBool True then Some (timer_delay (Some 172800)) else None)"

section \<open>Clock, log and request data\<close>

definition sleepMilliSecounds :: "int option \<Rightarrow> unit m" where
  "sleepMilliSecounds ms = modS (\<lambda>s. s\<lparr>now := now s + timer_delay ms\<rparr>)"

definition sleepSeconds :: "int \<Rightarrow> unit m" where
  "sleepSeconds seconds = sleepMilliSecounds (Some (seconds * 1000))"

definition log_line :: "string \<Rightarrow> unit m" where
  "log_line l = modS (\<lambda>s. s\<lparr>logs := logs s @ [l]\<rparr>)"

definition getRequestData :: "env \<Rightarrow> st \<Rightarrow> obj \<Rightarrow> obj" where
  "getRequestData E s data =
     spread
       [(''access_token'', access_token s),
        (''app_name'', appName (cfg E)),
        (''app_ver'', appVer (cfg E)),
        (''app_version'', appVersion (cfg E)),
        (''phone_id'', phoneId (cfg E)),
        (''phone_system_type'', JStr ''1''),
        (''sc'', sc (cfg E)),
        (''sv'', sv (cfg E)),
        (''ts'', JNum (now s))] data"

text \<open>One call of \<open>Math.random\<close> and of \<open>crypto.randomBytes(n).toString('hex')\<close>.\<close>

definition math_random :: "env \<Rightarrow> nat m" where
  "math_random E = (\<lambda>s. Some (Inr (random E (rand_calls s)), s\<lparr>rand_calls := rand_calls s + 1\<rparr>))"

definition random_hex :: "env \<Rightarrow> nat \<Rightarrow> string m" where
  "random_hex E n = (\<lambda>s. Some (Inr (to_hex (random_bytes E (rand_calls s) n)), s\<lparr>rand_calls := rand_calls s + 1\<rparr>))"

section \<open>Sending a request\<close>

text \<open>
  \<open>http_dispatch\<close> is the call of axios: the request is on the wire and has a number.
  \<open>http_await\<close> is the \<open>await\<close> of its promise.
\<close>

definition http_dispatch :: "http_request \<Rightarrow> nat m" where
  "http_dispatch rq = (\<lambda>s. Some (Inr (length (sent s)), s\<lparr>sent := sent s @ [rq]\<rparr>))"

definition http_await :: "env \<Rightarrow> nat \<Rightarrow> http_response m" where
  "http_await E i = (\<lambda>s. Some (net E i (sent s ! i), s\<lparr>now := now s + int (latency E i)\<rparr>))"

definition http_send :: "env \<Rightarrow> http_request \<Rightarrow> http_response m" where
  "http_send E rq = bindE (http_dispatch rq) (http_await E)"

section \<open>Token persistence\<close>

text \<open>\<open>path.join(a, b)\<close> on POSIX: concatenation with a slash and normalisation.\<close>

fun norm_segments :: "bool \<Rightarrow> string list \<Rightarrow> string list \<Rightarrow> string list" where
  "norm_segments isAbs acc [] = rev acc"
| "norm_segments isAbs acc (p # ps) =
     (if p = '''' \<or> p = ''.'' then norm_segments isAbs acc ps
      else if p = ''..'' then
        (case acc of
           a # acc' \<Rightarrow> if a = ''..'' then norm_segments isAbs (p # acc) ps else norm_segments isAbs acc' ps
         | [] \<Rightarrow> norm_segments isAbs (if isAbs then [] else [p]) ps)
      else norm_segments isAbs (p # acc) ps)"

definition path_normalize :: "string \<Rightarrow> string" where
  "path_normalize p =
     (if p = '''' then ''.''
      else let isAbs = (hd p = CHR ''/''); body = join ''/'' (norm_segments isAbs [] (split_on CHR ''/'' p));
             trail = (last p = CHR ''/'');
             body' = (if body = '''' then (if isAbs then '''' else if trail then ''./'' else ''.'')
                      else if trail then body @ ''/'' else body)
           in if isAbs then CHR ''/'' # body' else body')"

definition path_join :: "string \<Rightarrow> string \<Rightarrow> string" where
  "path_join a b =
     (let parts = filter (\<lambda>p. p \<noteq> '''') [a, b]
      in if parts = [] then ''.'' else path_normalize (join ''/'' parts))"

definition tokenPersistPath :: "env \<Rightarrow> exn + string" where
  "tokenPersistPath E =
     (case uuid_of E (username (cfg E)) of
        Inl e \<Rightarrow> Inl e
      | Inr uuid \<Rightarrow>
          if \<not> truthy uuid then Inl (Error ''Failed to generate UUID for token persistence path.'')
          else (case persistPath (cfg E) of
                  JStr p \<Rightarrow> Inr (path_join p (''wyze-'' @ js_string uuid @ ''.json''))
                | _ \<Rightarrow> Inl (TypeError ''The path argument must be of type string.'')))"

definition writeFile :: "env \<Rightarrow> string \<Rightarrow> string \<Rightarrow> unit m" where
  "writeFile E path content = (\<lambda>s.
     let n = fs_calls s; s' = s\<lparr>fs_calls := n + 1\<rparr> in
     case fs_write_fault E n of
       None \<Rightarrow> Some (Inr (), s'\<lparr>disk := (disk s)(path \<mapsto> content)\<rparr>)
     | Some (e, left) \<Rightarrow>
         Some (Inl e, case left of None \<Rightarrow> s' | Some c \<Rightarrow> s'\<lparr>disk := (disk s)(path \<mapsto> c)\<rparr>))"

definition readFile :: "env \<Rightarrow> string \<Rightarrow> string m" where
  "readFile E path = (\<lambda>s.
     let n = fs_calls s; s' = s\<lparr>fs_calls := n + 1\<rparr> in
     case fs_read_fault E n of
       Some e \<Rightarrow> Some (Inl e, s')
     | None \<Rightarrow> (case disk s path of
         None \<Rightarrow> Some (Inl (Error ''ENOENT: no such file or directory''), s')
       | Some c \<Rightarrow> Some (Inr c, s')))"

text \<open>
  The loop of \<open>_persistTokens\<close> and \<open>refreshToken\<close>: \<open>n\<close> attempts, \<open>between\<close> after each failure but
  the last, whose error \<open>final\<close> turns into the one that is thrown.
\<close>

fun attempts :: "nat \<Rightarrow> unit m \<Rightarrow> unit m \<Rightarrow> (exn \<Rightarrow> exn) \<Rightarrow> unit m" where
  "attempts 0 body between final = ret ()"
| "attempts (Suc n) body between final =
     catchE body (\<lambda>e. if 0 < n then seqE between (attempts n body between final) else throw (final e))"

definition persistTokens :: "env \<Rightarrow> unit m" where
  "persistTokens E =
     bindE (getS (\<lambda>s. JObj [(''access_token'', access_token s), (''refresh_token'', refresh_token s)])) (\<lambda>data.
     bindE (liftE (tokenPersistPath E)) (\<lambda>tokenPath.
     attempts 2 (writeFile E tokenPath (stringify data)) (sleepSeconds 2)
       (\<lambda>e. Error (''Failed to persist tokens: '' @ emsg e))))"

definition updateTokens :: "env \<Rightarrow> jsval \<Rightarrow> unit m" where
  "updateTokens E tokens =
     catchE
       (seqE (modS (\<lambda>s. s\<lparr>access_token := own_prop tokens ''access_token'',
                        refresh_token := own_prop tokens ''refresh_token''\<rparr>))
             (persistTokens E))
       (\<lambda>e. throw (Error (''Failed to update tokens: '' @ emsg e)))"

definition parse_tokens :: "string \<Rightarrow> exn + (jsval \<times> jsval)" where
  "parse_tokens content =
     (case json_parse content of
        None \<Rightarrow> Inl (Exn ''SyntaxError'' ''Unexpected token in JSON'' None)
      | Some parsedData \<Rightarrow>
          (case js_prop parsedData ''access_token'' of
             Inl m \<Rightarrow> Inl (TypeError m)
           | Inr a \<Rightarrow> if truthy a \<and> truthy (own_prop parsedData ''refresh_token'')
                      then Inr (a, own_prop parsedData ''refresh_token'')
                      else Inl (Error ''Persisted tokens are invalid.'')))"

definition loadPersistedTokens :: "env \<Rightarrow> unit m" where
  "loadPersistedTokens E =
     bindE (liftE (tokenPersistPath E)) (\<lambda>tokenPath.
     catchE
       (bindE (readFile E tokenPath) (\<lambda>data.
        bindE (liftE (parse_tokens data)) (\<lambda>(a, r).
        modS (\<lambda>s. s\<lparr>access_token := a, refresh_token := r\<rparr>))))
       (\<lambda>_. ret ()))"

end
