(* ===== verification/Client.thy ===== *)
theory Client
  imports WyzeState
begin

text \<open>
  The request path of \<open>src/src/index.js\<close>: one API request with its response classification,
  rate-limit and token-error handling, the retry after a waiting time, login with its debounce,
  and the refresh of the access token. A method that never settles has the value \<open>None\<close>:
  \<open>_performRequest\<close>, \<open>_handleAccessTokenError\<close> and \<open>refreshToken\<close> call each other without a bound.
\<close>

section \<open>Response classification\<close>

definition isInvalidCredentialsError :: "string \<Rightarrow> bool" where
  "isInvalidCredentialsError errorMessage =
     list_ex (\<lambda>msg. str_includes (to_lower errorMessage) (to_lower msg))
       [''UserNameOrPasswordError'', ''UserIsLocked'', ''Invalid User Name or Password'']"

definition isRateLimitError :: "jsval \<Rightarrow> string \<Rightarrow> bool" where
  "isRateLimitError code errorMessage =
     (code = JNum 3044 \<or>
      (code = JNum 1000 \<and> str_includes (to_lower errorMessage) ''too many failed attempts''))"

definition isAccessTokenError :: "jsval \<Rightarrow> string \<Rightarrow> bool" where
  "isAccessTokenError code errorMessage =
     (code = JNum 2001 \<or> str_includes (to_lower errorMessage) ''accesstokenerror''
      \<or> str_includes (to_lower errorMessage) ''access token is error'')"

definition isBadRequestError :: "jsval \<Rightarrow> bool" where
  "isBadRequestError code = (code \<in> {JNum 1001, JNum 1004})"

definition ok_result :: "http_response \<Rightarrow> api_result" where
  "ok_result r = http_response.extend r \<lparr>ar_ok = True, ar_error = None\<rparr>"

definition failed_result :: "http_response \<Rightarrow> api_error \<Rightarrow> api_result" where
  "failed_result r e = http_response.extend r \<lparr>ar_ok = False, ar_error = Some e\<rparr>"

definition handleRateLimitError :: "http_response \<Rightarrow> string \<Rightarrow> jsval \<Rightarrow> api_result m" where
  "handleRateLimitError result errorMessage code =
     getS (\<lambda>s. failed_result result
       \<lparr>retryAfter = now s + 600000,
        err_message = ''Rate Limited - please wait before trying again. Error: '' @ errorMessage,
        err_code = code\<rparr>)"

definition handleAccessTokenError :: "unit m \<Rightarrow> http_response \<Rightarrow> string \<Rightarrow> jsval \<Rightarrow> api_result m" where
  "handleAccessTokenError refresh result errorMessage code =
     seqE (modS (\<lambda>s. s\<lparr>access_token := JStr ''''\<rparr>))
     (seqE (catchE refresh (\<lambda>e. throw (Error
        (''Refresh Token could not be used to get a new access token. '' @ exn_string e))))
     (getS (\<lambda>s. failed_result result
        \<lparr>retryAfter = (if truthy (access_token s) then now s else 0),
         err_message =
           (if truthy (access_token s)
            then ''Access Token had expired and a new one was obtained. Please retry your request.''
            else ''Access Token Error - please refresh your access token. Error: '' @ errorMessage),
         err_code = code\<rparr>)))"

definition response_code :: "jsval \<Rightarrow> jsval" where
  "response_code d = own_prop d ''code''"

definition response_message :: "jsval \<Rightarrow> jsval" where
  "response_message d =
     js_or (own_prop d ''msg'') (js_or (own_prop d ''description'') (JStr ''Unknown Wyze API Error''))"

definition handleApiResponse :: "unit m \<Rightarrow> http_response \<Rightarrow> string \<Rightarrow> obj \<Rightarrow> api_result m" where
  "handleApiResponse refresh result url data =
     (let d = resp_data result in
      if nullish d
      then throw (TypeError (''Cannot destructure property code of '' @ js_string d))
      else
        let code = response_code d in
        if code \<noteq> JUndef \<and> js_number code \<noteq> Some 1
        then (case response_message d of
           JStr errorMessage \<Rightarrow>
             if isInvalidCredentialsError errorMessage
             then seqE (modS (\<lambda>s. s\<lparr>access_token := JStr ''''\<rparr>)) (throw (Error
               (''Invalid Credentials - please check your credentials & account before trying again. Error: ''
                @ errorMessage)))
             else if isRateLimitError code errorMessage
             then handleRateLimitError result errorMessage code
             else if isAccessTokenError code errorMessage
             then handleAccessTokenError refresh result errorMessage code
             else if isBadRequestError code
             then throw (Error (''Wyze API Bad Request: Check your request parameters - ''
               @ stringify (JObj [(''code'', code), (''message'', JStr errorMessage),
                                  (''url'', JStr url), (''requestBody'', JObj data)])))
             else throw (Error (''Wyze API Error ('' @ js_string code @ '') - '' @ errorMessage))
         | _ \<Rightarrow> throw (TypeError ''errorMessage.toLowerCase is not a function''))
        else ret (ok_result result))"

text \<open>
  What the server said, as a specification: the class of a response body. The order of the tests
  matters, a message can satisfy several of them.
\<close>

datatype outcome = Accepted | Malformed | BadCredentials string | RateLimited string
  | TokenError string | BadRequest string | OtherError string

definition classify :: "jsval \<Rightarrow> outcome" where
  "classify d =
     (if nullish d then Malformed
      else if response_code d = JUndef \<or> js_number (response_code d) = Some 1 then Accepted
      else case response_message d of
        JStr em \<Rightarrow>
          if isInvalidCredentialsError em then BadCredentials em
          else if isRateLimitError (response_code d) em then RateLimited em
          else if isAccessTokenError (response_code d) em then TokenError em
          else if isBadRequestError (response_code d) then BadRequest em
          else OtherError em
      | _ \<Rightarrow> Malformed)"

definition token_error :: "jsval \<Rightarrow> string option" where
  "token_error d = (case classify d of TokenError em \<Rightarrow> Some em | _ \<Rightarrow> None)"

definition respond :: "unit m \<Rightarrow> http_response \<Rightarrow> string \<Rightarrow> obj \<Rightarrow> outcome \<Rightarrow> api_result m" where
  "respond refresh result url data c =
     (case c of
        Accepted \<Rightarrow> ret (ok_result result)
      | Malformed \<Rightarrow> handleApiResponse (ret ()) result url data
      | BadCredentials em \<Rightarrow> seqE (modS (\<lambda>s. s\<lparr>access_token := JStr ''''\<rparr>)) (throw (Error
          (''Invalid Credentials - please check your credentials & account before trying again. Error: '' @ em)))
      | RateLimited em \<Rightarrow> handleRateLimitError result em (response_code (resp_data result))
      | TokenError em \<Rightarrow> handleAccessTokenError refresh result em (response_code (resp_data result))
      | BadRequest em \<Rightarrow> throw (Error (''Wyze API Bad Request: Check your request parameters - ''
          @ stringify (JObj [(''code'', response_code (resp_data result)), (''message'', JStr em),
                             (''url'', JStr url), (''requestBody'', JObj data)])))
      | OtherError em \<Rightarrow> throw (Error
          (''Wyze API Error ('' @ js_string (response_code (resp_data result)) @ '') - '' @ em)))"

lemma handleApiResponse_classify:
  "handleApiResponse refresh result url data = respond refresh result url data (classify (resp_data result))"
proof (cases "nullish (resp_data result)")
  case True
  then show ?thesis by (simp add: respond_def handleApiResponse_def classify_def Let_def)
next
  case False
  show ?thesis
  proof (cases "response_code (resp_data result) = JUndef \<or> js_number (response_code (resp_data result)) = Some 1")
    case True
    with False show ?thesis by (auto simp: respond_def handleApiResponse_def classify_def Let_def)
  next
    case code: False
    show ?thesis
      using False code
      by (cases "response_message (resp_data result)")
        (simp_all add: respond_def handleApiResponse_def classify_def Let_def)
  qed
qed

lemma malformed_throws:
  assumes "classify (resp_data result) = Malformed"
  obtains e where "\<And>r. handleApiResponse r result url data = throw e"
proof (cases "nullish (resp_data result)")
  case True
  then show ?thesis by (intro that) (simp add: handleApiResponse_def Let_def)
next
  case False
  then show ?thesis
    using assms that
    by (cases "response_message (resp_data result)")
      (auto simp: classify_def handleApiResponse_def Let_def split: if_splits)
qed

lemma respond_no_refresh:
  "(\<forall>em. c \<noteq> TokenError em) \<Longrightarrow> respond r result url data c = respond (ret ()) result url data c"
  by (cases c) (auto simp: respond_def)

lemma handleApiResponse_no_refresh:
  "token_error (resp_data result) = None \<Longrightarrow>
   handleApiResponse r result url data = handleApiResponse (ret ()) result url data"
  unfolding handleApiResponse_classify
  by (rule respond_no_refresh) (auto simp: token_error_def split: outcome.splits)

lemma handleApiResponse_refresh:
  "token_error (resp_data result) = Some em \<Longrightarrow>
   handleApiResponse r result url data = handleAccessTokenError r result em (response_code (resp_data result))"
  by (cases "classify (resp_data result)")
    (simp_all only: handleApiResponse_classify, simp_all add: respond_def token_error_def)

section \<open>Logging and rate limits\<close>

text \<open>The replacer of the one-time dump: a value under a key that contains \<open>token\<close> is masked.\<close>

fun redact :: "string \<Rightarrow> jsval \<Rightarrow> jsval"
  and redact_elems :: "nat \<Rightarrow> jsval list \<Rightarrow> jsval list"
  and redact_members :: "obj \<Rightarrow> obj" where
  "redact key v =
     (if str_includes key ''token'' then JStr ''*******''
      else case v of
        JArr vs \<Rightarrow> JArr (redact_elems 0 vs)
      | JObj ob \<Rightarrow> JObj (redact_members ob)
      | _ \<Rightarrow> v)"
| "redact_elems i [] = []"
| "redact_elems i (v # vs) = redact (show_nat i) v # redact_elems (Suc i) vs"
| "redact_members [] = []"
| "redact_members ((k, v) # ob) = (k, redact k v) # redact_members ob"

definition logApiResponse :: "env \<Rightarrow> http_response \<Rightarrow> string \<Rightarrow> unit m" where
  "logApiResponse E result url =
     bindE (getS dumpData) (\<lambda>dump.
     if dump then
       seqE (modS (\<lambda>s. s\<lparr>dumpData := False\<rparr>))
         (log_line (''API response PerformRequest: '' @ stringify (redact '''' (resp_data result))))
     else whenE (apiLogEnabled (cfg E))
       (log_line (''API response PerformRequest: '' @ stringify (JObj
          [(''url'', JStr url), (''status'', resp_status result), (''data'', resp_data result),
           (''headers'', JObj (resp_headers result))]))))"

definition handleRequestError :: "exn \<Rightarrow> string \<Rightarrow> unit m" where
  "handleRequestError err url =
     log_line (''Request Failed: '' @ stringify (JObj
       (case eresp err of
          Some r \<Rightarrow> [(''url'', JStr url), (''status'', resp_status r), (''data'', resp_data r),
                     (''headers'', JObj (resp_headers r))]
        | None \<Rightarrow> [(''url'', JStr url), (''message'', JStr (emsg err))])))"

definition rate_remaining :: "obj \<Rightarrow> int option option" where
  "rate_remaining headers =
     (let h = oget headers ''x-ratelimit-remaining''
      in if truthy h then Some (js_number h) else None)"

definition rate_reset_by :: "env \<Rightarrow> obj \<Rightarrow> int option" where
  "rate_reset_by E headers =
     (let h = oget headers ''x-ratelimit-reset-by''
      in if truthy h then date_parse E h else None)"

definition checkRateLimit :: "env \<Rightarrow> obj \<Rightarrow> unit m" where
  "checkRateLimit E headers =
     (case rate_remaining headers of
        Some (Some r) \<Rightarrow>
          if r < 7
          then bindE (getS (\<lambda>s. map_option (\<lambda>t. t - now s) (rate_reset_by E headers))) sleepMilliSecounds
          else ret ()
      | _ \<Rightarrow> ret ())"

section \<open>One request\<close>

definition request_of :: "obj \<Rightarrow> http_request" where
  "request_of config =
     \<lparr>rq_method = js_string (oget config ''method''), rq_url = js_string (oget config ''url''),
      rq_base = oget config ''baseURL'',
      rq_headers = (case oget config ''headers'' of JObj h \<Rightarrow> h | _ \<Rightarrow> []),
      rq_params = (case oget config ''params'' of JObj h \<Rightarrow> h | _ \<Rightarrow> []),
      rq_data = oget config ''data''\<rparr>"

definition request_config :: "env \<Rightarrow> string \<Rightarrow> obj \<Rightarrow> obj \<Rightarrow> obj" where
  "request_config E url data config =
     spread [(''method'', JStr ''POST''), (''url'', JStr url), (''data'', JObj data),
             (''baseURL'', apiBaseUrl (cfg E))] config"

definition perform_dispatch :: "env \<Rightarrow> string \<Rightarrow> obj \<Rightarrow> obj \<Rightarrow> nat m" where
  "perform_dispatch E url data config =
     (let config' = request_config E url data config in
      seqE (whenE (apiLogEnabled (cfg E)) (log_line (''Performing request: '' @ stringify (JObj config'))))
        (http_dispatch (request_of config')))"

definition perform_receive :: "env \<Rightarrow> nat \<Rightarrow> string \<Rightarrow> http_response m" where
  "perform_receive E i url =
     bindE (catchE (http_await E i) (\<lambda>err. seqE (handleRequestError err url) (throw err))) (\<lambda>result.
     seqE (logApiResponse E result url)
     (seqE (checkRateLimit E (resp_headers result))
     (ret result)))"

definition refreshToken_with :: "env \<Rightarrow> (obj \<Rightarrow> api_result m) \<Rightarrow> unit m" where
  "refreshToken_with E perform =
     bindE (getS (\<lambda>s. spread (getRequestData E s []) [(''refresh_token'', refresh_token s)])) (\<lambda>data.
     attempts 2
       (bindE (perform data) (\<lambda>result.
        if ar_ok result \<and> truthy (opt_prop (resp_data result) ''data'')
        then updateTokens E (opt_prop (resp_data result) ''data'')
        else bindE (liftE (stringify_result E result)) (\<lambda>t.
          throw (Error (''Failed to refresh access token - '' @ t)))))
       (sleepSeconds 2)
       (\<lambda>e. Error (''Token refresh failed: '' @ emsg e)))"

abbreviation refresh_url :: string where
  "refresh_url \<equiv> ''app/user/refresh_token''"

lemma attempts_mono [partial_function_mono]:
  assumes "\<And>t. monotone (fun_ord option_ord) option_ord (\<lambda>f. b f t)"
    and "\<And>t. monotone (fun_ord option_ord) option_ord (\<lambda>f. w f t)"
  shows "monotone (fun_ord option_ord) option_ord (\<lambda>f. attempts n (b f) (w f) h s)"
proof (induction n arbitrary: s)
  case 0
  show ?case by (simp add: partial_function_mono)
next
  case (Suc n)
  have "monotone (fun_ord option_ord) option_ord
     (\<lambda>f. (if 0 < n then seqE (w f) (attempts n (b f) (w f) h) else throw (h e)) t)" for e t
    by (cases "0 < n") (simp_all add: seqE_mono assms Suc partial_function_mono)
  then show ?case by (simp add: catchE_mono assms)
qed

lemma refreshToken_with_mono [partial_function_mono]:
  assumes "\<And>d t. monotone (fun_ord option_ord) option_ord (\<lambda>f. p f d t)"
  shows "monotone (fun_ord option_ord) option_ord (\<lambda>f. refreshToken_with E (p f) s)"
  unfolding refreshToken_with_def
  by (intro bindE_mono attempts_mono assms) (auto intro!: partial_function_mono)

lemma handleAccessTokenError_mono [partial_function_mono]:
  assumes "\<And>t. monotone (fun_ord option_ord) option_ord (\<lambda>f. r f t)"
  shows "monotone (fun_ord option_ord) option_ord (\<lambda>f. handleAccessTokenError (r f) res em code s)"
  unfolding handleAccessTokenError_def
  by (intro seqE_mono catchE_mono assms) (auto intro!: partial_function_mono)

lemma handleApiResponse_mono [partial_function_mono]:
  assumes "\<And>t. monotone (fun_ord option_ord) option_ord (\<lambda>f. r f t)"
  shows "monotone (fun_ord option_ord) option_ord (\<lambda>f. handleApiResponse (r f) res url data s)"
proof (cases "token_error (resp_data res)")
  case None
  then have "handleApiResponse (r f) res url data = handleApiResponse (ret ()) res url data" for f
    by (rule handleApiResponse_no_refresh)
  then show ?thesis by (simp add: partial_function_mono)
next
  case (Some em)
  then show ?thesis by (simp add: handleApiResponse_refresh handleAccessTokenError_mono assms)
qed

text \<open>\<open>_performRequest\<close> after the \<open>await\<close>, with the token refresh it can start.\<close>

partial_function (option) perform_resume ::
  "env \<Rightarrow> nat \<Rightarrow> string \<Rightarrow> obj \<Rightarrow> st \<Rightarrow> ((exn + api_result) \<times> st) option" where
  "perform_resume E i url data s =
     bindE (perform_receive E i url) (\<lambda>result.
       handleApiResponse
         (refreshToken_with E (\<lambda>d. bindE (perform_dispatch E refresh_url d [])
            (\<lambda>j. perform_resume E j refresh_url d)))
         result url data) s"

definition performRequest :: "env \<Rightarrow> string \<Rightarrow> obj \<Rightarrow> obj \<Rightarrow> api_result m" where
  "performRequest E url data config =
     bindE (perform_dispatch E url data config) (\<lambda>i. perform_resume E i url data)"

definition refreshToken :: "env \<Rightarrow> unit m" where
  "refreshToken E = refreshToken_with E (\<lambda>data. performRequest E refresh_url data [])"

section \<open>Login\<close>

definition login_data :: "env \<Rightarrow> exn + obj" where
  "login_data E =
     (case password (cfg E) of
        JStr p \<Rightarrow> Inr [(''email'', username (cfg E)), (''password'', JStr (createPassword p))]
      | _ \<Rightarrow> Inl (TypeError ''The data argument must be of type string or an instance of Buffer''))"

definition login_config :: "env \<Rightarrow> obj" where
  "login_config E =
     [(''baseURL'', authBaseUrl (cfg E)),
      (''headers'', JObj [(''x-api-key'', authApiKey (cfg E)), (''apikey'', apiKey (cfg E)),
                          (''keyid'', keyId (cfg E)), (''User-Agent'', userAgent (cfg E))])]"

abbreviation login_url :: string where
  "login_url \<equiv> ''api/user/login''"

text \<open>
  \<open>login\<close> up to the first \<open>await\<close> (the request is sent) and from there on. The first part runs
  synchronously in the caller, also when nobody awaits the promise.
\<close>

definition login_start :: "env \<Rightarrow> (nat \<times> obj) m" where
  "login_start E =
     (if nullish (apiKey (cfg E))
      then throw (Error ''ApiKey Required, Please provide the apiKey parameter in config.json'')
      else if nullish (keyId (cfg E))
      then throw (Error ''KeyId Required, Please provide the keyId parameter in config.json'')
      else bindE (liftE (login_data E)) (\<lambda>data.
           bindE (perform_dispatch E login_url data (login_config E)) (\<lambda>i. ret (i, data))))"

definition login_finish :: "env \<Rightarrow> api_result \<Rightarrow> unit m" where
  "login_finish E result =
     (if \<not> ar_ok result \<or> \<not> truthy (own_prop (resp_data result) ''access_token'')
      then bindE (liftE (stringify_result E result)) (\<lambda>t. throw (Error
        (''Invalid credentials, please check username/password, keyId/apiKey - '' @ t)))
      else updateTokens E (resp_data result))"

definition login_resume :: "env \<Rightarrow> nat \<Rightarrow> obj \<Rightarrow> unit m" where
  "login_resume E i data = bindE (perform_resume E i login_url data) (login_finish E)"

definition login :: "env \<Rightarrow> unit m" where
  "login E = bindE (login_start E) (\<lambda>(i, data). login_resume E i data)"

definition isDebounceCleared :: "st \<Rightarrow> int \<Rightarrow> bool" where
  "isDebounceCleared s t = (lastLoginAttempt s + loginAttemptDebounceMilliseconds s < t)"

definition resetDebounceIfNeeded :: "int \<Rightarrow> st \<Rightarrow> st" where
  "resetDebounceIfNeeded t s =
     (let debounceThreshold = 12 * 60 * 60 * 1000 in
      if debounceThreshold < t - lastLoginAttempt s
      then s\<lparr>loginAttemptDebounceMilliseconds := 1000\<rparr> else s)"

definition tryLogin :: "env \<Rightarrow> int \<Rightarrow> unit m" where
  "tryLogin E t = seqE (modS (\<lambda>s. s\<lparr>lastLoginAttempt := t\<rparr>)) (login E)"

text \<open>
  The wait of \<open>waitForDebounceClearance\<close>: steps of two seconds in which other tasks run; the
  debounce time is read again before every step.
\<close>

partial_function (option) debounce_wait ::
  "env \<Rightarrow> int \<Rightarrow> st \<Rightarrow> ((exn + unit) \<times> st) option" where
  "debounce_wait E waitTime s =
     (if waitTime < loginAttemptDebounceMilliseconds s
      then (let s' = others E (s\<lparr>now := now s + timer_delay (Some (2 * 1000))\<rparr>) in
            if truthy (access_token s') then Some (Inr (), s')
            else debounce_wait E (waitTime + 2000) s')
      else Some (Inr (), s))"

definition waitForDebounceClearance :: "env \<Rightarrow> unit m" where
  "waitForDebounceClearance E = debounce_wait E 0"

definition bumpDebounce :: "int \<Rightarrow> st \<Rightarrow> st" where
  "bumpDebounce t s =
     s\<lparr>lastLoginAttempt := t,
       loginAttemptDebounceMilliseconds := min (loginAttemptDebounceMilliseconds s * 2) (5 * 60 * 1000)\<rparr>"

text \<open>
  \<open>updateDebounceAndLogin\<close> is called without \<open>await\<close>: its synchronous part runs (debounce, login
  request), the rest is a task of its own. A rejection is not handled by anybody.
\<close>

definition updateDebounceAndLogin_start :: "env \<Rightarrow> int \<Rightarrow> (nat \<times> obj) m" where
  "updateDebounceAndLogin_start E t = seqE (modS (bumpDebounce t)) (login_start E)"

definition spawn_updateDebounceAndLogin :: "env \<Rightarrow> int \<Rightarrow> unit m" where
  "spawn_updateDebounceAndLogin E t = (\<lambda>s.
     case updateDebounceAndLogin_start E t s of
       None \<Rightarrow> None
     | Some (Inl e, s') \<Rightarrow> Some (Inr (), s'\<lparr>unhandled := unhandled s' @ [e]\<rparr>)
     | Some (Inr (i, data), s') \<Rightarrow> Some (Inr (), s'\<lparr>inflight_logins := inflight_logins s' @ [i]\<rparr>))"

text \<open>The task of the un-awaited login, when its answer arrives.\<close>

definition background_login :: "env \<Rightarrow> nat \<Rightarrow> obj \<Rightarrow> unit m" where
  "background_login E i data = (\<lambda>s.
     let s1 = s\<lparr>inflight_logins := removeAll i (inflight_logins s)\<rparr> in
     case login_resume E i data s1 of
       None \<Rightarrow> None
     | Some (Inl e, s') \<Rightarrow> Some (Inr (), s'\<lparr>unhandled := unhandled s' @ [e]\<rparr>)
     | Some (Inr u, s') \<Rightarrow> Some (Inr (), s'))"

definition maybeLogin :: "env \<Rightarrow> unit m" where
  "maybeLogin E =
     bindE (getS access_token) (\<lambda>t.
     seqE (whenE (\<not> truthy t) (loadPersistedTokens E))
     (bindE (getS id) (\<lambda>s.
      if truthy (access_token s) then ret ()
      else let nw = now s in
        if isDebounceCleared s nw
        then seqE (modS (resetDebounceIfNeeded nw)) (tryLogin E nw)
        else seqE (waitForDebounceClearance E)
          (bindE (getS access_token) (\<lambda>t'.
           if \<not> truthy t' then spawn_updateDebounceAndLogin E nw else ret ())))))"

section \<open>Requests with retry\<close>

definition error_text :: "api_result \<Rightarrow> string \<Rightarrow> string" where
  "error_text r dflt =
     (case ar_error r of Some e \<Rightarrow> if err_message e \<noteq> '''' then err_message e else dflt | None \<Rightarrow> dflt)"

definition api_call :: "env \<Rightarrow> string \<Rightarrow> obj \<Rightarrow> api_result m" where
  "api_call E url data =
     bindE (getS (\<lambda>s. getRequestData E s data)) (\<lambda>d. performRequest E url d [])"

definition handleRetry :: "env \<Rightarrow> string \<Rightarrow> obj \<Rightarrow> api_error \<Rightarrow> api_result m" where
  "handleRetry E url data error =
     bindE (getS (\<lambda>s. retryAfter error - now s)) (\<lambda>retryAfterMs.
     seqE (whenE (0 < retryAfterMs) (sleepMilliSecounds (Some retryAfterMs)))
     (seqE (maybeLogin E)
     (bindE (api_call E url data) (\<lambda>response.
      if ar_ok response then ret response
      else throw (Error (''Error: '' @ error_text response ''Request Failed After Retry''))))))"

definition handleRequest :: "env \<Rightarrow> string \<Rightarrow> obj \<Rightarrow> api_result m" where
  "handleRequest E url data =
     bindE (api_call E url data) (\<lambda>response.
      if ar_ok response then ret response
      else case ar_error response of
        Some e \<Rightarrow> if retryAfter e \<noteq> 0 then handleRetry E url data e
                  else throw (Error (''Request Failed: '' @ error_text response ''Unknown Error''))
      | None \<Rightarrow> throw (Error (''Request Failed: '' @ error_text response ''Unknown Error'')))"

definition request :: "env \<Rightarrow> string \<Rightarrow> obj \<Rightarrow> api_result m" where
  "request E url data = seqE (maybeLogin E) (handleRequest E url data)"

end
