(* ===== verification/ClientProofs.thy ===== *)
theory ClientProofs
  imports Client
begin

text \<open>
  Facts about the request path. The locale \<open>client_preorder\<close> takes a preorder on states that the
  primitive steps of the client respect and proves that every method respects it, the recursive
  ones by fixed-point induction; its interpretations give the growth of history, the frame of the
  login bookkeeping, and the counting of requests.
\<close>

locale client_preorder = effect_preorder R for R :: "st \<Rightarrow> st \<Rightarrow> bool" +
  fixes okq :: "http_request \<Rightarrow> bool"
  assumes step_tokens: "R s (s\<lparr>access_token := a, refresh_token := b\<rparr>)"
    and step_sent: "okq q \<Longrightarrow> R s (s\<lparr>sent := sent s @ [q]\<rparr>)"
    and step_now: "0 \<le> d \<Longrightarrow> R s (s\<lparr>now := now s + d\<rparr>)"
    and step_logs: "R s (s\<lparr>logs := logs s @ [l]\<rparr>)"
    and step_dump: "R s (s\<lparr>dumpData := False\<rparr>)"
    and step_fs: "R s (s\<lparr>fs_calls := fs_calls s + 1\<rparr>)"
    and step_disk: "R s (s\<lparr>fs_calls := fs_calls s + 1, disk := dk\<rparr>)"
    and okq_own: "rq_url q = refresh_url \<or> rq_url q = login_url \<Longrightarrow> okq q"
begin

lemma step_token: "R s (s\<lparr>access_token := a\<rparr>)"
proof -
  have "s\<lparr>access_token := a, refresh_token := refresh_token s\<rparr> = s\<lparr>access_token := a\<rparr>" by simp
  then show ?thesis using step_tokens [where a = a and b = "refresh_token s"] by metis
qed

lemma rel_sleepMilli: "relates R (sleepMilliSecounds n)"
  unfolding sleepMilliSecounds_def by (rule rel_modS) (simp add: step_now order_trans [OF _ timer_delay_pos])

lemma rel_sleep: "relates R (sleepSeconds n)"
  by (simp add: sleepSeconds_def rel_sleepMilli)

lemma rel_log: "relates R (log_line l)"
  unfolding log_line_def by (rule rel_modS) (rule step_logs)

lemma rel_dispatch: "okq q \<Longrightarrow> relates R (http_dispatch q)"
  by (rule relatesI) (auto simp: http_dispatch_def step_sent)

lemma rel_await: "relates R (http_await E i)"
  by (rule relatesI) (auto simp: http_await_def step_now)

lemma rel_send: "okq q \<Longrightarrow> relates R (http_send E q)"
  by (auto simp: http_send_def intro!: rel_rules rel_dispatch rel_await)

lemma rel_write: "relates R (writeFile E p c)"
  by (rule relatesI)
    (auto simp: writeFile_def Let_def step_fs [simplified] step_disk [simplified] split: option.splits prod.splits)

lemma rel_read: "relates R (readFile E p)"
  by (rule relatesI) (auto simp: readFile_def Let_def step_fs [simplified] split: option.splits)

lemma rel_attempts: "relates R b \<Longrightarrow> relates R w \<Longrightarrow> relates R (attempts n b w f)"
  by (induction n) (auto intro!: rel_rules)

lemma rel_persist: "relates R (persistTokens E)"
  unfolding persistTokens_def by (intro rel_rules rel_attempts rel_write rel_sleep)

lemma rel_updateTokens: "relates R (updateTokens E t)"
  unfolding updateTokens_def by (intro rel_rules rel_modS rel_persist step_tokens)

lemma rel_load: "relates R (loadPersistedTokens E)"
  unfolding loadPersistedTokens_def
  by (intro rel_rules rel_read) (auto intro!: rel_rules rel_modS step_tokens)

lemma rel_logApi: "relates R (logApiResponse E r u)"
  unfolding logApiResponse_def by (intro rel_rules rel_modS rel_log step_dump)

lemma rel_checkRate: "relates R (checkRateLimit E h)"
  unfolding checkRateLimit_def
  by (auto split: option.split intro!: rel_rules rel_sleepMilli)

lemma rel_receive: "relates R (perform_receive E i u)"
  unfolding perform_receive_def handleRequestError_def
  by (intro rel_rules rel_await rel_log rel_logApi rel_checkRate)

lemma rel_perform_dispatch: "okq (request_of (request_config E u d c)) \<Longrightarrow> relates R (perform_dispatch E u d c)"
  unfolding perform_dispatch_def Let_def by (intro rel_rules rel_log rel_dispatch)

lemma url_request_config [simp]:
  "''url'' \<notin> fst ` set c \<Longrightarrow> rq_url (request_of (request_config E u d c)) = u"
  by (simp add: request_of_def request_config_def oget_spread_notin)

lemma rel_refresh_with: "(\<And>d. relates R (p d)) \<Longrightarrow> relates R (refreshToken_with E p)"
  unfolding refreshToken_with_def
  by (auto intro!: rel_rules rel_attempts rel_updateTokens rel_sleep)

lemma rel_tokenError: "relates R r \<Longrightarrow> relates R (handleAccessTokenError r res em c)"
  unfolding handleAccessTokenError_def by (intro rel_rules rel_modS step_token)

lemma rel_handleApi: "relates R r \<Longrightarrow> relates R (handleApiResponse r res u d)"
proof -
  assume r: "relates R r"
  have *: "relates R (respond r res u d c)" if "c \<noteq> Malformed" for c
    using that r by (cases c) (auto simp: respond_def handleRateLimitError_def
        intro!: rel_rules rel_modS step_token rel_tokenError)
  show ?thesis
  proof (cases "classify (resp_data res) = Malformed")
    case True
    then show ?thesis using malformed_throws [OF True, of u d] rel_throw by metis
  next
    case False
    then show ?thesis unfolding handleApiResponse_classify by (rule *)
  qed
qed

lemma rel_resume: "relates R (perform_resume E i u d)"
proof (rule relatesI)
  fix s r s' assume res: "perform_resume E i u d s = Some (r, s')"
  have "R s (snd (r, s'))"
  proof (rule perform_resume.raw_induct [where P = "\<lambda>E i u d s y. R s (snd y)", OF _ res])
    fix f :: "env \<Rightarrow> nat \<Rightarrow> string \<Rightarrow> obj \<Rightarrow> api_result m" and E i u d s y
    assume IH: "\<And>E i u d s y. f E i u d s = Some y \<Longrightarrow> R s (snd y)"
    let ?refresh = "refreshToken_with E (\<lambda>d. bindE (perform_dispatch E refresh_url d []) (\<lambda>j. f E j refresh_url d))"
    assume eq: "bindE (perform_receive E i u) (\<lambda>res. handleApiResponse ?refresh res u d) s = Some y"
    have "relates R (f E j u' d')" for j u' d'
      by (rule relatesI) (use IH in fastforce)
    then have "relates R ?refresh"
      by (intro rel_refresh_with rel_rules rel_perform_dispatch okq_own) simp_all
    then have "relates R (bindE (perform_receive E i u) (\<lambda>res. handleApiResponse ?refresh res u d))"
      by (intro rel_rules rel_receive rel_handleApi)
    with eq show "R s (snd y)" by (cases y) (auto dest: relatesD)
  qed
  then show "R s s'" by simp
qed

lemma rel_perform: "okq (request_of (request_config E u d c)) \<Longrightarrow> relates R (performRequest E u d c)"
  unfolding performRequest_def by (intro rel_rules rel_perform_dispatch rel_resume)

lemma rel_refresh: "relates R (refreshToken E)"
  unfolding refreshToken_def by (intro rel_refresh_with rel_perform okq_own) simp

lemma okq_login [simp]: "okq (request_of (request_config E login_url d (login_config E)))"
  by (rule okq_own) (simp add: login_config_def)

lemma rel_login_start: "relates R (login_start E)"
  unfolding login_start_def by (intro rel_rules rel_perform_dispatch okq_login)

lemma rel_login_resume: "relates R (login_resume E i d)"
  unfolding login_resume_def login_finish_def by (intro rel_rules rel_resume rel_updateTokens)

lemma rel_login: "relates R (login E)"
  unfolding login_def by (intro rel_rules rel_login_start) (auto intro: rel_login_resume)

end

section \<open>Interpretations\<close>

text \<open>The history only grows and the clock does not go back.\<close>

definition history_grows :: "st \<Rightarrow> st \<Rightarrow> bool" where
  "history_grows s s' = (prefix (sent s) (sent s') \<and> now s \<le> now s' \<and> prefix (logs s) (logs s'))"

interpretation hist: client_preorder history_grows "\<lambda>_. True"
  by unfold_locales (auto simp: history_grows_def)

text \<open>Requests, refreshes and logins leave the debounce bookkeeping to \<open>maybeLogin\<close>.\<close>

definition login_frame :: "st \<Rightarrow> st \<Rightarrow> bool" where
  "login_frame s s' = (lastLoginAttempt s' = lastLoginAttempt s \<and>
     loginAttemptDebounceMilliseconds s' = loginAttemptDebounceMilliseconds s \<and>
     inflight_logins s' = inflight_logins s \<and> unhandled s' = unhandled s)"

interpretation frame: client_preorder login_frame "\<lambda>_. True"
  by unfold_locales (auto simp: login_frame_def)

text \<open>How often a path has been requested.\<close>

definition calls :: "string \<Rightarrow> st \<Rightarrow> nat" where
  "calls u s = length (filter (\<lambda>q. rq_url q = u) (sent s))"

definition same_calls :: "string \<Rightarrow> st \<Rightarrow> st \<Rightarrow> bool" where
  "same_calls u s s' = (u \<noteq> refresh_url \<and> u \<noteq> login_url \<longrightarrow> calls u s' = calls u s)"

interpretation calls: client_preorder "same_calls u" "\<lambda>q. rq_url q \<noteq> u \<or> u = refresh_url \<or> u = login_url" for u
  by unfold_locales (auto simp: same_calls_def calls_def)

end
