(* ===== verification/SessionProofs.thy ===== *)
theory SessionProofs
  imports ClientProofs
begin

text \<open>
  Frames, totality and the session-level preorders: what token persistence touches, which methods
  always settle, and how \<open>maybeLogin\<close> and the retrying request relate their first and last state
  when other tasks run during the debounce wait.
\<close>

section \<open>Methods that always settle\<close>

definition settles :: "('s, 'e, 'a) eff \<Rightarrow> bool" where
  "settles m = (\<forall>s. m s \<noteq> None)"

named_theorems settling \<open>methods that always return or throw\<close>

lemma settles_ret [settling]: "settles (ret a)"
  by (simp add: settles_def)

lemma settles_throw [settling]: "settles (throw e)"
  by (simp add: settles_def)

lemma settles_getS [settling]: "settles (getS f)"
  by (simp add: settles_def)

lemma settles_modS [settling]: "settles (modS f)"
  by (simp add: settles_def)

lemma settles_liftE [settling]: "settles (liftE r)"
  by (simp add: settles_def liftE_def)

lemma settles_bindE [settling]: "settles m \<Longrightarrow> (\<And>a. settles (f a)) \<Longrightarrow> settles (bindE m f)"
  by (auto simp: settles_def bindE_def split: option.split sum.split)

lemma settles_seqE [settling]: "settles m \<Longrightarrow> settles n \<Longrightarrow> settles (seqE m n)"
  by (simp add: seqE_def settling)

lemma settles_catchE [settling]: "settles m \<Longrightarrow> (\<And>e. settles (h e)) \<Longrightarrow> settles (catchE m h)"
  by (auto simp: settles_def catchE_def split: option.split sum.split)

lemma settles_whenE [settling]: "settles m \<Longrightarrow> settles (whenE b m)"
  by (simp add: whenE_def settling)

lemma settles_if [settling]: "settles m \<Longrightarrow> settles n \<Longrightarrow> settles (if b then m else n)"
  by simp

lemma settlesE: "settles m \<Longrightarrow> (\<And>r s'. m s = Some (r, s') \<Longrightarrow> P) \<Longrightarrow> P"
  unfolding settles_def by (metis not_None_eq surj_pair)

lemma settles_attempts [settling]: "settles b \<Longrightarrow> settles w \<Longrightarrow> settles (attempts n b w f)"
  by (induction n) (auto intro!: settling)

lemma settles_http [settling]:
  "settles (http_dispatch q)" "settles (http_await E i)" "settles (writeFile E p c)" "settles (readFile E p)"
  by (auto simp: settles_def http_dispatch_def http_await_def writeFile_def readFile_def Let_def
      split: option.splits)

lemma settles_basic [settling]:
  "settles (sleepMilliSecounds n)" "settles (sleepSeconds k)" "settles (log_line l)"
  by (simp_all add: sleepMilliSecounds_def sleepSeconds_def log_line_def settling)

lemma settles_tokens [settling]:
  "settles (persistTokens E)" "settles (updateTokens E t)" "settles (loadPersistedTokens E)"
  by (auto simp: persistTokens_def updateTokens_def loadPersistedTokens_def intro!: settling)

lemma settles_receive [settling]:
  "settles (handleRequestError err u)" "settles (logApiResponse E res u)"
  "settles (checkRateLimit E h)" "settles (perform_dispatch E u d c)" "settles (perform_receive E i u)"
proof -
  show 1: "settles (handleRequestError err u)" for err by (simp add: handleRequestError_def settling)
  show 2: "settles (logApiResponse E res u)" for res
    unfolding logApiResponse_def by (intro settling)
  show 3: "settles (checkRateLimit E h)" for h
    by (auto simp: checkRateLimit_def split: option.split intro!: settling)
  show "settles (perform_dispatch E u d c)" unfolding perform_dispatch_def Let_def by (intro settling)
  show "settles (perform_receive E i u)" unfolding perform_receive_def by (intro settling 1 2 3)
qed

lemma settles_handleApi:
  "settles r \<or> token_error (resp_data res) = None \<Longrightarrow> settles (handleApiResponse r res u d)"
proof (cases "classify (resp_data res)")
  case Malformed
  then show ?thesis using malformed_throws [OF Malformed, of u d] settles_throw by metis
qed (auto simp: handleApiResponse_classify respond_def handleRateLimitError_def
      handleAccessTokenError_def token_error_def intro!: settling)

section \<open>Token persistence only touches the file system and the clock\<close>

definition io_frame :: "st \<Rightarrow> st \<Rightarrow> bool" where
  "io_frame s s' = (now s \<le> now s' \<and>
     s'\<lparr>now := 0, disk := Map.empty, fs_calls := 0\<rparr> = s\<lparr>now := 0, disk := Map.empty, fs_calls := 0\<rparr>)"

interpretation io: effect_preorder io_frame
  by unfold_locales (auto simp: io_frame_def)

lemma io_write: "relates io_frame (writeFile E p c)"
  by (rule relatesI) (auto simp: io_frame_def writeFile_def Let_def split: option.splits prod.splits)

lemma io_sleep: "relates io_frame (sleepSeconds n)"
  unfolding sleepSeconds_def sleepMilliSecounds_def
  by (rule io.rel_modS) (simp add: io_frame_def order_trans [OF _ timer_delay_pos])

lemma io_attempts: "relates io_frame b \<Longrightarrow> relates io_frame w \<Longrightarrow> relates io_frame (attempts n b w f)"
  by (induction n) (auto intro!: io.rel_rules)

lemma io_persist: "relates io_frame (persistTokens E)"
  unfolding persistTokens_def by (intro io.rel_rules io_attempts io_write io_sleep)

lemma io_frameD:
  assumes "io_frame s s'"
  shows "access_token s' = access_token s" "refresh_token s' = refresh_token s" "sent s' = sent s"
    "now s \<le> now s'" "inflight_logins s' = inflight_logins s" "unhandled s' = unhandled s"
  using assms by (cases s; cases s'; auto simp: io_frame_def)+

lemma updateTokens_value:
  assumes "updateTokens E t s = Some (r, s')"
  shows "access_token s' = own_prop t ''access_token''" "refresh_token s' = own_prop t ''refresh_token''"
    "sent s' = sent s" "now s \<le> now s'"
proof -
  from assms obtain r' where
    "persistTokens E (s\<lparr>access_token := own_prop t ''access_token'', refresh_token := own_prop t ''refresh_token''\<rparr>)
       = Some (r', s')"
    by (auto simp: updateTokens_def elim!: catchE_cases)
  then have "io_frame (s\<lparr>access_token := own_prop t ''access_token'', refresh_token := own_prop t ''refresh_token''\<rparr>) s'"
    by (rule relatesD [OF io_persist])
  then show "access_token s' = own_prop t ''access_token''" "refresh_token s' = own_prop t ''refresh_token''"
    "sent s' = sent s" "now s \<le> now s'"
    by (auto dest: io_frameD)
qed

text \<open>Reading the token file takes no time and sends nothing.\<close>

definition load_frame :: "st \<Rightarrow> st \<Rightarrow> bool" where
  "load_frame s s' =
     (s'\<lparr>access_token := JNull, refresh_token := JNull, fs_calls := 0\<rparr>
      = s\<lparr>access_token := JNull, refresh_token := JNull, fs_calls := 0\<rparr>)"

interpretation load: effect_preorder load_frame
  by unfold_locales (auto simp: load_frame_def)

lemma load_read: "relates load_frame (readFile E p)"
  by (rule relatesI) (auto simp: load_frame_def readFile_def Let_def split: option.splits)

lemma load_effect: "relates load_frame (loadPersistedTokens E)"
  unfolding loadPersistedTokens_def
  by (intro load.rel_rules load_read) (auto intro!: load.rel_rules load.rel_modS simp: load_frame_def)

end
