(* ===== verification/ClientProps.thy ===== *)
theory ClientProps
  imports SessionProofs
begin

text \<open>
  The properties of login, token storage and refresh. The witnesses run the client against a small
  server that is written out as a function of the request number.
\<close>

section \<open>A small environment\<close>

definition ok_body :: "obj \<Rightarrow> http_response" where
  "ok_body ob = \<lparr>resp_status = JNum 200, resp_headers = [], resp_data = JObj ob\<rparr>"

definition demo_config :: config where
  "demo_config = construct_config ''1.0''
     [(''persistPath'', JStr ''/t''), (''username'', JStr ''u''), (''password'', JStr ''p''),
      (''apiKey'', JStr ''k''), (''keyId'', JStr ''i'')]"

definition demo_env :: "(nat \<Rightarrow> http_request \<Rightarrow> exn + http_response) \<Rightarrow> env" where
  "demo_env server =
     \<lparr>cfg = demo_config, net = server, latency = (\<lambda>_. 5), fs_write_fault = (\<lambda>_. None),
      fs_read_fault = (\<lambda>_. None), uuid_of = (\<lambda>_. Inr (JStr ''id'')), date_parse = (\<lambda>_. None),
      utf8pkg = (\<lambda>s. s), random = (\<lambda>_. 0), random_bytes = (\<lambda>_ n. replicate n 0), aes_enc = xor_cipher,
      stringify_result = (\<lambda>_. Inl (TypeError ''Converting circular structure to JSON'')),
      others = (\<lambda>s. s)\<rparr>"

definition demo_state :: "jsval \<Rightarrow> st" where
  "demo_state token = (construct_state 1000000 Map.empty)\<lparr>access_token := token\<rparr>"

lemmas demo_simps = ok_body_def demo_config_def demo_env_def demo_state_def construct_config_def
  construct_state_def

section \<open>The token store\<close>

lemma persist_result:
  assumes path: "tokenPersistPath E = Inr p" and ok: "persistTokens E s = Some (Inr (), s')"
  shows "disk s' p = Some (stringify (JObj [(''access_token'', access_token s), (''refresh_token'', refresh_token s)]))"
proof -
  have w: "disk t' p = Some c" if "writeFile E p c t = Some (Inr (), t')" for c t t'
    using that by (auto simp: writeFile_def Let_def split: option.splits)
  show ?thesis
    using ok unfolding persistTokens_def path
    by (auto simp: numeral_2_eq_2 elim!: catchE_cases seqE_cases dest!: w)
qed

text \<open>
  C15. Token store round trip. Tokens that \<open>_persistTokens\<close> has written, on the first attempt or on
  the retry, are what \<open>_loadPersistedTokens\<close> of any object with the same user finds again.
\<close>

theorem tokens_roundtrip:
  assumes "persistTokens E s = Some (Inr (), s')"
    and "json_wf (access_token s)" "json_wf (refresh_token s)"
    and "truthy (access_token s)" "truthy (refresh_token s)"
    and "disk t = disk s'" "fs_read_fault E (fs_calls t) = None"
  shows "\<exists>t'. loadPersistedTokens E t = Some (Inr (), t') \<and>
    access_token t' = access_token s \<and> refresh_token t' = refresh_token s"
proof -
  obtain p where p: "tokenPersistPath E = Inr p"
    using assms(1) by (auto simp: persistTokens_def liftE_def elim!: bindE_cases)
  let ?ob = "JObj [(''access_token'', access_token s), (''refresh_token'', refresh_token s)]"
  have "json_wf ?ob" using assms(2-5) by auto
  then have "json_parse (stringify ?ob) = Some ?ob" by (rule json_roundtrip)
  then have "parse_tokens (stringify ?ob) = Inr (access_token s, refresh_token s)"
    using assms(4,5) by (simp add: parse_tokens_def own_prop_def del: stringify.simps)
  then show ?thesis
    using persist_result [OF p assms(1)] assms(6,7)
    by (simp add: loadPersistedTokens_def p readFile_def Let_def bindE_def catchE_def liftE_def modS_def
        del: stringify.simps)
qed

definition no_server :: "nat \<Rightarrow> http_request \<Rightarrow> exn + http_response" where
  "no_server i q = Inl (Error ''connect ECONNREFUSED'')"

lemma tokenPersistPath_cong:
  assumes "uuid_of E = uuid_of E'" "cfg E = cfg E'"
  shows "tokenPersistPath E = tokenPersistPath E'"
  unfolding tokenPersistPath_def assms ..

lemma demo_path: "\<exists>p. tokenPersistPath (demo_env srv) = Inr p"
  by (simp add: tokenPersistPath_def demo_simps js_or_def)

lemma demo_persist: "\<exists>s'. persistTokens (demo_env srv) s = Some (Inr (), s')"
proof -
  obtain p where p: "tokenPersistPath (demo_env srv) = Inr p" using demo_path by blast
  have "fs_write_fault (demo_env srv) n = None" for n by (simp add: demo_env_def)
  then show ?thesis
    by (simp add: persistTokens_def p numeral_2_eq_2 catchE_def writeFile_def Let_def)
qed

lemma tokens_roundtrip_witness:
  "\<exists>t'. loadPersistedTokens (demo_env no_server)
      ((demo_state JNull)\<lparr>disk := disk (snd (the (persistTokens (demo_env no_server)
          ((demo_state (JStr ''a''))\<lparr>refresh_token := JStr ''r''\<rparr>))))\<rparr>) = Some (Inr (), t') \<and>
    access_token t' = JStr ''a'' \<and> refresh_token t' = JStr ''r''"
proof -
  let ?s = "(demo_state (JStr ''a''))\<lparr>refresh_token := JStr ''r''\<rparr>"
  obtain s' where s': "persistTokens (demo_env no_server) ?s = Some (Inr (), s')"
    using demo_persist by blast
  have tok: "access_token ?s = JStr ''a''" "refresh_token ?s = JStr ''r''" by (simp_all add: demo_state_def)
  have rd: "fs_read_fault (demo_env no_server) n = None" for n by (simp add: demo_env_def)
  show ?thesis
    unfolding s' option.sel snd_conv
    using tokens_roundtrip [OF s', of "(demo_state JNull)\<lparr>disk := disk s'\<rparr>"]
    by (simp add: tok rd del: not_Cons_self2)
qed

text \<open>
  Writing the token file is tried at most twice, the second time two seconds after the first
  failure; the method rejects only when both writes failed, with the message of the second failure.
\<close>

theorem persist_attempts:
  assumes "tokenPersistPath E = Inr p"
  defines "c \<equiv> (\<lambda>s. stringify (JObj [(''access_token'', access_token s), (''refresh_token'', refresh_token s)]))"
  shows "\<exists>r s'. persistTokens E s = Some (r, s') \<and>
    (case fs_write_fault E (fs_calls s) of
       None \<Rightarrow> r = Inr () \<and> now s' = now s \<and> fs_calls s' = fs_calls s + 1 \<and> disk s' = (disk s)(p \<mapsto> c s)
     | Some _ \<Rightarrow> now s' = now s + 2000 \<and> fs_calls s' = fs_calls s + 2 \<and>
         (case fs_write_fault E (fs_calls s + 1) of
            None \<Rightarrow> r = Inr () \<and> disk s' p = Some (c s)
          | Some (e, _) \<Rightarrow> r = Inl (Error (''Failed to persist tokens: '' @ emsg e))))"
  unfolding c_def
  by (auto simp: persistTokens_def assms(1) numeral_2_eq_2 catchE_def writeFile_def Let_def
      sleepSeconds_def sleepMilliSecounds_def timer_delay_def
      simp del: stringify.simps split: option.split)

lemma persist_attempts_witness:
  "\<exists>r s'. persistTokens (demo_env no_server\<lparr>fs_write_fault := (\<lambda>n. Some (Error ''ENOSPC'', None))\<rparr>) (demo_state JNull)
     = Some (r, s') \<and> fs_calls s' = 2 \<and> r = Inl (Error ''Failed to persist tokens: ENOSPC'')"
proof -
  let ?E = "demo_env no_server\<lparr>fs_write_fault := (\<lambda>n. Some (Error ''ENOSPC'', None))\<rparr>"
  obtain p where "tokenPersistPath (demo_env no_server) = Inr p" using demo_path by blast
  then have "tokenPersistPath ?E = Inr p"
    by (subst tokenPersistPath_cong [of _ "demo_env no_server"]) simp_all
  from persist_attempts [OF this, of "demo_state JNull"] show ?thesis
    by (auto simp: demo_state_def construct_state_def Error_def simp del: stringify.simps)
qed

section \<open>Login before a request\<close>

lemma login_finish_token:
  assumes "login_finish E result s = Some (Inr (), s')"
  shows "truthy (access_token s')"
  using assms
  by (auto simp: login_finish_def liftE_def elim!: bindE_cases dest: updateTokens_value(1) split: if_splits sum.splits)

lemma login_token: "login E s = Some (Inr (), s') \<Longrightarrow> truthy (access_token s')"
  by (auto simp: login_def login_resume_def elim!: bindE_cases split: prod.splits dest: login_finish_token)

lemma load_keeps:
  assumes "loadPersistedTokens E s = Some (r, s')"
  shows "now s' = now s" "lastLoginAttempt s' = lastLoginAttempt s" "sent s' = sent s"
    "loginAttemptDebounceMilliseconds s' = loginAttemptDebounceMilliseconds s"
    "inflight_logins s' = inflight_logins s" "unhandled s' = unhandled s"
  using relatesD [OF load_effect assms] by (cases s; cases s'; auto simp: load_frame_def)+

text \<open>
  C1. Outside the debounce period \<open>maybeLogin\<close> returns only with an access token: whether the token
  was there, came from the token file or from a login, the request that follows is authenticated.
\<close>

theorem maybeLogin_authenticated:
  assumes "maybeLogin E s = Some (Inr (), s')"
    and "lastLoginAttempt s + loginAttemptDebounceMilliseconds s < now s"
  shows "truthy (access_token s')"
proof (cases "truthy (access_token s)")
  case True
  with assms(1) show ?thesis by (simp add: maybeLogin_def)
next
  case False
  with assms(1) obtain s1 where load: "loadPersistedTokens E s = Some (Inr (), s1)"
    and rest: "truthy (access_token s1) \<and> s' = s1 \<or>
      seqE (modS (resetDebounceIfNeeded (now s1))) (tryLogin E (now s1)) s1 = Some (Inr (), s')"
    using assms(2)
    by (auto simp: maybeLogin_def Let_def isDebounceCleared_def load_keeps elim!: seqE_cases split: if_splits)
  from rest show ?thesis
    by (auto simp: tryLogin_def elim: login_token)
qed

lemma tryLogin_token: "tryLogin E t s = Some (Inr (), s') \<Longrightarrow> truthy (access_token s')"
  by (auto simp: tryLogin_def elim: login_token)

text \<open>A server that accepts a login with the given token.\<close>

definition login_server :: "nat \<Rightarrow> http_request \<Rightarrow> exn + http_response" where
  "login_server i q = Inr (ok_body [(''access_token'', JStr ''tok''), (''refresh_token'', JStr ''ref'')])"

lemma body_accepted:
  "map_of ob ''code'' = None \<Longrightarrow> handleApiResponse r (ok_body ob) u d = ret (ok_result (ok_body ob))"
  by (simp add: handleApiResponse_classify respond_def classify_def response_code_def own_prop_def
      ok_body_def nullish_def oget_def)

lemma receive_quiet:
  assumes "net E i (sent s ! i) = Inr (ok_body ob)" "\<not> dumpData s" "\<not> apiLogEnabled (cfg E)"
  shows "perform_receive E i u s = Some (Inr (ok_body ob), s\<lparr>now := now s + int (latency E i)\<rparr>)"
  using assms
  by (simp add: perform_receive_def http_await_def catchE_def bindE_def seqE_def logApiResponse_def
      checkRateLimit_def rate_remaining_def ok_body_def getS_def whenE_def ret_def Let_def)

lemma dispatch_quiet:
  assumes "\<not> apiLogEnabled (cfg E)"
  shows "perform_dispatch E u d c s = Some (Inr (length (sent s)), s\<lparr>sent := sent s @ [request_of (request_config E u d c)]\<rparr>)"
  using assms by (simp add: perform_dispatch_def http_dispatch_def)

lemma resume_quiet:
  assumes "net E i (sent s ! i) = Inr (ok_body ob)" "\<not> dumpData s" "\<not> apiLogEnabled (cfg E)"
    and "map_of ob ''code'' = None"
  shows "perform_resume E i u d s = Some (Inr (ok_result (ok_body ob)), s\<lparr>now := now s + int (latency E i)\<rparr>)"
  by (subst perform_resume.simps)
    (simp add: bindE_def receive_quiet [OF assms(1-3)] body_accepted [OF assms(4)])

lemma demo_quiet [simp]: "\<not> apiLogEnabled (cfg (demo_env srv))" "net (demo_env srv) = srv"
  "apiKey (cfg (demo_env srv)) = JStr ''k''" "keyId (cfg (demo_env srv)) = JStr ''i''"
  "password (cfg (demo_env srv)) = JStr ''p''"
  "fs_read_fault (demo_env srv) n = None" "fs_write_fault (demo_env srv) n = None"
  "others (demo_env srv) = (\<lambda>s. s)" "latency (demo_env srv) = (\<lambda>_. 5)"
  by (simp_all add: demo_simps)

lemma demo_fields [simp]:
  "access_token (demo_state t) = t" "now (demo_state t) = 1000000" "dumpData (demo_state t) = False"
  "lastLoginAttempt (demo_state t) = 0" "loginAttemptDebounceMilliseconds (demo_state t) = 1000"
  "sent (demo_state t) = []" "disk (demo_state t) = Map.empty" "fs_calls (demo_state t) = 0"
  "inflight_logins (demo_state t) = []" "unhandled (demo_state t) = []"
  by (simp_all add: demo_state_def construct_state_def)

lemma demo_update: "\<exists>s'. updateTokens (demo_env srv) t s = Some (Inr (), s')"
proof -
  obtain s' where "persistTokens (demo_env srv)
      (s\<lparr>access_token := own_prop t ''access_token'', refresh_token := own_prop t ''refresh_token''\<rparr>) = Some (Inr (), s')"
    using demo_persist by blast
  then show ?thesis by (simp add: updateTokens_def catchE_def)
qed

lemma demo_login:
  assumes "\<not> dumpData s"
  shows "\<exists>s'. login (demo_env login_server) s = Some (Inr (), s')"
proof -
  let ?E = "demo_env login_server"
  obtain d where d: "login_data ?E = Inr d" by (simp add: login_data_def)
  let ?q = "request_of (request_config ?E login_url d (login_config ?E))"
  have start: "login_start ?E s = Some (Inr (length (sent s), d), s\<lparr>sent := sent s @ [?q]\<rparr>)"
    by (simp add: login_start_def nullish_def d bindE_def dispatch_quiet)
  let ?s1 = "s\<lparr>sent := sent s @ [?q]\<rparr>"
  have res: "perform_resume ?E (length (sent s)) login_url d ?s1
    = Some (Inr (ok_result (ok_body [(''access_token'', JStr ''tok''), (''refresh_token'', JStr ''ref'')])),
        ?s1\<lparr>now := now ?s1 + 5\<rparr>)"
    using assms by (subst resume_quiet) (simp_all add: login_server_def)
  show ?thesis
    using demo_update [of login_server]
    by (simp add: login_def login_resume_def bindE_def start res login_finish_def ok_result_def ok_body_def
        http_response.defs own_prop_def)
qed

lemma demo_load_empty:
  "disk s = Map.empty \<Longrightarrow>
   loadPersistedTokens (demo_env srv) s = Some (Inr (), s\<lparr>fs_calls := fs_calls s + 1\<rparr>)"
proof -
  assume d: "disk s = Map.empty"
  obtain p where p: "tokenPersistPath (demo_env srv) = Inr p" using demo_path by blast
  show ?thesis
    using d by (simp add: loadPersistedTokens_def p bindE_def catchE_def readFile_def Let_def)
qed

lemma maybeLogin_authenticated_witness:
  "\<exists>s'. maybeLogin (demo_env login_server) (demo_state (JStr '''')) = Some (Inr (), s') \<and> truthy (access_token s')"
proof -
  let ?E = "demo_env login_server" and ?s = "demo_state (JStr '''')"
  let ?s1 = "?s\<lparr>fs_calls := 1\<rparr>"
  let ?s2 = "(resetDebounceIfNeeded 1000000 ?s1)\<lparr>lastLoginAttempt := 1000000\<rparr>"
  have load: "loadPersistedTokens ?E ?s = Some (Inr (), ?s1)"
    by (subst demo_load_empty) simp_all
  obtain s' where "login ?E ?s2 = Some (Inr (), s')"
    using demo_login [of ?s2] by (auto simp: resetDebounceIfNeeded_def Let_def)
  then have "maybeLogin ?E ?s = Some (Inr (), s')"
    using load
    by (simp add: maybeLogin_def seqE_def bindE_def tryLogin_def isDebounceCleared_def Let_def)
  then show ?thesis
    using maybeLogin_authenticated [of ?E ?s s'] by simp
qed

lemma dispatch_effect:
  obtains s' where "perform_dispatch E u d c s = Some (Inr (length (sent s)), s')"
    "sent s' = sent s @ [request_of (request_config E u d c)]" "access_token s' = access_token s"
    "inflight_logins s' = inflight_logins s" "unhandled s' = unhandled s" "now s' = now s"
    "lastLoginAttempt s' = lastLoginAttempt s" "refresh_token s' = refresh_token s"
    "loginAttemptDebounceMilliseconds s' = loginAttemptDebounceMilliseconds s" "dumpData s' = dumpData s"
  by (cases "apiLogEnabled (cfg E)")
    (simp_all add: perform_dispatch_def Let_def http_dispatch_def log_line_def)

lemma login_start_effect:
  assumes "login_start E s = Some (x, s')"
  shows "(\<exists>e. x = Inl e \<and> s' = s) \<or>
    (\<exists>d. x = Inr (length (sent s), d) \<and> perform_dispatch E login_url d (login_config E) s = Some (Inr (length (sent s)), s'))"
proof -
  show ?thesis
  proof (cases "login_data E")
    case (Inr d)
    obtain s2 where "perform_dispatch E login_url d (login_config E) s = Some (Inr (length (sent s)), s2)"
      by (rule dispatch_effect)
    with Inr assms show ?thesis by (auto simp: login_start_def bindE_def split: if_splits)
  qed (use assms in \<open>auto simp: login_start_def bindE_def split: if_splits\<close>)
qed

lemma spawn_effect:
  assumes "spawn_updateDebounceAndLogin E t s = Some (r, s')"
  shows "r = Inr () \<and> access_token s' = access_token s \<and>
    ((\<exists>e. unhandled s' = unhandled s @ [e] \<and> inflight_logins s' = inflight_logins s) \<or>
     (inflight_logins s' = inflight_logins s @ [length (sent s)] \<and> unhandled s' = unhandled s
      \<and> length (sent s') = length (sent s) + 1))"
proof -
  obtain x s1 where start: "login_start E (bumpDebounce t s) = Some (x, s1)"
      "s' = (case x of Inl e \<Rightarrow> s1\<lparr>unhandled := unhandled s1 @ [e]\<rparr>
             | Inr (i, d) \<Rightarrow> s1\<lparr>inflight_logins := inflight_logins s1 @ [i]\<rparr>)" "r = Inr ()"
    using assms
    by (auto simp: spawn_updateDebounceAndLogin_def updateDebounceAndLogin_start_def
        split: option.splits sum.splits prod.splits)
  have b: "access_token (bumpDebounce t s) = access_token s" "unhandled (bumpDebounce t s) = unhandled s"
    "inflight_logins (bumpDebounce t s) = inflight_logins s" "sent (bumpDebounce t s) = sent s"
    by (simp_all add: bumpDebounce_def)
  from login_start_effect [OF start(1)] show ?thesis
  proof (elim disjE exE conjE)
    fix e assume "x = Inl e" "s1 = bumpDebounce t s"
    with start b show ?thesis by simp
  next
    fix d assume x: "x = Inr (length (sent (bumpDebounce t s)), d)"
      and "perform_dispatch E login_url d (login_config E) (bumpDebounce t s)
        = Some (Inr (length (sent (bumpDebounce t s))), s1)"
    moreover obtain s2 where
      "perform_dispatch E login_url d (login_config E) (bumpDebounce t s) = Some (Inr (length (sent (bumpDebounce t s))), s2)"
      "length (sent s2) = length (sent s) + 1" "access_token s2 = access_token s"
      "inflight_logins s2 = inflight_logins s" "unhandled s2 = unhandled s"
      by (rule dispatch_effect [of E login_url d "login_config E" "bumpDebounce t s"]) (simp add: b)
    ultimately show ?thesis using start(2,3) x b(4) by simp
  qed
qed

text \<open>
  C16. Inside the debounce period \<open>maybeLogin\<close> returns without a token. When the wait ends and nobody
  has logged in, the login is started and not awaited: the method returns while the login is in
  flight (or after its rejection went unhandled), the token is as empty as before, and the request
  that follows is built with it.
\<close>

theorem debounced_login_not_awaited:
  assumes "\<not> truthy (access_token s)" and "loadPersistedTokens E s = Some (Inr (), s1)"
    and "\<not> truthy (access_token s1)" and "\<not> isDebounceCleared s1 (now s1)"
    and "waitForDebounceClearance E s1 = Some (Inr (), s2)" and "\<not> truthy (access_token s2)"
    and "spawn_updateDebounceAndLogin E (now s1) s2 = Some (r, s')"
  shows "maybeLogin E s = Some (Inr (), s') \<and> request E url data s = handleRequest E url data s' \<and>
    (inflight_logins s' = inflight_logins s2 @ [length (sent s2)] \<or> (\<exists>e. unhandled s' = unhandled s2 @ [e])) \<and>
    \<not> truthy (oget (getRequestData E s' []) ''access_token'')"
proof -
  note sp = spawn_effect [OF assms(7)]
  have ml: "maybeLogin E s = Some (Inr (), s')"
    using assms conjunct1 [OF sp]
    by (simp add: maybeLogin_def seqE_def bindE_def Let_def)
  then have "request E url data s = handleRequest E url data s'"
    by (simp add: request_def seqE_def bindE_def)
  with ml sp assms(6) show ?thesis by (auto simp: getRequestData_def)
qed

lemma debounced_login_not_awaited_witness:
  "\<exists>s'. maybeLogin (demo_env login_server) ((demo_state (JStr ''''))\<lparr>lastLoginAttempt := 999900\<rparr>) = Some (Inr (), s') \<and>
    \<not> truthy (oget (getRequestData (demo_env login_server) s' []) ''access_token'')"
proof -
  let ?E = "demo_env login_server" and ?s = "(demo_state (JStr ''''))\<lparr>lastLoginAttempt := 999900\<rparr>"
  let ?s1 = "?s\<lparr>fs_calls := 1\<rparr>" and ?s2 = "?s\<lparr>fs_calls := 1, now := 1002000\<rparr>"
  have load: "loadPersistedTokens ?E ?s = Some (Inr (), ?s1)"
    by (subst demo_load_empty) simp_all
  have wait: "waitForDebounceClearance ?E ?s1 = Some (Inr (), ?s2)"
    by (simp add: waitForDebounceClearance_def debounce_wait.simps timer_delay_def Let_def)
  have sp: "\<exists>s'. spawn_updateDebounceAndLogin ?E 1000000 ?s2 = Some (Inr (), s')"
    by (simp add: spawn_updateDebounceAndLogin_def updateDebounceAndLogin_start_def login_start_def
        login_data_def nullish_def bindE_def seqE_def dispatch_quiet)
  then obtain s' where s': "spawn_updateDebounceAndLogin ?E (now ?s1) ?s2 = Some (Inr (), s')" by auto
  from debounced_login_not_awaited [OF _ load _ _ wait _ s'] show ?thesis
    by (simp add: isDebounceCleared_def)
qed

end
