(* ===== verification/SessionProps.thy ===== *)
theory SessionProps
  imports ClientProps
begin

text \<open>
  Whole requests: \<open>maybeLogin\<close>, the request and its one retry. The locale \<open>session_preorder\<close> adds the
  debounce bookkeeping and the tasks that run during the wait to \<open>client_preorder\<close>; its
  interpretations give the debounce bounds, the number of requests and the time of the retry.
\<close>

locale session_preorder = client_preorder R okq for R okq +
  fixes E :: env
  assumes step_others: "R s (others E s)"
    and step_last: "R s (s\<lparr>lastLoginAttempt := t\<rparr>)"
    and step_reset: "R s (resetDebounceIfNeeded t s)"
    and step_bump: "R s (bumpDebounce t s)"
    and step_inflight: "R s (s\<lparr>inflight_logins := l\<rparr>)"
    and step_unhandled: "R s (s\<lparr>unhandled := l'\<rparr>)"
begin

lemma rel_wait: "relates R (debounce_wait E w)"
proof (rule relatesI)
  fix s r s' assume res: "debounce_wait E w s = Some (r, s')"
  have "E = E' \<longrightarrow> R s (snd y)" if "debounce_wait E' w s = Some y" for E' y
  proof (rule debounce_wait.raw_induct [where P = "\<lambda>E' w s y. E = E' \<longrightarrow> R s (snd y)", OF _ that])
    fix f :: "env \<Rightarrow> int \<Rightarrow> unit m" and E' w and s :: st and y
    assume IH: "\<And>E' w s y. f E' w s = Some y \<Longrightarrow> E = E' \<longrightarrow> R s (snd y)"
    let ?s1 = "s\<lparr>now := now s + timer_delay (Some (2 * 1000))\<rparr>"
    assume eq: "(if w < loginAttemptDebounceMilliseconds s
       then let s' = others E' ?s1 in
            if truthy (access_token s') then Some (Inr (), s') else f E' (w + 2000) s'
       else Some (Inr (), s)) = Some y"
    show "E = E' \<longrightarrow> R s (snd y)"
    proof
      assume E: "E = E'"
      have step: "R s (others E ?s1)"
        by (rule R_trans [OF step_now step_others]) (simp add: order_trans [OF _ timer_delay_pos])
      show "R s (snd y)"
      proof (cases "w < loginAttemptDebounceMilliseconds s \<and> \<not> truthy (access_token (others E ?s1))")
        case True
        with eq E have "f E (w + 2000) (others E ?s1) = Some y" by (simp add: Let_def)
        then show ?thesis using IH step R_trans by blast
      next
        case False
        with eq E step show ?thesis by (auto simp: Let_def R_refl split: if_splits)
      qed
    qed
  qed
  from this [OF res] show "R s s'" by simp
qed

lemma rel_spawn: "relates R (spawn_updateDebounceAndLogin E t)"
proof (rule relatesI)
  fix s r s' assume "spawn_updateDebounceAndLogin E t s = Some (r, s')"
  then obtain x s1 where st: "updateDebounceAndLogin_start E t s = Some (x, s1)"
      "s' = (case x of Inl e \<Rightarrow> s1\<lparr>unhandled := unhandled s1 @ [e]\<rparr>
             | Inr (i, d) \<Rightarrow> s1\<lparr>inflight_logins := inflight_logins s1 @ [i]\<rparr>)"
    by (auto simp: spawn_updateDebounceAndLogin_def split: option.splits sum.splits prod.splits)
  have "relates R (updateDebounceAndLogin_start E t)"
    unfolding updateDebounceAndLogin_start_def by (intro rel_rules rel_modS rel_login_start step_bump)
  then have "R s s1" using st(1) by (rule relatesD)
  then show "R s s'"
    using st(2) by (auto split: sum.splits prod.splits intro: R_trans step_inflight step_unhandled)
qed

lemma rel_maybeLogin: "relates R (maybeLogin E)"
  unfolding maybeLogin_def tryLogin_def Let_def waitForDebounceClearance_def
  by (intro rel_rules rel_load rel_modS step_reset step_last rel_login rel_wait rel_spawn)

lemma rel_api_call:
  assumes "\<And>s. okq (request_of (request_config E u (getRequestData E s d) []))"
  shows "relates R (api_call E u d)"
proof (rule relatesI)
  fix s r s' assume "api_call E u d s = Some (r, s')"
  then have "performRequest E u (getRequestData E s d) [] s = Some (r, s')" by (simp add: api_call_def)
  with rel_perform [OF assms] show "R s s'" by (rule relatesD)
qed

end

section \<open>The debounce stays between one second and five minutes\<close>

definition debounce_ok :: "st \<Rightarrow> bool" where
  "debounce_ok s = (1000 \<le> loginAttemptDebounceMilliseconds s \<and> loginAttemptDebounceMilliseconds s \<le> 300000)"

definition keeps_debounce :: "env \<Rightarrow> st \<Rightarrow> st \<Rightarrow> bool" where
  "keeps_debounce E s s' = ((\<forall>t. debounce_ok t \<longrightarrow> debounce_ok (others E t)) \<longrightarrow> debounce_ok s \<longrightarrow> debounce_ok s')"

interpretation debounce: session_preorder "keeps_debounce E" "\<lambda>_. True" E for E
  by unfold_locales (auto simp: keeps_debounce_def debounce_ok_def resetDebounceIfNeeded_def bumpDebounce_def Let_def)

lemma debounce_handleRequest: "relates (keeps_debounce E) (handleRequest E u d)"
  unfolding handleRequest_def handleRetry_def
  by (auto intro!: debounce.rel_rules debounce.rel_api_call debounce.rel_maybeLogin debounce.rel_sleepMilli
      split: option.split)

text \<open>
  C18. The login debounce is always between one second and five minutes: it starts at one second, and
  every request, however it ends, keeps it in that range (doubling is capped, the twelve-hour reset
  goes back to one second), as long as the tasks that run during the wait do.
\<close>

theorem debounce_bounds:
  assumes "\<forall>t. debounce_ok t \<longrightarrow> debounce_ok (others E t)" and "debounce_ok s"
    and "request E url data s = Some (r, s')"
  shows "debounce_ok s' \<and> debounce_ok (construct_state t files)"
proof -
  have "relates (keeps_debounce E) (request E url data)"
    unfolding request_def by (intro debounce.rel_rules debounce.rel_maybeLogin debounce_handleRequest)
  then have "keeps_debounce E s s'" using assms(3) by (rule relatesD)
  with assms show ?thesis by (simp add: keeps_debounce_def debounce_ok_def construct_state_def)
qed

text \<open>
  The wait for the debounce ends: under the same condition on the other tasks the loop of
  two-second steps returns from every state in range.
\<close>

theorem debounce_wait_ends:
  assumes "\<forall>t. debounce_ok t \<longrightarrow> debounce_ok (others E t)" and "debounce_ok s"
  shows "\<exists>s'. waitForDebounceClearance E s = Some (Inr (), s') \<and> debounce_ok s'"
proof -
  have "\<exists>s'. debounce_wait E w s = Some (Inr (), s') \<and> debounce_ok s'" if "debounce_ok s" for w s
    using that
  proof (induction "nat (300000 - w)" arbitrary: w s rule: less_induct)
    case less
    let ?s' = "others E (s\<lparr>now := now s + timer_delay (Some (2 * 1000))\<rparr>)"
    have ok: "debounce_ok ?s'" using less.prems assms(1) by (simp add: debounce_ok_def)
    show ?case
    proof (cases "w < loginAttemptDebounceMilliseconds s")
      case True
      then have "nat (300000 - (w + 2000)) < nat (300000 - w)"
        using less.prems by (simp add: debounce_ok_def)
      from less.hyps [OF this ok] True ok show ?thesis
        by (subst debounce_wait.simps) (auto simp: Let_def)
    qed (use less.prems in \<open>simp add: debounce_wait.simps\<close>)
  qed
  then show ?thesis using assms(2) by (simp add: waitForDebounceClearance_def)
qed

lemma debounce_wait_ends_witness:
  "\<exists>s'. waitForDebounceClearance (demo_env no_server) (demo_state JNull) = Some (Inr (), s') \<and> debounce_ok s'"
  by (rule debounce_wait_ends) (simp_all add: debounce_ok_def)

section \<open>When a request settles\<close>

definition refresh_sane :: "env \<Rightarrow> bool" where
  "refresh_sane E = (\<forall>i q r. rq_url q = refresh_url \<longrightarrow> net E i q = Inr r \<longrightarrow> token_error (resp_data r) = None)"

lemma receive_net:
  assumes "perform_receive E i u s = Some (Inr res, s')"
  shows "net E i (sent s ! i) = Inr res"
  using assms
  by (auto simp: perform_receive_def http_await_def handleRequestError_def elim!: bindE_cases seqE_cases catchE_cases)

lemma resume_at:
  assumes "settles refresh \<or> (\<forall>r. net E i (sent s ! i) = Inr r \<longrightarrow> token_error (resp_data r) = None)"
  shows "bindE (perform_receive E i u) (\<lambda>res. handleApiResponse refresh res u d) s \<noteq> None"
proof -
  obtain x s1 where rec: "perform_receive E i u s = Some (x, s1)"
    using settles_receive(5) by (rule settlesE)
  show ?thesis
  proof (cases x)
    case (Inl e)
    with rec show ?thesis by (simp add: bindE_def)
  next
    case (Inr res)
    have "settles (handleApiResponse refresh res u d)"
      using assms receive_net [of E i u s res s1] rec Inr by (intro settles_handleApi) auto
    with rec Inr show ?thesis by (simp add: bindE_def settles_def)
  qed
qed

lemma settles_performRequest_refresh:
  assumes "refresh_sane E"
  shows "settles (performRequest E refresh_url d [])"
  unfolding settles_def
proof
  fix s
  obtain s1 where s1: "perform_dispatch E refresh_url d [] s = Some (Inr (length (sent s)), s1)"
      "sent s1 = sent s @ [request_of (request_config E refresh_url d [])]"
    by (rule dispatch_effect)
  have "rq_url (sent s1 ! length (sent s)) = refresh_url"
    by (simp add: s1(2))
  then have "perform_resume E (length (sent s)) refresh_url d s1 \<noteq> None"
    using assms by (subst perform_resume.simps, intro resume_at) (auto simp: refresh_sane_def)
  then show "performRequest E refresh_url d [] s \<noteq> None"
    by (simp add: performRequest_def bindE_def s1(1))
qed

lemma settles_refresh_with: "(\<And>d. settles (p d)) \<Longrightarrow> settles (refreshToken_with E p)"
  unfolding refreshToken_with_def by (intro settling) auto

lemma settles_resume: "refresh_sane E \<Longrightarrow> settles (perform_resume E i u d)"
  unfolding settles_def
  by (subst perform_resume.simps, intro allI resume_at disjI1 settles_refresh_with)
    (simp add: settles_performRequest_refresh [unfolded performRequest_def])

lemma settles_performRequest: "refresh_sane E \<Longrightarrow> settles (performRequest E u d c)"
  unfolding performRequest_def by (intro settling settles_resume)

text \<open>
  C4. Requests terminate when the refresh endpoint is sane. If the server never answers the refresh
  request itself with a token error, every request and every refresh settles, with a value or an
  error, whatever else the server, the file system and the network do.
\<close>

theorem requests_settle:
  assumes "\<forall>i q r. rq_url q = refresh_url \<longrightarrow> net E i q = Inr r \<longrightarrow> token_error (resp_data r) = None"
  shows "performRequest E url data config s \<noteq> None \<and> refreshToken E s \<noteq> None"
proof -
  have "refresh_sane E" using assms by (simp add: refresh_sane_def)
  then have "settles (performRequest E url data config)" "settles (refreshToken E)"
    by (simp_all add: settles_performRequest refreshToken_def settles_refresh_with)
  then show ?thesis by (simp add: settles_def)
qed

lemma receive_ok:
  assumes "net E i (sent s ! i) = Inr res"
  obtains s' where "perform_receive E i u s = Some (Inr res, s')"
proof -
  obtain x s' where rec: "perform_receive E i u s = Some (x, s')"
    using settles_receive(5) by (rule settlesE)
  have lg: "y = Inr ()" if "logApiResponse E r u t = Some (y, t')" for r t y t'
    using that by (auto simp: logApiResponse_def log_line_def whenE_def split: if_splits)
  have rt: "y = Inr ()" if "checkRateLimit E h t = Some (y, t')" for h t y t'
    using that by (auto simp: checkRateLimit_def sleepMilliSecounds_def split: option.splits if_splits)
  have "x = Inr res"
    using rec assms
    by (auto simp: perform_receive_def http_await_def elim!: bindE_cases seqE_cases catchE_cases dest!: lg rt)
  with rec that show ?thesis by simp
qed

lemma refresh_with_none: "(\<And>d s. p d s = None) \<Longrightarrow> refreshToken_with E p s = None"
  by (simp add: refreshToken_with_def numeral_2_eq_2 catchE_def bindE_def)

lemma tokenError_none: "(\<And>s. r s = None) \<Longrightarrow> handleAccessTokenError r res em c s = None"
  by (simp add: handleAccessTokenError_def seqE_def bindE_def catchE_def)

lemma token_errors_loop:
  assumes all: "\<forall>i q. \<exists>r. net E i q = Inr r \<and> token_error (resp_data r) \<noteq> None"
    and none: "\<And>i u d s. f E i u d s = None"
  shows "bindE (perform_receive E i u) (\<lambda>res. handleApiResponse
    (refreshToken_with E (\<lambda>d. bindE (perform_dispatch E refresh_url d []) (\<lambda>j. f E j refresh_url d))) res u d) s = None"
proof -
  obtain r em where r: "net E i (sent s ! i) = Inr r" "token_error (resp_data r) = Some em"
    using all by fastforce
  obtain s1 where s1: "perform_receive E i u s = Some (Inr r, s1)"
    using r(1) by (rule receive_ok)
  have "bindE (perform_dispatch E refresh_url d []) (\<lambda>j. f E j refresh_url d) s = None" for d s
    by (rule dispatch_effect [of E refresh_url d "[]" s]) (simp add: bindE_def none)
  then have "refreshToken_with E (\<lambda>d. bindE (perform_dispatch E refresh_url d []) (\<lambda>j. f E j refresh_url d)) s = None" for s
    by (rule refresh_with_none)
  then show ?thesis
    using s1 by (simp add: bindE_def handleApiResponse_refresh [OF r(2)] tokenError_none)
qed

text \<open>
  C5. Otherwise they need not. If the server answers every request with a token error, the refresh
  that a token error starts runs into one itself and starts another: neither the request nor the
  refresh ever settles.
\<close>

theorem refresh_never_settles:
  assumes "\<forall>i q. \<exists>r. net E i q = Inr r \<and> token_error (resp_data r) \<noteq> None"
  shows "performRequest E url data config s = None \<and> refreshToken E s = None"
proof -
  have res: "perform_resume E i u d s = None" for i u d s
  proof (rule ccontr)
    assume "perform_resume E i u d s \<noteq> None"
    then obtain y where y: "perform_resume E i u d s = Some y" by auto
    have "E \<noteq> E"
    proof (rule perform_resume.raw_induct [where P = "\<lambda>E' i u d s y. E' \<noteq> E", OF _ y])
      fix f :: "env \<Rightarrow> nat \<Rightarrow> string \<Rightarrow> obj \<Rightarrow> api_result m" and E' i u d s y
      assume IH: "\<And>E' i u d s y. f E' i u d s = Some y \<Longrightarrow> E' \<noteq> E"
        and eq: "bindE (perform_receive E' i u) (\<lambda>res. handleApiResponse
          (refreshToken_with E' (\<lambda>d. bindE (perform_dispatch E' refresh_url d []) (\<lambda>j. f E' j refresh_url d))) res u d) s = Some y"
      have none: "f E i u d s = None" for i u d s using IH by (metis not_None_eq)
      have "bindE (perform_receive E i u) (\<lambda>res. handleApiResponse
          (refreshToken_with E (\<lambda>d. bindE (perform_dispatch E refresh_url d []) (\<lambda>j. f E j refresh_url d))) res u d) s = None"
        by (rule token_errors_loop [of E f, OF assms]) (rule none)
      with eq show "E' \<noteq> E" by auto
    qed
    then show False by simp
  qed
  have perf: "performRequest E u d c s = None" for u d c s
    by (rule dispatch_effect [of E u d c s]) (simp add: performRequest_def bindE_def res)
  then show ?thesis by (simp add: refreshToken_def refresh_with_none)
qed

text \<open>Witnesses: a server that is down, and one that answers every request with code 2001.\<close>

definition expired_server :: "nat \<Rightarrow> http_request \<Rightarrow> exn + http_response" where
  "expired_server i q = Inr (ok_body [(''code'', JNum 2001), (''msg'', JStr ''expired'')])"

lemma str_includes_short: "length s < length t \<Longrightarrow> \<not> str_includes s t"
  using sublist_length_le [of t s] by (auto simp: includes_iff_sublist)

lemma length_to_lower [simp]: "length (to_lower s) = length s"
  by (simp add: to_lower_def)

lemma expired_class:
  "classify (JObj [(''code'', JNum 2001), (''msg'', JStr ''expired'')]) = TokenError ''expired''"
proof -
  have "\<not> isInvalidCredentialsError ''expired''"
    unfolding isInvalidCredentialsError_def by (simp add: str_includes_short)
  moreover have "\<not> isRateLimitError (JNum 2001) ''expired''" by (simp add: isRateLimitError_def)
  moreover have "isAccessTokenError (JNum 2001) ''expired''" by (simp add: isAccessTokenError_def)
  moreover have "response_message (JObj [(''code'', JNum 2001), (''msg'', JStr ''expired'')]) = JStr ''expired''"
    "response_code (JObj [(''code'', JNum 2001), (''msg'', JStr ''expired'')]) = JNum 2001"
    by (simp_all add: response_message_def response_code_def own_prop_def js_or_def)
  ultimately show ?thesis by (simp add: classify_def nullish_def)
qed

lemma expired_token_error:
  "token_error (resp_data (ok_body [(''code'', JNum 2001), (''msg'', JStr ''expired'')])) = Some ''expired''"
  by (simp add: token_error_def ok_body_def expired_class)

lemma requests_settle_witness:
  "performRequest (demo_env no_server) ''u'' [] [] (demo_state JNull) \<noteq> None \<and>
   refreshToken (demo_env no_server) (demo_state JNull) \<noteq> None"
  by (rule requests_settle) (simp add: no_server_def)

lemma refresh_never_settles_witness:
  "performRequest (demo_env expired_server) ''u'' [] [] (demo_state JNull) = None \<and>
   refreshToken (demo_env expired_server) (demo_state JNull) = None"
  by (rule refresh_never_settles) (simp add: expired_server_def expired_token_error)

lemma resume_failed:
  assumes "net E i (sent s ! i) = Inl e"
  shows "\<exists>s'. perform_resume E i u d s = Some (Inl e, s')"
  by (subst perform_resume.simps)
    (simp add: perform_receive_def http_await_def assms handleRequestError_def log_line_def bindE_def catchE_def)

lemma demo_request:
  "\<exists>r s'. request (demo_env no_server) ''u'' [] (demo_state (JStr ''t'')) = Some (r, s')"
proof -
  let ?E = "demo_env no_server" and ?s = "demo_state (JStr ''t'')"
  obtain e s1 where "performRequest ?E ''u'' (getRequestData ?E ?s []) [] ?s = Some (Inl e, s1)"
    using resume_failed [of ?E] by (fastforce simp: performRequest_def bindE_def dispatch_quiet no_server_def)
  then have "request ?E ''u'' [] ?s = Some (Inl e, s1)"
    by (simp add: request_def maybeLogin_def handleRequest_def api_call_def bindE_def seqE_def)
  then show ?thesis by blast
qed

lemma debounce_bounds_witness:
  "\<exists>r s'. request (demo_env no_server) ''u'' [] (demo_state (JStr ''t'')) = Some (r, s') \<and> debounce_ok s'"
proof -
  let ?E = "demo_env no_server" and ?s = "demo_state (JStr ''t'')"
  obtain r s1 where req: "request ?E ''u'' [] ?s = Some (r, s1)" using demo_request by blast
  have ok: "debounce_ok ?s" by (simp add: debounce_ok_def)
  have "\<forall>t. debounce_ok t \<longrightarrow> debounce_ok (others ?E t)" by simp
  from debounce_bounds [OF this ok req] req show ?thesis by blast
qed

section \<open>At most one retry\<close>

definition others_silent :: "string \<Rightarrow> env \<Rightarrow> bool" where
  "others_silent u E = (\<forall>t. calls u (others E t) = calls u t)"

definition keeps_calls :: "env \<Rightarrow> string \<Rightarrow> st \<Rightarrow> st \<Rightarrow> bool" where
  "keeps_calls E u s s' = (others_silent u E \<longrightarrow> same_calls u s s')"

interpretation ses_calls: session_preorder "keeps_calls E u"
  "\<lambda>q. rq_url q \<noteq> u \<or> u = refresh_url \<or> u = login_url" E for E u
  by unfold_locales
    (auto simp: keeps_calls_def same_calls_def calls_def others_silent_def resetDebounceIfNeeded_def
      bumpDebounce_def Let_def)

lemma api_call_counts:
  assumes "api_call E u d s = Some (r, s')" "u \<noteq> refresh_url" "u \<noteq> login_url"
  shows "calls u s' = calls u s + 1"
proof -
  let ?d = "getRequestData E s d"
  obtain s1 where s1: "perform_dispatch E u ?d [] s = Some (Inr (length (sent s)), s1)"
      "sent s1 = sent s @ [request_of (request_config E u ?d [])]"
    by (rule dispatch_effect)
  then have "calls u s1 = calls u s + 1" by (simp add: calls_def)
  moreover have "perform_resume E (length (sent s)) u ?d s1 = Some (r, s')"
    using assms(1) s1(1) by (simp add: api_call_def performRequest_def bindE_def)
  then have "same_calls u s1 s'" by (rule relatesD [OF calls.rel_resume])
  ultimately show ?thesis using assms(2,3) by (simp add: same_calls_def)
qed

lemma retry_counts:
  assumes "handleRetry E u d e s = Some (r, s')" "others_silent u E" "u \<noteq> refresh_url" "u \<noteq> login_url"
  shows "calls u s \<le> calls u s' \<and> calls u s' \<le> calls u s + 1"
proof -
  have pre: "relates (keeps_calls E u) (seqE (whenE b (sleepMilliSecounds n)) (maybeLogin E))" for b n
    by (intro ses_calls.rel_rules ses_calls.rel_sleepMilli ses_calls.rel_maybeLogin)
  from assms(1) obtain s1 x where s1: "seqE (whenE (0 < retryAfter e - now s) (sleepMilliSecounds (Some (retryAfter e - now s))))
      (maybeLogin E) s = Some (x, s1)"
    and rest: "(x = Inr () \<and> (\<exists>y. api_call E u d s1 = Some (y, s'))) \<or> s' = s1"
    by (auto simp: handleRetry_def seqE_def bindE_def split: option.splits sum.splits if_splits)
  have "calls u s1 = calls u s"
    using relatesD [OF pre s1] assms(2-4) by (simp add: keeps_calls_def same_calls_def)
  with rest assms(3,4) show ?thesis by (auto dest: api_call_counts)
qed

text \<open>
  One retry at most. A request sends its path at least once if it returns and at most twice
  however it ends: refreshes and logins in between do not repeat it.
\<close>

theorem request_sends_at_most_two:
  assumes "request E url data s = Some (r, s')" and "url \<noteq> refresh_url" "url \<noteq> login_url"
    and "\<forall>t. calls url (others E t) = calls url t"
  shows "calls url s' \<le> calls url s + 2 \<and> (\<forall>v. r = Inr v \<longrightarrow> calls url s + 1 \<le> calls url s')"
proof -
  have silent: "others_silent url E" using assms(4) by (simp add: others_silent_def)
  have frame: "calls url t' = calls url t" if "maybeLogin E t = Some (x, t')" for t t' x
    using relatesD [OF ses_calls.rel_maybeLogin [of E url] that] silent assms(2,3)
    by (simp add: keeps_calls_def same_calls_def)
  from assms(1) consider e where "maybeLogin E s = Some (Inl e, s')" "r = Inl e"
    | s1 e where "maybeLogin E s = Some (Inr (), s1)" "api_call E url data s1 = Some (Inl e, s')" "r = Inl e"
    | s1 res where "maybeLogin E s = Some (Inr (), s1)" "api_call E url data s1 = Some (Inr res, s')"
    | s1 res s2 e where "maybeLogin E s = Some (Inr (), s1)" "api_call E url data s1 = Some (Inr res, s2)"
      "handleRetry E url data e s2 = Some (r, s')"
    unfolding request_def handleRequest_def
    by (auto elim!: seqE_cases bindE_cases split: if_splits option.splits)
  then show ?thesis
  proof cases
    case 4
    then have "calls url s2 = calls url s + 1"
      using frame api_call_counts assms(2,3) by simp
    with retry_counts [OF 4(3) silent assms(2,3)] show ?thesis by auto
  qed (use frame api_call_counts [OF _ assms(2,3)] in fastforce)+
qed

lemma request_sends_at_most_two_witness:
  "\<exists>r s'. request (demo_env no_server) ''u'' [] (demo_state (JStr ''t'')) = Some (r, s') \<and> calls ''u'' s' \<le> 2"
proof -
  obtain r s' where req: "request (demo_env no_server) ''u'' [] (demo_state (JStr ''t'')) = Some (r, s')"
    using demo_request by blast
  have "calls ''u'' (demo_state (JStr ''t'')) = 0" by (simp add: calls_def)
  with request_sends_at_most_two [OF req] req show ?thesis by auto
qed

end
