(* ===== verification/RecoveryProps.thy ===== *)
theory RecoveryProps
  imports SessionProps
begin

text \<open>
  Scenarios of the request path in full: recovery from an expired token, the wait of a rate-limited
  request, refused credentials, and what a request and a log line carry.
\<close>

section \<open>Steps on a client that logs nothing\<close>

definition quiet :: "env \<Rightarrow> st \<Rightarrow> bool" where
  "quiet E s = (\<not> dumpData s \<and> \<not> apiLogEnabled (cfg E))"

lemma receive_body:
  "quiet E s \<Longrightarrow> net E i (sent s ! i) = Inr (ok_body ob) \<Longrightarrow>
   perform_receive E i u s = Some (Inr (ok_body ob), s\<lparr>now := now s + int (latency E i)\<rparr>)"
  by (simp add: quiet_def receive_quiet)

lemma perform_step:
  assumes "quiet E s" "\<And>q. net E (length (sent s)) q = Inr (ok_body ob)"
  shows "performRequest E u d c s =
    handleApiResponse (refreshToken E) (ok_body ob) u d
      (s\<lparr>sent := sent s @ [request_of (request_config E u d c)], now := now s + int (latency E (length (sent s)))\<rparr>)"
proof -
  let ?s1 = "s\<lparr>sent := sent s @ [request_of (request_config E u d c)]\<rparr>"
  have "quiet E ?s1" using assms(1) by (simp add: quiet_def)
  from receive_body [OF this, of "length (sent s)" ob u] assms(2)
  have rec: "perform_receive E (length (sent s)) u ?s1
    = Some (Inr (ok_body ob), ?s1\<lparr>now := now ?s1 + int (latency E (length (sent s)))\<rparr>)" by simp
  have rf: "refreshToken E = refreshToken_with E (\<lambda>d. bindE (perform_dispatch E refresh_url d [])
      (\<lambda>j. perform_resume E j refresh_url d))"
    by (simp add: refreshToken_def performRequest_def)
  have disp: "perform_dispatch E u d c s = Some (Inr (length (sent s)), ?s1)"
    using assms(1) by (simp add: quiet_def dispatch_quiet)
  show ?thesis
    unfolding performRequest_def bindE_Some(1) [where m = "perform_dispatch E u d c", OF disp]
    by (subst perform_resume.simps, subst bindE_Some(1) [where m = "perform_receive E (length (sent s)) u", OF rec])
      (simp add: rf)
qed

lemma accepted_step:
  assumes "quiet E s" "\<And>q. net E (length (sent s)) q = Inr (ok_body ob)" "classify (JObj ob) = Accepted"
  shows "performRequest E u d c s = Some (Inr (ok_result (ok_body ob)),
    s\<lparr>sent := sent s @ [request_of (request_config E u d c)], now := now s + int (latency E (length (sent s)))\<rparr>)"
  unfolding perform_step [OF assms(1,2)] handleApiResponse_classify
  by (simp add: ok_body_def assms(3) respond_def)

lemma writes_ok:
  assumes "tokenPersistPath E = Inr p" "fs_write_fault E (fs_calls s) = None"
  shows "updateTokens E t s = Some (Inr (), s\<lparr>access_token := own_prop t ''access_token'',
     refresh_token := own_prop t ''refresh_token'', fs_calls := fs_calls s + 1,
     disk := (disk s)(p \<mapsto> stringify (JObj [(''access_token'', own_prop t ''access_token''),
        (''refresh_token'', own_prop t ''refresh_token'')]))\<rparr>)"
  using assms
  by (simp add: updateTokens_def persistTokens_def numeral_2_eq_2 catchE_def writeFile_def Let_def
      del: stringify.simps)

lemma ok_result_simps [simp]:
  "ar_ok (ok_result r)" "resp_data (ok_result (ok_body ob)) = JObj ob" "\<not> ar_ok (failed_result r e)"
  "ar_error (failed_result r e) = Some e"
  by (simp_all add: ok_result_def failed_result_def ok_body_def http_response.defs)

definition refresh_data :: "env \<Rightarrow> st \<Rightarrow> obj" where
  "refresh_data E s = spread (getRequestData E s []) [(''refresh_token'', refresh_token s)]"

lemma refresh_step:
  assumes "quiet E s" "\<And>q. net E (length (sent s)) q = Inr (ok_body ob)" "classify (JObj ob) = Accepted"
    and "oget ob ''data'' = JObj tk" "tokenPersistPath E = Inr p" "fs_write_fault E (fs_calls s) = None"
  obtains s' where "refreshToken E s = Some (Inr (), s')"
    "sent s' = sent s @ [request_of (request_config E refresh_url (refresh_data E s) [])]"
    "now s' = now s + int (latency E (length (sent s)))" "dumpData s' = dumpData s"
    "access_token s' = oget tk ''access_token''" "refresh_token s' = oget tk ''refresh_token''"
proof -
  have "own_prop (JObj tk) k = oget tk k" for k by (simp add: own_prop_def)
  then have "\<exists>s'. refreshToken E s = Some (Inr (), s') \<and>
    sent s' = sent s @ [request_of (request_config E refresh_url (refresh_data E s) [])] \<and>
    now s' = now s + int (latency E (length (sent s))) \<and> dumpData s' = dumpData s \<and>
    access_token s' = oget tk ''access_token'' \<and> refresh_token s' = oget tk ''refresh_token''"
    using assms(4-6)
    by (simp add: refreshToken_def refreshToken_with_def refresh_data_def numeral_2_eq_2 catchE_def
        bindE_def accepted_step [OF assms(1-3)] writes_ok del: stringify.simps)
  then show ?thesis using that by blast
qed

lemma request_fields:
  "rq_url (request_of (request_config E u d [])) = u" "rq_data (request_of (request_config E u d [])) = JObj d"
  by (simp_all add: request_of_def request_config_def)

lemma token_of_request:
  "''access_token'' \<notin> fst ` set d \<Longrightarrow> oget (getRequestData E s d) ''access_token'' = access_token s"
  by (simp add: getRequestData_def oget_spread_notin)

text \<open>
  C2. An expired token is replaced and the request repeated. When the server refuses a request with
  a token error, accepts the refresh and then accepts the request, exactly these three requests are
  sent, without a waiting time in between: the second carries the refresh token, the third the new
  access token, and the answer of the third is the result.
\<close>

theorem expired_token_recovery:
  assumes "\<not> dumpData s" "\<not> apiLogEnabled (cfg E)"
    and "\<And>q. net E (length (sent s)) q = Inr (ok_body b1)" "classify (JObj b1) = TokenError em"
    and "\<And>q. net E (length (sent s) + 1) q = Inr (ok_body b2)" "classify (JObj b2) = Accepted"
    and "oget b2 ''data'' = JObj tk" "truthy (oget tk ''access_token'')"
    and "\<And>q. net E (length (sent s) + 2) q = Inr (ok_body b3)" "classify (JObj b3) = Accepted"
    and "tokenPersistPath E = Inr p" "fs_write_fault E (fs_calls s) = None"
    and "''access_token'' \<notin> fst ` set data" and "0 < now s"
  shows "\<exists>s' q1 q2 q3. handleRequest E url data s = Some (Inr (ok_result (ok_body b3)), s') \<and>
    sent s' = sent s @ [q1, q2, q3] \<and> rq_url q1 = url \<and> rq_url q2 = refresh_url \<and> rq_url q3 = url \<and>
    rq_data q1 = JObj (getRequestData E s data) \<and>
    opt_prop (rq_data q2) ''refresh_token'' = refresh_token s \<and>
    opt_prop (rq_data q3) ''access_token'' = oget tk ''access_token'' \<and>
    access_token s' = oget tk ''access_token'' \<and>
    now s' = now s + int (latency E (length (sent s))) + int (latency E (length (sent s) + 1))
           + int (latency E (length (sent s) + 2))"
proof -
  have q: "quiet E s" using assms(1,2) by (simp add: quiet_def)
  define n where "n = length (sent s)"
  define q1 where "q1 = request_of (request_config E url (getRequestData E s data) [])"
  define s2 where "s2 = s\<lparr>sent := sent s @ [q1], now := now s + int (latency E n), access_token := JStr ''''\<rparr>"
  have s2: "quiet E s2" "sent s2 = sent s @ [q1]" "now s2 = now s + int (latency E n)"
    "refresh_token s2 = refresh_token s" "fs_calls s2 = fs_calls s"
    using q by (simp_all add: s2_def quiet_def)
  have n2: "net E (length (sent s2)) x = Inr (ok_body b2)" for x using assms(5) s2(2) by simp
  have f2: "fs_write_fault E (fs_calls s2) = None" using assms(12) s2(5) by simp
  obtain s3 where rf: "refreshToken E s2 = Some (Inr (), s3)"
    "sent s3 = sent s2 @ [request_of (request_config E refresh_url (refresh_data E s2) [])]"
    "now s3 = now s2 + int (latency E (length (sent s2)))" "dumpData s3 = dumpData s2"
    "access_token s3 = oget tk ''access_token''" "refresh_token s3 = oget tk ''refresh_token''"
    by (rule refresh_step [OF s2(1) n2 assms(6,7,11) f2])
  have te: "token_error (resp_data (ok_body b1)) = Some em"
    using assms(4) by (simp add: token_error_def ok_body_def)
  define e where "e = \<lparr>retryAfter = now s3,
    err_message = ''Access Token had expired and a new one was obtained. Please retry your request.'',
    err_code = response_code (JObj b1)\<rparr>"
  have first: "api_call E url data s = Some (Inr (failed_result (ok_body b1) e), s3)"
    unfolding api_call_def bindE_getS_apply perform_step [OF q assms(3)] handleApiResponse_refresh [OF te]
    using rf(1,5) assms(8)
    by (simp add: handleAccessTokenError_def catchE_def seqE_def bindE_def e_def ok_body_def
        s2_def q1_def n_def)
  have q3: "quiet E s3" using s2(1) rf(4) by (simp add: quiet_def)
  have n3: "length (sent s3) = n + 2" using rf(2) s2(2) by (simp add: n_def)
  have login: "maybeLogin E s3 = Some (Inr (), s3)" using assms(8) rf(5) by (simp add: maybeLogin_def)
  define s4 where "s4 = s3\<lparr>sent := sent s3 @ [request_of (request_config E url (getRequestData E s3 data) [])],
      now := now s3 + int (latency E (n + 2))\<rparr>"
  have third: "api_call E url data s3 = Some (Inr (ok_result (ok_body b3)), s4)"
    unfolding api_call_def bindE_getS_apply s4_def
    using accepted_step [OF q3 _ assms(10), of url "getRequestData E s3 data" "[]"] n3 assms(9) by (simp add: n_def)
  have retry: "handleRetry E url data e s3 = Some (Inr (ok_result (ok_body b3)), s4)"
    using third login by (simp add: handleRetry_def e_def seqE_def bindE_def)
  have result: "handleRequest E url data s = Some (Inr (ok_result (ok_body b3)), s4)" if "now s3 \<noteq> 0"
    using first retry that by (simp add: handleRequest_def bindE_def e_def)
  show ?thesis
    using assms(13,14) result s2 rf
    by (auto simp: s4_def q1_def request_fields token_of_request refresh_data_def n_def)
qed

definition renewal_server :: "nat \<Rightarrow> http_request \<Rightarrow> exn + http_response" where
  "renewal_server i q =
     (if i = 0 then Inr (ok_body [(''code'', JNum 2001), (''msg'', JStr ''expired'')])
      else if i = 1 then Inr (ok_body [(''data'', JObj [(''access_token'', JStr ''new''), (''refresh_token'', JStr ''r2'')])])
      else Inr (ok_body [(''code'', JNum 1)]))"

lemma accepted_bodies:
  "classify (JObj [(''data'', d)]) = Accepted" "classify (JObj [(''code'', JNum 1)]) = Accepted"
  by (simp_all add: classify_def nullish_def response_code_def own_prop_def)

lemma expired_token_recovery_witness:
  "\<exists>s'. handleRequest (demo_env renewal_server) ''u'' [] (demo_state (JStr ''old''))
      = Some (Inr (ok_result (ok_body [(''code'', JNum 1)])), s') \<and>
    length (sent s') = 3 \<and> access_token s' = JStr ''new'' \<and> now s' = 1000015"
proof -
  let ?E = "demo_env renewal_server" and ?s = "demo_state (JStr ''old'')"
  obtain p where p: "tokenPersistPath ?E = Inr p" using demo_path by blast
  have "\<exists>s' q1 q2 q3. handleRequest ?E ''u'' [] ?s = Some (Inr (ok_result (ok_body [(''code'', JNum 1)])), s') \<and>
    sent s' = sent ?s @ [q1, q2, q3] \<and> rq_url q1 = ''u'' \<and> rq_url q2 = refresh_url \<and> rq_url q3 = ''u'' \<and>
    rq_data q1 = JObj (getRequestData ?E ?s []) \<and>
    opt_prop (rq_data q2) ''refresh_token'' = refresh_token ?s \<and>
    opt_prop (rq_data q3) ''access_token'' = oget [(''access_token'', JStr ''new''), (''refresh_token'', JStr ''r2'')] ''access_token'' \<and>
    access_token s' = oget [(''access_token'', JStr ''new''), (''refresh_token'', JStr ''r2'')] ''access_token'' \<and>
    now s' = now ?s + int (latency ?E (length (sent ?s))) + int (latency ?E (length (sent ?s) + 1))
           + int (latency ?E (length (sent ?s) + 2))"
    by (rule expired_token_recovery [where em = "''expired''"
        and ?b1.0 = "[(''code'', JNum 2001), (''msg'', JStr ''expired'')]"
        and ?b2.0 = "[(''data'', JObj [(''access_token'', JStr ''new''), (''refresh_token'', JStr ''r2'')])]"])
      (simp_all add: p renewal_server_def expired_class accepted_bodies)
  then show ?thesis by auto
qed


definition limit_server :: "nat \<Rightarrow> http_request \<Rightarrow> exn + http_response" where
  "limit_server i q = (if i = 0 then Inr (ok_body [(''code'', JNum 3044), (''msg'', JStr ''slow'')])
                       else Inr (ok_body [(''code'', JNum 1)]))"

lemma limited_class: "classify (JObj [(''code'', JNum 3044), (''msg'', JStr ''slow'')]) = RateLimited ''slow''"
proof -
  have "\<not> isInvalidCredentialsError ''slow''"
    unfolding isInvalidCredentialsError_def by (simp add: str_includes_short)
  moreover have "isRateLimitError (JNum 3044) ''slow''" by (simp add: isRateLimitError_def)
  moreover have "response_message (JObj [(''code'', JNum 3044), (''msg'', JStr ''slow'')]) = JStr ''slow''"
    "response_code (JObj [(''code'', JNum 3044), (''msg'', JStr ''slow'')]) = JNum 3044"
    by (simp_all add: response_message_def response_code_def own_prop_def js_or_def)
  ultimately show ?thesis by (simp add: classify_def nullish_def)
qed


text \<open>
  Refused credentials end the session. An answer in the bad-credentials class clears the access
  token and rejects after this one request, whatever code came with it.
\<close>

theorem bad_credentials_clear_token:
  assumes "\<not> dumpData s" "\<not> apiLogEnabled (cfg E)"
    and "\<And>q. net E (length (sent s)) q = Inr (ok_body b)" "classify (JObj b) = BadCredentials em"
  shows "\<exists>s' q. handleRequest E url data s = Some (Inl (Error
      (''Invalid Credentials - please check your credentials & account before trying again. Error: '' @ em)), s')
    \<and> access_token s' = JStr '''' \<and> sent s' = sent s @ [q]"
proof -
  have q: "quiet E s" using assms(1,2) by (simp add: quiet_def)
  show ?thesis
    unfolding handleRequest_def api_call_def bindE_assoc bindE_getS_apply
    by (simp add: bindE_def perform_step [OF q assms(3)] handleApiResponse_classify ok_body_def assms(4) respond_def
        seqE_def)
qed

definition locked_server :: "nat \<Rightarrow> http_request \<Rightarrow> exn + http_response" where
  "locked_server i q = Inr (ok_body [(''code'', JNum 2001), (''msg'', JStr ''UserIsLocked'')])"

lemma locked_class:
  "classify (JObj [(''code'', JNum 2001), (''msg'', JStr ''UserIsLocked'')]) = BadCredentials ''UserIsLocked''"
proof -
  have "isInvalidCredentialsError ''UserIsLocked''"
    unfolding isInvalidCredentialsError_def by (simp add: includes_iff_sublist)
  moreover have "response_message (JObj [(''code'', JNum 2001), (''msg'', JStr ''UserIsLocked'')]) = JStr ''UserIsLocked''"
    "response_code (JObj [(''code'', JNum 2001), (''msg'', JStr ''UserIsLocked'')]) = JNum 2001"
    by (simp_all add: response_message_def response_code_def own_prop_def js_or_def)
  ultimately show ?thesis by (simp add: classify_def nullish_def)
qed

lemma bad_credentials_clear_token_witness:
  "\<exists>s' q e. handleRequest (demo_env locked_server) ''u'' [] (demo_state (JStr ''t'')) = Some (Inl e, s')
    \<and> access_token s' = JStr '''' \<and> sent s' = [q]"
  using bad_credentials_clear_token [of "demo_state (JStr ''t'')" "demo_env locked_server"
      "[(''code'', JNum 2001), (''msg'', JStr ''UserIsLocked'')]" "''UserIsLocked''" "''u''" "[]"]
  by (simp add: locked_server_def locked_class) blast

text \<open>
  Codes that arrive as strings are errors of no class. The test for an error converts the code to
  a number, the tests for its class compare it with numbers by strict equality: a string code other
  than 1 whose message has none of the known texts is reported as a plain error, also for the codes
  of rate limits, expired tokens and bad requests, so that no retry and no refresh happens.
\<close>

theorem string_codes_unclassified:
  assumes "response_code d = JStr (show_int n)" "n \<noteq> 1" "response_message d = JStr em" "\<not> nullish d"
    and "\<not> isInvalidCredentialsError em" "\<not> str_includes (to_lower em) ''accesstokenerror''"
    and "\<not> str_includes (to_lower em) ''access token is error''"
  shows "handleApiResponse refresh \<lparr>resp_status = st, resp_headers = h, resp_data = d\<rparr> url data
    = throw (Error (''Wyze API Error ('' @ show_int n @ '') - '' @ em))"
proof -
  have "classify d = OtherError em"
    using assms
    by (simp add: classify_def isRateLimitError_def isAccessTokenError_def isBadRequestError_def)
  then show ?thesis unfolding handleApiResponse_classify by (simp add: respond_def assms(1))
qed

lemma string_codes_unclassified_witness:
  "handleApiResponse (ret ()) \<lparr>resp_status = JNum 200, resp_headers = [],
      resp_data = JObj [(''code'', JStr (show_int 2001)), (''msg'', JStr ''expired'')]\<rparr> ''u'' []
    = throw (Error (''Wyze API Error ('' @ show_int 2001 @ '') - expired''))"
proof -
  have "\<not> isInvalidCredentialsError ''expired''"
    unfolding isInvalidCredentialsError_def by (simp add: str_includes_short)
  then show ?thesis
    using string_codes_unclassified [of "JObj [(''code'', JStr (show_int 2001)), (''msg'', JStr ''expired'')]" 2001
        "''expired''" "ret ()" "JNum 200" "[]" "''u''" "[]"]
    by (simp add: response_code_def response_message_def own_prop_def js_or_def nullish_def str_includes_short)
qed

section \<open>What a request and the dump of a response contain\<close>

text \<open>
  Fields of a request. The caller's fields win over the client's; every other field, the current
  access token and the time stamp among them, is the client's.
\<close>

theorem request_data_fields:
  assumes "distinct (map fst data)"
  shows "oget (getRequestData E s data) k =
    (if k \<in> fst ` set data then oget data k
     else if k = ''access_token'' then access_token s
     else if k = ''ts'' then JNum (now s)
     else if k = ''phone_system_type'' then JStr ''1''
     else if k = ''app_name'' then appName (cfg E)
     else if k = ''app_ver'' then appVer (cfg E)
     else if k = ''app_version'' then appVersion (cfg E)
     else if k = ''phone_id'' then phoneId (cfg E)
     else if k = ''sc'' then sc (cfg E) else if k = ''sv'' then sv (cfg E) else JUndef)"
  unfolding getRequestData_def oget_spread [OF assms] by simp

lemma request_data_fields_witness:
  "oget (getRequestData (demo_env no_server) (demo_state JNull) [(''sc'', JNum 3)]) ''sc'' = JNum 3"
  by (subst request_data_fields) simp_all

text \<open>All members of a value at any depth, elements of arrays under their index.\<close>

fun members :: "jsval \<Rightarrow> (string \<times> jsval) list"
  and members_elems :: "nat \<Rightarrow> jsval list \<Rightarrow> (string \<times> jsval) list"
  and members_obj :: "obj \<Rightarrow> (string \<times> jsval) list" where
  "members (JArr vs) = members_elems 0 vs"
| "members (JObj ob) = members_obj ob"
| "members JUndef = []"
| "members JNull = []"
| "members (JBool b) = []"
| "members (JNum n) = []"
| "members JNaN = []"
| "members (JStr s) = []"
| "members_elems i [] = []"
| "members_elems i (v # vs) = (show_nat i, v) # members v @ members_elems (Suc i) vs"
| "members_obj [] = []"
| "members_obj ((k, v) # ob) = (k, v) # members v @ members_obj ob"

lemma redact_masks:
  "(k, w) \<in> set (members (redact key v)) \<Longrightarrow> str_includes k ''token'' \<Longrightarrow> w = JStr ''*******''"
  "(k, w) \<in> set (members_elems i (redact_elems i vs)) \<Longrightarrow> str_includes k ''token'' \<Longrightarrow> w = JStr ''*******''"
  "(k, w) \<in> set (members_obj (redact_members ob)) \<Longrightarrow> str_includes k ''token'' \<Longrightarrow> w = JStr ''*******''"
  by (induction key v and i vs and ob rule: redact_redact_elems_redact_members.induct)
    (auto split: jsval.splits if_splits)

lemma redact_other:
  "\<not> str_includes key ''token'' \<Longrightarrow> (\<forall>(k, w) \<in> set (members v). \<not> str_includes k ''token'') \<Longrightarrow> redact key v = v"
  "(\<forall>(k, w) \<in> set (members_elems i vs). \<not> str_includes k ''token'') \<Longrightarrow> redact_elems i vs = vs"
  "(\<forall>(k, w) \<in> set (members_obj ob). \<not> str_includes k ''token'') \<Longrightarrow> redact_members ob = ob"
  by (induction key v and i vs and ob rule: redact_redact_elems_redact_members.induct)
    (auto split: jsval.splits if_splits)

text \<open>
  The one-time dump masks tokens. With \<open>dumpData\<close> set, one line is logged and the flag is cleared;
  in the logged value every member whose name contains \<open>token\<close> is the mask, at any depth, and a
  response without such members is logged unchanged.
\<close>

theorem dump_masks_tokens:
  assumes "dumpData s"
  shows "\<exists>v. logApiResponse E res url s = Some (Inr (),
      s\<lparr>dumpData := False, logs := logs s @ [''API response PerformRequest: '' @ stringify v]\<rparr>) \<and>
    (\<forall>(k, w) \<in> set (members v). str_includes k ''token'' \<longrightarrow> w = JStr ''*******'') \<and>
    ((\<forall>(k, w) \<in> set (members (resp_data res)). \<not> str_includes k ''token'') \<longrightarrow> v = resp_data res)"
proof -
  have "\<not> str_includes '''' ''token''" by simp
  then have "(\<forall>(k, w) \<in> set (members (resp_data res)). \<not> str_includes k ''token'') \<longrightarrow> redact '''' (resp_data res) = resp_data res"
    using redact_other(1) by blast
  moreover have "\<forall>(k, w) \<in> set (members (redact '''' (resp_data res))). str_includes k ''token'' \<longrightarrow> w = JStr ''*******''"
    using redact_masks(1) by blast
  moreover have "logApiResponse E res url s = Some (Inr (), s\<lparr>dumpData := False,
      logs := logs s @ [''API response PerformRequest: '' @ stringify (redact '''' (resp_data res))]\<rparr>)"
    using assms by (simp add: logApiResponse_def log_line_def del: redact.simps)
  ultimately show ?thesis by blast
qed

lemma dump_masks_tokens_witness:
  "\<exists>v. logs (snd (the (logApiResponse (demo_env no_server) (ok_body [(''access_token'', JStr ''secret'')]) ''u''
      ((demo_state JNull)\<lparr>dumpData := True\<rparr>)))) = [''API response PerformRequest: '' @ stringify v]
    \<and> (\<forall>(k, w) \<in> set (members v). str_includes k ''token'' \<longrightarrow> w = JStr ''*******'')"
  using dump_masks_tokens [of "(demo_state JNull)\<lparr>dumpData := True\<rparr>" "demo_env no_server"
      "ok_body [(''access_token'', JStr ''secret'')]" "''u''"]
  by (auto simp: demo_state_def construct_state_def simp del: stringify.simps)

end
