(* ===== verification/JsMethods.thy ===== *)
theory JsMethods
  imports WyzeState
begin

text \<open>
  JavaScript operations that can throw, with the class of the exception: property reads, method calls
  on values of the wrong type, iteration, and the array searches of the device lookups.
\<close>

definition lift_msg :: "string + 'a \<Rightarrow> exn + 'a" where
  "lift_msg r = (case r of Inl m \<Rightarrow> Inl (TypeError m) | Inr a \<Rightarrow> Inr a)"

definition get_prop :: "jsval \<Rightarrow> string \<Rightarrow> exn + jsval" where
  "get_prop v k = lift_msg (js_prop v k)"

definition bindR :: "'e + 'a \<Rightarrow> ('a \<Rightarrow> 'e + 'b) \<Rightarrow> 'e + 'b" where
  "bindR r f = (case r of Inl e \<Rightarrow> Inl e | Inr a \<Rightarrow> f a)"

lemma bindR_simps [simp]: "bindR (Inr a) f = f a" "bindR (Inl e) f = Inl e"
  by (simp_all add: bindR_def)

lemma get_prop_JObj [simp]: "get_prop (JObj ob) k = Inr (oget ob k)"
  by (simp add: get_prop_def lift_msg_def)

text \<open>\<open>v.toLowerCase()\<close>, \<open>v.toUpperCase()\<close>, \<open>v.replace(t, "")\<close>.\<close>

definition string_method :: "string \<Rightarrow> (string \<Rightarrow> string) \<Rightarrow> jsval \<Rightarrow> exn + string" where
  "string_method name f v =
     (case v of
        JStr s \<Rightarrow> Inr (f s)
      | _ \<Rightarrow> if nullish v
            then Inl (TypeError (''Cannot read properties of '' @ js_string v @ '' (reading '' @ squoted name @ '')''))
            else Inl (TypeError (name @ '' is not a function'')))"

definition lower_of :: "jsval \<Rightarrow> exn + string" where
  "lower_of = string_method ''toLowerCase'' to_lower"

text \<open>\<open>for (const x of v)\<close>.\<close>

definition iterate :: "jsval \<Rightarrow> exn + jsval list" where
  "iterate v = (case v of JArr vs \<Rightarrow> Inr vs | JStr s \<Rightarrow> Inr (map (\<lambda>c. JStr [c]) s)
     | _ \<Rightarrow> Inl (TypeError ''object is not iterable''))"

text \<open>Arrays as the receiver of \<open>find\<close>, \<open>filter\<close> and \<open>map\<close>.\<close>

definition array_of :: "string \<Rightarrow> jsval \<Rightarrow> exn + jsval list" where
  "array_of name v =
     (case v of
        JArr vs \<Rightarrow> Inr vs
      | _ \<Rightarrow> if nullish v
            then Inl (TypeError (''Cannot read properties of '' @ js_string v @ '' (reading '' @ squoted name @ '')''))
            else Inl (TypeError (name @ '' is not a function'')))"

fun find_js :: "(jsval \<Rightarrow> exn + bool) \<Rightarrow> jsval list \<Rightarrow> exn + jsval" where
  "find_js p [] = Inr JUndef"
| "find_js p (v # vs) =
     (case p v of Inl e \<Rightarrow> Inl e | Inr b \<Rightarrow> if b then Inr v else find_js p vs)"

fun filter_js :: "(jsval \<Rightarrow> exn + bool) \<Rightarrow> jsval list \<Rightarrow> exn + jsval list" where
  "filter_js p [] = Inr []"
| "filter_js p (v # vs) =
     (case p v of Inl e \<Rightarrow> Inl e
      | Inr b \<Rightarrow> (case filter_js p vs of Inl e \<Rightarrow> Inl e | Inr us \<Rightarrow> Inr (if b then v # us else us)))"

text \<open>Loose equality. Objects and arrays are compared with primitives by their string.\<close>

fun loose_eq :: "jsval \<Rightarrow> jsval \<Rightarrow> bool" where
  "loose_eq JNaN b = False"
| "loose_eq a JNaN = False"
| "loose_eq (JStr a) (JStr b) = (a = b)"
| "loose_eq (JArr _) (JArr _) = False"
| "loose_eq (JArr _) (JObj _) = False"
| "loose_eq (JObj _) (JArr _) = False"
| "loose_eq (JObj _) (JObj _) = False"
| "loose_eq (JArr a) (JStr b) = (js_string (JArr a) = b)"
| "loose_eq (JStr a) (JArr b) = (a = js_string (JArr b))"
| "loose_eq (JObj a) (JStr b) = (js_string (JObj a) = b)"
| "loose_eq (JStr a) (JObj b) = (a = js_string (JObj b))"
| "loose_eq a b =
     (if nullish a \<or> nullish b then nullish a \<and> nullish b
      else case (js_number a, js_number b) of (Some x, Some y) \<Rightarrow> x = y | _ \<Rightarrow> False)"

text \<open>\<open>a >= b\<close> and \<open>a <= b\<close>: strings among themselves by code units, otherwise numbers.\<close>

definition js_ge :: "jsval \<Rightarrow> jsval \<Rightarrow> bool" where
  "js_ge a b =
     (case (a, b) of
        (JStr x, JStr y) \<Rightarrow> y \<le> x
      | _ \<Rightarrow> (case (js_number a, js_number b) of (Some x, Some y) \<Rightarrow> y \<le> x | _ \<Rightarrow> False))"

lemma find_js_Some:
  "find_js p vs = Inr v \<Longrightarrow> v = JUndef \<and> (\<forall>w \<in> set vs. p w = Inr False) \<or> v \<in> set vs \<and> p v = Inr True"
  by (induction vs) (auto split: sum.splits if_splits)

lemma filter_js_total:
  "\<forall>v \<in> set vs. p v = Inr (q v) \<Longrightarrow> filter_js p vs = Inr (filter q vs)"
  by (induction vs) auto

lemma filter_js_value: "filter_js p vs = Inr us \<Longrightarrow> us = filter (\<lambda>v. p v = Inr True) vs"
  by (induction vs arbitrary: us) (auto split: sum.splits if_splits)

end
