(* ===== verification/Devices.thy ===== *)
theory Devices
  imports Client JsMethods
begin

text \<open>
  Device operations of \<open>src/src/index.js\<close> on top of \<open>request\<close>: the property and action calls, the
  device lists and lookups, and the one-line wrappers for plugs, lights, meshes, garage doors and
  cameras. Device fields and arguments are JavaScript values.
\<close>

section \<open>API calls\<close>

definition getObjectList :: "env \<Rightarrow> jsval m" where
  "getObjectList E = bindE (request E ''app/v2/home_page/get_object_list'' []) (\<lambda>r. ret (resp_data r))"

definition getPropertyList :: "env \<Rightarrow> jsval \<Rightarrow> jsval \<Rightarrow> jsval m" where
  "getPropertyList E deviceMac deviceModel =
     (let data = [(''device_mac'', deviceMac), (''device_model'', deviceModel)] in
      bindE (request E ''app/v2/device/get_property_list'' data) (\<lambda>r. ret (resp_data r)))"

definition setProperty :: "env \<Rightarrow> jsval \<Rightarrow> jsval \<Rightarrow> jsval \<Rightarrow> jsval \<Rightarrow> jsval m" where
  "setProperty E deviceMac deviceModel propertyId propertyValue =
     (let data = [(''device_mac'', deviceMac), (''device_model'', deviceModel),
                  (''pid'', propertyId), (''pvalue'', propertyValue)] in
      bindE (request E ''app/v2/device/set_property'' data) (\<lambda>r. ret (resp_data r)))"

definition runAction :: "env \<Rightarrow> jsval \<Rightarrow> jsval \<Rightarrow> jsval \<Rightarrow> jsval m" where
  "runAction E deviceMac deviceModel actionKey =
     (let data = [(''instance_id'', deviceMac), (''provider_key'', deviceModel),
                  (''action_key'', actionKey), (''action_params'', JObj []), (''custom_string'', JStr '''')] in
      bindE (request E ''app/v2/auto/run_action'' data) (\<lambda>r. ret (resp_data r)))"

definition action_plist :: "jsval \<Rightarrow> jsval \<Rightarrow> jsval list" where
  "action_plist propertyId propertyValue =
     [JObj [(''pid'', propertyId), (''pvalue'', JStr (js_string propertyValue))]]
     @ (if propertyId \<noteq> JStr ''P3'' then [JObj [(''pid'', JStr ''P3''), (''pvalue'', JStr ''1'')]] else [])"

definition action_list_data :: "jsval \<Rightarrow> jsval \<Rightarrow> jsval \<Rightarrow> jsval \<Rightarrow> jsval \<Rightarrow> obj" where
  "action_list_data deviceMac deviceModel propertyId propertyValue actionKey =
     [(''action_list'', JArr [JObj
        [(''instance_id'', deviceMac),
         (''action_params'', JObj [(''list'', JArr [JObj
            [(''mac'', deviceMac), (''plist'', JArr (action_plist propertyId propertyValue))]])]),
         (''provider_key'', deviceModel),
         (''action_key'', actionKey)]])]"

definition runActionList :: "env \<Rightarrow> jsval \<Rightarrow> jsval \<Rightarrow> jsval \<Rightarrow> jsval \<Rightarrow> jsval \<Rightarrow> jsval m" where
  "runActionList E deviceMac deviceModel propertyId propertyValue actionKey =
     bindE (request E ''app/v2/auto/run_action_list''
              (action_list_data deviceMac deviceModel propertyId propertyValue actionKey))
       (\<lambda>r. ret (resp_data r))"

text \<open>A method whose result is \<open>undefined\<close>.\<close>

definition void :: "'a m \<Rightarrow> jsval m" where
  "void c = seqE c (ret JUndef)"

section \<open>Device lists\<close>

definition getUuid :: "jsval \<Rightarrow> jsval \<Rightarrow> exn + jsval" where
  "getUuid deviceMac deviceModel =
     bindR (string_method ''replace'' (remove_first (js_string deviceModel @ ''.'')) deviceMac) (\<lambda>s. Inr (JStr s))"

definition getObjectListSafe :: "env \<Rightarrow> jsval m" where
  "getObjectListSafe E = catchE (getObjectList E) throw"

definition list_field :: "string \<Rightarrow> jsval \<Rightarrow> exn + jsval" where
  "list_field k result =
     bindR (get_prop result ''data'') (\<lambda>d. bindR (get_prop d k) (\<lambda>l. Inr (js_or l (JArr []))))"

definition getDeviceList :: "env \<Rightarrow> jsval m" where
  "getDeviceList E = bindE (getObjectListSafe E) (\<lambda>r. liftE (list_field ''device_list'' r))"

definition getDeviceGroupsList :: "env \<Rightarrow> jsval m" where
  "getDeviceGroupsList E = bindE (getObjectListSafe E) (\<lambda>r. liftE (list_field ''device_group_list'' r))"

definition getDeviceSortList :: "env \<Rightarrow> jsval m" where
  "getDeviceSortList E = bindE (getObjectListSafe E) (\<lambda>r. liftE (list_field ''device_sort_list'' r))"

definition same_lower :: "string \<Rightarrow> jsval \<Rightarrow> jsval \<Rightarrow> exn + bool" where
  "same_lower k wanted device =
     bindR (get_prop device k) (\<lambda>v. bindR (lower_of v) (\<lambda>a. bindR (lower_of wanted) (\<lambda>b. Inr (a = b))))"

definition same_mac :: "jsval \<Rightarrow> jsval \<Rightarrow> exn + bool" where
  "same_mac mac device = bindR (get_prop device ''mac'') (\<lambda>v. Inr (v = mac \<and> v \<noteq> JNaN))"

definition find_device :: "(jsval \<Rightarrow> exn + bool) \<Rightarrow> jsval \<Rightarrow> exn + jsval" where
  "find_device p devices = bindR (array_of ''find'' devices) (find_js p)"

definition filter_devices :: "(jsval \<Rightarrow> exn + bool) \<Rightarrow> jsval \<Rightarrow> exn + jsval" where
  "filter_devices p devices = bindR (array_of ''filter'' devices) (\<lambda>vs. bindR (filter_js p vs) (\<lambda>us. Inr (JArr us)))"

definition getDeviceByName :: "env \<Rightarrow> jsval \<Rightarrow> jsval m" where
  "getDeviceByName E nickname =
     bindE (getDeviceList E) (\<lambda>d. liftE (find_device (same_lower ''nickname'' nickname) d))"

definition getDeviceByMac :: "env \<Rightarrow> jsval \<Rightarrow> jsval m" where
  "getDeviceByMac E mac = bindE (getDeviceList E) (\<lambda>d. liftE (find_device (same_mac mac) d))"

definition getDevicesByType :: "env \<Rightarrow> jsval \<Rightarrow> jsval m" where
  "getDevicesByType E ty =
     bindE (getDeviceList E) (\<lambda>d. liftE (filter_devices (same_lower ''product_type'' ty) d))"

definition getDevicesByModel :: "env \<Rightarrow> jsval \<Rightarrow> jsval m" where
  "getDevicesByModel E model =
     bindE (getDeviceList E) (\<lambda>d. liftE (filter_devices (same_lower ''product_model'' model) d))"

definition getDeviceStatus :: "jsval \<Rightarrow> exn + jsval" where
  "getDeviceStatus device = get_prop device ''device_params''"

definition getDevicePID :: "env \<Rightarrow> jsval \<Rightarrow> jsval \<Rightarrow> jsval m" where
  "getDevicePID E deviceMac deviceModel = getPropertyList E deviceMac deviceModel"

section \<open>Device state\<close>

definition state_word :: "jsval \<Rightarrow> string \<Rightarrow> string \<Rightarrow> string" where
  "state_word v yes no = (if v \<noteq> JUndef then (if v = JNum 1 then yes else no) else '''')"

definition getDeviceState :: "jsval \<Rightarrow> exn + jsval" where
  "getDeviceState device =
     bindR (get_prop device ''device_params'') (\<lambda>params.
     bindR (get_prop params ''power_switch'') (\<lambda>power.
     let state = state_word power ''on'' ''off'' in
     if state = ''''
     then bindR (get_prop params ''open_close_state'') (\<lambda>v. Inr (JStr (state_word v ''open'' ''closed'')))
     else Inr (JStr state)))"

fun scan_pid :: "jsval \<Rightarrow> jsval list \<Rightarrow> exn + jsval" where
  "scan_pid pid [] = Inr JUndef"
| "scan_pid pid (property # rest) =
     bindR (get_prop property ''pid'') (\<lambda>p.
     if loose_eq pid p
     then bindR (get_prop property ''value'') (\<lambda>v.
       Inr (if v \<noteq> JUndef then (if v = JStr ''1'' then JNum 1 else JNum 0) else JStr ''''))
     else scan_pid pid rest)"

definition getDeviceStatePID :: "env \<Rightarrow> jsval \<Rightarrow> jsval \<Rightarrow> jsval \<Rightarrow> jsval m" where
  "getDeviceStatePID E deviceMac deviceModel pid =
     bindE (getDevicePID E deviceMac deviceModel) (\<lambda>p.
     liftE (bindR (get_prop p ''data'') (\<lambda>d. bindR (get_prop d ''property_list'') (\<lambda>l.
       bindR (iterate l) (scan_pid pid)))))"

section \<open>Sensor and battery helpers\<close>

definition getLockDoorState :: "jsval \<Rightarrow> jsval" where
  "getLockDoorState deviceState = (if js_ge deviceState (JNum 2) then JNum 1 else deviceState)"

definition getLeakSensorState :: "jsval \<Rightarrow> jsval" where
  "getLeakSensorState deviceState = (if js_ge deviceState (JNum 2) then JNum 1 else deviceState)"

definition getLockState :: "jsval \<Rightarrow> jsval" where
  "getLockState deviceState = (if loose_eq deviceState (JNum 2) then JNum 0 else JNum 1)"

definition checkBatteryVoltage :: "jsval \<Rightarrow> jsval" where
  "checkBatteryVoltage v =
     (if js_ge v (JNum 100) then JNum 100 else if v = JUndef \<or> v = JNull then JNum 1 else v)"

definition checkLowBattery :: "env \<Rightarrow> jsval \<Rightarrow> jsval" where
  "checkLowBattery E batteryVolts =
     (if js_ge (lowBatteryPercentage (cfg E)) (checkBatteryVoltage batteryVolts) then JNum 1 else JNum 0)"

definition checkBrightnessValue :: "jsval \<Rightarrow> jsval" where
  "checkBrightnessValue v = (if js_ge v (JNum 1) \<and> js_ge (JNum 100) v then v else v)"

definition checkColorTemp :: "jsval \<Rightarrow> jsval" where
  "checkColorTemp color = (if js_ge color (JNum 500) then color else JNum 500)"

text \<open>On integers (the divisor of \<open>kelvinToMired\<close> not 0): \<open>Math.round\<close> rounds halves up.\<close>

definition kelvinToMired :: "int \<Rightarrow> int" where
  "kelvinToMired v = (2 * 1000000 + v) div (2 * v)"

definition clamp :: "int \<Rightarrow> int \<Rightarrow> int \<Rightarrow> int" where
  "clamp number lo hi = max lo (min number hi)"

end
