(* ===== verification/DeviceCommands.thy ===== *)
theory DeviceCommands
  imports Devices
begin

text \<open>
  The one-line commands for cameras, meshes, plugs and lights: each is one property or action call.
\<close>

definition cameraPrivacy :: "env \<Rightarrow> jsval \<Rightarrow> jsval \<Rightarrow> jsval \<Rightarrow> jsval m" where
  "cameraPrivacy E deviceMac deviceModel val = void (runAction E deviceMac deviceModel val)"

definition cameraTurnOn :: "env \<Rightarrow> jsval \<Rightarrow> jsval \<Rightarrow> jsval m" where
  "cameraTurnOn E deviceMac deviceModel = void (runAction E deviceMac deviceModel (JStr ''power_on''))"

definition cameraTurnOff :: "env \<Rightarrow> jsval \<Rightarrow> jsval \<Rightarrow> jsval m" where
  "cameraTurnOff E deviceMac deviceModel = void (runAction E deviceMac deviceModel (JStr ''power_off''))"

definition garageDoor :: "env \<Rightarrow> jsval \<Rightarrow> jsval \<Rightarrow> jsval m" where
  "garageDoor E deviceMac deviceModel = void (runAction E deviceMac deviceModel (JStr ''garage_door_trigger''))"

definition cameraSiren :: "env \<Rightarrow> jsval \<Rightarrow> jsval \<Rightarrow> jsval \<Rightarrow> jsval m" where
  "cameraSiren E deviceMac deviceModel val = void (runAction E deviceMac deviceModel val)"

definition cameraSirenOn :: "env \<Rightarrow> jsval \<Rightarrow> jsval \<Rightarrow> jsval m" where
  "cameraSirenOn E deviceMac deviceModel = void (runAction E deviceMac deviceModel (JStr ''siren_on''))"

definition cameraSirenOff :: "env \<Rightarrow> jsval \<Rightarrow> jsval \<Rightarrow> jsval m" where
  "cameraSirenOff E deviceMac deviceModel = void (runAction E deviceMac deviceModel (JStr ''siren_off''))"

definition turnMeshOn :: "env \<Rightarrow> jsval \<Rightarrow> jsval \<Rightarrow> jsval m" where
  "turnMeshOn E deviceMac deviceModel = runActionList E deviceMac deviceModel (JStr ''P3'') (JStr ''1'') (JStr ''set_mesh_property'')"

definition turnMeshOff :: "env \<Rightarrow> jsval \<Rightarrow> jsval \<Rightarrow> jsval m" where
  "turnMeshOff E deviceMac deviceModel = runActionList E deviceMac deviceModel (JStr ''P3'') (JStr ''0'') (JStr ''set_mesh_property'')"

definition cameraFloodLight :: "env \<Rightarrow> jsval \<Rightarrow> jsval \<Rightarrow> jsval \<Rightarrow> jsval m" where
  "cameraFloodLight E deviceMac deviceModel val = void (setProperty E deviceMac deviceModel (JStr ''P1056'') val)"

definition cameraFloodLightOn :: "env \<Rightarrow> jsval \<Rightarrow> jsval \<Rightarrow> jsval m" where
  "cameraFloodLightOn E deviceMac deviceModel = void (setProperty E deviceMac deviceModel (JStr ''P1056'') (JStr ''1''))"

definition cameraFloodLightOff :: "env \<Rightarrow> jsval \<Rightarrow> jsval \<Rightarrow> jsval m" where
  "cameraFloodLightOff E deviceMac deviceModel = void (setProperty E deviceMac deviceModel (JStr ''P1056'') (JStr ''2''))"

definition cameraSpotLight :: "env \<Rightarrow> jsval \<Rightarrow> jsval \<Rightarrow> jsval \<Rightarrow> jsval m" where
  "cameraSpotLight E deviceMac deviceModel val = void (setProperty E deviceMac deviceModel (JStr ''P1056'') val)"

definition cameraSpotLightOn :: "env \<Rightarrow> jsval \<Rightarrow> jsval \<Rightarrow> jsval m" where
  "cameraSpotLightOn E deviceMac deviceModel = void (setProperty E deviceMac deviceModel (JStr ''P1056'') (JStr ''1''))"

definition cameraSpotLightOff :: "env \<Rightarrow> jsval \<Rightarrow> jsval \<Rightarrow> jsval m" where
  "cameraSpotLightOff E deviceMac deviceModel = void (setProperty E deviceMac deviceModel (JStr ''P1056'') (JStr ''2''))"

definition cameraMotionOn :: "env \<Rightarrow> jsval \<Rightarrow> jsval \<Rightarrow> jsval m" where
  "cameraMotionOn E deviceMac deviceModel = void (setProperty E deviceMac deviceModel (JStr ''P1001'') (JNum 1))"

definition cameraMotionOff :: "env \<Rightarrow> jsval \<Rightarrow> jsval \<Rightarrow> jsval m" where
  "cameraMotionOff E deviceMac deviceModel = void (setProperty E deviceMac deviceModel (JStr ''P1001'') (JNum 0))"

definition cameraSoundNotificationOn :: "env \<Rightarrow> jsval \<Rightarrow> jsval \<Rightarrow> jsval m" where
  "cameraSoundNotificationOn E deviceMac deviceModel = void (setProperty E deviceMac deviceModel (JStr ''P1048'') (JStr ''1''))"

definition cameraSoundNotificationOff :: "env \<Rightarrow> jsval \<Rightarrow> jsval \<Rightarrow> jsval m" where
  "cameraSoundNotificationOff E deviceMac deviceModel = void (setProperty E deviceMac deviceModel (JStr ''P1048'') (JStr ''0''))"

definition cameraNotifications :: "env \<Rightarrow> jsval \<Rightarrow> jsval \<Rightarrow> jsval \<Rightarrow> jsval m" where
  "cameraNotifications E deviceMac deviceModel val = void (setProperty E deviceMac deviceModel (JStr ''P1'') val)"

definition cameraNotificationsOn :: "env \<Rightarrow> jsval \<Rightarrow> jsval \<Rightarrow> jsval m" where
  "cameraNotificationsOn E deviceMac deviceModel = void (setProperty E deviceMac deviceModel (JStr ''P1'') (JStr ''1''))"

definition cameraNotificationsOff :: "env \<Rightarrow> jsval \<Rightarrow> jsval \<Rightarrow> jsval m" where
  "cameraNotificationsOff E deviceMac deviceModel = void (setProperty E deviceMac deviceModel (JStr ''P1'') (JStr ''0''))"

definition cameraMotionRecording :: "env \<Rightarrow> jsval \<Rightarrow> jsval \<Rightarrow> jsval \<Rightarrow> jsval m" where
  "cameraMotionRecording E deviceMac deviceModel val = void (setProperty E deviceMac deviceModel (JStr ''P1047'') val)"

definition cameraMotionRecordingOn :: "env \<Rightarrow> jsval \<Rightarrow> jsval \<Rightarrow> jsval m" where
  "cameraMotionRecordingOn E deviceMac deviceModel = void (setProperty E deviceMac deviceModel (JStr ''P1047'') (JStr ''1''))"

definition cameraMotionRecordingOff :: "env \<Rightarrow> jsval \<Rightarrow> jsval \<Rightarrow> jsval m" where
  "cameraMotionRecordingOff E deviceMac deviceModel = void (setProperty E deviceMac deviceModel (JStr ''P1047'') (JStr ''0''))"

definition plugPower :: "env \<Rightarrow> jsval \<Rightarrow> jsval \<Rightarrow> jsval \<Rightarrow> jsval m" where
  "plugPower E deviceMac deviceModel val = void (setProperty E deviceMac deviceModel (JStr ''P3'') val)"

definition plugTurnOn :: "env \<Rightarrow> jsval \<Rightarrow> jsval \<Rightarrow> jsval m" where
  "plugTurnOn E deviceMac deviceModel = void (setProperty E deviceMac deviceModel (JStr ''P3'') (JStr ''1''))"

definition plugTurnOff :: "env \<Rightarrow> jsval \<Rightarrow> jsval \<Rightarrow> jsval m" where
  "plugTurnOff E deviceMac deviceModel = void (setProperty E deviceMac deviceModel (JStr ''P3'') (JStr ''0''))"

definition lightPower :: "env \<Rightarrow> jsval \<Rightarrow> jsval \<Rightarrow> jsval \<Rightarrow> jsval m" where
  "lightPower E deviceMac deviceModel val = void (setProperty E deviceMac deviceModel (JStr ''P3'') val)"

definition lightTurnOn :: "env \<Rightarrow> jsval \<Rightarrow> jsval \<Rightarrow> jsval m" where
  "lightTurnOn E deviceMac deviceModel = void (setProperty E deviceMac deviceModel (JStr ''P3'') (JStr ''1''))"

definition lightTurnOff :: "env \<Rightarrow> jsval \<Rightarrow> jsval \<Rightarrow> jsval m" where
  "lightTurnOff E deviceMac deviceModel = void (setProperty E deviceMac deviceModel (JStr ''P3'') (JStr ''0''))"

definition setBrightness :: "env \<Rightarrow> jsval \<Rightarrow> jsval \<Rightarrow> jsval \<Rightarrow> jsval m" where
  "setBrightness E deviceMac deviceModel val = void (setProperty E deviceMac deviceModel (JStr ''P1501'') val)"

definition setColorTemperature :: "env \<Rightarrow> jsval \<Rightarrow> jsval \<Rightarrow> jsval \<Rightarrow> jsval m" where
  "setColorTemperature E deviceMac deviceModel val = void (setProperty E deviceMac deviceModel (JStr ''P1502'') val)"

definition lightMeshPower :: "env \<Rightarrow> jsval \<Rightarrow> jsval \<Rightarrow> jsval \<Rightarrow> jsval m" where
  "lightMeshPower E deviceMac deviceModel val = void (runActionList E deviceMac deviceModel (JStr ''P3'') val (JStr ''set_mesh_property''))"

definition lightMeshOn :: "env \<Rightarrow> jsval \<Rightarrow> jsval \<Rightarrow> jsval m" where
  "lightMeshOn E deviceMac deviceModel = void (runActionList E deviceMac deviceModel (JStr ''P3'') (JStr ''1'') (JStr ''set_mesh_property''))"

definition lightMeshOff :: "env \<Rightarrow> jsval \<Rightarrow> jsval \<Rightarrow> jsval m" where
  "lightMeshOff E deviceMac deviceModel = void (runActionList E deviceMac deviceModel (JStr ''P3'') (JStr ''0'') (JStr ''set_mesh_property''))"

definition setMeshBrightness :: "env \<Rightarrow> jsval \<Rightarrow> jsval \<Rightarrow> jsval \<Rightarrow> jsval m" where
  "setMeshBrightness E deviceMac deviceModel val = void (runActionList E deviceMac deviceModel (JStr ''P1501'') val (JStr ''set_mesh_property''))"

definition setMeshColorTemperature :: "env \<Rightarrow> jsval \<Rightarrow> jsval \<Rightarrow> jsval \<Rightarrow> jsval m" where
  "setMeshColorTemperature E deviceMac deviceModel val = void (runActionList E deviceMac deviceModel (JStr ''P1502'') val (JStr ''set_mesh_property''))"

definition setMeshHue :: "env \<Rightarrow> jsval \<Rightarrow> jsval \<Rightarrow> jsval \<Rightarrow> jsval m" where
  "setMeshHue E deviceMac deviceModel val = void (runActionList E deviceMac deviceModel (JStr ''P1507'') val (JStr ''set_mesh_property''))"

definition setMeshSaturation :: "env \<Rightarrow> jsval \<Rightarrow> jsval \<Rightarrow> jsval \<Rightarrow> jsval m" where
  "setMeshSaturation E deviceMac deviceModel val = void (runActionList E deviceMac deviceModel (JStr ''P1507'') val (JStr ''set_mesh_property''))"

end
