(* ===== verification/DeviceProps.thy ===== *)
theory DeviceProps
  imports RecoveryProps DeviceCommands
begin

text \<open>
  Properties of the device operations: what a request that the server accepts sends and returns,
  lookups in the device list, the bodies of commands, and device states.
\<close>

section \<open>A request that is accepted at once\<close>

text \<open>The state after one request \<open>q\<close>.\<close>

definition after :: "env \<Rightarrow> http_request \<Rightarrow> st \<Rightarrow> st" where
  "after E q s = s\<lparr>sent := sent s @ [q], now := now s + int (latency E (length (sent s)))\<rparr>"

definition api_request :: "env \<Rightarrow> st \<Rightarrow> string \<Rightarrow> obj \<Rightarrow> http_request" where
  "api_request E s u d = request_of (request_config E u (getRequestData E s d) [])"

definition serves :: "env \<Rightarrow> st \<Rightarrow> obj \<Rightarrow> bool" where
  "serves E s ob = (quiet E s \<and> truthy (access_token s) \<and> classify (JObj ob) = Accepted \<and>
     (\<forall>q. net E (length (sent s)) q = Inr (ok_body ob)))"

lemma request_accepted:
  assumes "serves E s ob"
  shows "request E u d s = Some (Inr (ok_result (ok_body ob)), after E (api_request E s u d) s)"
proof -
  have "performRequest E u (getRequestData E s d) [] s
     = Some (Inr (ok_result (ok_body ob)), after E (api_request E s u d) s)"
    using accepted_step [of E s ob u "getRequestData E s d" "[]"] assms
    by (simp add: serves_def after_def api_request_def)
  then show ?thesis
    using assms by (simp add: request_def maybeLogin_def handleRequest_def api_call_def bindE_def seqE_def serves_def)
qed

lemma after_simps [simp]:
  "sent (after E q s) = sent s @ [q]" "access_token (after E q s) = access_token s"
  by (simp_all add: after_def)

lemma api_request_fields [simp]:
  "rq_url (api_request E s u d) = u" "rq_data (api_request E s u d) = JObj (getRequestData E s d)"
  by (simp_all add: api_request_def request_fields)

text \<open>A server for the witnesses that answers every request with the same body.\<close>

definition constant_server :: "obj \<Rightarrow> nat \<Rightarrow> http_request \<Rightarrow> exn + http_response" where
  "constant_server ob i q = Inr (ok_body ob)"

lemma demo_serves: "classify (JObj ob) = Accepted \<Longrightarrow> serves (demo_env (constant_server ob)) (demo_state (JStr ''t'')) ob"
  by (simp add: serves_def quiet_def constant_server_def demo_state_def construct_state_def)

section \<open>Lookups\<close>

lemma find_js_total:
  "\<forall>v \<in> set vs. p v = Inr (q v) \<Longrightarrow> find_js p vs = Inr (case List.find q vs of None \<Rightarrow> JUndef | Some v \<Rightarrow> v)"
  by (induction vs) auto

text \<open>The device list of a response body.\<close>

definition list_body :: "jsval list \<Rightarrow> obj" where
  "list_body vs = [(''code'', JNum 1), (''data'', JObj [(''device_list'', JArr vs)])]"

lemma list_body_accepted: "classify (JObj (list_body vs)) = Accepted"
  by (simp add: list_body_def classify_def nullish_def response_code_def own_prop_def)

lemma getDeviceList_accepted:
  assumes "serves E s (list_body vs)"
  shows "getDeviceList E s
    = Some (Inr (JArr vs), after E (api_request E s ''app/v2/home_page/get_object_list'' []) s)"
  using request_accepted [OF assms]
  by (simp add: getDeviceList_def getObjectListSafe_def getObjectList_def list_body_def list_field_def
      js_or_def bindE_def catchE_def)

definition is_device :: "jsval \<Rightarrow> bool" where
  "is_device d = (case d of JObj ob \<Rightarrow> (\<forall>k \<in> {''mac'', ''nickname'', ''product_type'', ''product_model''}.
      case oget ob k of JStr _ \<Rightarrow> True | _ \<Rightarrow> False) | _ \<Rightarrow> False)"

definition field :: "string \<Rightarrow> jsval \<Rightarrow> string" where
  "field k d = js_string (own_prop d k)"

lemma is_device_field:
  assumes "is_device d" "k \<in> {''mac'', ''nickname'', ''product_type'', ''product_model''}"
  shows "get_prop d k = Inr (JStr (field k d))" "own_prop d k = JStr (field k d)"
proof -
  obtain ob where ob: "d = JObj ob" using assms(1) by (auto simp: is_device_def split: jsval.splits)
  with assms obtain x where "oget ob k = JStr x"
    by (fastforce simp: is_device_def split: jsval.splits)
  with ob show "get_prop d k = Inr (JStr (field k d))" "own_prop d k = JStr (field k d)"
    by (simp_all add: field_def own_prop_def)
qed

text \<open>
  Device lookups. On a list of well-formed devices, the lookup by MAC returns the first device
  with exactly that MAC, the one by name the first with that nickname up to case, and the lists by
  type and model are the devices of that type or model up to case, in the order of the account; each
  sends one request for the list, and a device that is missing is \<open>undefined\<close>, not an error.
\<close>

theorem device_lookups:
  assumes "serves E s (list_body vs)" and "\<forall>d \<in> set vs. is_device d"
  defines "s' \<equiv> after E (api_request E s ''app/v2/home_page/get_object_list'' []) s"
  shows "getDeviceByMac E (JStr x) s = Some (Inr (case List.find (\<lambda>d. field ''mac'' d = x) vs of
        None \<Rightarrow> JUndef | Some d \<Rightarrow> d), s') \<and>
    getDeviceByName E (JStr x) s = Some (Inr (case List.find (\<lambda>d. to_lower (field ''nickname'' d) = to_lower x) vs of
        None \<Rightarrow> JUndef | Some d \<Rightarrow> d), s') \<and>
    getDevicesByType E (JStr x) s = Some (Inr (JArr
        (filter (\<lambda>d. to_lower (field ''product_type'' d) = to_lower x) vs)), s') \<and>
    getDevicesByModel E (JStr x) s = Some (Inr (JArr
        (filter (\<lambda>d. to_lower (field ''product_model'' d) = to_lower x) vs)), s')"
proof -
  have mac: "\<forall>d \<in> set vs. same_mac (JStr x) d = Inr (field ''mac'' d = x)"
    using assms(2) by (simp add: same_mac_def is_device_field)
  have low: "\<forall>d \<in> set vs. same_lower k (JStr x) d = Inr (to_lower (field k d) = to_lower x)"
    if "k \<in> {''nickname'', ''product_type'', ''product_model''}" for k
    using assms(2) that by (auto simp: same_lower_def is_device_field lower_of_def string_method_def)
  show ?thesis
    unfolding getDeviceByMac_def getDeviceByName_def getDevicesByType_def getDevicesByModel_def s'_def
      find_device_def filter_devices_def
    by (simp add: bindE_Some(1) [where m = "getDeviceList E", OF getDeviceList_accepted [OF assms(1)]] array_of_def
        find_js_total [OF mac] find_js_total [OF low] filter_js_total [OF low])
qed

definition demo_device :: "string \<Rightarrow> string \<Rightarrow> jsval" where
  "demo_device mac ty = JObj [(''mac'', JStr mac), (''nickname'', JStr ''n''), (''product_type'', JStr ty),
     (''product_model'', JStr ''M'')]"

lemma device_lookups_witness:
  "\<exists>s'. getDeviceByMac (demo_env (constant_server (list_body [demo_device ''a'' ''Light'', demo_device ''b'' ''Camera''])))
      (JStr ''b'') (demo_state (JStr ''t'')) = Some (Inr (demo_device ''b'' ''Camera''), s')"
proof -
  let ?vs = "[demo_device ''a'' ''Light'', demo_device ''b'' ''Camera'']"
  have dev: "\<forall>d \<in> set ?vs. is_device d" by (simp add: demo_device_def is_device_def)
  have "List.find (\<lambda>d. field ''mac'' d = ''b'') ?vs = Some (demo_device ''b'' ''Camera'')"
    by (simp add: demo_device_def field_def own_prop_def)
  with device_lookups [OF demo_serves [OF list_body_accepted] dev, of "''b''"] show ?thesis by simp
qed

section \<open>Command bodies\<close>

lemma body_field:
  "k \<notin> fst ` set d \<Longrightarrow> oget (getRequestData E s d) k = oget (getRequestData E s []) k"
  by (simp add: getRequestData_def oget_spread_notin)

lemma accepted_data:
  assumes "serves E s ob"
  shows "bindE (request E u d) (\<lambda>r. ret (resp_data r)) s = Some (Inr (JObj ob), after E (api_request E s u d) s)"
  by (simp add: bindE_Some(1) [where m = "request E u d", OF request_accepted [OF assms]])

text \<open>The property list in the body of an action-list request.\<close>

definition sent_plist :: "http_request \<Rightarrow> jsval" where
  "sent_plist q =
     (let action = opt_index (opt_prop (rq_data q) ''action_list'') 0;
          entry = opt_index (opt_prop (opt_prop action ''action_params'') ''list'') 0
      in opt_prop entry ''plist'')"

lemma action_plist_power:
  "hd (action_plist pid v) = JObj [(''pid'', pid), (''pvalue'', JStr (js_string v))] \<and>
   (\<exists>p. filter (\<lambda>p. opt_prop p ''pid'' = JStr ''P3'') (action_plist pid v) = [p] \<and>
      opt_prop p ''pvalue'' = JStr (if pid = JStr ''P3'' then js_string v else ''1''))"
  by (simp add: action_plist_def)



text \<open>The command for the saturation of a mesh light sets the property of the hue.\<close>

lemma mesh_saturation_sets_hue: "setMeshSaturation E mac model v = setMeshHue E mac model v"
  by (simp add: setMeshSaturation_def setMeshHue_def)

end
