(* ===== verification/SignedServices.thy ===== *)
theory SignedServices
  imports Devices PayloadFactory
begin

text \<open>
  The directly signed services of \<open>src/src/index.js\<close>: locks, wall switches, user profile, home
  monitoring, thermostat and irrigation. Each method logs in, builds a payload and its signature from
  the token and the clock of that moment, sends one request and returns its body; errors of the
  request are logged and thrown again. Log lines are left out, except the calls of \<open>this.log\<close> as a
  function in the irrigation methods, which throw.
\<close>

section \<open>axios\<close>

definition axios_get :: "env \<Rightarrow> string \<Rightarrow> obj \<Rightarrow> obj \<Rightarrow> http_response m" where
  "axios_get E url headers params = http_send E
     \<lparr>rq_method = ''GET'', rq_url = url, rq_base = JUndef, rq_headers = headers, rq_params = params, rq_data = JUndef\<rparr>"

definition axios_post :: "env \<Rightarrow> string \<Rightarrow> jsval \<Rightarrow> obj \<Rightarrow> http_response m" where
  "axios_post E url data headers = http_send E
     \<lparr>rq_method = ''POST'', rq_url = url, rq_base = JUndef, rq_headers = headers, rq_params = [], rq_data = data\<rparr>"

definition axios_patch :: "env \<Rightarrow> string \<Rightarrow> jsval \<Rightarrow> obj \<Rightarrow> obj \<Rightarrow> http_response m" where
  "axios_patch E url data headers params = http_send E
     \<lparr>rq_method = ''PATCH'', rq_url = url, rq_base = JUndef, rq_headers = headers, rq_params = params, rq_data = data\<rparr>"

definition axios_delete :: "env \<Rightarrow> string \<Rightarrow> jsval \<Rightarrow> obj \<Rightarrow> http_response m" where
  "axios_delete E url data headers = http_send E
     \<lparr>rq_method = ''DELETE'', rq_url = url, rq_base = JUndef, rq_headers = headers, rq_params = [], rq_data = data\<rparr>"

definition body_of :: "http_response m \<Rightarrow> jsval m" where
  "body_of c = catchE (bindE c (\<lambda>r. ret (resp_data r))) throw"

definition token_string :: "st \<Rightarrow> string" where
  "token_string s = js_string (access_token s)"

section \<open>Locks\<close>

definition controlLock :: "env \<Rightarrow> jsval \<Rightarrow> jsval \<Rightarrow> jsval \<Rightarrow> jsval m" where
  "controlLock E deviceMac deviceModel action =
     seqE (maybeLogin E)
     (bindE (liftE (getUuid deviceMac deviceModel)) (\<lambda>uuid.
      bindE (getS id) (\<lambda>s.
      let payload = fordCreatePayload (utf8pkg E) (now s) (access_token s)
            [(''uuid'', uuid), (''action'', action)] ''/openapi/lock/v1/control'' ''post''
      in body_of (axios_post E ''https://yd-saas-toc.wyzecam.com/openapi/lock/v1/control'' (JObj payload) []))))"

definition getLockInfo :: "env \<Rightarrow> jsval \<Rightarrow> jsval \<Rightarrow> jsval m" where
  "getLockInfo E deviceMac deviceModel =
     seqE (maybeLogin E)
     (bindE (liftE (getUuid deviceMac deviceModel)) (\<lambda>uuid.
      bindE (getS id) (\<lambda>s.
      let payload = fordCreatePayload (utf8pkg E) (now s) (access_token s)
            [(''uuid'', uuid), (''with_keypad'', JStr ''1'')] ''/openapi/lock/v1/info'' ''get''
      in body_of (axios_get E ''https://yd-saas-toc.wyzecam.com/openapi/lock/v1/info'' [] payload))))"

definition unlockLock :: "env \<Rightarrow> jsval \<Rightarrow> jsval m" where
  "unlockLock E device = bindE (liftE (get_prop device ''mac'')) (\<lambda>mac.
     controlLock E mac (own_prop device ''product_model'') (JStr ''remoteUnlock''))"

definition lockLock :: "env \<Rightarrow> jsval \<Rightarrow> jsval m" where
  "lockLock E device = bindE (liftE (get_prop device ''mac'')) (\<lambda>mac.
     controlLock E mac (own_prop device ''product_model'') (JStr ''remoteLock''))"

definition lockInfo :: "env \<Rightarrow> jsval \<Rightarrow> jsval m" where
  "lockInfo E device = bindE (liftE (get_prop device ''mac'')) (\<lambda>mac.
     getLockInfo E mac (own_prop device ''product_model''))"

section \<open>The Olive services\<close>

text \<open>The headers of a GET and of a JSON POST; \<open>phone\<close> is \<open>this.phoneId\<close> or \<open>constants.phoneId\<close>.\<close>

definition olive_get_headers :: "env \<Rightarrow> st \<Rightarrow> jsval \<Rightarrow> string \<Rightarrow> obj" where
  "olive_get_headers E s phone signature =
     [(''Accept-Encoding'', JStr ''gzip''), (''User-Agent'', userAgent (cfg E)), (''appid'', JStr oliveAppId),
      (''appinfo'', JStr c_appInfo), (''phoneid'', phone), (''access_token'', access_token s),
      (''signature2'', JStr signature)]"

definition olive_post_headers :: "env \<Rightarrow> st \<Rightarrow> string \<Rightarrow> obj" where
  "olive_post_headers E s signature =
     [(''Accept-Encoding'', JStr ''gzip''), (''Content-Type'', JStr ''application/json''),
      (''User-Agent'', userAgent (cfg E)), (''appid'', JStr oliveAppId), (''appinfo'', JStr c_appInfo),
      (''phoneid'', phoneId (cfg E)), (''access_token'', access_token s), (''signature2'', JStr signature)]"

definition olive_get :: "env \<Rightarrow> string \<Rightarrow> jsval \<Rightarrow> (int \<Rightarrow> obj) \<Rightarrow> jsval m" where
  "olive_get E url phone mk =
     seqE (maybeLogin E)
     (bindE (getS id) (\<lambda>s.
      let payload = mk (now s);
          signature = oliveCreateSignature (utf8pkg E) payload (token_string s)
      in body_of (axios_get E url (olive_get_headers E s phone signature) payload)))"

definition olive_post :: "env \<Rightarrow> string \<Rightarrow> (int \<Rightarrow> obj) \<Rightarrow> jsval m" where
  "olive_post E url mk =
     seqE (maybeLogin E)
     (bindE (getS id) (\<lambda>s.
      let body = stringify (JObj (mk (now s)));
          signature = oliveCreateSignatureSingle (utf8pkg E) body (token_string s)
      in body_of (axios_post E url (JStr body) (olive_post_headers E s signature))))"

definition getIotProp :: "env \<Rightarrow> jsval \<Rightarrow> jsval m" where
  "getIotProp E deviceMac =
     olive_get E ''https://wyze-sirius-service.wyzecam.com/plugin/sirius/get_iot_prop'' (phoneId (cfg E))
       (\<lambda>ms. oliveCreateGetPayload ms deviceMac
          ''iot_state,switch-power,switch-iot,single_press_type,double_press_type,triple_press_type,long_press_type,palm-state'')"

definition setIotProp :: "env \<Rightarrow> jsval \<Rightarrow> jsval \<Rightarrow> string \<Rightarrow> jsval \<Rightarrow> jsval m" where
  "setIotProp E deviceMac product_model propKey val =
     olive_post E ''https://wyze-sirius-service.wyzecam.com/plugin/sirius/set_iot_prop_by_topic''
       (\<lambda>ms. oliveCreatePostPayload ms deviceMac product_model propKey val)"

definition getUserProfile :: "env \<Rightarrow> jsval m" where
  "getUserProfile E =
     olive_get E ''https://wyze-platform-service.wyzecam.com/app/v2/platform/get_user_profile''
       (phoneId (cfg E)) oliveCreateUserInfoPayload"

definition disableRemeAlarm :: "env \<Rightarrow> jsval \<Rightarrow> jsval m" where
  "disableRemeAlarm E hms_id =
     seqE (maybeLogin E)
     (bindE (getS id) (\<lambda>s.
      body_of (axios_delete E ''https://hms.api.wyze.com/api/v1/reme-alarm''
        (JObj [(''hms_id'', hms_id), (''remediation_id'', JStr ''emergency'')])
        [(''Authorization'', access_token s), (''User-Agent'', userAgent (cfg E))])))"

definition getPlanBindingListByUser :: "env \<Rightarrow> jsval m" where
  "getPlanBindingListByUser E =
     olive_get E ''https://wyze-membership-service.wyzecam.com/platform/v2/membership/get_plan_binding_list_by_user''
       (phoneId (cfg E)) oliveCreateHmsPayload"

definition monitoringProfileStateStatus :: "env \<Rightarrow> jsval \<Rightarrow> jsval m" where
  "monitoringProfileStateStatus E hms_id =
     seqE (maybeLogin E)
     (bindE (getS id) (\<lambda>s.
      let query = oliveCreateHmsGetPayload (now s) hms_id;
          signature = oliveCreateSignature (utf8pkg E) query (token_string s)
      in body_of (axios_get E ''https://hms.api.wyze.com/api/v1/monitoring/v1/profile/state-status''
        [(''User-Agent'', userAgent (cfg E)), (''appid'', JStr oliveAppId), (''appinfo'', JStr c_appInfo),
         (''phoneid'', phoneId (cfg E)), (''access_token'', access_token s), (''signature2'', JStr signature),
         (''Authorization'', access_token s), (''Content-Type'', JStr ''application/json'')] query)))"

definition monitoringProfileActive :: "env \<Rightarrow> jsval \<Rightarrow> int \<Rightarrow> int \<Rightarrow> jsval m" where
  "monitoringProfileActive E hms_id home away =
     seqE (maybeLogin E)
     (bindE (getS id) (\<lambda>s.
      let payload = oliveCreateHmsPatchPayload hms_id;
          signature = oliveCreateSignature (utf8pkg E) payload (token_string s);
          data = JArr [JObj [(''state'', JStr ''home''), (''active'', JNum home)],
                       JObj [(''state'', JStr ''away''), (''active'', JNum away)]]
      in body_of (axios_patch E ''https://hms.api.wyze.com/api/v1/monitoring/v1/profile/active'' data
        [(''User-Agent'', userAgent (cfg E)), (''appid'', JStr oliveAppId), (''appinfo'', JStr c_appInfo),
         (''phoneid'', JStr c_phoneId), (''access_token'', access_token s), (''signature2'', JStr signature),
         (''Authorization'', access_token s)] payload)))"

definition thermostat_keys :: string where
  "thermostat_keys =
     ''trigger_off_val,emheat,temperature,humidity,time2temp_val,protect_time,mode_sys,heat_sp,cool_sp, ''
     @ ''current_scenario,config_scenario,temp_unit,fan_mode,iot_state,w_city_id,w_lat,w_lon,working_state, ''
     @ ''dev_hold,dev_holdtime,asw_hold,app_version,setup_state,wiring_logic_id,save_comfort_balance, ''
     @ ''kid_lock,calibrate_humidity,calibrate_temperature,fancirc_time,query_schedule''"

definition thermostatGetIotProp :: "env \<Rightarrow> jsval \<Rightarrow> jsval m" where
  "thermostatGetIotProp E deviceMac =
     olive_get E ''https://wyze-earth-service.wyzecam.com/plugin/earth/get_iot_prop'' (JStr c_phoneId)
       (\<lambda>ms. oliveCreateGetPayload ms deviceMac thermostat_keys)"

definition thermostatSetIotProp :: "env \<Rightarrow> jsval \<Rightarrow> jsval \<Rightarrow> string \<Rightarrow> jsval \<Rightarrow> jsval m" where
  "thermostatSetIotProp E deviceMac deviceModel propKey val =
     olive_post E ''https://wyze-earth-service.wyzecam.com/plugin/earth/set_iot_prop_by_topic''
       (\<lambda>ms. oliveCreatePostPayload ms deviceMac deviceModel propKey val)"

section \<open>Irrigation\<close>

text \<open>\<open>this.log(...)\<close>: the logger is an object, not a function.\<close>

definition log_call :: "env \<Rightarrow> unit m" where
  "log_call E = whenE (apiLogEnabled (cfg E)) (throw (TypeError ''this.log is not a function''))"

definition irrigation_get :: "env \<Rightarrow> string \<Rightarrow> (int \<Rightarrow> obj) \<Rightarrow> jsval m" where
  "irrigation_get E path mk =
     seqE (maybeLogin E)
     (bindE (getS id) (\<lambda>s.
      let payload = mk (now s);
          signature = oliveCreateSignature (utf8pkg E) payload (token_string s)
      in catchE
           (seqE (log_call E)
           (bindE (axios_get E (irrigationBaseUrl @ path) (olive_get_headers E s (phoneId (cfg E)) signature) payload) (\<lambda>r.
            seqE (log_call E) (ret (resp_data r)))))
           throw))"

definition irrigation_post :: "env \<Rightarrow> string \<Rightarrow> (int \<Rightarrow> obj) \<Rightarrow> jsval m" where
  "irrigation_post E path mk =
     seqE (maybeLogin E)
     (bindE (getS id) (\<lambda>s.
      let body = stringify (JObj (mk (now s)));
          signature = oliveCreateSignatureSingle (utf8pkg E) body (token_string s)
      in catchE
           (bindE (axios_post E (irrigationBaseUrl @ path) (JStr body) (olive_post_headers E s signature)) (\<lambda>r.
            seqE (log_call E) (ret (resp_data r))))
           throw))"

definition irrigationGetIotProp :: "env \<Rightarrow> jsval \<Rightarrow> jsval m" where
  "irrigationGetIotProp E deviceMac = irrigation_get E ''get_iot_prop''
     (\<lambda>ms. oset ''keys''
        (JStr ''zone_state,iot_state,iot_state_update_time,app_version,RSSI,wifi_mac,sn,device_model,ssid,IP'')
        (oliveCreateGetPayloadIrrigation ms deviceMac))"

definition irrigationGetDeviceInfo :: "env \<Rightarrow> jsval \<Rightarrow> jsval m" where
  "irrigationGetDeviceInfo E deviceMac = irrigation_get E ''device_info''
     (\<lambda>ms. oset ''keys''
        (JStr (''wiring,sensor,enable_schedules,notification_enable,notification_watering_begins,''
             @ ''notification_watering_ends,notification_watering_is_skipped,skip_low_temp,skip_wind,''
             @ ''skip_rain,skip_saturation''))
        (oliveCreateGetPayloadIrrigation ms deviceMac))"

definition irrigationGetZones :: "env \<Rightarrow> jsval \<Rightarrow> jsval m" where
  "irrigationGetZones E deviceMac = irrigation_get E ''zone''
     (\<lambda>ms. oliveCreateGetPayloadIrrigation ms deviceMac)"

definition irrigationQuickRun :: "env \<Rightarrow> jsval \<Rightarrow> jsval \<Rightarrow> jsval \<Rightarrow> jsval m" where
  "irrigationQuickRun E deviceMac zoneNumber duration = irrigation_post E ''quickrun''
     (\<lambda>ms. oliveCreatePostPayloadIrrigationQuickRun ms deviceMac zoneNumber duration)"

definition irrigationStop :: "env \<Rightarrow> jsval \<Rightarrow> jsval m" where
  "irrigationStop E deviceMac = irrigation_post E ''runningschedule''
     (\<lambda>ms. oliveCreatePostPayloadIrrigationStop ms deviceMac ''STOP'')"

definition irrigationGetScheduleRuns :: "env \<Rightarrow> jsval \<Rightarrow> jsval \<Rightarrow> jsval m" where
  "irrigationGetScheduleRuns E deviceMac limit = irrigation_get E ''schedule_runs''
     (\<lambda>ms. oset ''limit'' (js_default limit (JNum 2)) (oliveCreateGetPayloadIrrigationScheduleRuns ms deviceMac))"

section \<open>Local bulbs\<close>

text \<open>The replacement turns every pair of backslashes into one.\<close>

fun single_backslash :: "string \<Rightarrow> string" where
  "single_backslash (a # b # s) =
     (if a = CHR 0x5C \<and> b = CHR 0x5C then CHR 0x5C # single_backslash s else a # single_backslash (b # s))"
| "single_backslash s = s"

definition bulb_payload :: "string \<Rightarrow> string" where
  "bulb_payload characteristicsEnc =
     single_backslash (stringify (JObj [(''request'', JStr ''set_status''), (''isSendQueue'', JNum 0),
       (''characteristics'', JStr characteristicsEnc)]))"

definition localBulbCommand ::
  "env \<Rightarrow> jsval \<Rightarrow> jsval \<Rightarrow> jsval \<Rightarrow> jsval \<Rightarrow> jsval \<Rightarrow> jsval \<Rightarrow> jsval \<Rightarrow> jsval m" where
  "localBulbCommand E deviceMac deviceModel deviceEnr deviceIp propertyId propertyValue actionKey =
     bindE (liftE (string_method ''toUpperCase'' to_upper deviceMac)) (\<lambda>mac.
     bindE (getS now) (\<lambda>ms.
     let plist = [JObj [(''pid'', propertyId), (''pvalue'', JStr (js_string propertyValue))]];
         characteristicsStr = stringify (JObj [(''mac'', JStr mac), (''index'', JStr ''1''),
           (''ts'', JNum ms), (''plist'', JArr plist)])
     in bindE (liftE (case deviceEnr of
                JStr enr \<Rightarrow> (case wyzeEncrypt (aes_enc E) enr characteristicsStr of
                   Inl e \<Rightarrow> Inl (Exn ''RangeError'' e None) | Inr c \<Rightarrow> Inr c)
              | _ \<Rightarrow> Inl (TypeError ''The first argument must be of type string or an instance of Buffer''))) (\<lambda>enc.
     catchE
       (void (axios_post E (''http://'' @ js_string deviceIp @ '':88/device_request'') (JStr (bulb_payload enc))
         [(''Content-Type'', JStr ''application/json'')]))
       (\<lambda>error. case eresp error of
           Some _ \<Rightarrow> void (runActionList E deviceMac deviceModel propertyId propertyValue actionKey)
         | None \<Rightarrow> ret JUndef))))"

section \<open>Home monitoring\<close>

text \<open>\<open>getHmsID\<close> awaits the plan list and returns nothing.\<close>

definition getHmsID :: "env \<Rightarrow> jsval m" where
  "getHmsID E = void (getPlanBindingListByUser E)"

definition setHMSState :: "env \<Rightarrow> jsval \<Rightarrow> jsval \<Rightarrow> jsval m" where
  "setHMSState E hms_id mode =
     (if loose_eq mode (JStr ''off'')
      then seqE (disableRemeAlarm E hms_id) (void (monitoringProfileActive E hms_id 0 0))
      else if mode = JStr ''away'' then void (monitoringProfileActive E hms_id 0 1)
      else if mode = JStr ''home'' then void (monitoringProfileActive E hms_id 1 0)
      else ret JUndef)"

definition getHmsUpdate :: "env \<Rightarrow> jsval \<Rightarrow> jsval m" where
  "getHmsUpdate E hms_id = monitoringProfileStateStatus E hms_id"

section \<open>Wall switches\<close>

definition wallSwitchPower :: "env \<Rightarrow> jsval \<Rightarrow> jsval \<Rightarrow> jsval \<Rightarrow> jsval m" where
  "wallSwitchPower E deviceMac deviceModel val = void (setIotProp E deviceMac deviceModel ''switch-power'' val)"

definition wallSwitchPowerOn :: "env \<Rightarrow> jsval \<Rightarrow> jsval \<Rightarrow> jsval m" where
  "wallSwitchPowerOn E deviceMac deviceModel = void (setIotProp E deviceMac deviceModel ''switch-power'' (JBool True))"

definition wallSwitchPowerOff :: "env \<Rightarrow> jsval \<Rightarrow> jsval \<Rightarrow> jsval m" where
  "wallSwitchPowerOff E deviceMac deviceModel = void (setIotProp E deviceMac deviceModel ''switch-power'' (JBool False))"

definition wallSwitchIot :: "env \<Rightarrow> jsval \<Rightarrow> jsval \<Rightarrow> jsval \<Rightarrow> jsval m" where
  "wallSwitchIot E deviceMac deviceModel val = void (setIotProp E deviceMac deviceModel ''switch-iot'' val)"

definition wallSwitchIotOn :: "env \<Rightarrow> jsval \<Rightarrow> jsval \<Rightarrow> jsval m" where
  "wallSwitchIotOn E deviceMac deviceModel = void (setIotProp E deviceMac deviceModel ''switch-iot'' (JBool True))"

definition wallSwitchIotOff :: "env \<Rightarrow> jsval \<Rightarrow> jsval \<Rightarrow> jsval m" where
  "wallSwitchIotOff E deviceMac deviceModel = void (setIotProp E deviceMac deviceModel ''switch-iot'' (JBool False))"

definition wallSwitchLedStateOn :: "env \<Rightarrow> jsval \<Rightarrow> jsval \<Rightarrow> jsval m" where
  "wallSwitchLedStateOn E deviceMac deviceModel = void (setIotProp E deviceMac deviceModel ''led_state'' (JBool True))"

definition wallSwitchLedStateOff :: "env \<Rightarrow> jsval \<Rightarrow> jsval \<Rightarrow> jsval m" where
  "wallSwitchLedStateOff E deviceMac deviceModel = void (setIotProp E deviceMac deviceModel ''led_state'' (JBool False))"

definition wallSwitchVacationModeOn :: "env \<Rightarrow> jsval \<Rightarrow> jsval \<Rightarrow> jsval m" where
  "wallSwitchVacationModeOn E deviceMac deviceModel = void (setIotProp E deviceMac deviceModel ''vacation_mode'' (JNum 0))"

definition wallSwitchVacationModeOff :: "env \<Rightarrow> jsval \<Rightarrow> jsval \<Rightarrow> jsval m" where
  "wallSwitchVacationModeOff E deviceMac deviceModel = void (setIotProp E deviceMac deviceModel ''vacation_mode'' (JNum 1))"

end
