(* ===== verification/Vacuum.thy ===== *)
theory Vacuum
  imports SignedServices
begin

text \<open>
  Robot vacuums (the Venus service) of \<open>src/src/index.js\<close>: request signing, reads and controls, the
  merged information of \<open>getVacuumInfo\<close> and the pure accessors on it.
\<close>

section \<open>Requests\<close>

definition venusBuildHeaders :: "env \<Rightarrow> st \<Rightarrow> jsval \<Rightarrow> string \<Rightarrow> obj" where
  "venusBuildHeaders E s nonce signature =
     [(''Accept-Encoding'', JStr ''gzip''), (''User-Agent'', userAgent (cfg E)),
      (''access_token'', access_token s), (''appid'', JStr venusAppId), (''appinfo'', appInfo (cfg E)),
      (''phoneid'', phoneId (cfg E)), (''requestid'', JStr (venusRequestId nonce)),
      (''signature2'', JStr signature)]"

definition venusSortedQuery :: "obj \<Rightarrow> string" where
  "venusSortedQuery params = join ''&'' (sorted_pairs params)"

definition axios_request :: "env \<Rightarrow> string \<Rightarrow> string \<Rightarrow> obj \<Rightarrow> jsval \<Rightarrow> http_response m" where
  "axios_request E url verb headers data = http_send E
     \<lparr>rq_method = verb, rq_url = url, rq_base = JUndef, rq_headers = headers, rq_params = [], rq_data = data\<rparr>"

definition venusRequest :: "env \<Rightarrow> string \<Rightarrow> string \<Rightarrow> obj \<Rightarrow> jsval m" where
  "venusRequest E method path payload =
     seqE (maybeLogin E)
     (bindE (getS id) (\<lambda>s.
      let nonce = now s; url = venusBaseUrl @ path; verb = to_upper method in
      body_of
        (if verb = ''GET''
         then let params = oset ''nonce'' (JNum nonce) payload;
                  signature = venusGenerateDynamicSignature (venusSortedQuery params) (token_string s);
                  headers = venusBuildHeaders E s (JNum nonce) signature
              in axios_get E url headers params
         else let body = oset ''nonce'' (JStr (show_int nonce)) payload; bodyStr = stringify (JObj body);
                  signature = venusGenerateDynamicSignature bodyStr (token_string s);
                  headers = oset ''Content-Type'' (JStr ''application/json; charset=utf-8'')
                    (venusBuildHeaders E s (JNum nonce) signature)
              in axios_request E url verb headers (JStr bodyStr))))"

fun indexed_args :: "nat \<Rightarrow> jsval list \<Rightarrow> obj \<Rightarrow> obj" where
  "indexed_args i [] payload = payload"
| "indexed_args i (v # vs) payload = indexed_args (i + 1) vs (oset (''arg'' @ show_nat (i + 1)) v payload)"

definition description_of :: "(int \<times> string) list \<Rightarrow> jsval \<Rightarrow> jsval" where
  "description_of tab code =
     (case List.find (\<lambda>(k, _). js_string code = show_int k) tab of Some (_, d) \<Rightarrow> JStr d | None \<Rightarrow> JUndef)"

definition vacuumEventTracking :: "env \<Rightarrow> jsval \<Rightarrow> jsval \<Rightarrow> jsval \<Rightarrow> jsval list \<Rightarrow> jsval m" where
  "vacuumEventTracking E mac typeCode valueCode args =
     bindE (getS now) (\<lambda>ms.
     let payload =
       [(''uuid'', JStr vacuumEventTrackingUuid), (''deviceId'', mac), (''createTime'', JStr (show_int ms)),
        (''mcuSysVersion'', JStr vacuumFirmwareVersion), (''appVersion'', appVersion (cfg E)),
        (''pluginVersion'', JStr venusPluginVersion), (''phoneId'', phoneId (cfg E)),
        (''phoneOsVersion'', JStr ''16.0''),
        (''eventKey'', description_of VacuumControlTypeDescription typeCode), (''eventType'', valueCode)]
     in venusRequest E ''POST'' ''/plugin/venus/event_tracking''
          (oset ''arg12'' (JStr ''iPhone 13 mini'') (oset ''arg11'' (JStr ''ios'') (indexed_args 0 args payload))))"

section \<open>Lookup and merged information\<close>

definition is_vacuum_model :: "jsval \<Rightarrow> exn + bool" where
  "is_vacuum_model d = bindR (get_prop d ''product_model'') (\<lambda>m. Inr (m \<in> JStr ` set vacuumModels))"

definition getVacuumDeviceList :: "env \<Rightarrow> jsval m" where
  "getVacuumDeviceList E = bindE (getDeviceList E) (\<lambda>d. liftE (filter_devices is_vacuum_model d))"

definition getVacuum :: "env \<Rightarrow> jsval \<Rightarrow> jsval m" where
  "getVacuum E mac = bindE (getVacuumDeviceList E) (\<lambda>d. liftE (find_device (same_mac mac) d))"

text \<open>\<open>Object.assign(ob, v)\<close>: only objects, arrays and strings have own members.\<close>

definition assign_from :: "obj \<Rightarrow> jsval \<Rightarrow> obj" where
  "assign_from ob v =
     (case v of JObj o' \<Rightarrow> spread ob o' | JArr vs \<Rightarrow> spread ob (array_obj vs)
      | JStr s \<Rightarrow> spread ob (array_obj (map (\<lambda>c. JStr [c]) s)) | _ \<Rightarrow> ob)"

definition safe :: "jsval m \<Rightarrow> jsval m" where
  "safe fn = catchE fn (\<lambda>_. ret JNull)"

definition keys_param :: "jsval \<Rightarrow> obj \<Rightarrow> obj" where
  "keys_param keys params =
     (if nullish keys then params
      else oset ''keys'' (case keys of JArr vs \<Rightarrow> JStr (js_string keys) | _ \<Rightarrow> keys) params)"

definition getVacuumIotProp :: "env \<Rightarrow> jsval \<Rightarrow> jsval \<Rightarrow> jsval m" where
  "getVacuumIotProp E mac keys =
     venusRequest E ''GET'' ''/plugin/venus/get_iot_prop'' (keys_param keys [(''did'', mac)])"

definition getVacuumDeviceInfo :: "env \<Rightarrow> jsval \<Rightarrow> jsval \<Rightarrow> jsval m" where
  "getVacuumDeviceInfo E mac keys =
     venusRequest E ''GET'' ''/plugin/venus/device_info'' (keys_param keys [(''device_id'', mac)])"

definition getVacuumStatus :: "env \<Rightarrow> jsval \<Rightarrow> jsval m" where
  "getVacuumStatus E mac = venusRequest E ''GET'' (''/plugin/venus/'' @ js_string mac @ ''/status'') []"

definition getVacuumCurrentPosition :: "env \<Rightarrow> jsval \<Rightarrow> jsval m" where
  "getVacuumCurrentPosition E mac =
     venusRequest E ''GET'' ''/plugin/venus/memory_map/current_position'' [(''did'', mac)]"

definition getVacuumCurrentMap :: "env \<Rightarrow> jsval \<Rightarrow> jsval m" where
  "getVacuumCurrentMap E mac =
     venusRequest E ''GET'' ''/plugin/venus/memory_map/current_map'' [(''did'', mac)]"

definition getVacuumMaps :: "env \<Rightarrow> jsval \<Rightarrow> jsval m" where
  "getVacuumMaps E mac = venusRequest E ''GET'' ''/plugin/venus/memory_map/list'' [(''did'', mac)]"

definition setVacuumCurrentMap :: "env \<Rightarrow> jsval \<Rightarrow> jsval \<Rightarrow> jsval m" where
  "setVacuumCurrentMap E mac mapId =
     venusRequest E ''POST'' ''/plugin/venus/memory_map/current_map'' [(''device_id'', mac), (''map_id'', mapId)]"

text \<open>\<open>since\<close> is a number here; a \<open>Date\<close> is the number of its \<open>getTime()\<close>.\<close>

definition getVacuumSweepRecords :: "env \<Rightarrow> jsval \<Rightarrow> obj \<Rightarrow> jsval m" where
  "getVacuumSweepRecords E mac options =
     bindE (getS now) (\<lambda>ms.
     let limit = js_default (oget options ''limit'') (JNum 20);
         since = js_default (oget options ''since'') (JNum ms)
     in venusRequest E ''GET'' ''/plugin/venus/sweep_record/query_data''
          [(''did'', mac), (''purpose'', JStr ''history_map''), (''count'', limit), (''last_time'', since)])"

definition merge_when :: "jsval \<Rightarrow> obj \<Rightarrow> obj" where
  "merge_when v ob = (if truthy v then assign_from ob v else ob)"

definition set_when :: "string \<Rightarrow> jsval \<Rightarrow> obj \<Rightarrow> obj" where
  "set_when k v ob = (if truthy v then oset k v ob else ob)"

definition data_part :: "jsval \<Rightarrow> string \<Rightarrow> jsval" where
  "data_part v k = opt_prop (opt_prop v ''data'') k"

definition getVacuumInfo :: "env \<Rightarrow> jsval \<Rightarrow> jsval m" where
  "getVacuumInfo E mac =
     bindE (getVacuum E mac) (\<lambda>vacuum.
     if \<not> truthy vacuum then ret JNull
     else
       bindE (safe (getVacuumIotProp E mac (JArr (map JStr VacuumIotPropKeys)))) (\<lambda>iotProp.
       bindE (safe (getVacuumDeviceInfo E mac (JArr (map JStr VacuumDeviceInfoKeys)))) (\<lambda>deviceInfo.
       bindE (safe (getVacuumStatus E mac)) (\<lambda>status.
       bindE (safe (getVacuumCurrentPosition E mac)) (\<lambda>position.
       bindE (safe (getVacuumCurrentMap E mac)) (\<lambda>mp.
       ret (JObj
         (set_when ''current_map'' (opt_prop mp ''data'')
         (set_when ''current_position'' (opt_prop position ''data'')
         (merge_when (data_part status ''heartBeat'')
         (merge_when (data_part status ''eventFlag'')
         (merge_when (data_part deviceInfo ''settings'')
         (merge_when (data_part iotProp ''props'')
         (assign_from [] vacuum))))))))))))))"

section \<open>Controls\<close>

definition vacuumControl :: "env \<Rightarrow> jsval \<Rightarrow> int \<Rightarrow> int \<Rightarrow> obj \<Rightarrow> jsval m" where
  "vacuumControl E mac ty val extras =
     venusRequest E ''POST'' (''/plugin/venus/'' @ js_string mac @ ''/control'')
       (spread [(''type'', JNum ty), (''value'', JNum val), (''vacuumMopMode'', JNum 0)] extras)"

definition vacuumClean :: "env \<Rightarrow> jsval \<Rightarrow> jsval m" where
  "vacuumClean E mac = vacuumControl E mac (VacuumControlType GLOBAL_SWEEPING) (VacuumControlValue START) []"

definition vacuumPause :: "env \<Rightarrow> jsval \<Rightarrow> jsval m" where
  "vacuumPause E mac = vacuumControl E mac (VacuumControlType GLOBAL_SWEEPING) (VacuumControlValue PAUSE) []"

definition vacuumDock :: "env \<Rightarrow> jsval \<Rightarrow> jsval m" where
  "vacuumDock E mac = vacuumControl E mac (VacuumControlType RETURN_TO_CHARGING) (VacuumControlValue START) []"

definition vacuumStop :: "env \<Rightarrow> jsval \<Rightarrow> jsval m" where
  "vacuumStop E mac = vacuumControl E mac (VacuumControlType RETURN_TO_CHARGING) (VacuumControlValue STOP) []"

definition vacuumCancel :: "env \<Rightarrow> jsval \<Rightarrow> jsval m" where
  "vacuumCancel E mac = vacuumControl E mac (VacuumControlType RETURN_TO_CHARGING) (VacuumControlValue STOP) []"

definition vacuumSweepRooms :: "env \<Rightarrow> jsval \<Rightarrow> jsval \<Rightarrow> jsval m" where
  "vacuumSweepRooms E mac roomIds =
     (let ids = (case roomIds of JArr _ \<Rightarrow> roomIds | _ \<Rightarrow> JArr [roomIds])
      in vacuumControl E mac (VacuumControlType GLOBAL_SWEEPING) (VacuumControlValue START) [(''rooms_id'', ids)])"

definition vacuumSetSuctionLevel :: "env \<Rightarrow> jsval \<Rightarrow> jsval \<Rightarrow> int \<Rightarrow> jsval m" where
  "vacuumSetSuctionLevel E mac model level =
     venusRequest E ''POST'' ''/plugin/venus/set_iot_action''
       [(''did'', mac), (''model'', model), (''cmd'', JStr ''set_preference''),
        (''params'', JArr [JObj [(''ctrltype'', JNum VacuumPreferenceType_SUCTION), (''value'', JNum level)]]),
        (''is_sub_device'', JNum 0)]"

definition on_mac :: "(jsval \<Rightarrow> jsval m) \<Rightarrow> jsval \<Rightarrow> jsval m" where
  "on_mac f device = bindE (liftE (get_prop device ''mac'')) f"

definition vacuumStartCleaning :: "env \<Rightarrow> jsval \<Rightarrow> jsval m" where
  "vacuumStartCleaning E device = on_mac (vacuumClean E) device"

definition vacuumPauseCleaning :: "env \<Rightarrow> jsval \<Rightarrow> jsval m" where
  "vacuumPauseCleaning E device = on_mac (vacuumPause E) device"

definition vacuumReturnToDock :: "env \<Rightarrow> jsval \<Rightarrow> jsval m" where
  "vacuumReturnToDock E device = on_mac (vacuumDock E) device"

definition vacuumCleanRooms :: "env \<Rightarrow> jsval \<Rightarrow> jsval \<Rightarrow> jsval m" where
  "vacuumCleanRooms E device roomIds = on_mac (\<lambda>mac. vacuumSweepRooms E mac roomIds) device"

definition vacuumQuiet :: "env \<Rightarrow> jsval \<Rightarrow> jsval m" where
  "vacuumQuiet E device = on_mac (\<lambda>mac.
     vacuumSetSuctionLevel E mac (own_prop device ''product_model'') (VacuumSuctionLevel QUIET)) device"

definition vacuumStandard :: "env \<Rightarrow> jsval \<Rightarrow> jsval m" where
  "vacuumStandard E device = on_mac (\<lambda>mac.
     vacuumSetSuctionLevel E mac (own_prop device ''product_model'') (VacuumSuctionLevel STANDARD)) device"

definition vacuumStrong :: "env \<Rightarrow> jsval \<Rightarrow> jsval m" where
  "vacuumStrong E device = on_mac (\<lambda>mac.
     vacuumSetSuctionLevel E mac (own_prop device ''product_model'') (VacuumSuctionLevel STRONG)) device"

definition vacuumInfo :: "env \<Rightarrow> jsval \<Rightarrow> jsval m" where
  "vacuumInfo E device = on_mac (getVacuumInfo E) device"

section \<open>Accessors\<close>

definition vacuumGetBattery :: "jsval \<Rightarrow> jsval" where
  "vacuumGetBattery info =
     (case opt_prop info ''battary'' of JNum n \<Rightarrow> JNum n | JNaN \<Rightarrow> JNaN | _ \<Rightarrow> JNull)"

definition vacuumGetMode :: "jsval \<Rightarrow> jsval" where
  "vacuumGetMode info = parseVacuumMode (opt_prop info ''mode'')"

definition vacuumGetFault :: "jsval \<Rightarrow> jsval" where
  "vacuumGetFault info =
     (let code = opt_prop info ''fault_code'' in
      if (case code of JNum n \<Rightarrow> n \<noteq> 0 | JNaN \<Rightarrow> True | _ \<Rightarrow> False)
      then JObj [(''code'', code), (''description'', js_coalesce (description_of VacuumFaultCode code) JNull)]
      else JNull)"

definition vacuumIsCharging :: "jsval \<Rightarrow> bool" where
  "vacuumIsCharging info = truthy (opt_prop info ''chargeState'')"

definition vacuumIsCleaning :: "jsval \<Rightarrow> bool" where
  "vacuumIsCleaning info = (vacuumGetMode info = JStr ''CLEANING'')"

definition vacuumIsDocked :: "jsval \<Rightarrow> bool" where
  "vacuumIsDocked info = (vacuumGetMode info = JStr ''IDLE'' \<or> vacuumIsCharging info)"

end
