(* ===== verification/Iot3.thy ===== *)
theory Iot3
  imports SignedServices
begin

text \<open>
  The iot3 API of \<open>src/src/index.js\<close> (Lock Bolt V2 and Palm lock): model names from device ids, the
  signed POST and the operations on it.
\<close>

definition iot3ExtractModel :: "jsval \<Rightarrow> jsval \<Rightarrow> exn + jsval" where
  "iot3ExtractModel deviceMac deviceModel =
     (if truthy deviceModel then Inr deviceModel
      else bindR (string_method ''split'' id deviceMac) (\<lambda>s.
        let parts = split_on CHR ''_'' s in
        Inr (if 3 \<le> length parts then JStr (join ''_'' (take 2 parts)) else deviceMac)))"

definition iot3BuildHeaders :: "env \<Rightarrow> string \<Rightarrow> obj m" where
  "iot3BuildHeaders E bodyStr =
     bindE (random_hex E 16) (\<lambda>requestid.
     getS (\<lambda>s.
       [(''access_token'', access_token s), (''appid'', cfg_oliveAppId (cfg E)), (''appinfo'', JStr iot3AppInfo),
        (''appversion'', JStr iot3AppVersion), (''env'', JStr ''Prod''), (''phoneid'', phoneId (cfg E)),
        (''requestid'', JStr requestid),
        (''Signature2'', JStr (iot3CreateSignature bodyStr (token_string s))),
        (''Content-Type'', JStr ''application/json; charset=utf-8'')]))"

definition iot3Post :: "env \<Rightarrow> string \<Rightarrow> obj \<Rightarrow> jsval m" where
  "iot3Post E urlPath payload =
     (let body = stringify (JObj payload) in
      bindE (iot3BuildHeaders E body) (\<lambda>headers.
      body_of (axios_post E (iot3BaseUrl @ urlPath) (JStr body) headers)))"

definition iot3GetProperties :: "env \<Rightarrow> jsval \<Rightarrow> jsval \<Rightarrow> jsval \<Rightarrow> jsval m" where
  "iot3GetProperties E deviceMac deviceModel props =
     seqE (maybeLogin E)
     (bindE (liftE (iot3ExtractModel deviceMac deviceModel)) (\<lambda>model.
      bindE (getS now) (\<lambda>ms.
      bindE (math_random E) (\<lambda>r.
      iot3Post E ''/app/v4/iot3/get-property'' (iot3CreateGetPayload ms r deviceMac model props)))))"

definition iot3RunAction :: "env \<Rightarrow> jsval \<Rightarrow> jsval \<Rightarrow> jsval \<Rightarrow> jsval m" where
  "iot3RunAction E deviceMac deviceModel action =
     seqE (maybeLogin E)
     (bindE (liftE (iot3ExtractModel deviceMac deviceModel)) (\<lambda>model.
      bindE (getS now) (\<lambda>ms.
      bindE (math_random E) (\<lambda>r1.
      bindE (math_random E) (\<lambda>r2.
      iot3Post E ''/app/v4/iot3/run-action''
        (iot3CreateRunActionPayload ms r1 r2 deviceMac model action (username (cfg E))))))))"

definition lockBoltV2GetProperties :: "env \<Rightarrow> jsval \<Rightarrow> jsval \<Rightarrow> jsval m" where
  "lockBoltV2GetProperties E deviceMac deviceModel =
     iot3GetProperties E deviceMac deviceModel (JArr (map JStr
       [''lock::lock-status'', ''lock::door-status'', ''iot-device::iot-state'', ''battery::battery-level'',
        ''battery::power-source'', ''device-info::firmware-ver'']))"

definition lockBoltV2Lock :: "env \<Rightarrow> jsval \<Rightarrow> jsval \<Rightarrow> jsval m" where
  "lockBoltV2Lock E deviceMac deviceModel = iot3RunAction E deviceMac deviceModel (JStr ''lock::lock'')"

definition lockBoltV2Unlock :: "env \<Rightarrow> jsval \<Rightarrow> jsval \<Rightarrow> jsval m" where
  "lockBoltV2Unlock E deviceMac deviceModel = iot3RunAction E deviceMac deviceModel (JStr ''lock::unlock'')"

definition palmLockGetProperties :: "env \<Rightarrow> jsval \<Rightarrow> jsval \<Rightarrow> jsval m" where
  "palmLockGetProperties E deviceMac deviceModel =
     iot3GetProperties E deviceMac deviceModel (JArr (map JStr
       [''lock::lock-status'', ''battery::battery-level'', ''iot-device::iot-state'', ''device-info::firmware-ver'']))"

end
