(* ===== verification/CameraHelpers.thy ===== *)
theory CameraHelpers
  imports Devices
begin

text \<open>
  Camera helpers of \<open>src/src/index.js\<close> that do not talk to the cloud or only list devices: online
  state, thumbnails, summaries, lookups, event lists, device-info accessors, client ids, signaling
  URLs and ICE servers.
\<close>

section \<open>State of a device object\<close>

definition cameraIsOnline :: "jsval \<Rightarrow> bool" where
  "cameraIsOnline device =
     (if opt_prop device ''conn_state'' \<noteq> JUndef then opt_prop device ''conn_state'' = JNum 1
      else if opt_prop (opt_prop device ''device_params'') ''status'' \<noteq> JUndef
      then opt_prop (opt_prop device ''device_params'') ''status'' = JNum 1
      else if opt_prop device ''is_online'' \<noteq> JUndef then truthy (opt_prop device ''is_online'')
      else False)"

definition first_thumbnail :: "jsval \<Rightarrow> jsval option" where
  "first_thumbnail device =
     (case opt_prop (opt_prop device ''device_params'') ''camera_thumbnails'' of
        JArr (t # _) \<Rightarrow> Some t | _ \<Rightarrow> None)"

definition cameraGetThumbnail :: "jsval \<Rightarrow> jsval" where
  "cameraGetThumbnail device =
     (case first_thumbnail device of Some t \<Rightarrow> js_coalesce (opt_prop t ''url'') JNull | None \<Rightarrow> JNull)"

definition cameraGetSnapshot :: "jsval \<Rightarrow> jsval" where
  "cameraGetSnapshot device =
     (case first_thumbnail device of Some t \<Rightarrow> js_coalesce t JNull | None \<Rightarrow> JNull)"

definition cameraToSummary :: "jsval \<Rightarrow> jsval" where
  "cameraToSummary device = JObj
     [(''mac'', opt_prop device ''mac''), (''productModel'', opt_prop device ''product_model''),
      (''nickname'', opt_prop device ''nickname''), (''online'', JBool (cameraIsOnline device)),
      (''thumbnail'', cameraGetThumbnail device)]"

definition cameraGetSignalStrength :: "jsval \<Rightarrow> jsval" where
  "cameraGetSignalStrength device = js_coalesce (opt_prop (opt_prop device ''device_params'') ''signal_strength'') JNull"

definition cameraGetIp :: "jsval \<Rightarrow> jsval" where
  "cameraGetIp device = js_coalesce (opt_prop (opt_prop device ''device_params'') ''ip'') JNull"

definition cameraGetFirmware :: "jsval \<Rightarrow> jsval" where
  "cameraGetFirmware device = js_coalesce (opt_prop device ''firmware_ver'') JNull"

definition cameraGetTimezone :: "jsval \<Rightarrow> jsval" where
  "cameraGetTimezone device = js_coalesce (opt_prop device ''timezone_name'') JNull"

text \<open>The result is the time value of the \<open>Date\<close>, \<open>None\<close> for null.\<close>

definition cameraGetLastSeen :: "jsval \<Rightarrow> jsval option" where
  "cameraGetLastSeen device =
     (case opt_prop (opt_prop device ''device_params'') ''last_login_time'' of
        JNum n \<Rightarrow> Some (JNum n) | JNaN \<Rightarrow> Some JNaN | _ \<Rightarrow> None)"

section \<open>Lookups\<close>

definition getCameras :: "env \<Rightarrow> jsval m" where
  "getCameras E = getDevicesByType E (JStr ''Camera'')"

definition getOnlineCameras :: "env \<Rightarrow> jsval m" where
  "getOnlineCameras E =
     bindE (getCameras E) (\<lambda>c. liftE (filter_devices (\<lambda>d. Inr (cameraIsOnline d)) c))"

definition getOfflineCameras :: "env \<Rightarrow> jsval m" where
  "getOfflineCameras E =
     bindE (getCameras E) (\<lambda>c. liftE (filter_devices (\<lambda>d. Inr (\<not> cameraIsOnline d)) c))"

definition getCamera :: "env \<Rightarrow> jsval \<Rightarrow> jsval m" where
  "getCamera E mac = bindE (getCameras E) (\<lambda>c. liftE (find_device (same_mac mac) c))"

text \<open>\<open>v?.toLowerCase()\<close>\<close>

definition opt_lower :: "jsval \<Rightarrow> exn + jsval" where
  "opt_lower v = (if nullish v then Inr JUndef else bindR (lower_of v) (\<lambda>s. Inr (JStr s)))"

definition getCameraByName :: "env \<Rightarrow> jsval \<Rightarrow> jsval m" where
  "getCameraByName E nickname =
     bindE (getCameras E) (\<lambda>c. liftE (find_device (\<lambda>camera.
       bindR (opt_lower (opt_prop camera ''nickname'')) (\<lambda>a. bindR (opt_lower nickname) (\<lambda>b. Inr (a = b)))) c))"

definition getCameraSnapshot :: "env \<Rightarrow> jsval \<Rightarrow> jsval m" where
  "getCameraSnapshot E mac =
     bindE (getCamera E mac) (\<lambda>camera. ret (if truthy camera then cameraGetSnapshot camera else JNull))"

definition getCameraSnapshotUrl :: "env \<Rightarrow> jsval \<Rightarrow> jsval m" where
  "getCameraSnapshotUrl E mac =
     bindE (getCameraSnapshot E mac) (\<lambda>snapshot. ret (js_coalesce (opt_prop snapshot ''url'') JNull))"

definition getCameraSummaries :: "env \<Rightarrow> jsval m" where
  "getCameraSummaries E =
     bindE (getCameras E) (\<lambda>c. liftE (bindR (array_of ''map'' c) (\<lambda>vs. Inr (JArr (map cameraToSummary vs)))))"

definition event_request :: "int \<Rightarrow> obj \<Rightarrow> obj" where
  "event_request ms options =
     [(''count'', js_or (oget options ''count'') (JNum 20)),
      (''order_by'', JNum 2),
      (''begin_time'', js_or (oget options ''beginTime'') (JNum (ms - 60 * 60 * 1000))),
      (''end_time'', js_or (oget options ''endTime'') (JNum (ms + 60 * 1000))),
      (''device_mac_list'', js_or (oget options ''deviceMacList'') (JArr [])),
      (''event_type'', JStr ''''),
      (''event_value_list'', js_or (oget options ''eventValueList'') (JArr [])),
      (''event_tag_list'', JArr [])]"

definition getEventList :: "env \<Rightarrow> obj \<Rightarrow> jsval m" where
  "getEventList E options =
     bindE (getS now) (\<lambda>ms.
     bindE (request E ''app/v2/device/get_event_list'' (event_request ms options)) (\<lambda>result.
     liftE (bindR (get_prop (resp_data result) ''data'') (\<lambda>d.
       Inr (js_or (opt_prop d ''event_list'') (JArr []))))))"

section \<open>Client ids\<close>

definition safe_prefix :: "string \<Rightarrow> string" where
  "safe_prefix s = map (\<lambda>c. if is_alnum c \<or> c = CHR ''_'' \<or> c = CHR ''-'' then c else CHR ''-'') s"

definition mac_slug :: "string \<Rightarrow> string" where
  "mac_slug mac =
     (let slug = to_lower (slice_last 8 (filter is_alnum mac)) in if slug = '''' then ''camera'' else slug)"

definition createCameraStreamClientId :: "env \<Rightarrow> jsval \<Rightarrow> jsval \<Rightarrow> jsval m" where
  "createCameraStreamClientId E deviceOrMac pfx =
     (let mac = (case deviceOrMac of JStr s \<Rightarrow> JStr s | _ \<Rightarrow> opt_prop deviceOrMac ''mac'');
          safePrefix = safe_prefix (js_string (js_or (js_default pfx (JStr ''viewer'')) (JStr ''viewer'')))
      in bindE (liftE (string_method ''replace'' mac_slug (js_or mac (JStr ''camera'')))) (\<lambda>macSlug.
         bindE (random_hex E 4) (\<lambda>rnd.
         getS (\<lambda>s. JStr (safePrefix @ ''-'' @ macSlug @ ''-'' @ show_int (now s) @ ''-'' @ rnd)))))"

section \<open>Signaling URLs\<close>

text \<open>
  \<open>decodeURIComponent\<close> for text whose escapes encode characters below 256; \<open>None\<close> is a \<open>URIError\<close>.
\<close>

definition hex_pair :: "char \<Rightarrow> char \<Rightarrow> nat option" where
  "hex_pair a b = (case (hex_val a, hex_val b) of (Some h, Some l) \<Rightarrow> Some (16 * h + l) | _ \<Rightarrow> None)"

fun decodeURIComponent :: "string \<Rightarrow> string option" where
  "decodeURIComponent [] = Some []"
| "decodeURIComponent (c # s) =
     (if c \<noteq> CHR ''%'' then map_option (Cons c) (decodeURIComponent s)
      else case s of
        a # b # s1 \<Rightarrow>
          (case hex_pair a b of
             None \<Rightarrow> None
           | Some n \<Rightarrow>
               if n < 128 then map_option (Cons (char_of n)) (decodeURIComponent s1)
               else if n = 194 \<or> n = 195 then
                 (case s1 of
                    p # a2 # b2 # s2 \<Rightarrow>
                      if p \<noteq> CHR ''%'' then None
                      else (case hex_pair a2 b2 of
                        None \<Rightarrow> None
                      | Some m \<Rightarrow>
                          if 128 \<le> m \<and> m < 192
                          then map_option (Cons (char_of ((n - 192) * 64 + (m - 128)))) (decodeURIComponent s2)
                          else None)
                  | _ \<Rightarrow> None)
               else None)
      | _ \<Rightarrow> None)"

definition normalizeCameraSignalingUrl :: "jsval \<Rightarrow> jsval" where
  "normalizeCameraSignalingUrl signalingUrl =
     (case signalingUrl of
        JStr u \<Rightarrow>
          if str_includes u ''%25''
          then (case decodeURIComponent u of Some d \<Rightarrow> JStr d | None \<Rightarrow> signalingUrl)
          else signalingUrl
      | _ \<Rightarrow> signalingUrl)"

section \<open>ICE servers and stream state\<close>

definition sanitize_server :: "jsval \<Rightarrow> jsval option" where
  "sanitize_server server =
     (if \<not> truthy server \<or> \<not> truthy (own_prop server ''url'') then None
      else let out = [(''urls'', own_prop server ''url'')];
               out1 = (if truthy (own_prop server ''username'')
                       then oset ''username'' (own_prop server ''username'') out else out);
               out2 = (if truthy (own_prop server ''credential'')
                       then oset ''credential'' (own_prop server ''credential'') out1 else out1)
           in Some (JObj out2))"

definition sanitizeCameraIceServers :: "jsval \<Rightarrow> exn + jsval" where
  "sanitizeCameraIceServers iceServers =
     bindR (array_of ''map'' (js_default iceServers (JArr []))) (\<lambda>vs.
       Inr (JArr (List.map_filter sanitize_server vs)))"

definition parseCameraStatus :: "jsval \<Rightarrow> jsval" where
  "parseCameraStatus streamInfoResponse =
     (let item = opt_index (opt_prop streamInfoResponse ''data'') 0; p = opt_prop item ''property'' in
      if \<not> truthy p then JNull
      else JObj [(''online'', JBool (own_prop p ''iot-device::iot-state'' = JNum 1)),
                 (''powered'', JBool (own_prop p ''iot-device::iot-power'' = JNum 1))])"

end
