(* ===== verification/CameraStream.thy ===== *)
theory CameraStream
  imports CameraHelpers SignedServices
begin

text \<open>
  Camera streams of \<open>src/src/index.js\<close>: the WebRTC stream information, the connection bundle with its
  time-limited cache, retries with exponential backoff, and snapshots (the cloud thumbnail or a
  captured frame, with their own cache). The capture of a frame over WebRTC is the argument
  \<open>capture\<close> of the snapshot operations.
\<close>

section \<open>Stream information\<close>

definition stream_payload :: "int \<Rightarrow> jsval \<Rightarrow> jsval \<Rightarrow> bool \<Rightarrow> obj" where
  "stream_payload ms deviceMac deviceModel substream =
     [(''device_list'', JArr [JObj
        [(''device_id'', deviceMac), (''device_model'', deviceModel), (''provider'', JStr ''webrtc''),
         (''parameters'', JObj ([(''use_trickle'', JBool True)]
            @ (if substream then [(''sub_stream'', JBool True)] else [])))]]),
      (''nonce'', JStr (show_int ms))]"

definition stream_headers :: "st \<Rightarrow> string \<Rightarrow> obj" where
  "stream_headers s signature =
     [(''Accept-Encoding'', JStr ''gzip''), (''appId'', JStr webAppId), (''appInfo'', JStr webAppInfo),
      (''access_token'', access_token s), (''Authorization'', access_token s),
      (''signature2'', JStr signature), (''requestid'', JStr (show_int (now s mod 100000))),
      (''Content-Type'', JStr ''application/json; charset=utf-8'')]"

text \<open>The tests of the error branch; the message is converted to lower case only when it is needed.\<close>

definition token_error_test :: "jsval \<Rightarrow> jsval \<Rightarrow> exn + bool" where
  "token_error_test code errorMessage =
     (if code = JNum 2001 then Inr True
      else bindR (lower_of errorMessage) (\<lambda>em.
        Inr (str_includes em ''accesstokenerror'' \<or> str_includes em ''access token is error'')))"

definition rate_limit_test :: "jsval \<Rightarrow> jsval \<Rightarrow> exn + bool" where
  "rate_limit_test code errorMessage =
     (if code = JNum 3044 then Inr True
      else if code = JNum 1000
      then bindR (lower_of errorMessage) (\<lambda>em. Inr (str_includes em ''too many failed attempts''))
      else Inr False)"

definition stream_entry :: "jsval \<Rightarrow> exn + jsval" where
  "stream_entry data =
     bindR (get_prop data ''data'') (\<lambda>d.
     case d of
       JArr [entry] \<Rightarrow>
         bindR (get_prop entry ''property'') (\<lambda>p.
         if \<not> truthy p then Inl (Error (''Unexpected response from cameraGetStreamInfo: '' @ stringify entry))
         else if own_prop p ''iot-device::iot-state'' \<noteq> JNum 1
         then Inl (Error (''Camera is offline: '' @ stringify entry))
         else if own_prop p ''iot-device::iot-power'' \<noteq> JNum 1
         then Inl (Error (''Camera is off: '' @ stringify entry))
         else Inr (own_prop entry ''params''))
     | _ \<Rightarrow> Inl (Error (''Unexpected response from cameraGetStreamInfo: '' @ stringify data)))"

definition stream_answer :: "env \<Rightarrow> http_response \<Rightarrow> jsval m" where
  "stream_answer E response =
     (let data = resp_data response; code = opt_prop data ''code'';
          errorMessage = js_or (opt_prop data ''msg'') (js_or (opt_prop data ''description'') (JStr ''''))
      in if code \<noteq> JUndef \<and> js_number code \<noteq> Some 1
         then bindE (liftE (token_error_test code errorMessage)) (\<lambda>te.
           if te
           then seqE (handleAccessTokenError (refreshToken E) response (js_string errorMessage) code)
             (throw (Error (''Wyze access token error ('' @ js_string code @ ''): '' @ js_string errorMessage
                @ ''. Token has been refreshed; retry the call.'')))
           else bindE (liftE (rate_limit_test code errorMessage)) (\<lambda>rl.
             if rl then throw (Error (''Wyze API rate limited ('' @ js_string code @ ''): '' @ js_string errorMessage))
             else if js_string code = deviceOfflineCode then throw (Error (''Camera is offline: '' @ stringify data))
             else throw (Error (''Wyze API Error ('' @ js_string code @ '') - '' @ js_string errorMessage))))
         else liftE (stream_entry data))"

definition web_signature :: "string \<Rightarrow> string \<Rightarrow> exn + string" where
  "web_signature body token = lift_msg (web_create_signature (JStr body) token)"

definition cameraGetStreamInfo :: "env \<Rightarrow> jsval \<Rightarrow> jsval \<Rightarrow> bool \<Rightarrow> jsval m" where
  "cameraGetStreamInfo E deviceMac deviceModel substream =
     seqE (maybeLogin E)
     (bindE (getS id) (\<lambda>s.
      let body = stringify (JObj (stream_payload (now s) deviceMac deviceModel substream)) in
      bindE (liftE (web_signature body (token_string s))) (\<lambda>signature.
      catchE
        (bindE (axios_post E (iot3BaseUrl @ ''/app/v4/camera/get-streams'') (JStr body) (stream_headers s signature)) (\<lambda>response.
         seqE (checkRateLimit E (resp_headers response)) (stream_answer E response)))
        throw)))"

definition cameraGetSignalingUrl :: "env \<Rightarrow> jsval \<Rightarrow> jsval \<Rightarrow> bool \<Rightarrow> jsval m" where
  "cameraGetSignalingUrl E deviceMac deviceModel substream =
     bindE (cameraGetStreamInfo E deviceMac deviceModel substream) (\<lambda>info. liftE (get_prop info ''signaling_url''))"

definition cameraGetIceServers :: "env \<Rightarrow> jsval \<Rightarrow> jsval \<Rightarrow> bool \<Rightarrow> jsval m" where
  "cameraGetIceServers E deviceMac deviceModel substream =
     bindE (cameraGetStreamInfo E deviceMac deviceModel substream) (\<lambda>info. liftE (get_prop info ''ice_servers''))"

section \<open>The connection bundle and its cache\<close>

record conn_options =
  o_substream :: jsval
  o_includeClientId :: jsval
  o_clientId :: jsval
  o_clientIdPrefix :: jsval
  o_noCache :: jsval
  o_cacheTtlMs :: int

text \<open>The values of the destructuring defaults.\<close>

definition default_conn_options :: conn_options where
  "default_conn_options =
     \<lparr>o_substream = JBool False, o_includeClientId = JBool True, o_clientId = JUndef,
      o_clientIdPrefix = JStr ''viewer'', o_noCache = JBool False, o_cacheTtlMs = 60000\<rparr>"

definition streamCacheKey :: "jsval \<Rightarrow> jsval \<Rightarrow> bool \<Rightarrow> string" where
  "streamCacheKey deviceMac deviceModel substream =
     js_string deviceMac @ '':'' @ js_string deviceModel @ '':'' @ (if substream then ''sub'' else ''main'')"

definition cache_lookup :: "('k \<rightharpoonup> 'v \<times> int) option \<Rightarrow> int \<Rightarrow> 'k \<Rightarrow> 'v option" where
  "cache_lookup c t k =
     (case c of None \<Rightarrow> None
      | Some mp \<Rightarrow> (case mp k of Some (v, expiresAt) \<Rightarrow> if t < expiresAt then Some v else None | None \<Rightarrow> None))"

definition cache_store :: "('k \<rightharpoonup> 'v \<times> int) option \<Rightarrow> int \<Rightarrow> 'k \<Rightarrow> 'v \<Rightarrow> int \<Rightarrow> ('k \<rightharpoonup> 'v \<times> int) option" where
  "cache_store c t k v ttl = map_option (\<lambda>mp. mp(k \<mapsto> (v, t + ttl))) c"

definition ensure_cache :: "('k \<rightharpoonup> 'v \<times> int) option \<Rightarrow> ('k \<rightharpoonup> 'v \<times> int) option" where
  "ensure_cache c = (case c of None \<Rightarrow> Some Map.empty | Some mp \<Rightarrow> Some mp)"

definition make_bundle :: "jsval \<Rightarrow> exn + obj" where
  "make_bundle info =
     bindR (get_prop info ''signaling_url'') (\<lambda>url.
     bindR (sanitizeCameraIceServers (own_prop info ''ice_servers'')) (\<lambda>ice.
     Inr [(''signalingUrl'', normalizeCameraSignalingUrl url), (''iceServers'', ice),
          (''authToken'', js_coalesce (own_prop info ''auth_token'') JNull)]))"

definition getCameraWebRTCConnectionInfo :: "env \<Rightarrow> jsval \<Rightarrow> jsval \<Rightarrow> conn_options \<Rightarrow> obj m" where
  "getCameraWebRTCConnectionInfo E deviceMac deviceModel opts =
     (let sub = truthy (o_substream opts); noCache = truthy (o_noCache opts);
          cacheKey = streamCacheKey deviceMac deviceModel sub in
      seqE (modS (\<lambda>s. s\<lparr>stream_cache := ensure_cache (stream_cache s)\<rparr>))
      (bindE (getS (\<lambda>s. if noCache then None else cache_lookup (stream_cache s) (now s) cacheKey)) (\<lambda>hit.
       bindE
         (case hit of
            Some bundle \<Rightarrow> ret (bundle, True)
          | None \<Rightarrow>
              bindE (cameraGetStreamInfo E deviceMac deviceModel sub) (\<lambda>info.
              bindE (liftE (make_bundle info)) (\<lambda>bundle.
              seqE (whenE (\<not> noCache) (modS (\<lambda>s. s\<lparr>stream_cache :=
                       cache_store (stream_cache s) (now s) cacheKey bundle (o_cacheTtlMs opts)\<rparr>)))
                   (ret (bundle, False)))))
         (\<lambda>(bundle, cached).
          let result = spread bundle [(''mac'', deviceMac), (''model'', deviceModel),
                (''substream'', o_substream opts), (''cached'', JBool cached)] in
          if truthy (o_includeClientId opts)
          then (if truthy (o_clientId opts) then ret (oset ''clientId'' (o_clientId opts) result)
                else bindE (createCameraStreamClientId E deviceMac (o_clientIdPrefix opts)) (\<lambda>cid.
                  ret (oset ''clientId'' cid result)))
          else ret result))))"

definition clearCameraStreamCache :: "jsval \<Rightarrow> st \<Rightarrow> st" where
  "clearCameraStreamCache deviceMac s =
     (case stream_cache s of
        None \<Rightarrow> s
      | Some mp \<Rightarrow>
          if \<not> truthy deviceMac then s\<lparr>stream_cache := Some Map.empty\<rparr>
          else s\<lparr>stream_cache := Some (\<lambda>k. if \<not> prefix (js_string deviceMac @ '':'') k then mp k else None)\<rparr>)"

section \<open>Retries\<close>

function reconnect_loop ::
  "'a m \<Rightarrow> int \<Rightarrow> int \<Rightarrow> (int \<Rightarrow> exn \<Rightarrow> unit m) option \<Rightarrow> nat \<Rightarrow> 'a m" where
  "reconnect_loop fn maxAttempts baseDelayMs onRetry attempt =
     catchE fn (\<lambda>err.
       let attempt' = attempt + 1 in
       if maxAttempts \<le> int attempt' then throw err
       else seqE (case onRetry of None \<Rightarrow> ret () | Some f \<Rightarrow> f (int attempt') err)
              (seqE (sleepMilliSecounds (Some (baseDelayMs * 2 ^ (attempt' - 1))))
                (reconnect_loop fn maxAttempts baseDelayMs onRetry attempt')))"
  by pat_completeness auto
termination
  by (relation "measure (\<lambda>(_, mx, _, _, a). nat (mx - int a))") auto

declare reconnect_loop.simps [simp del]

definition cameraStreamWithReconnect ::
  "'a m \<Rightarrow> int \<Rightarrow> int \<Rightarrow> (int \<Rightarrow> exn \<Rightarrow> unit m) option \<Rightarrow> 'a m" where
  "cameraStreamWithReconnect fn maxAttempts baseDelayMs onRetry =
     reconnect_loop fn maxAttempts baseDelayMs onRetry 0"

definition getCameraWebRTCConnectionInfoWithReconnect ::
  "env \<Rightarrow> jsval \<Rightarrow> jsval \<Rightarrow> conn_options \<Rightarrow> int \<Rightarrow> int \<Rightarrow> (int \<Rightarrow> exn \<Rightarrow> unit m) option \<Rightarrow> obj m" where
  "getCameraWebRTCConnectionInfoWithReconnect E deviceMac deviceModel opts maxAttempts baseDelayMs onRetry =
     cameraStreamWithReconnect (getCameraWebRTCConnectionInfo E deviceMac deviceModel opts)
       maxAttempts baseDelayMs onRetry"

section \<open>Snapshots\<close>

definition cameraCaptureSnapshot ::
  "env \<Rightarrow> (jsval \<Rightarrow> jsval \<Rightarrow> int \<Rightarrow> bytes m) \<Rightarrow> jsval \<Rightarrow> jsval \<Rightarrow> int \<Rightarrow> jsval \<Rightarrow> int \<Rightarrow> bytes m" where
  "cameraCaptureSnapshot E capture deviceMac deviceModel timeoutMs noCache cacheTtlMs =
     seqE (modS (\<lambda>s. s\<lparr>capture_cache := ensure_cache (capture_cache s)\<rparr>))
     (bindE (getS (\<lambda>s. if truthy noCache then None else cache_lookup (capture_cache s) (now s) deviceMac)) (\<lambda>hit.
      case hit of
        Some buffer \<Rightarrow> ret buffer
      | None \<Rightarrow>
          bindE (getCameraWebRTCConnectionInfo E deviceMac deviceModel
            (default_conn_options\<lparr>o_noCache := JBool True, o_includeClientId := JBool False\<rparr>)) (\<lambda>conn.
          bindE (capture (oget conn ''signalingUrl'') (oget conn ''iceServers'') timeoutMs) (\<lambda>buffer.
          seqE (whenE (\<not> truthy noCache) (modS (\<lambda>s. s\<lparr>capture_cache :=
                  cache_store (capture_cache s) (now s) deviceMac buffer cacheTtlMs\<rparr>)))
            (ret buffer)))))"

datatype snapshot_source = Cloud | Capture

text \<open>The body of a binary download is text with one character for each byte.\<close>

definition buffer_from :: "jsval \<Rightarrow> bytes" where
  "buffer_from v = (case v of JStr s \<Rightarrow> buffer_ascii s | _ \<Rightarrow> [])"

definition getCameraSnapshotImage ::
  "env \<Rightarrow> (jsval \<Rightarrow> jsval \<Rightarrow> int \<Rightarrow> bytes m) \<Rightarrow> jsval \<Rightarrow> jsval \<Rightarrow> int \<Rightarrow> jsval \<Rightarrow> int \<Rightarrow> (bytes \<times> snapshot_source) m" where
  "getCameraSnapshotImage E capture mac skipCloud timeoutMs noCache cacheTtlMs =
     (let live =
        bindE (getCamera E mac) (\<lambda>camera.
        if \<not> truthy camera then throw (Error (''Camera not found: '' @ js_string mac))
        else bindE (cameraCaptureSnapshot E capture (own_prop camera ''mac'') (own_prop camera ''product_model'')
               timeoutMs noCache cacheTtlMs) (\<lambda>buffer. ret (buffer, Capture)))
      in if truthy skipCloud then live
         else bindE (getCameraSnapshot E mac) (\<lambda>cloud.
           if truthy (opt_prop cloud ''url'')
           then bindE (catchE (bindE (axios_get E (js_string (opt_prop cloud ''url'')) [] [])
                    (\<lambda>resp. ret (Some (buffer_from (resp_data resp))))) (\<lambda>_. ret None)) (\<lambda>got.
                case got of Some buffer \<Rightarrow> ret (buffer, Cloud) | None \<Rightarrow> live)
           else live))"

end
