(* ===== verification/SignedProps.thy ===== *)
theory SignedProps
  imports DeviceProps Vacuum Iot3 CameraStream
begin

text \<open>
  Properties of the signed services. \<open>adds P\<close> is the preorder of states that says every request sent in
  between is a login, a refresh or satisfies \<open>P\<close>; with \<open>P\<close> a verifier that sees only the request, the
  methods of a service are related by it. The second half has the locks, the bulbs and the vacuums.
\<close>

section \<open>What a method sends\<close>

definition sends_only :: "(http_request \<Rightarrow> bool) \<Rightarrow> st \<Rightarrow> st \<Rightarrow> bool" where
  "sends_only P s s' = (\<exists>qs. sent s' = sent s @ qs \<and> (\<forall>q \<in> set qs. rq_url q \<in> {login_url, refresh_url} \<or> P q))"

lemma sends_only_refl [simp]: "sent s' = sent s \<Longrightarrow> sends_only P s s'"
  by (simp add: sends_only_def)

lemma sends_only_trans: "sends_only P s t \<Longrightarrow> sends_only P t u \<Longrightarrow> sends_only P s u"
  by (fastforce simp: sends_only_def)

lemma sends_only_step: "rq_url q \<in> {login_url, refresh_url} \<or> P q \<Longrightarrow> sends_only P s (s\<lparr>sent := sent s @ [q]\<rparr>)"
  by (simp add: sends_only_def)

definition adds :: "env \<Rightarrow> (http_request \<Rightarrow> bool) \<Rightarrow> st \<Rightarrow> st \<Rightarrow> bool" where
  "adds E P s s' = ((\<forall>t. sends_only P t (others E t)) \<longrightarrow> sends_only P s s')"

interpretation adds: session_preorder "adds E P" "\<lambda>q. rq_url q \<in> {login_url, refresh_url} \<or> P q" E for E P
  by unfold_locales
    (auto simp: adds_def resetDebounceIfNeeded_def bumpDebounce_def Let_def intro: sends_only_trans sends_only_step)

lemma adds_send: "P rq \<Longrightarrow> relates (adds E P) (http_send E rq)"
  by (rule adds.rel_send) simp

lemma adds_body: "relates (adds E P) c \<Longrightarrow> relates (adds E P) (body_of c)"
  unfolding body_of_def by (intro adds.rel_rules)

lemma adds_void: "relates (adds E P) c \<Longrightarrow> relates (adds E P) (void c)"
  unfolding void_def by (intro adds.rel_rules)

lemma adds_random: "relates (adds E P) (math_random E)" "relates (adds E P) (random_hex E n)"
  by (auto simp: relates_def math_random_def random_hex_def adds_def)

section \<open>Verifiers\<close>

text \<open>
  The services check the signature of a request from the request alone: the token and the signature
  are in its headers, the signed text is the body as sent or the sorted query.
\<close>

definition header_token :: "http_request \<Rightarrow> string" where
  "header_token q = js_string (oget (rq_headers q) ''access_token'')"

definition olive_verifies :: "env \<Rightarrow> http_request \<Rightarrow> bool" where
  "olive_verifies E q = (oget (rq_headers q) ''signature2'' = JStr
     (case rq_data q of
        JStr body \<Rightarrow> oliveCreateSignatureSingle (utf8pkg E) body (header_token q)
      | _ \<Rightarrow> oliveCreateSignature (utf8pkg E) (rq_params q) (header_token q)))"

definition venus_verifies :: "http_request \<Rightarrow> bool" where
  "venus_verifies q = (oget (rq_headers q) ''signature2'' = JStr (venusGenerateDynamicSignature
     (case rq_data q of JStr body \<Rightarrow> body | _ \<Rightarrow> join ''&'' (sorted_pairs (rq_params q))) (header_token q)))"

definition iot3_verifies :: "http_request \<Rightarrow> bool" where
  "iot3_verifies q = (\<exists>body. rq_data q = JStr body \<and>
     oget (rq_headers q) ''Signature2'' = JStr (iot3CreateSignature body (header_token q)))"

definition web_verifies :: "http_request \<Rightarrow> bool" where
  "web_verifies q = (\<exists>body sg. rq_data q = JStr body \<and> oget (rq_headers q) ''signature2'' = JStr sg \<and>
     web_create_signature (JStr body) (header_token q) = Inr sg)"

lemma adds_olive_get: "relates (adds E (olive_verifies E)) (olive_get E url phone mk)"
  unfolding olive_get_def Let_def axios_get_def
  by (intro adds.rel_rules adds.rel_maybeLogin adds_body adds_send)
    (simp add: olive_verifies_def olive_get_headers_def header_token_def token_string_def)

lemma adds_olive_post: "relates (adds E (olive_verifies E)) (olive_post E url mk)"
  unfolding olive_post_def Let_def axios_post_def
  by (intro adds.rel_rules adds.rel_maybeLogin adds_body adds_send)
    (simp add: olive_verifies_def olive_post_headers_def header_token_def token_string_def del: stringify.simps)

lemma adds_irrigation_get: "relates (adds E (olive_verifies E)) (irrigation_get E path mk)"
  unfolding irrigation_get_def Let_def axios_get_def log_call_def
  by (intro adds.rel_rules adds.rel_maybeLogin adds_send)
    (simp add: olive_verifies_def olive_get_headers_def header_token_def token_string_def)

lemma adds_irrigation_post: "relates (adds E (olive_verifies E)) (irrigation_post E path mk)"
  unfolding irrigation_post_def Let_def axios_post_def log_call_def
  by (intro adds.rel_rules adds.rel_maybeLogin adds_send)
    (simp add: olive_verifies_def olive_post_headers_def header_token_def token_string_def del: stringify.simps)

lemma adds_hms_get: "relates (adds E (olive_verifies E)) (monitoringProfileStateStatus E h)"
  unfolding monitoringProfileStateStatus_def Let_def axios_get_def
  by (intro adds.rel_rules adds.rel_maybeLogin adds_body adds_send)
    (simp add: olive_verifies_def header_token_def token_string_def)

lemma adds_hms_patch: "relates (adds E (olive_verifies E)) (monitoringProfileActive E h x y)"
  unfolding monitoringProfileActive_def Let_def axios_patch_def
  by (intro adds.rel_rules adds.rel_maybeLogin adds_body adds_send)
    (simp add: olive_verifies_def header_token_def token_string_def)

lemma adds_venus: "relates (adds E venus_verifies) (venusRequest E verb path payload)"
  unfolding venusRequest_def Let_def axios_get_def axios_request_def
  by (intro adds.rel_rules adds.rel_maybeLogin adds_body adds.rel_if adds_send)
    (simp_all add: venus_verifies_def venusBuildHeaders_def venusSortedQuery_def header_token_def token_string_def
      del: stringify.simps)

lemma relates_getS: "(\<And>s. relates R (k (f s))) \<Longrightarrow> relates R (bindE (getS f) k)"
  by (simp add: relates_def)

lemma adds_iot3_post: "relates (adds E iot3_verifies) (iot3Post E path payload)"
  unfolding iot3Post_def Let_def iot3BuildHeaders_def bindE_assoc axios_post_def
  by (intro adds.rel_bindE adds_random(2) relates_getS adds_body adds_send)
    (simp add: iot3_verifies_def header_token_def token_string_def del: stringify.simps)

lemma adds_iot3: "relates (adds E iot3_verifies) (iot3GetProperties E mac model props)"
  "relates (adds E iot3_verifies) (iot3RunAction E mac model action)"
  unfolding iot3GetProperties_def iot3RunAction_def
  by (intro adds.rel_rules adds.rel_maybeLogin adds_random adds_iot3_post)+

lemma adds_stream_answer: "relates (adds E P) (stream_answer E r)"
  unfolding stream_answer_def Let_def
  by (intro adds.rel_rules adds.rel_tokenError adds.rel_refresh)

lemma adds_stream: "relates (adds E web_verifies) (cameraGetStreamInfo E mac model sub)"
proof -
  have send: "relates (adds E web_verifies) (axios_post E url (JStr body) (stream_headers s sg))"
    if "web_signature body (token_string s) = Inr sg" for url body s sg
    unfolding axios_post_def
    by (rule adds_send)
      (use that in \<open>auto simp: web_verifies_def stream_headers_def header_token_def token_string_def
        web_signature_def lift_msg_def split: sum.splits\<close>)
  have sign: "relates (adds E web_verifies) (bindE (liftE (web_signature body (token_string s))) (\<lambda>sg. k s body sg))"
    if "\<And>sg. web_signature body (token_string s) = Inr sg \<Longrightarrow> relates (adds E web_verifies) (k s body sg)" for body s k
    using that by (cases "web_signature body (token_string s)") (auto intro: adds.rel_throw)
  show ?thesis
    unfolding cameraGetStreamInfo_def Let_def
    by (intro adds.rel_seqE adds.rel_maybeLogin relates_getS sign adds.rel_catchE adds.rel_bindE send
        adds.rel_checkRate adds_stream_answer adds.rel_throw) assumption
qed

text \<open>The methods of the signed services, each with the verifier of its service.\<close>

inductive signed_method :: "env \<Rightarrow> (http_request \<Rightarrow> bool) \<Rightarrow> jsval m \<Rightarrow> bool" for E where
  "signed_method E (olive_verifies E) (getIotProp E mac)"
| "signed_method E (olive_verifies E) (setIotProp E mac model k v)"
| "signed_method E (olive_verifies E) (getUserProfile E)"
| "signed_method E (olive_verifies E) (getPlanBindingListByUser E)"
| "signed_method E (olive_verifies E) (monitoringProfileStateStatus E h)"
| "signed_method E (olive_verifies E) (monitoringProfileActive E h x y)"
| "signed_method E (olive_verifies E) (thermostatGetIotProp E mac)"
| "signed_method E (olive_verifies E) (thermostatSetIotProp E mac model k v)"
| "signed_method E (olive_verifies E) (irrigationGetIotProp E mac)"
| "signed_method E (olive_verifies E) (irrigationGetDeviceInfo E mac)"
| "signed_method E (olive_verifies E) (irrigationGetZones E mac)"
| "signed_method E (olive_verifies E) (irrigationGetScheduleRuns E mac v)"
| "signed_method E (olive_verifies E) (irrigationQuickRun E mac zone v)"
| "signed_method E (olive_verifies E) (irrigationStop E mac)"
| "signed_method E venus_verifies (vacuumControl E mac ty val extras)"
| "signed_method E venus_verifies (vacuumSetSuctionLevel E mac model level)"
| "signed_method E venus_verifies (vacuumEventTracking E mac h v args)"
| "signed_method E venus_verifies (getVacuumIotProp E mac keys)"
| "signed_method E venus_verifies (getVacuumDeviceInfo E mac keys)"
| "signed_method E venus_verifies (getVacuumStatus E mac)"
| "signed_method E venus_verifies (getVacuumCurrentPosition E mac)"
| "signed_method E venus_verifies (getVacuumCurrentMap E mac)"
| "signed_method E venus_verifies (getVacuumMaps E mac)"
| "signed_method E venus_verifies (setVacuumCurrentMap E mac v)"
| "signed_method E venus_verifies (getVacuumSweepRecords E mac options)"
| "signed_method E iot3_verifies (iot3GetProperties E mac model v)"
| "signed_method E iot3_verifies (iot3RunAction E mac model v)"
| "signed_method E web_verifies (cameraGetStreamInfo E mac model sub)"

lemma adds_signed_method: "signed_method E P m \<Longrightarrow> relates (adds E P) m"
proof (induction rule: signed_method.induct)
  case (17 mac h v args)
  show ?case unfolding vacuumEventTracking_def Let_def by (intro relates_getS adds_venus)
next
  case (25 mac options)
  show ?case unfolding getVacuumSweepRecords_def Let_def by (intro relates_getS adds_venus)
qed (simp_all add: getIotProp_def setIotProp_def getUserProfile_def getPlanBindingListByUser_def thermostatGetIotProp_def
    thermostatSetIotProp_def irrigationGetIotProp_def irrigationGetDeviceInfo_def irrigationGetZones_def
    irrigationGetScheduleRuns_def irrigationQuickRun_def irrigationStop_def vacuumControl_def vacuumSetSuctionLevel_def
    setVacuumCurrentMap_def getVacuumStatus_def getVacuumMaps_def getVacuumIotProp_def getVacuumDeviceInfo_def
    getVacuumCurrentPosition_def getVacuumCurrentMap_def
    adds_olive_get adds_olive_post adds_irrigation_get adds_irrigation_post adds_hms_get adds_hms_patch
    adds_venus adds_iot3 adds_stream)

text \<open>
  C6. Every signed request verifies. Whatever logins, token refreshes and waits happen before it, each
  request that a method of the Olive services, the irrigation service, home monitoring, the vacuums,
  the iot3 locks or the camera streams sends carries the signature that its service computes from the
  request alone: from the body or the query that is sent and the token in its headers.
\<close>

theorem signed_requests_verify:
  assumes "signed_method E P m" and "\<forall>t. sends_only P t (others E t)" and "m s = Some (r, s')"
  shows "sends_only P s s'"
  using relatesD [OF adds_signed_method [OF assms(1)] assms(3)] assms(2) by (simp add: adds_def)

lemma signed_requests_verify_witness:
  "\<exists>r s'. getVacuumMaps (demo_env no_server) (JStr ''m'') (demo_state (JStr ''t'')) = Some (r, s') \<and>
    (\<exists>q. sent s' = [q] \<and> venus_verifies q)"
proof -
  let ?E = "demo_env no_server" and ?s = "demo_state (JStr ''t'')"
  obtain r s' q where run: "getVacuumMaps ?E (JStr ''m'') ?s = Some (r, s')" "sent s' = [q]" "rq_url q \<notin> {login_url, refresh_url}"
    by (simp add: getVacuumMaps_def venusRequest_def maybeLogin_def seqE_def bindE_def Let_def body_of_def
        catchE_def axios_get_def http_send_def http_dispatch_def http_await_def no_server_def to_upper_def upper_char_def
        venusBaseUrl_def demo_state_def construct_state_def split: if_splits)
  have "signed_method ?E venus_verifies (getVacuumMaps ?E (JStr ''m''))" by (rule signed_method.intros)
  from signed_requests_verify [OF this _ run(1)] run(2,3) have "venus_verifies q"
    by (auto simp: sends_only_def demo_state_def construct_state_def)
  with run show ?thesis by blast
qed

section \<open>Vacuum information\<close>

lemma venus_get:
  assumes "truthy (access_token s)"
  obtains q r s' where "venusRequest E ''GET'' path payload s = Some (r, s')" "rq_url q = venusBaseUrl @ path"
    "sent s' = sent s @ [q]" "access_token s' = access_token s"
    "r = (case net E (length (sent s)) q of Inl e \<Rightarrow> Inl e | Inr a \<Rightarrow> Inr (resp_data a))"
proof -
  let ?params = "oset ''nonce'' (JNum (now s)) payload"
  let ?q = "\<lparr>rq_method = ''GET'', rq_url = venusBaseUrl @ path, rq_base = JUndef,
    rq_headers = venusBuildHeaders E s (JNum (now s))
      (venusGenerateDynamicSignature (venusSortedQuery ?params) (token_string s)),
    rq_params = ?params, rq_data = JUndef\<rparr>"
  have "to_upper ''GET'' = ''GET''" by code_simp
  then have "venusRequest E ''GET'' path payload s =
    Some (case net E (length (sent s)) ?q of Inl e \<Rightarrow> Inl e | Inr a \<Rightarrow> Inr (resp_data a),
      s\<lparr>sent := sent s @ [?q], now := now s + int (latency E (length (sent s)))\<rparr>)"
    using assms
    by (simp add: venusRequest_def maybeLogin_def seqE_def bindE_def Let_def body_of_def catchE_def axios_get_def
        http_send_def http_dispatch_def http_await_def split: sum.split)
  then show ?thesis by (rule that [where q = ?q]) simp_all
qed

text \<open>A read of a path whose failure is \<open>null\<close>.\<close>

definition answer :: "env \<Rightarrow> st \<Rightarrow> http_request \<Rightarrow> jsval" where
  "answer E s q = (case net E (length (sent s)) q of Inl _ \<Rightarrow> JNull | Inr a \<Rightarrow> resp_data a)"

definition reads_path :: "env \<Rightarrow> string \<Rightarrow> jsval m \<Rightarrow> bool" where
  "reads_path E path c = (\<forall>s. truthy (access_token s) \<longrightarrow>
     (\<exists>q s'. safe c s = Some (Inr (answer E s q), s') \<and> rq_url q = venusBaseUrl @ path \<and>
        sent s' = sent s @ [q] \<and> access_token s' = access_token s))"

lemma reads_pathE:
  assumes "reads_path E path c" "truthy (access_token s)"
  obtains q s' where "safe c s = Some (Inr (answer E s q), s')" "rq_url q = venusBaseUrl @ path"
    "sent s' = sent s @ [q]" "truthy (access_token s')"
  using assms unfolding reads_path_def by metis

lemma reads_venus: "reads_path E path (venusRequest E ''GET'' path payload)"
  unfolding reads_path_def
proof (intro allI impI)
  fix s :: st assume "truthy (access_token s)"
  then obtain q r s' where v: "venusRequest E ''GET'' path payload s = Some (r, s')" "rq_url q = venusBaseUrl @ path"
    "sent s' = sent s @ [q]" "access_token s' = access_token s"
    "r = (case net E (length (sent s)) q of Inl e \<Rightarrow> Inl e | Inr a \<Rightarrow> Inr (resp_data a))"
    by (rule venus_get)
  then have "safe (venusRequest E ''GET'' path payload) s = Some (Inr (answer E s q), s')"
    by (simp add: safe_def catchE_def answer_def split: sum.splits)
  with v show "\<exists>q s'. safe (venusRequest E ''GET'' path payload) s = Some (Inr (answer E s q), s') \<and>
      rq_url q = venusBaseUrl @ path \<and> sent s' = sent s @ [q] \<and> access_token s' = access_token s" by blast
qed

definition vacuum_reads :: "jsval \<Rightarrow> string list" where
  "vacuum_reads mac = [''/plugin/venus/get_iot_prop'', ''/plugin/venus/device_info'',
     ''/plugin/venus/'' @ js_string mac @ ''/status'', ''/plugin/venus/memory_map/current_position'',
     ''/plugin/venus/memory_map/current_map'']"

text \<open>
  Vacuum information survives failures. Once the vacuum is found in the device list the method
  returns, whatever the five reads answer: they are sent in order, one after the other, a failed read
  contributes nothing, and when all of them fail the information is the entry of the device list.
\<close>

theorem vacuum_info_tolerates_failures:
  assumes "getVacuum E mac s = Some (Inr (JObj ob), s1)" and "truthy (access_token s1)" and "distinct (map fst ob)"
  shows "\<exists>info qs s'. getVacuumInfo E mac s = Some (Inr (JObj info), s') \<and> sent s' = sent s1 @ qs \<and>
    map rq_url qs = map ((@) venusBaseUrl) (vacuum_reads mac) \<and>
    ((\<forall>i q. length (sent s1) \<le> i \<longrightarrow> (\<exists>e. net E i q = Inl e)) \<longrightarrow> (\<forall>k. oget info k = oget ob k))"
proof -
  note reads = reads_pathE [OF reads_venus]
  obtain q1 s2 where r1: "safe (getVacuumIotProp E mac (JArr (map JStr VacuumIotPropKeys))) s1 = Some (Inr (answer E s1 q1), s2)"
    "rq_url q1 = venusBaseUrl @ ''/plugin/venus/get_iot_prop''" "sent s2 = sent s1 @ [q1]" and t2: "truthy (access_token s2)"
    unfolding getVacuumIotProp_def by (rule reads [OF assms(2)])
  obtain q2 s3 where r2: "safe (getVacuumDeviceInfo E mac (JArr (map JStr VacuumDeviceInfoKeys))) s2 = Some (Inr (answer E s2 q2), s3)"
    "rq_url q2 = venusBaseUrl @ ''/plugin/venus/device_info''" "sent s3 = sent s2 @ [q2]" and t3: "truthy (access_token s3)"
    unfolding getVacuumDeviceInfo_def by (rule reads [OF t2])
  obtain q3 s4 where r3: "safe (getVacuumStatus E mac) s3 = Some (Inr (answer E s3 q3), s4)"
    "rq_url q3 = venusBaseUrl @ ''/plugin/venus/'' @ js_string mac @ ''/status''" "sent s4 = sent s3 @ [q3]"
    and t4: "truthy (access_token s4)"
    unfolding getVacuumStatus_def by (rule reads [OF t3])
  obtain q4 s5 where r4: "safe (getVacuumCurrentPosition E mac) s4 = Some (Inr (answer E s4 q4), s5)"
    "rq_url q4 = venusBaseUrl @ ''/plugin/venus/memory_map/current_position''" "sent s5 = sent s4 @ [q4]"
    and t5: "truthy (access_token s5)"
    unfolding getVacuumCurrentPosition_def by (rule reads [OF t4])
  obtain q5 s6 where r5: "safe (getVacuumCurrentMap E mac) s5 = Some (Inr (answer E s5 q5), s6)"
    "rq_url q5 = venusBaseUrl @ ''/plugin/venus/memory_map/current_map''" "sent s6 = sent s5 @ [q5]"
    unfolding getVacuumCurrentMap_def by (rule reads [OF t5])
  note runs = r1(1) r2(1) r3(1) r4(1) r5(1) and sents = r1(3) r2(3) r3(3) r4(3) r5(3)
  let ?info = "set_when ''current_map'' (opt_prop (answer E s5 q5) ''data'')
    (set_when ''current_position'' (opt_prop (answer E s4 q4) ''data'')
    (merge_when (data_part (answer E s3 q3) ''heartBeat'') (merge_when (data_part (answer E s3 q3) ''eventFlag'')
    (merge_when (data_part (answer E s2 q2) ''settings'') (merge_when (data_part (answer E s1 q1) ''props'')
    (assign_from [] (JObj ob)))))))"
  have "getVacuumInfo E mac s = Some (Inr (JObj ?info), s6)"
    by (simp add: getVacuumInfo_def bindE_def assms(1) runs)
  moreover have "sent s6 = sent s1 @ [q1, q2, q3, q4, q5]" using sents by simp
  moreover have "map rq_url [q1, q2, q3, q4, q5] = map ((@) venusBaseUrl) (vacuum_reads mac)"
    using r1(2) r2(2) r3(2) r4(2) r5(2) by (simp add: vacuum_reads_def)
  moreover have "oget ?info k = oget ob k" if down: "\<forall>i q. length (sent s1) \<le> i \<longrightarrow> (\<exists>e. net E i q = Inl e)" for k
  proof -
    have f: "answer E t q = JNull" if "length (sent s1) \<le> length (sent t)" for t q
    proof -
      obtain e where "net E (length (sent t)) q = Inl e" using down \<open>length (sent s1) \<le> length (sent t)\<close> by blast
      then show ?thesis by (simp add: answer_def)
    qed
    have n: "answer E s1 q1 = JNull" "answer E s2 q2 = JNull" "answer E s3 q3 = JNull" "answer E s4 q4 = JNull"
      "answer E s5 q5 = JNull"
      by (rule f, simp add: sents)+
    have "?info = spread [] ob" by (simp add: n data_part_def merge_when_def set_when_def assign_from_def)
    moreover have "oget (spread [] ob) k = oget ob k"
      by (simp add: oget_def map_of_spread [OF assms(3)])
    ultimately show ?thesis by simp
  qed
  ultimately show ?thesis by blast
qed

text \<open>A server that lists devices and then stops answering.\<close>

definition list_server :: "jsval list \<Rightarrow> nat \<Rightarrow> http_request \<Rightarrow> exn + http_response" where
  "list_server vs i q = (if i = 0 then Inr (ok_body (list_body vs)) else Inl (Error ''down''))"

lemma vacuum_info_tolerates_failures_witness:
  "\<exists>info s'. getVacuumInfo (demo_env (list_server [JObj [(''mac'', JStr ''v''), (''product_model'', JStr ''JA_RO2'')]])) (JStr ''v'')
     (demo_state (JStr ''t'')) = Some (Inr (JObj info), s') \<and> oget info ''mac'' = JStr ''v''"
proof -
  let ?vac = "[(''mac'', JStr ''v''), (''product_model'', JStr ''JA_RO2'')]"
  let ?E = "demo_env (list_server [JObj ?vac])" and ?s = "demo_state (JStr ''t'')"
  have serves: "serves ?E ?s (list_body [JObj ?vac])"
    by (simp add: serves_def quiet_def list_server_def list_body_accepted demo_state_def construct_state_def)
  note list = getDeviceList_accepted [OF serves]
  let ?s1 = "after ?E (api_request ?E ?s ''app/v2/home_page/get_object_list'' []) ?s"
  have "is_vacuum_model (JObj ?vac) = Inr True"
    by (simp add: is_vacuum_model_def vacuumModels_def)
  then have "getVacuum ?E (JStr ''v'') ?s = Some (Inr (JObj ?vac), ?s1)"
    by (simp add: getVacuum_def getVacuumDeviceList_def bindE_def list filter_devices_def array_of_def find_device_def
        same_mac_def)
  moreover have "truthy (access_token ?s1)" by (simp add: demo_state_def)
  moreover have "\<forall>i q. length (sent ?s1) \<le> i \<longrightarrow> (\<exists>e. net ?E i q = Inl e)" by (simp add: list_server_def)
  ultimately show ?thesis
    using vacuum_info_tolerates_failures [of ?E "JStr ''v''" ?s ?vac ?s1] by fastforce
qed

end
