(* ===== verification/BulbProps.thy ===== *)
theory BulbProps
  imports DeviceProps SignedServices
begin

text \<open>
  Local bulbs: what the bulb finds in the body of a local command, and when a command falls back to
  the cloud.
\<close>

section \<open>The body of a command\<close>

definition plain_char :: "char \<Rightarrow> bool" where
  "plain_char c = (c \<noteq> CHR 0x22 \<and> c \<noteq> CHR 0x5C \<and> 32 \<le> (of_char c :: nat))"

lemma esc_plain [simp]: "plain_char c \<Longrightarrow> esc_char c = [c]"
  by (auto simp: plain_char_def esc_char_def)

lemma b64_char_plain [simp]: "plain_char (b64_char i)"
proof -
  have "\<forall>n \<in> set [0..<64]. plain_char (b64_char n)" by code_simp
  then have small: "plain_char (b64_char n)" if "n < 64" for n using that by auto
  have "b64_char i = b64_char 63" if "\<not> i < 64" using that by (simp add: b64_char_def)
  then show ?thesis using small [of i] small [of 63] by (cases "i < 64") auto
qed

lemma b64_encode_plain: "list_all plain_char (b64_encode bs)"
  by (induction bs rule: b64_encode.induct) (auto simp: plain_char_def [of "CHR ''=''"])

lemma single_backslash_skip:
  "CHR 0x5C \<notin> set p \<Longrightarrow> single_backslash (p @ r) = p @ single_backslash r"
proof (induction p)
  case (Cons c p)
  then show ?case by (cases "p @ r") auto
qed simp

text \<open>The replacement of double backslashes takes back exactly the quoting of the escapes.\<close>

lemma single_backslash_quoted:
  "list_all plain_char b \<Longrightarrow>
   single_backslash (concat (map esc_char (escape_slash b)) @ r) = escape_slash b @ single_backslash r"
proof (induction b)
  case (Cons c b)
  have e: "esc_char (CHR 0x5C) = [CHR 0x5C, CHR 0x5C]" "esc_char (CHR ''/'') = ''/''"
    by (simp_all add: esc_char_def)
  have "c \<noteq> CHR 0x5C" using Cons.prems by (simp add: plain_char_def)
  with Cons show ?case
    using single_backslash_skip [of "''/''"] single_backslash_skip [of "[c]"]
    by (auto simp: escape_slash_def e)
qed (simp add: escape_slash_def)

lemma pstr_escaped:
  "list_all plain_char b \<Longrightarrow> pstr (escape_slash b @ CHR 0x22 # r) = Some (b, r)"
proof (induction b)
  case (Cons c b)
  then show ?case by (auto simp: escape_slash_def plain_char_def unesc_char_def push_char_def)
qed (simp add: escape_slash_def)

definition bulb_object :: "string \<Rightarrow> obj" where
  "bulb_object b = [(''request'', JStr ''set_status''), (''isSendQueue'', JNum 0), (''characteristics'', JStr b)]"

lemma bulb_payload_text:
  assumes "list_all plain_char b"
  shows "bulb_payload (escape_slash b) = CHR ''{'' # json_quote ''request'' @ '':'' @ json_quote ''set_status'' @ '',''
    @ json_quote ''isSendQueue'' @ '':'' @ show_int 0 @ '','' @ json_quote ''characteristics'' @ '':''
    @ CHR 0x22 # escape_slash b @ CHR 0x22 # ''}''"
proof -
  let ?p = "CHR ''{'' # json_quote ''request'' @ '':'' @ json_quote ''set_status'' @ '',''
    @ json_quote ''isSendQueue'' @ '':'' @ show_int 0 @ '','' @ json_quote ''characteristics'' @ '':'' @ [CHR 0x22]"
  have "CHR 0x5C \<notin> set ?p" by code_simp
  from single_backslash_skip [OF this] single_backslash_quoted [OF assms]
  have "single_backslash (?p @ concat (map esc_char (escape_slash b)) @ CHR 0x22 # ''}'') = ?p @ escape_slash b @ CHR 0x22 # ''}''"
    by simp
  moreover have "stringify (JObj [(''request'', JStr ''set_status''), (''isSendQueue'', JNum 0),
      (''characteristics'', JStr (escape_slash b))]) = ?p @ concat (map esc_char (escape_slash b)) @ CHR 0x22 # ''}''"
    by (simp add: json_quote_def)
  ultimately show ?thesis by (simp add: bulb_payload_def)
qed

lemma bulb_payload_parses:
  assumes "list_all plain_char b"
  shows "json_parse (bulb_payload (escape_slash b)) = Some (JObj (bulb_object b))"
proof -
  have three: "pmembers (Suc (Suc k)) (json_quote ''characteristics'' @ '':'' @ CHR 0x22 # escape_slash b @ CHR 0x22 # ''}'')
      = Some ([(''characteristics'', JStr b)], [])" for k
    unfolding pmembers_key using pstr_escaped [OF assms, of "''}''"] by simp
  have two: "pmembers (Suc (Suc (Suc k))) (json_quote ''isSendQueue'' @ '':'' @ show_int 0 @ '','' @
      json_quote ''characteristics'' @ '':'' @ CHR 0x22 # escape_slash b @ CHR 0x22 # ''}'')
      = Some ([(''isSendQueue'', JNum 0), (''characteristics'', JStr b)], [])" for k
    unfolding pmembers_key
    using three [of k] pval_number [of "CHR '','' # json_quote ''characteristics'' @ '':'' @ CHR 0x22 # escape_slash b @ CHR 0x22 # ''}''" "Suc k" 0]
    by (simp del: pval.simps pmembers.simps)
  have one: "pmembers (Suc (Suc (Suc (Suc k)))) (json_quote ''request'' @ '':'' @ json_quote ''set_status'' @ '','' @
      json_quote ''isSendQueue'' @ '':'' @ show_int 0 @ '','' @
      json_quote ''characteristics'' @ '':'' @ CHR 0x22 # escape_slash b @ CHR 0x22 # ''}'') = Some (bulb_object b, [])" for k
    unfolding pmembers_key pval_string bulb_object_def
    using two [of k] by (simp del: pval.simps pmembers.simps)
  obtain k where k: "2 * length (bulb_payload (escape_slash b)) + 1 = Suc (Suc (Suc (Suc (Suc k))))"
    using that [of "2 * length (bulb_payload (escape_slash b)) - 4"] by (simp add: bulb_payload_text [OF assms])
  have "pval (Suc (Suc (Suc (Suc (Suc k))))) (bulb_payload (escape_slash b)) = Some (JObj (bulb_object b), [])"
    unfolding bulb_payload_text [OF assms] using one [of k]
    by (simp add: json_quote_def bulb_object_def del: pmembers.simps)
  then show ?thesis unfolding json_parse_def k by (simp add: ws_def)
qed

section \<open>The command\<close>

definition bulb_plain :: "string \<Rightarrow> int \<Rightarrow> jsval \<Rightarrow> jsval \<Rightarrow> string" where
  "bulb_plain mac ms pid v = stringify (JObj [(''mac'', JStr (to_upper mac)), (''index'', JStr ''1''),
     (''ts'', JNum ms), (''plist'', JArr [JObj [(''pid'', pid), (''pvalue'', JStr (js_string v))]])])"

text \<open>
  Local commands. The bulb is sent one request whose body is JSON, with the encrypted command as
  its characteristics: whoever decrypts the text the bulb reads gets the same as from the text the
  encryption returned, although that text has escapes of its own. A bulb that answers, and one that
  cannot be reached, end the command; only an error answer sends the command to the cloud.
\<close>

theorem local_bulb_command:
  assumes "wyzeEncrypt (aes_enc E) enr (bulb_plain mac (now s) pid v) = Inr c"
  shows "\<exists>q body b. rq_url q = ''http://'' @ js_string ip @ '':88/device_request'' \<and> rq_data q = JStr body \<and>
    json_parse body = Some (JObj [(''request'', JStr ''set_status''), (''isSendQueue'', JNum 0), (''characteristics'', JStr b)]) \<and>
    (\<forall>D. wyzeDecrypt D enr b = wyzeDecrypt D enr c) \<and>
    localBulbCommand E (JStr mac) model (JStr enr) ip pid v key s =
      (case net E (length (sent s)) q of
         Inl e \<Rightarrow> if eresp e = None then Some (Inr JUndef, after E q s)
                  else void (runActionList E (JStr mac) model pid v key) (after E q s)
       | Inr _ \<Rightarrow> Some (Inr JUndef, after E q s))"
proof -
  obtain enc where c: "c = escape_slash (b64_encode enc)"
    using assms by (auto simp: wyzeEncrypt_def Let_def split: sum.splits)
  let ?q = "\<lparr>rq_method = ''POST'', rq_url = ''http://'' @ js_string ip @ '':88/device_request'', rq_base = JUndef,
    rq_headers = [(''Content-Type'', JStr ''application/json'')], rq_params = [], rq_data = JStr (bulb_payload c)\<rparr>"
  have "localBulbCommand E (JStr mac) model (JStr enr) ip pid v key s =
      (case net E (length (sent s)) ?q of
         Inl e \<Rightarrow> if eresp e = None then Some (Inr JUndef, after E ?q s)
                  else void (runActionList E (JStr mac) model pid v key) (after E ?q s)
       | Inr _ \<Rightarrow> Some (Inr JUndef, after E ?q s))"
    using assms
    by (simp add: localBulbCommand_def bulb_plain_def string_method_def Let_def catchE_def void_def seqE_def bindE_def
        axios_post_def http_send_def http_dispatch_def http_await_def after_def split: sum.split option.split
        del: stringify.simps)
  moreover have "json_parse (bulb_payload c) = Some (JObj (bulb_object (b64_encode enc)))"
    unfolding c by (rule bulb_payload_parses [OF b64_encode_plain])
  moreover have "\<forall>D. wyzeDecrypt D enr (b64_encode enc) = wyzeDecrypt D enr c"
    by (simp add: c wyzeDecrypt_def escape_slash_decode)
  ultimately show ?thesis
    by (intro exI [of _ ?q] exI [of _ "bulb_payload c"] exI [of _ "b64_encode enc"]) (simp add: bulb_object_def)
qed

lemma local_bulb_command_witness:
  "\<exists>q. localBulbCommand (demo_env no_server) (JStr ''a1'') (JStr ''L'') (JStr ''0123456789abcdef'') (JStr ''10.0.0.2'')
      (JStr ''P3'') (JNum 1) (JStr ''k'') (demo_state JNull) = Some (Inr JUndef, after (demo_env no_server) q (demo_state JNull))"
proof -
  let ?E = "demo_env no_server" and ?s = "demo_state JNull"
  have aes: "aes_enc ?E = xor_cipher" by (simp add: demo_env_def)
  have len: "length (buffer_ascii ''0123456789abcdef'') = 16" by simp
  obtain c where "wyzeEncrypt (aes_enc ?E) ''0123456789abcdef'' (bulb_plain ''a1'' (now ?s) (JStr ''P3'') (JNum 1)) = Inr c"
    unfolding wyzeEncrypt_def aes_cbc_encrypt_def Let_def using len by simp
  from local_bulb_command [OF this, of "JStr ''10.0.0.2''" "JStr ''L''" "JStr ''k''"] show ?thesis
    by (auto simp: no_server_def Error_def split: sum.splits if_splits)
qed

end
