(* ===== verification/CameraProps.thy ===== *)
theory CameraProps
  imports CameraStream DeviceProps "HOL-Library.Multiset"
begin

text \<open>
  Properties of the camera helpers and streams: lists, URLs and ICE servers, and the stream answer.
\<close>

section \<open>Lists\<close>

lemma filter_devices_total:
  "filter_devices (\<lambda>d. Inr (p d)) (JArr vs) = Inr (JArr (filter p vs))"
  by (simp add: filter_devices_def array_of_def filter_js_total [where q = p])

text \<open>
  Online and offline cameras partition the cameras: for the same answer of the camera list both
  filters succeed, keep the order, and every camera is in exactly one of the two results as often as
  it is listed.
\<close>

theorem online_offline_partition:
  assumes "getCameras E s = Some (Inr (JArr vs), s')"
  shows "\<exists>on off. getOnlineCameras E s = Some (Inr (JArr on), s') \<and> getOfflineCameras E s = Some (Inr (JArr off), s') \<and>
    mset vs = mset on + mset off \<and> set on \<inter> set off = {} \<and> subseq on vs \<and> subseq off vs \<and>
    (\<forall>d \<in> set on. cameraIsOnline d)"
proof -
  have "getOnlineCameras E s = Some (Inr (JArr (filter cameraIsOnline vs)), s')"
    "getOfflineCameras E s = Some (Inr (JArr (filter (\<lambda>d. \<not> cameraIsOnline d) vs)), s')"
    using assms by (simp_all add: getOnlineCameras_def getOfflineCameras_def bindE_def filter_devices_total)
  moreover have "mset vs = mset (filter cameraIsOnline vs) + mset (filter (\<lambda>d. \<not> cameraIsOnline d) vs)"
    by (simp add: multiset_partition)
  ultimately show ?thesis by (auto intro: subseq_filter_left)
qed

lemma online_offline_partition_witness:
  "\<exists>s'. getOnlineCameras (demo_env (constant_server (list_body [demo_device ''a'' ''Camera''])))
      (demo_state (JStr ''t'')) = Some (Inr (JArr []), s')"
proof -
  let ?d = "demo_device ''a'' ''Camera''"
  let ?E = "demo_env (constant_server (list_body [?d]))" and ?s = "demo_state (JStr ''t'')"
  have same: "same_lower ''product_type'' (JStr ''Camera'') ?d = Inr True"
    by (simp add: same_lower_def demo_device_def lower_of_def string_method_def)
  obtain s' where "getCameras ?E ?s = Some (Inr (JArr [?d]), s')"
    by (simp add: getCameras_def getDevicesByType_def bindE_def getDeviceList_accepted [OF demo_serves [OF list_body_accepted]]
        filter_devices_def array_of_def same)
  from online_offline_partition [OF this] obtain on off where
    "getOnlineCameras ?E ?s = Some (Inr (JArr on), s')" "mset [?d] = mset on + mset off" "\<forall>d \<in> set on. cameraIsOnline d"
    by blast
  moreover from this have "on = []"
    by (cases on) (auto simp: demo_device_def cameraIsOnline_def dest: union_single_eq_member)
  ultimately show ?thesis by blast
qed

section \<open>Percent decoding\<close>

lemma hex_val_upper: "d < 16 \<Longrightarrow> hex_val (upper_char (hexdigit d)) = Some d"
  by (auto simp: hexdigit_def upper_char_def hex_val_def Let_def)

lemma hex_pair_byte:
  "b < 256 \<Longrightarrow> hex_pair (upper_char (hexdigit (b div 16))) (upper_char (hexdigit (b mod 16))) = Some b"
  by (simp add: hex_pair_def hex_val_upper)

lemma decode_utf8_char:
  "\<not> uri_unreserved c \<Longrightarrow>
   decodeURIComponent (concat (map pct_byte (utf8_char c)) @ r) = map_option (Cons c) (decodeURIComponent r)"
proof (cases "(of_char c :: nat) < 128")
  case True
  then show ?thesis
    by (simp add: utf8_char_def pct_byte_def hex_pair_byte Let_def)
next
  case False
  define n where "n = (of_char c :: nat)"
  have n: "128 \<le> n" "n < 256" using False by (simp_all add: n_def)
  then have d: "192 + n div 64 < 256" "192 + n div 64 = 194 \<or> 192 + n div 64 = 195" "128 + n mod 64 < 256"
    by auto
  have "char_of n = c" by (simp add: n_def)
  moreover have "(192 + n div 64 - 192) * 64 + (128 + n mod 64 - 128) = n" by simp
  ultimately show ?thesis
    using n d False
    by (auto simp: utf8_char_def pct_byte_def hex_pair_byte Let_def n_def [symmetric])
qed

text \<open>Percent encoding is undone by percent decoding, for every text.\<close>

lemma decode_encode: "decodeURIComponent (encodeURIComponent s) = Some s"
proof (induction s)
  case (Cons c s)
  have pct: "\<not> uri_unreserved (CHR ''%'')"
    by (simp add: uri_unreserved_def is_alnum_def is_digit_def is_ascii_letter_def)
  show ?case
  proof (cases "uri_unreserved c")
    case True
    with pct have "c \<noteq> CHR ''%''" by auto
    with True Cons show ?thesis by (simp add: encodeURIComponent_def)
  next
    case False
    with Cons decode_utf8_char [OF False, of "encodeURIComponent s"] show ?thesis
      by (simp add: encodeURIComponent_def)
  qed
qed (simp add: encodeURIComponent_def)

section \<open>Signaling URLs\<close>

lemma pct_percent: "pct_byte 37 = ''%25''"
  by code_simp

lemma encode_percent:
  "CHR ''%'' \<in> set u \<Longrightarrow> str_includes (encodeURIComponent u) ''%25''"
proof -
  assume "CHR ''%'' \<in> set u"
  then obtain a b where u: "u = a @ CHR ''%'' # b" by (auto simp: in_set_conv_decomp)
  have "\<not> uri_unreserved (CHR ''%'')" "utf8_char (CHR ''%'') = [37]"
    by (simp_all add: uri_unreserved_def is_alnum_def is_digit_def is_ascii_letter_def utf8_char_def)
  then have "encodeURIComponent u = encodeURIComponent a @ ''%25'' @ encodeURIComponent b"
    by (simp add: u encodeURIComponent_def pct_percent)
  then have "sublist ''%25'' (encodeURIComponent u)" unfolding sublist_def by blast
  then show ?thesis by (simp add: includes_iff_sublist)
qed

text \<open>
  Signaling URLs. A URL that was percent-encoded once too often, whose own text has an escape, is
  decoded to that text; a URL without \<open>%25\<close>, one with malformed escapes and a value that is not a
  string are returned as they are.
\<close>

theorem normalize_signaling_url:
  "(CHR ''%'' \<in> set u \<longrightarrow> normalizeCameraSignalingUrl (JStr (encodeURIComponent u)) = JStr u) \<and>
   (\<not> str_includes v ''%25'' \<or> decodeURIComponent v = None \<longrightarrow> normalizeCameraSignalingUrl (JStr v) = JStr v) \<and>
   ((\<forall>t. w \<noteq> JStr t) \<longrightarrow> normalizeCameraSignalingUrl w = w)"
  by (auto simp: normalizeCameraSignalingUrl_def encode_percent decode_encode split: jsval.split)

lemma normalize_signaling_url_witness:
  "normalizeCameraSignalingUrl (JStr (encodeURIComponent ''wss://k/?X=a%2Fb'')) = JStr ''wss://k/?X=a%2Fb''"
  using normalize_signaling_url [of "''wss://k/?X=a%2Fb''"] by simp

text \<open>
  The normalisation is not idempotent: it decodes one level each time it is applied, also when its
  input is a URL it has decoded already.
\<close>

theorem normalize_not_idempotent:
  "\<exists>u. normalizeCameraSignalingUrl (normalizeCameraSignalingUrl (JStr u)) \<noteq> normalizeCameraSignalingUrl (JStr u)"
proof -
  let ?n = normalizeCameraSignalingUrl
  have e: "encodeURIComponent ''%25'' = ''%2525''"
    by (simp add: encodeURIComponent_def uri_unreserved_def is_alnum_def is_digit_def is_ascii_letter_def
        utf8_char_def pct_percent)
  have "?n (JStr (encodeURIComponent ''%2525'')) = JStr ''%2525''"
    by (simp add: normalizeCameraSignalingUrl_def encode_percent decode_encode)
  moreover have "?n (JStr (encodeURIComponent ''%25'')) = JStr ''%25''"
    by (simp add: normalizeCameraSignalingUrl_def encode_percent decode_encode)
  ultimately show ?thesis using e by (intro exI [of _ "encodeURIComponent ''%2525''"]) simp
qed

section \<open>ICE servers\<close>

lemma sanitize_server_Some:
  "sanitize_server v = Some w \<Longrightarrow> truthy v \<and> opt_prop w ''urls'' = own_prop v ''url'' \<and> truthy (own_prop v ''url'') \<and>
   (\<forall>k \<in> {''username'', ''credential''}. opt_prop w k = (if truthy (own_prop v k) then own_prop v k else JUndef))"
  by (auto simp: sanitize_server_def Let_def split: if_splits)

text \<open>
  ICE servers. From an array the result has one entry for each entry with a URL, in order: its
  \<open>urls\<close> is that URL and it has the user name and the credential exactly when they are set. Anything
  that is neither an array nor undefined is a type error.
\<close>

theorem sanitize_ice_servers:
  "\<exists>us. sanitizeCameraIceServers (JArr vs) = Inr (JArr us) \<and>
    list_all2 (\<lambda>v w. opt_prop w ''urls'' = own_prop v ''url'' \<and>
        (\<forall>k \<in> {''username'', ''credential''}. opt_prop w k = (if truthy (own_prop v k) then own_prop v k else JUndef)))
      (filter (\<lambda>v. truthy v \<and> truthy (own_prop v ''url'')) vs) us \<and>
    (\<forall>w \<in> set us. truthy (opt_prop w ''urls''))"
proof -
  have "list_all2 (\<lambda>v w. opt_prop w ''urls'' = own_prop v ''url'' \<and>
        (\<forall>k \<in> {''username'', ''credential''}. opt_prop w k = (if truthy (own_prop v k) then own_prop v k else JUndef)))
      (filter (\<lambda>v. truthy v \<and> truthy (own_prop v ''url'')) vs) (List.map_filter sanitize_server vs) \<and>
    (\<forall>w \<in> set (List.map_filter sanitize_server vs). truthy (opt_prop w ''urls''))"
  proof (induction vs)
    case (Cons v vs)
    show ?case
    proof (cases "sanitize_server v")
      case None
      then have "\<not> (truthy v \<and> truthy (own_prop v ''url''))"
        by (auto simp: sanitize_server_def Let_def split: if_splits)
      with None Cons show ?thesis by (auto simp: map_filter_simps)
    next
      case (Some w)
      with sanitize_server_Some [OF Some] Cons show ?thesis by (simp add: map_filter_simps)
    qed
  qed (simp add: map_filter_simps)
  then show ?thesis by (auto simp: sanitizeCameraIceServers_def array_of_def js_default_def)
qed

lemma sanitize_ice_servers_witness:
  "\<exists>us. sanitizeCameraIceServers (JArr [JObj [(''url'', JStr ''stun:x'')], JNull]) = Inr (JArr us) \<and>
    (\<forall>w \<in> set us. truthy (opt_prop w ''urls''))"
  using sanitize_ice_servers by blast

section \<open>The answer to a stream request\<close>

text \<open>
  Stream information is given for one online, powered camera only. When the method returns, the
  answer had exactly one entry, which reports state 1 and power 1, and the result is the parameters
  of that entry; every other answer is an error.
\<close>

theorem stream_info_only_online:
  assumes "stream_answer E response s = Some (Inr v, s')"
  shows "\<exists>entry. opt_prop (resp_data response) ''data'' = JArr [entry] \<and> v = own_prop entry ''params'' \<and>
    opt_prop (opt_prop entry ''property'') ''iot-device::iot-state'' = JNum 1 \<and>
    opt_prop (opt_prop entry ''property'') ''iot-device::iot-power'' = JNum 1 \<and>
    parseCameraStatus (resp_data response) = JObj [(''online'', JBool True), (''powered'', JBool True)] \<and> s' = s"
proof -
  have "stream_entry (resp_data response) = Inr v \<and> s' = s"
    using assms
    by (auto simp: stream_answer_def Let_def liftE_def elim!: bindE_cases seqE_cases split: if_splits)
  then obtain entry where
    d: "get_prop (resp_data response) ''data'' = Inr (JArr [entry])" and
    p: "get_prop entry ''property'' = Inr (own_prop entry ''property'')" "truthy (own_prop entry ''property'')"
      "own_prop (own_prop entry ''property'') ''iot-device::iot-state'' = JNum 1"
      "own_prop (own_prop entry ''property'') ''iot-device::iot-power'' = JNum 1"
      "v = own_prop entry ''params''" "s' = s"
    by (auto simp: stream_entry_def bindR_def get_prop_def js_prop_def lift_msg_def
        split: sum.splits jsval.splits list.splits if_splits)
  have "opt_prop (resp_data response) ''data'' = JArr [entry]"
    using d by (auto simp: get_prop_def js_prop_def lift_msg_def opt_prop_def split: if_splits)
  moreover have "\<not> nullish entry"
    using p(1) by (auto simp: get_prop_def js_prop_def lift_msg_def split: if_splits)
  moreover have "\<not> nullish (own_prop entry ''property'')" using p(2) by (auto simp: nullish_def)
  ultimately show ?thesis
    using p by (auto simp: opt_prop_def parseCameraStatus_def opt_index_def Let_def)
qed

lemma stream_info_only_online_witness:
  "\<exists>v s'. stream_answer (demo_env no_server)
      (ok_body [(''data'', JArr [JObj [(''property'', JObj [(''iot-device::iot-state'', JNum 1), (''iot-device::iot-power'', JNum 1)]),
          (''params'', JNum 7)]])]) (demo_state JNull) = Some (Inr v, s') \<and> v = JNum 7 \<and> s' = demo_state JNull"
proof -
  let ?r = "ok_body [(''data'', JArr [JObj [(''property'', JObj [(''iot-device::iot-state'', JNum 1), (''iot-device::iot-power'', JNum 1)]),
          (''params'', JNum 7)]])]"
  have "stream_answer (demo_env no_server) ?r (demo_state JNull) = Some (Inr (JNum 7), demo_state JNull)"
    by (simp add: stream_answer_def Let_def ok_body_def stream_entry_def own_prop_def)
  from stream_info_only_online [OF this] this show ?thesis by blast
qed

end
