(* ===== verification/CacheProps.thy ===== *)
theory CacheProps
  imports CameraProps
begin

text \<open>
  The time-limited caches and the retry loop. The locale \<open>ttl_cache\<close> states what a cache promises at
  a moment of the clock; both caches of the program, connection bundles by camera and stream and
  captured frames by camera, are interpretations.
\<close>

locale ttl_cache =
  fixes get :: "st \<Rightarrow> 'k \<Rightarrow> 'v option" and put :: "'k \<Rightarrow> 'v \<Rightarrow> int \<Rightarrow> st \<Rightarrow> st" and ready :: "st \<Rightarrow> bool"
    and same :: "st \<Rightarrow> st \<Rightarrow> bool"
  assumes get_put: "ready s \<Longrightarrow> same (put k v ttl s) t \<Longrightarrow>
      get t k' = (if k' = k then (if now t < now s + ttl then Some v else None) else get (s\<lparr>now := now t\<rparr>) k')"
    and ready_put: "ready s \<Longrightarrow> ready (put k v ttl s)"
begin

lemma hit: "ready s \<Longrightarrow> same (put k v ttl s) t \<Longrightarrow> now t < now s + ttl \<Longrightarrow> get t k = Some v"
  by (simp add: get_put)

lemma expired: "ready s \<Longrightarrow> same (put k v ttl s) t \<Longrightarrow> now s + ttl \<le> now t \<Longrightarrow> get t k = None"
  by (simp add: get_put)

lemma other: "ready s \<Longrightarrow> same (put k v ttl s) t \<Longrightarrow> k' \<noteq> k \<Longrightarrow> get t k' = get (s\<lparr>now := now t\<rparr>) k'"
  by (simp add: get_put)

end

definition stream_get :: "st \<Rightarrow> string \<Rightarrow> obj option" where
  "stream_get s k = cache_lookup (stream_cache s) (now s) k"

definition stream_put :: "string \<Rightarrow> obj \<Rightarrow> int \<Rightarrow> st \<Rightarrow> st" where
  "stream_put k b ttl s = s\<lparr>stream_cache := cache_store (stream_cache s) (now s) k b ttl\<rparr>"

definition capture_get :: "st \<Rightarrow> jsval \<Rightarrow> bytes option" where
  "capture_get s k = cache_lookup (capture_cache s) (now s) k"

definition capture_put :: "jsval \<Rightarrow> bytes \<Rightarrow> int \<Rightarrow> st \<Rightarrow> st" where
  "capture_put k b ttl s = s\<lparr>capture_cache := cache_store (capture_cache s) (now s) k b ttl\<rparr>"

lemmas cache_defs = stream_get_def stream_put_def capture_get_def capture_put_def cache_lookup_def cache_store_def

interpretation stream_ttl: ttl_cache stream_get stream_put "\<lambda>s. stream_cache s \<noteq> None"
  "\<lambda>s t. stream_cache t = stream_cache s"
  by unfold_locales (auto simp: cache_defs split: option.splits)

interpretation capture_ttl: ttl_cache capture_get capture_put "\<lambda>s. capture_cache s \<noteq> None"
  "\<lambda>s t. capture_cache t = capture_cache s"
  by unfold_locales (auto simp: cache_defs split: option.splits)

section \<open>Connection bundles\<close>

text \<open>The three fields that come from the bundle.\<close>

definition bundle_fields :: "obj \<Rightarrow> jsval list" where
  "bundle_fields ob = map (oget ob) [''signalingUrl'', ''iceServers'', ''authToken'']"

lemma make_bundle_keys: "make_bundle info = Inr b \<Longrightarrow> map fst b = [''signalingUrl'', ''iceServers'', ''authToken'']"
  by (auto simp: make_bundle_def bindR_def split: sum.splits)

lemma client_id_effect:
  assumes "createCameraStreamClientId E d p s = Some (r, s')"
  shows "s' = s\<lparr>rand_calls := rand_calls s'\<rparr>"
  using assms
  by (auto simp: createCameraStreamClientId_def Let_def liftE_def random_hex_def elim!: bindE_cases)

definition conn_finish :: "env \<Rightarrow> jsval \<Rightarrow> jsval \<Rightarrow> conn_options \<Rightarrow> obj \<times> bool \<Rightarrow> obj m" where
  "conn_finish E deviceMac deviceModel opts =
     (\<lambda>(bundle, cached).
        let result = spread bundle [(''mac'', deviceMac), (''model'', deviceModel),
              (''substream'', o_substream opts), (''cached'', JBool cached)] in
        if truthy (o_includeClientId opts)
        then (if truthy (o_clientId opts) then ret (oset ''clientId'' (o_clientId opts) result)
              else bindE (createCameraStreamClientId E deviceMac (o_clientIdPrefix opts)) (\<lambda>cid.
                ret (oset ''clientId'' cid result)))
        else ret result)"

lemma conn_finish_value:
  assumes "conn_finish E mac model opts (b, c) s = Some (Inr r, s')"
  shows "bundle_fields r = bundle_fields b" "oget r ''cached'' = JBool c" "s' = s\<lparr>rand_calls := rand_calls s'\<rparr>"
  using assms
  by (auto simp: conn_finish_def Let_def bundle_fields_def split: if_splits
      elim!: bindE_cases dest: client_id_effect)

lemma conn_info_unfold:
  "getCameraWebRTCConnectionInfo E mac model opts =
     (let key = streamCacheKey mac model (truthy (o_substream opts)); noCache = truthy (o_noCache opts) in
      seqE (modS (\<lambda>s. s\<lparr>stream_cache := ensure_cache (stream_cache s)\<rparr>))
      (bindE (getS (\<lambda>s. if noCache then None else stream_get s key)) (\<lambda>hit.
       bindE (case hit of Some bundle \<Rightarrow> ret (bundle, True)
              | None \<Rightarrow> bindE (cameraGetStreamInfo E mac model (truthy (o_substream opts))) (\<lambda>info.
                  bindE (liftE (make_bundle info)) (\<lambda>bundle.
                  seqE (whenE (\<not> noCache) (modS (stream_put key bundle (o_cacheTtlMs opts)))) (ret (bundle, False)))))
         (conn_finish E mac model opts))))"
  unfolding getCameraWebRTCConnectionInfo_def conn_finish_def stream_get_def stream_put_def [abs_def] Let_def
  by (rule refl)


definition stream_server :: "nat \<Rightarrow> http_request \<Rightarrow> exn + http_response" where
  "stream_server i q = Inr (ok_body [(''data'', JArr [JObj
     [(''property'', JObj [(''iot-device::iot-state'', JNum 1), (''iot-device::iot-power'', JNum 1)]),
      (''params'', JObj [(''signaling_url'', JStr ''wss://k''), (''ice_servers'', JArr [])])]])])"

lemma demo_stream_info:
  assumes "truthy (access_token s)"
  shows "\<exists>s'. cameraGetStreamInfo (demo_env stream_server) mac model sub s
     = Some (Inr (JObj [(''signaling_url'', JStr ''wss://k''), (''ice_servers'', JArr [])]), s')
     \<and> stream_cache s' = stream_cache s"
  using assms
  by (simp add: cameraGetStreamInfo_def maybeLogin_def seqE_def bindE_def catchE_def web_signature_def
      web_create_signature_def signature_body_def lift_msg_def axios_post_def http_send_def http_dispatch_def
      http_await_def stream_server_def ok_body_def checkRateLimit_def rate_remaining_def stream_answer_def
      stream_entry_def own_prop_def Let_def del: stringify.simps)

definition demo_opts :: conn_options where
  "demo_opts = default_conn_options\<lparr>o_includeClientId := JBool False\<rparr>"

lemma demo_connection:
  "\<exists>r s'. getCameraWebRTCConnectionInfo (demo_env stream_server) (JStr ''M'') (JStr ''X'') demo_opts
      (demo_state (JStr ''t'')) = Some (Inr r, s') \<and> oget r ''cached'' = JBool False \<and> stream_cache s' \<noteq> None"
proof -
  let ?E = "demo_env stream_server" and ?s = "(demo_state (JStr ''t''))\<lparr>stream_cache := Some Map.empty\<rparr>"
  obtain s1 where s1: "cameraGetStreamInfo ?E (JStr ''M'') (JStr ''X'') False ?s
      = Some (Inr (JObj [(''signaling_url'', JStr ''wss://k''), (''ice_servers'', JArr [])]), s1)"
      "stream_cache s1 = Some Map.empty"
    using demo_stream_info [of ?s] by fastforce
  obtain b where b: "make_bundle (JObj [(''signaling_url'', JStr ''wss://k''), (''ice_servers'', JArr [])]) = Inr b"
    by (simp add: make_bundle_def sanitizeCameraIceServers_def js_default_def array_of_def own_prop_def)
  have c: "stream_cache (demo_state (JStr ''t'')) = None" by (simp add: demo_state_def construct_state_def)
  show ?thesis
    using s1 b c
    by (simp add: conn_info_unfold demo_opts_def default_conn_options_def Let_def ensure_cache_def stream_get_def
        cache_lookup_def bindE_def conn_finish_def stream_put_def cache_store_def)
qed


text \<open>
  Cache keys. Connections of the main and the sub stream of a camera have different keys, and
  clearing the cache for a camera removes both and no entry whose key does not start with that camera's
  MAC and a colon; without a MAC everything is removed.
\<close>

theorem clear_stream_cache:
  "streamCacheKey mac model True \<noteq> streamCacheKey mac model False \<and>
   (truthy mac \<longrightarrow> stream_get (clearCameraStreamCache mac s) (streamCacheKey mac model sub) = None \<and>
     (\<not> prefix (js_string mac @ '':'') k \<longrightarrow> stream_get (clearCameraStreamCache mac s) k = stream_get s k)) \<and>
   (\<not> truthy mac \<longrightarrow> stream_get (clearCameraStreamCache mac s) k = None)"
  by (auto simp: streamCacheKey_def clearCameraStreamCache_def stream_get_def cache_lookup_def split: option.split)

lemma clear_stream_cache_witness:
  "stream_get (clearCameraStreamCache (JStr ''M'') (demo_state JNull)) (streamCacheKey (JStr ''M'') (JStr ''X'') True) = None"
  using clear_stream_cache [of "JStr ''M''" "JStr ''X''" "demo_state JNull" True] by simp

section \<open>Retries with backoff\<close>

text \<open>
  A call that fails its first \<open>k\<close> times and returns \<open>v\<close> from then on; \<open>rand_calls\<close> counts the failures, and
  a call takes no time.
\<close>

definition flaky :: "nat \<Rightarrow> exn \<Rightarrow> 'a \<Rightarrow> 'a m" where
  "flaky k e v s = (if rand_calls s < k then Some (Inl e, s\<lparr>rand_calls := rand_calls s + 1\<rparr>) else Some (Inr v, s))"

lemma backoff_bound:
  assumes "(a::nat) \<le> b" "base * 2 ^ b \<le> (2147483647::int)" "1 \<le> base"
  shows "base * 2 ^ a \<le> 2147483647" "1 \<le> base * 2 ^ a"
proof -
  have "(2::int) ^ a \<le> 2 ^ b" using assms(1) by (intro power_increasing) auto
  then show "base * 2 ^ a \<le> 2147483647" using assms(2,3)
    by (meson mult_left_mono order_trans zero_le_one)
  have "1 * 1 \<le> base * 2 ^ a" using assms(3) by (intro mult_mono) auto
  then show "1 \<le> base * 2 ^ a" by simp
qed

lemma reconnect_retries:
  assumes "rand_calls s < k" "1 \<le> base" "base * 2 ^ a \<le> 2147483647" "int a + 1 < mx"
  shows "reconnect_loop (flaky k e v) mx base None a s =
    reconnect_loop (flaky k e v) mx base None (a + 1)
      (s\<lparr>rand_calls := rand_calls s + 1, now := now s + base * 2 ^ a\<rparr>)"
  using assms backoff_bound(2) [OF order_refl assms(3,2)]
  by (subst reconnect_loop.simps)
    (simp add: flaky_def catchE_def seqE_def bindE_def ret_def sleepMilliSecounds_def modS_def timer_delay_id)

lemma reconnect_waits:
  assumes "rand_calls s = a" "a + j \<le> k" "1 \<le> base" "base * 2 ^ (a + j) \<le> 2147483647" "int (a + j) < mx"
  shows "reconnect_loop (flaky k e v) mx base None a s = reconnect_loop (flaky k e v) mx base None (a + j)
    (s\<lparr>rand_calls := a + j, now := now s + base * (2 ^ (a + j) - 2 ^ a)\<rparr>)"
  using assms
proof (induction j arbitrary: a s)
  case 0
  then have "s\<lparr>rand_calls := a\<rparr> = s" by (cases s) simp
  then show ?case by simp
next
  case (Suc j)
  have b: "base * 2 ^ a \<le> 2147483647" using backoff_bound(1) [of a "a + Suc j" base] Suc.prems by simp
  show ?case
    using Suc.prems b Suc.IH [of "s\<lparr>rand_calls := rand_calls s + 1, now := now s + base * 2 ^ a\<rparr>" "a + 1"]
    by (simp add: reconnect_retries algebra_simps)
qed

text \<open>
  C21. Exponential backoff. A call that fails \<open>k\<close> times before it succeeds is made again until it
  succeeds or \<open>maxAttempts\<close> calls have failed: with \<open>k < maxAttempts\<close> the value is returned, else the last
  error is rethrown after exactly \<open>maxAttempts\<close> calls; the time spent waiting is
  \<open>base * (2^n - 1)\<close> for \<open>n\<close> retries.
\<close>

theorem reconnect_backoff:
  assumes "rand_calls s = 0" "1 \<le> base" "1 \<le> mx" "base * 2 ^ min k (mx - 1) \<le> 2147483647"
  shows "cameraStreamWithReconnect (flaky k e v) (int mx) base None s =
    Some (if k < mx then (Inr v, s\<lparr>rand_calls := k, now := now s + base * (2 ^ k - 1)\<rparr>)
          else (Inl e, s\<lparr>rand_calls := mx, now := now s + base * (2 ^ (mx - 1) - 1)\<rparr>))"
proof -
  let ?j = "min k (mx - 1)"
  have "cameraStreamWithReconnect (flaky k e v) (int mx) base None s = reconnect_loop (flaky k e v) (int mx) base None ?j
    (s\<lparr>rand_calls := ?j, now := now s + base * (2 ^ ?j - 1)\<rparr>)"
    using reconnect_waits [of s 0 ?j k base "int mx" e v] assms by (auto simp: cameraStreamWithReconnect_def)
  then show ?thesis
    using assms(3) reconnect_loop.simps [of "flaky k e v" "int mx" base None ?j]
    by (auto simp: flaky_def catchE_def min_def throw_def)
qed

lemma reconnect_backoff_witness:
  "cameraStreamWithReconnect (flaky 2 (Error ''x'') True) 3 2000 None (demo_state JNull)
    = Some (Inr True, (demo_state JNull)\<lparr>rand_calls := 2, now := now (demo_state JNull) + 6000\<rparr>)"
proof -
  have "rand_calls (demo_state JNull) = 0" by (simp add: demo_state_def construct_state_def)
  from reconnect_backoff [OF this, of 2000 3 2] show ?thesis by simp
qed

end
