(* ===== verification/EufyState.thy ===== *)
theory EufyState
  imports JsMethods CameraHelpers "HOL-Library.AList" "HOL-Library.Sublist"
begin

text \<open>
  The state of the Eufy viewer process (\<open>src/eufy/server.js\<close>): what its module variables hold, its
  timers, the awaits that are still open, and the outputs it has produced, in order. The Eufy SDK, the
  FFmpeg processes, the sockets and the file system are outside: they appear as calls in the outputs
  and as events. Pure helpers of the server are here too.
\<close>

section \<open>Data\<close>

datatype auth_status = Connecting | Captcha | Tfa | Connected | AuthError

fun status_name :: "auth_status \<Rightarrow> string" where
  "status_name Connecting = ''connecting''"
| "status_name Captcha = ''captcha''"
| "status_name Tfa = ''tfa''"
| "status_name Connected = ''connected''"
| "status_name AuthError = ''error''"

text \<open>
  A device of the SDK. \<open>d_prop\<close> is \<open>getPropertyValue\<close>, which may throw; \<open>d_picture\<close> is the buffer in
  its \<open>picture\<close> property, if there is one.
\<close>

record device =
  d_serial :: string
  d_name :: string
  d_model :: string
  d_isCamera :: bool
  d_prop :: "string \<Rightarrow> exn + jsval"
  d_picture :: "bytes option"
  d_type :: jsval
  d_isDoorbell :: bool
  d_station :: string

record station =
  st_serial :: string
  st_name :: string
  st_model :: string

datatype video_codec = H264 | H265

record stream_meta =
  videoCodec :: video_codec
  audioCodec :: "nat option"
  videoWidth :: int
  videoHeight :: int

text \<open>Who waits for a snapshot: an HTTP request or the auto-snapshot timer of a camera.\<close>

datatype requester = Http nat string | AutoSnap string

text \<open>The promise of a snapshot: its result, once it is settled, and who waits for it.\<close>

record snap_promise =
  pr_result :: "(exn + bytes) option"
  pr_waiters :: "requester list"

record pending =
  pn_promise :: nat
  pn_timer :: nat

record session =
  se_sn :: string
  se_ws :: nat
  se_ffmpeg :: "nat option"

text \<open>A running frame capture: its camera, the pending snapshot it serves and the data so far.\<close>

record frame_capture =
  ca_sn :: string
  ca_pending :: pending
  ca_chunks :: bytes

datatype timer = LoginFail | SnapshotTimeout string nat | AutoSnapInterval string int
  | CaptureWatchdog nat | SubmitDelay nat | Heartbeat nat

datatype sdk_call = ConnectPlain | ConnectCaptcha jsval string | ConnectCode string
  | StartLive string | StopLive string | GetDevices | GetStations | GetDevice string

text \<open>The awaits of the handlers, with what their continuations use.\<close>

datatype task = RefreshStarting requester string nat nat
  | StartStopping string nat | StartConnecting string nat | StartStarting string nat
  | SubmitWait nat | CamerasWait nat | BatteryWait string | DebugDevices nat | DebugStations nat "device list"

text \<open>How an await ends.\<close>

datatype outcome = Done | Failed exn | DeviceList "device list" | StationList "station list" | DeviceFound "device option"

datatype reply_body = Json jsval | Jpeg bytes jsval | Page | EventStream

datatype effect = Reply nat nat reply_body | Sdk sdk_call | SseWrite nat jsval | SseComment nat
  | WsError nat string | WsData nat bytes | WsClose nat | WsRefuse nat
  | Spawn nat "string list" | Kill nat | SaveFile string bytes | SaveSchedule string

record est =
  connected :: bool
  a_status :: auth_status
  a_message :: string
  a_captchaId :: jsval
  a_captchaImage :: jsval
  loginFailTimer :: "nat option"
  sessions :: "string \<rightharpoonup> session"
  snapshotCache :: "string \<rightharpoonup> bytes \<times> int"
  pendingSnapshots :: "string \<rightharpoonup> pending"
  autoSnapMinutes :: "(string \<times> int) list"
  autoSnapTimers :: "string \<rightharpoonup> nat"
  sseClients :: "(nat \<times> nat) list"
  timers :: "nat \<rightharpoonup> timer"
  tasks :: "nat \<rightharpoonup> task"
  promises :: "nat \<rightharpoonup> snap_promise"
  captures :: "nat \<rightharpoonup> frame_capture"
  streams :: "nat \<rightharpoonup> nat"
  ws_sn :: "nat \<rightharpoonup> string"
  open_ws :: "nat set"
  next_id :: nat
  e_now :: int
  outs :: "effect list"

definition eufy_init :: "int \<Rightarrow> est" where
  "eufy_init t =
     \<lparr>connected = False, a_status = Connecting, a_message = ''Connecting to Eufy cloud...'',
      a_captchaId = JNull, a_captchaImage = JNull, loginFailTimer = None, sessions = Map.empty,
      snapshotCache = Map.empty, pendingSnapshots = Map.empty, autoSnapMinutes = [],
      autoSnapTimers = Map.empty, sseClients = [], timers = Map.empty, tasks = Map.empty,
      promises = Map.empty, captures = Map.empty, streams = Map.empty, ws_sn = Map.empty, open_ws = {},
      next_id = 0, e_now = t, outs = []\<rparr>"

section \<open>Outputs, timers and awaits\<close>

definition emit :: "effect \<Rightarrow> est \<Rightarrow> est" where
  "emit x e = e\<lparr>outs := outs e @ [x]\<rparr>"

definition eufy_sendJson :: "nat \<Rightarrow> nat \<Rightarrow> obj \<Rightarrow> est \<Rightarrow> est" where
  "eufy_sendJson i code payload = emit (Reply i code (Json (JObj payload)))"

text \<open>\<open>setTimeout\<close> and \<open>setInterval\<close> return a fresh id.\<close>

definition set_timer :: "timer \<Rightarrow> est \<Rightarrow> nat \<times> est" where
  "set_timer t e = (next_id e, e\<lparr>timers := (timers e)(next_id e \<mapsto> t), next_id := next_id e + 1\<rparr>)"

definition clear_timer :: "nat option \<Rightarrow> est \<Rightarrow> est" where
  "clear_timer t e = (case t of None \<Rightarrow> e | Some i \<Rightarrow> e\<lparr>timers := (timers e)(i := None)\<rparr>)"

definition add_task :: "task \<Rightarrow> est \<Rightarrow> est" where
  "add_task t e = e\<lparr>tasks := (tasks e)(next_id e \<mapsto> t), next_id := next_id e + 1\<rparr>"

definition broadcastEvent :: "obj \<Rightarrow> est \<Rightarrow> est" where
  "broadcastEvent v e = e\<lparr>outs := outs e @ map (\<lambda>(c, _). SseWrite c (JObj v)) (sseClients e)\<rparr>"

section \<open>Device information\<close>

definition deviceOnline :: "device \<Rightarrow> bool" where
  "deviceOnline d =
     (case d_prop d ''state'' of
        Inr (JNum n) \<Rightarrow> n = 1
      | Inr JNaN \<Rightarrow> False
      | _ \<Rightarrow> True)"

definition deviceBatteryInfo :: "device \<Rightarrow> jsval \<times> bool" where
  "deviceBatteryInfo d =
     ((case d_prop d ''battery'' of
         Inr (JNum n) \<Rightarrow> if 0 \<le> n \<and> n \<le> 100 then JNum n else JNull
       | _ \<Rightarrow> JNull),
      (case d_prop d ''batteryIsCharging'' of Inr (JBool b) \<Rightarrow> b | _ \<Rightarrow> False))"

definition camera_entry :: "device \<Rightarrow> jsval" where
  "camera_entry d =
     (let (level, charging) = deviceBatteryInfo d in
      JObj [(''sn'', JStr (d_serial d)), (''name'', JStr (d_name d)), (''model'', JStr (d_model d)),
            (''online'', JBool (deviceOnline d)), (''battery'', level), (''batteryCharging'', JBool charging)])"

definition eufy_getCameras :: "device list \<Rightarrow> jsval list" where
  "eufy_getCameras devices = map camera_entry (filter d_isCamera devices)"

text \<open>\<open>EUFY_CAMERA_SERIALS\<close>: the cameras it names, in its order, or else the first two.\<close>

definition wanted_serials :: "string \<Rightarrow> string list" where
  "wanted_serials env = filter (\<lambda>s. s \<noteq> '''') (map js_trim (split_on CHR '','' env))"

definition select_cameras :: "string \<Rightarrow> jsval list \<Rightarrow> jsval list" where
  "select_cameras env cams =
     (let wanted = wanted_serials env in
      if wanted \<noteq> []
      then List.map_filter (\<lambda>sn. List.find (\<lambda>c. opt_prop c ''sn'' = JStr sn) cams) wanted
      else take 2 cams)"

section \<open>FFmpeg arguments\<close>

definition buildFfmpegArgs :: "stream_meta \<Rightarrow> bool \<Rightarrow> string list" where
  "buildFfmpegArgs md hasAudio =
     (let isH265 = (videoCodec md = H265) in
      [''-hide_banner'', ''-loglevel'', ''error'', ''-fflags'', ''+nobuffer+genpts'', ''-flags'', ''low_delay'',
       ''-f'', (if isH265 then ''hevc'' else ''h264''), ''-i'', ''pipe:0'']
      @ (if hasAudio then [''-f'', ''aac'', ''-i'', ''pipe:3''] else [])
      @ (if isH265
         then [''-c:v'', ''libx264'', ''-preset'', ''ultrafast'', ''-tune'', ''zerolatency'', ''-pix_fmt'', ''yuv420p'']
         else [''-c:v'', ''copy''])
      @ (if hasAudio then [''-c:a'', ''aac'', ''-ar'', ''16000'', ''-ac'', ''1''] else [])
      @ [''-f'', ''mpegts'', ''-muxdelay'', ''0'', ''-muxpreload'', ''0'', ''pipe:1''])"

definition snapshot_args :: "stream_meta \<Rightarrow> string list" where
  "snapshot_args md =
     [''-hide_banner'', ''-loglevel'', ''error'', ''-fflags'', ''+nobuffer+genpts'',
      ''-f'', (if videoCodec md = H265 then ''hevc'' else ''h264''), ''-i'', ''pipe:0'',
      ''-frames:v'', ''1'', ''-q:v'', ''4'', ''-f'', ''mjpeg'', ''pipe:1'']"

text \<open>\<open>AudioCodec.NONE\<close> of the SDK is an argument.\<close>

definition stream_has_audio :: "nat \<Rightarrow> stream_meta \<Rightarrow> bool \<Rightarrow> bool" where
  "stream_has_audio codecNone md audiostream =
     (audiostream \<and> audioCodec md \<noteq> None \<and> audioCodec md \<noteq> Some codecNone)"

definition normalizeCaptcha :: "jsval \<Rightarrow> string" where
  "normalizeCaptcha captcha =
     (let s = (if truthy captcha then js_string captcha else '''')
      in if prefix ''data:'' s then s else ''data:image/png;base64,'' @ s)"

end
