(* ===== verification/Machine.thy ===== *)
theory Machine
  imports Main
begin

text \<open>
  State machines: a partial step function on events, its runs and reachable states, and the locale of
  invariants that the servers' models interpret.
\<close>

inductive reachable :: "('s \<Rightarrow> bool) \<Rightarrow> ('ev \<Rightarrow> 's \<Rightarrow> 's option) \<Rightarrow> 's \<Rightarrow> bool" for start step where
  first: "start s \<Longrightarrow> reachable start step s"
| next_state: "reachable start step s \<Longrightarrow> step ev s = Some s' \<Longrightarrow> reachable start step s'"

fun run :: "('ev \<Rightarrow> 's \<Rightarrow> 's option) \<Rightarrow> 'ev list \<Rightarrow> 's \<Rightarrow> 's option" where
  "run step [] s = Some s"
| "run step (ev # evs) s = (case step ev s of None \<Rightarrow> None | Some s' \<Rightarrow> run step evs s')"

lemma run_append: "run step (a @ b) s = (case run step a s of None \<Rightarrow> None | Some s' \<Rightarrow> run step b s')"
  by (induction a arbitrary: s) (auto split: option.splits)

lemma run_reachable: "reachable start step s \<Longrightarrow> run step evs s = Some s' \<Longrightarrow> reachable start step s'"
  by (induction evs arbitrary: s) (auto split: option.splits intro: reachable.next_state)

locale step_invariant =
  fixes step :: "'ev \<Rightarrow> 's \<Rightarrow> 's option" and inv :: "'s \<Rightarrow> bool"
  assumes keeps: "inv s \<Longrightarrow> step ev s = Some s' \<Longrightarrow> inv s'"
begin

lemma run_keeps: "inv s \<Longrightarrow> run step evs s = Some s' \<Longrightarrow> inv s'"
  by (induction evs arbitrary: s) (auto split: option.splits dest: keeps)

end

locale invariant = step_invariant +
  fixes start :: "'s \<Rightarrow> bool"
  assumes starts: "start s \<Longrightarrow> inv s"
begin

lemma always: "reachable start step s \<Longrightarrow> inv s"
  by (induction rule: reachable.induct) (auto intro: starts dest: keeps)

end

end
