(* ===== verification/EufyServer.thy ===== *)
theory EufyServer
  imports EufyState Machine
begin

text \<open>
  The handlers of \<open>src/eufy/server.js\<close>: the snapshot cache and on-demand snapshots, the auto-snapshot
  schedule, the login with its challenges, the video sessions, the HTTP routes and the WebSocket. Each
  takes the state and gives the next one; an \<open>await\<close> ends a handler with an open task whose outcome is
  an event of its own. Log lines are left out, and characters of messages outside Latin-1 are written
  in ASCII.
\<close>

section \<open>Snapshots\<close>

definition snapshot_ts :: "string \<Rightarrow> est \<Rightarrow> jsval" where
  "snapshot_ts sn e = (case snapshotCache e sn of Some (_, ts) \<Rightarrow> JNum ts | None \<Rightarrow> JNum (e_now e))"

text \<open>The continuation of \<open>await refreshSnapshot(sn)\<close> in the route and of its call by the timer.\<close>

fun reply_snapshot :: "exn + bytes \<Rightarrow> requester \<Rightarrow> est \<Rightarrow> est" where
  "reply_snapshot (Inl err) (Http i sn) e = eufy_sendJson i 502 [(''error'', JStr (emsg err))] e"
| "reply_snapshot (Inr buffer) (Http i sn) e = emit (Reply i 200 (Jpeg buffer (snapshot_ts sn e))) e"
| "reply_snapshot r (AutoSnap sn) e = e"

fun requester_sn :: "requester \<Rightarrow> string" where
  "requester_sn (Http i sn) = sn"
| "requester_sn (AutoSnap sn) = sn"

definition settle :: "nat \<Rightarrow> exn + bytes \<Rightarrow> est \<Rightarrow> est" where
  "settle pid r e =
     (case promises e pid of
        None \<Rightarrow> e
      | Some p \<Rightarrow>
          if pr_result p \<noteq> None then e
          else fold (reply_snapshot r) (pr_waiters p)
                 (e\<lparr>promises := (promises e)(pid \<mapsto> p\<lparr>pr_result := Some r\<rparr>)\<rparr>))"

definition await_promise :: "requester \<Rightarrow> nat \<Rightarrow> est \<Rightarrow> est" where
  "await_promise w pid e =
     (case promises e pid of
        None \<Rightarrow> e
      | Some p \<Rightarrow>
          (case pr_result p of
             Some r \<Rightarrow> reply_snapshot r w e
           | None \<Rightarrow> e\<lparr>promises := (promises e)(pid \<mapsto> p\<lparr>pr_waiters := pr_waiters p @ [w]\<rparr>)\<rparr>))"

definition broadcastBattery :: "string \<Rightarrow> est \<Rightarrow> est" where
  "broadcastBattery sn e = add_task (BatteryWait sn) (emit (Sdk (GetDevice sn)) e)"

definition battery_event :: "device \<Rightarrow> obj" where
  "battery_event d =
     (let (level, charging) = deviceBatteryInfo d in
      [(''type'', JStr ''battery''), (''sn'', JStr (d_serial d)), (''battery'', level), (''batteryCharging'', JBool charging)])"

definition saveSnapshot :: "string \<Rightarrow> bytes \<Rightarrow> est \<Rightarrow> est" where
  "saveSnapshot sn buffer e =
     (let ts = e_now e;
          e1 = e\<lparr>snapshotCache := (snapshotCache e)(sn \<mapsto> (buffer, ts))\<rparr>;
          e2 = emit (SaveFile sn buffer) e1;
          e3 = broadcastEvent [(''type'', JStr ''snapshot''), (''sn'', JStr sn), (''ts'', JNum ts)] e2
      in broadcastBattery sn e3)"

definition refreshSnapshot :: "requester \<Rightarrow> est \<Rightarrow> est" where
  "refreshSnapshot w e =
     (let sn = requester_sn w in
      if \<not> connected e then reply_snapshot (Inl (Error ''Not connected to Eufy cloud'')) w e
      else if sessions e sn \<noteq> None
      then reply_snapshot (Inl (Error ''Live viewer active - stop it first, or the existing stream is your snapshot.'')) w e
      else case pendingSnapshots e sn of
        Some p \<Rightarrow> await_promise w (pn_promise p) e
      | None \<Rightarrow>
          let pid = next_id e;
              e1 = e\<lparr>promises := (promises e)(pid \<mapsto> \<lparr>pr_result = None, pr_waiters = []\<rparr>), next_id := pid + 1\<rparr>;
              (tm, e2) = set_timer (SnapshotTimeout sn pid) e1;
              e3 = e2\<lparr>pendingSnapshots := (pendingSnapshots e2)(sn \<mapsto> \<lparr>pn_promise = pid, pn_timer = tm\<rparr>)\<rparr>
          in add_task (RefreshStarting w sn pid tm) (emit (Sdk (StartLive sn)) e3))"

definition refresh_started :: "requester \<Rightarrow> string \<Rightarrow> nat \<Rightarrow> nat \<Rightarrow> outcome \<Rightarrow> est \<Rightarrow> est" where
  "refresh_started w sn pid tm res e =
     (case res of
        Failed err \<Rightarrow>
          let e1 = clear_timer (Some tm) e; e2 = e1\<lparr>pendingSnapshots := (pendingSnapshots e1)(sn := None)\<rparr>
          in reply_snapshot (Inl err) w e2
      | _ \<Rightarrow> await_promise w pid e)"

definition snapshot_timeout :: "string \<Rightarrow> nat \<Rightarrow> est \<Rightarrow> est" where
  "snapshot_timeout sn pid e =
     (let e1 = e\<lparr>pendingSnapshots := (pendingSnapshots e)(sn := None)\<rparr>
      in settle pid (Inl (Error ''Snapshot timed out waiting for livestream'')) (emit (Sdk (StopLive sn)) e1))"

section \<open>Frame capture\<close>

definition captureSnapshotFromStream :: "string \<Rightarrow> pending \<Rightarrow> stream_meta \<Rightarrow> est \<Rightarrow> est" where
  "captureSnapshotFromStream sn p md e =
     (let ff = next_id e;
          e1 = e\<lparr>next_id := ff + 1, captures := (captures e)(ff \<mapsto> \<lparr>ca_sn = sn, ca_pending = p, ca_chunks = []\<rparr>)\<rparr>
      in snd (set_timer (CaptureWatchdog ff) (emit (Spawn ff (snapshot_args md)) e1)))"

text \<open>
  \<open>finish\<close> of the capture with the handlers of its promise; the second call finds it settled. The waiters
  of the pending snapshot run after the \<open>finally\<close> handler, because an async function that returns a
  promise settles some microtasks after it.
\<close>

definition capture_finish :: "nat \<Rightarrow> exn option \<Rightarrow> est \<Rightarrow> est" where
  "capture_finish ff err e =
     (case captures e ff of
        None \<Rightarrow> e
      | Some c \<Rightarrow>
          let sn = ca_sn c; pid = pn_promise (ca_pending c);
              e1 = emit (Kill ff) (e\<lparr>captures := (captures e)(ff := None)\<rparr>);
              (r, e2) = (case err of
                      Some x \<Rightarrow> (Inl x, e1)
                    | None \<Rightarrow> if ca_chunks c = [] then (Inl (Error ''Empty snapshot''), e1)
                              else (Inr (ca_chunks c), saveSnapshot sn (ca_chunks c) e1));
              e3 = clear_timer (Some (pn_timer (ca_pending c))) e2;
              e4 = e3\<lparr>pendingSnapshots := (pendingSnapshots e3)(sn := None)\<rparr>
          in settle pid r (emit (Sdk (StopLive sn)) e4))"

section \<open>The auto-snapshot schedule\<close>

definition ALLOWED_AUTOSNAP_MINUTES :: "int list" where
  "ALLOWED_AUTOSNAP_MINUTES = [1, 5, 15, 30, 60]"

definition clearAutoSnapTimer :: "string \<Rightarrow> est \<Rightarrow> est" where
  "clearAutoSnapTimer sn e =
     (let e1 = clear_timer (autoSnapTimers e sn) e in e1\<lparr>autoSnapTimers := (autoSnapTimers e1)(sn := None)\<rparr>)"

definition scheduleAutoSnap :: "string \<Rightarrow> est \<Rightarrow> est" where
  "scheduleAutoSnap sn e =
     (let e1 = clearAutoSnapTimer sn e in
      case map_of (autoSnapMinutes e1) sn of
        None \<Rightarrow> e1
      | Some minutes \<Rightarrow>
          if minutes = 0 then e1
          else let (tm, e2) = set_timer (AutoSnapInterval sn (minutes * 60 * 1000)) e1
               in e2\<lparr>autoSnapTimers := (autoSnapTimers e2)(sn \<mapsto> tm)\<rparr>)"

text \<open>\<open>JSON.stringify(obj, null, 2)\<close> of an object whose members are numbers.\<close>

definition schedule_json :: "(string \<times> int) list \<Rightarrow> string" where
  "schedule_json entries =
     (if entries = [] then ''{}''
      else CHR ''{'' # CHR 0x0A # join ('','' @ [CHR 0x0A])
             (map (\<lambda>(sn, m). ''  '' @ json_quote sn @ '': '' @ show_int m) entries) @ [CHR 0x0A] @ ''}'')"

definition persistAutoSnapConfig :: "est \<Rightarrow> est" where
  "persistAutoSnapConfig e = emit (SaveSchedule (schedule_json (autoSnapMinutes e))) e"

definition setAutoSnap :: "string \<Rightarrow> int \<Rightarrow> est \<Rightarrow> exn + est" where
  "setAutoSnap sn minutes e =
     (if minutes = 0
      then Inr (persistAutoSnapConfig (clearAutoSnapTimer sn (e\<lparr>autoSnapMinutes := AList.delete sn (autoSnapMinutes e)\<rparr>)))
      else if minutes \<notin> set ALLOWED_AUTOSNAP_MINUTES
      then Inl (Error (''Interval must be one of: '' @ join '', '' (map show_int ALLOWED_AUTOSNAP_MINUTES) @ '' (or 0 to disable)''))
      else Inr (persistAutoSnapConfig (scheduleAutoSnap sn (e\<lparr>autoSnapMinutes := AList.update sn minutes (autoSnapMinutes e)\<rparr>))))"

definition startAllAutoSnapTimers :: "est \<Rightarrow> est" where
  "startAllAutoSnapTimers e = fold scheduleAutoSnap (map fst (autoSnapMinutes e)) e"

text \<open>The file is absent, unreadable or has a text; a text that is not JSON changes nothing.\<close>

definition schedule_entries :: "jsval \<Rightarrow> obj" where
  "schedule_entries raw = (case js_or raw (JObj []) of JObj ob \<Rightarrow> ob | JArr vs \<Rightarrow> array_obj vs
     | JStr s \<Rightarrow> array_obj (map (\<lambda>c. JStr [c]) s) | _ \<Rightarrow> [])"

definition loadAutoSnapConfig :: "string option \<Rightarrow> est \<Rightarrow> est" where
  "loadAutoSnapConfig content e =
     (case content of
        None \<Rightarrow> e
      | Some text \<Rightarrow>
          (case json_parse text of
             None \<Rightarrow> e
           | Some raw \<Rightarrow> e\<lparr>autoSnapMinutes :=
               fold (\<lambda>(sn, v) ms. case js_number v of Some m \<Rightarrow> if 1 \<le> m then AList.update sn m ms else ms | None \<Rightarrow> ms)
                 (schedule_entries raw) (autoSnapMinutes e)\<rparr>))"

definition auto_snap_fires :: "string \<Rightarrow> est \<Rightarrow> est" where
  "auto_snap_fires sn e = (if sessions e sn \<noteq> None then e else refreshSnapshot (AutoSnap sn) e)"

section \<open>Login and its challenges\<close>

definition armLoginFailTimer :: "est \<Rightarrow> est" where
  "armLoginFailTimer e =
     (let (tm, e1) = set_timer LoginFail (clear_timer (loginFailTimer e) e) in e1\<lparr>loginFailTimer := Some tm\<rparr>)"

definition login_fail_fires :: "est \<Rightarrow> est" where
  "login_fail_fires e =
     (if \<not> connected e \<and> a_status e = Connecting
      then e\<lparr>a_status := AuthError, a_message := ''No response from Eufy cloud - login likely failed. Check ''
             @ ''EUFY_USERNAME / EUFY_PASSWORD / EUFY_COUNTRY, then reload to retry.''\<rparr>
      else e)"

definition auth_fields :: "est \<Rightarrow> obj" where
  "auth_fields e =
     [(''status'', JStr (status_name (a_status e))), (''message'', JStr (a_message e)),
      (''connected'', JBool (connected e)),
      (''captcha'', if a_status e = Captcha then a_captchaImage e else JNull)]"

text \<open>The route after \<open>await submitAuthCode(code)\<close>: an error is answered, success waits 600 ms.\<close>

definition submit_result :: "nat \<Rightarrow> string option \<Rightarrow> est \<Rightarrow> est" where
  "submit_result i err e =
     (case err of
        Some m \<Rightarrow> eufy_sendJson i 400 [(''error'', JStr m), (''status'', JStr (status_name (a_status e))),
                    (''message'', JStr (a_message e))] e
      | None \<Rightarrow> snd (set_timer (SubmitDelay i) e))"

definition submitAuthCode :: "nat \<Rightarrow> string \<Rightarrow> est \<Rightarrow> est" where
  "submitAuthCode i code e =
     (if code = '''' then submit_result i (Some ''Empty code'') e
      else case a_status e of
        Captcha \<Rightarrow>
          let e1 = armLoginFailTimer (e\<lparr>a_status := Connecting, a_message := ''Checking captcha...''\<rparr>)
          in add_task (SubmitWait i) (emit (Sdk (ConnectCaptcha (a_captchaId e) code)) e1)
      | Tfa \<Rightarrow>
          let e1 = armLoginFailTimer (e\<lparr>a_status := Connecting, a_message := ''Checking 2FA code...''\<rparr>)
          in add_task (SubmitWait i) (emit (Sdk (ConnectCode code)) e1)
      | _ \<Rightarrow> submit_result i (Some ''No pending challenge'') e)"

definition on_tfa_request :: "est \<Rightarrow> est" where
  "on_tfa_request e =
     (clear_timer (loginFailTimer e) e)\<lparr>a_status := Tfa,
        a_message := ''Enter the 2FA verification code sent to your email/SMS.''\<rparr>"

definition on_captcha_request :: "jsval \<Rightarrow> jsval \<Rightarrow> est \<Rightarrow> est" where
  "on_captcha_request cid captcha e =
     (clear_timer (loginFailTimer e) e)\<lparr>a_status := Captcha, a_message := ''Enter the characters shown in the image.'',
        a_captchaId := cid, a_captchaImage := JStr (normalizeCaptcha captcha)\<rparr>"

definition on_connect :: "est \<Rightarrow> est" where
  "on_connect e =
     (let e1 = clear_timer (loginFailTimer e) (e\<lparr>connected := True\<rparr>)
      in startAllAutoSnapTimers (e1\<lparr>a_status := Connected, a_message := ''Connected.'', a_captchaImage := JNull\<rparr>))"

definition on_close :: "est \<Rightarrow> est" where
  "on_close e =
     (let e1 = e\<lparr>connected := False\<rparr> in
      if a_status e1 = Connected
      then e1\<lparr>a_status := Connecting, a_message := ''Reconnecting to Eufy cloud...''\<rparr> else e1)"

section \<open>Device events\<close>

definition on_device_added :: "device \<Rightarrow> est \<Rightarrow> est" where
  "on_device_added d e =
     (case d_picture d of Some b \<Rightarrow> if b \<noteq> [] then saveSnapshot (d_serial d) b e else e | None \<Rightarrow> e)"

definition on_device_property :: "device \<Rightarrow> string \<Rightarrow> bytes option \<Rightarrow> est \<Rightarrow> est" where
  "on_device_property d name data e =
     (if \<not> d_isCamera d then e
      else if name = ''picture''
      then (case data of Some b \<Rightarrow> if b \<noteq> [] then saveSnapshot (d_serial d) b e else e | None \<Rightarrow> e)
      else if name = ''battery'' \<or> name = ''batteryIsCharging'' then broadcastEvent (battery_event d) e
      else e)"

definition on_person_detected :: "device \<Rightarrow> jsval \<Rightarrow> est \<Rightarrow> est" where
  "on_person_detected d state e =
     (if \<not> truthy state \<or> \<not> d_isCamera d then e
      else broadcastEvent [(''type'', JStr ''person''), (''sn'', JStr (d_serial d)), (''name'', JStr (d_name d)),
             (''ts'', JNum (e_now e))] e)"

definition battery_found :: "string \<Rightarrow> outcome \<Rightarrow> est \<Rightarrow> est" where
  "battery_found sn res e =
     (case res of
        DeviceFound (Some d) \<Rightarrow> if d_isCamera d then broadcastEvent (oset ''sn'' (JStr sn) (battery_event d)) e else e
      | _ \<Rightarrow> e)"

section \<open>Video sessions\<close>

definition startFfmpeg :: "nat \<Rightarrow> session \<Rightarrow> stream_meta \<Rightarrow> bool \<Rightarrow> est \<Rightarrow> est" where
  "startFfmpeg codecNone s md audiostream e =
     (let hasAudio = stream_has_audio codecNone md audiostream; ff = next_id e;
          e1 = e\<lparr>next_id := ff + 1, sessions := (sessions e)(se_sn s \<mapsto> s\<lparr>se_ffmpeg := Some ff\<rparr>),
                 streams := (streams e)(ff \<mapsto> se_ws s)\<rparr>
      in emit (Spawn ff (buildFfmpegArgs md hasAudio)) e1)"

definition on_livestream_start :: "nat \<Rightarrow> string \<Rightarrow> stream_meta \<Rightarrow> bool \<Rightarrow> est \<Rightarrow> est" where
  "on_livestream_start codecNone sn md audiostream e =
     (case pendingSnapshots e sn of
        Some p \<Rightarrow> captureSnapshotFromStream sn p md e
      | None \<Rightarrow>
          (case sessions e sn of
             None \<Rightarrow> emit (Sdk (StopLive sn)) e
           | Some s \<Rightarrow> startFfmpeg codecNone s md audiostream e))"

text \<open>\<open>stopSession\<close> up to its await, which ignores errors and does nothing after it.\<close>

definition stopSession :: "string \<Rightarrow> est \<Rightarrow> est" where
  "stopSession sn e =
     (case sessions e sn of
        None \<Rightarrow> e
      | Some s \<Rightarrow>
          let e1 = e\<lparr>sessions := (sessions e)(sn := None)\<rparr>;
              e2 = (case se_ffmpeg s of Some ff \<Rightarrow> emit (Kill ff) e1 | None \<Rightarrow> e1)
          in emit (Sdk (StopLive sn)) e2)"

text \<open>
  \<open>startSession\<close> in the parts between its awaits. Without a session to stop, the first await only
  waits for a microtask and the next part runs before any other event.
\<close>

definition session_create :: "string \<Rightarrow> nat \<Rightarrow> est \<Rightarrow> est" where
  "session_create sn sock e =
     add_task (StartConnecting sn sock) (emit (Sdk ConnectPlain)
       (e\<lparr>sessions := (sessions e)(sn \<mapsto> \<lparr>se_sn = sn, se_ws = sock, se_ffmpeg = None\<rparr>)\<rparr>))"

definition startSession :: "string \<Rightarrow> nat \<Rightarrow> est \<Rightarrow> est" where
  "startSession sn sock e =
     (if sessions e sn = None then session_create sn sock e
      else add_task (StartStopping sn sock) (stopSession sn e))"

definition session_failed :: "string \<Rightarrow> nat \<Rightarrow> exn \<Rightarrow> est \<Rightarrow> est" where
  "session_failed sn sock err e =
     (let e1 = (if sock \<in> open_ws e
                then (emit (WsClose sock) (emit (WsError sock (emsg err)) e))\<lparr>open_ws := open_ws e - {sock}\<rparr> else e)
      in e1\<lparr>sessions := (sessions e1)(sn := None)\<rparr>)"

definition session_connected :: "string \<Rightarrow> nat \<Rightarrow> outcome \<Rightarrow> est \<Rightarrow> est" where
  "session_connected sn sock res e =
     (case res of
        Failed err \<Rightarrow> session_failed sn sock err e
      | _ \<Rightarrow> add_task (StartStarting sn sock) (emit (Sdk (StartLive sn)) e))"

definition session_started :: "string \<Rightarrow> nat \<Rightarrow> outcome \<Rightarrow> est \<Rightarrow> est" where
  "session_started sn sock res e = (case res of Failed err \<Rightarrow> session_failed sn sock err e | _ \<Rightarrow> e)"

definition on_upgrade :: "nat \<Rightarrow> string \<Rightarrow> jsval \<Rightarrow> est \<Rightarrow> est" where
  "on_upgrade sock path sn e =
     (if path \<noteq> ''/stream'' then emit (WsRefuse sock) e
      else if \<not> truthy sn then emit (WsRefuse sock) e
      else startSession (js_string sn) sock
             (e\<lparr>open_ws := insert sock (open_ws e), ws_sn := (ws_sn e)(sock \<mapsto> js_string sn)\<rparr>))"

definition on_ws_close :: "nat \<Rightarrow> est \<Rightarrow> est" where
  "on_ws_close sock e =
     (let e1 = e\<lparr>open_ws := open_ws e - {sock}\<rparr> in
      case ws_sn e sock of Some sn \<Rightarrow> stopSession sn e1 | None \<Rightarrow> e1)"

text \<open>Data on the standard output of an FFmpeg process.\<close>

definition on_ffmpeg_data :: "nat \<Rightarrow> bytes \<Rightarrow> est \<Rightarrow> est" where
  "on_ffmpeg_data ff chunk e =
     (case captures e ff of
        Some c \<Rightarrow> e\<lparr>captures := (captures e)(ff \<mapsto> c\<lparr>ca_chunks := ca_chunks c @ chunk\<rparr>)\<rparr>
      | None \<Rightarrow>
          (case streams e ff of
             Some sock \<Rightarrow> if sock \<in> open_ws e then emit (WsData sock chunk) e else e
           | None \<Rightarrow> e))"

section \<open>HTTP routes\<close>

record http_req =
  h_method :: string
  h_path :: string
  h_body :: string

text \<open>\<open>readJsonBody\<close>.\<close>

definition eufy_readJsonBody :: "string \<Rightarrow> exn + jsval" where
  "eufy_readJsonBody body =
     (if 1000000 < length body then Inl (Error ''Body too large'')
      else if body = '''' then Inr (JObj [])
      else case json_parse body of None \<Rightarrow> Inl (Error ''Invalid JSON body'') | Some v \<Rightarrow> Inr v)"

text \<open>The group of \<open>/^pre([^/]+)post$/\<close>.\<close>

definition path_segment :: "string \<Rightarrow> string \<Rightarrow> string \<Rightarrow> string option" where
  "path_segment pre post p =
     (let seg = take (length p - length pre - length post) (drop (length pre) p) in
      if p = pre @ seg @ post \<and> seg \<noteq> '''' \<and> CHR ''/'' \<notin> set seg then Some seg else None)"

definition uri_component :: "string \<Rightarrow> exn + string" where
  "uri_component s = (case decodeURIComponent s of
     None \<Rightarrow> Inl (Exn ''URIError'' ''URI malformed'' None) | Some t \<Rightarrow> Inr t)"

definition route_submit :: "nat \<Rightarrow> string \<Rightarrow> est \<Rightarrow> exn + est" where
  "route_submit i text e =
     bindR (eufy_readJsonBody text) (\<lambda>body.
     bindR (get_prop body ''code'') (\<lambda>c.
     bindR (string_method ''trim'' js_trim (js_or c (JStr ''''))) (\<lambda>code.
     Inr (if code = '''' then eufy_sendJson i 400 [(''error'', JStr ''Missing code'')] e
          else submitAuthCode i code e))))"

definition route_snapshot :: "nat \<Rightarrow> string \<Rightarrow> est \<Rightarrow> exn + est" where
  "route_snapshot i seg e =
     bindR (uri_component seg) (\<lambda>sn.
     Inr (case snapshotCache e sn of
            None \<Rightarrow> eufy_sendJson i 404 [(''error'', JStr ''No snapshot yet'')] e
          | Some (buffer, ts) \<Rightarrow> emit (Reply i 200 (Jpeg buffer (JNum ts))) e))"

definition route_refresh :: "nat \<Rightarrow> string \<Rightarrow> est \<Rightarrow> exn + est" where
  "route_refresh i seg e = bindR (uri_component seg) (\<lambda>sn. Inr (refreshSnapshot (Http i sn) e))"

definition route_autosnap :: "nat \<Rightarrow> est \<Rightarrow> est" where
  "route_autosnap i e = eufy_sendJson i 200
     [(''allowed'', JArr (map JNum ALLOWED_AUTOSNAP_MINUTES)),
      (''config'', JObj (map (\<lambda>(sn, m). (sn, JNum m)) (autoSnapMinutes e)))] e"

definition route_autosnap_set :: "nat \<Rightarrow> string \<Rightarrow> string \<Rightarrow> est \<Rightarrow> exn + est" where
  "route_autosnap_set i seg text e =
     bindR (uri_component seg) (\<lambda>sn.
     case eufy_readJsonBody text of
       Inl err \<Rightarrow> Inr (eufy_sendJson i 400 [(''error'', JStr (emsg err))] e)
     | Inr body \<Rightarrow>
         bindR (get_prop body ''minutes'') (\<lambda>v.
         Inr (case js_number v of
            None \<Rightarrow> eufy_sendJson i 400 [(''error'', JStr ''minutes must be a non-negative number'')] e
          | Some minutes \<Rightarrow>
              if minutes < 0
              then eufy_sendJson i 400 [(''error'', JStr ''minutes must be a non-negative number'')] e
              else case setAutoSnap sn minutes e of
                 Inl err \<Rightarrow> eufy_sendJson i 400 [(''error'', JStr (emsg err))] e
               | Inr e1 \<Rightarrow> eufy_sendJson i 200 [(''sn'', JStr sn),
                   (''minutes'', JNum (case map_of (autoSnapMinutes e1) sn of Some m \<Rightarrow> m | None \<Rightarrow> 0))] e1)))"

definition route_events :: "nat \<Rightarrow> est \<Rightarrow> est" where
  "route_events i e =
     (let e1 = emit (SseComment i) (emit (Reply i 200 EventStream) e);
          (hb, e2) = set_timer (Heartbeat i) e1
      in e2\<lparr>sseClients := sseClients e2 @ [(i, hb)]\<rparr>)"

definition on_sse_close :: "nat \<Rightarrow> est \<Rightarrow> est" where
  "on_sse_close i e =
     (clear_timer (map_of (sseClients e) i) e)\<lparr>sseClients := filter (\<lambda>(c, _). c \<noteq> i) (sseClients e)\<rparr>"

definition route_debug :: "nat \<Rightarrow> est \<Rightarrow> est" where
  "route_debug i e =
     (if \<not> connected e then eufy_sendJson i 503 [(''error'', JStr ''Not connected yet'')] e
      else add_task (DebugDevices i) (emit (Sdk GetDevices) e))"

definition debug_devices :: "device list \<Rightarrow> station list \<Rightarrow> obj" where
  "debug_devices ds sts =
     [(''deviceCount'', JNum (int (length ds))),
      (''devices'', JArr (map (\<lambda>d. JObj [(''sn'', JStr (d_serial d)), (''name'', JStr (d_name d)),
         (''model'', JStr (d_model d)), (''type'', d_type d), (''isCamera'', JBool (d_isCamera d)),
         (''isDoorbell'', JBool (d_isDoorbell d)), (''stationSn'', JStr (d_station d))]) ds)),
      (''stationCount'', JNum (int (length sts))),
      (''stations'', JArr (map (\<lambda>t. JObj [(''sn'', JStr (st_serial t)), (''name'', JStr (st_name t)),
         (''model'', JStr (st_model t))]) sts))]"

definition route_cameras :: "nat \<Rightarrow> est \<Rightarrow> est" where
  "route_cameras i e =
     (if \<not> connected e
      then eufy_sendJson i 503 [(''error'', JStr (''Not connected to Eufy cloud yet. Check the server terminal - it may ''
             @ ''be waiting for a 2FA/captcha code, or login failed.''))] e
      else add_task (CamerasWait i) (emit (Sdk GetDevices) e))"

definition server_error :: "nat \<Rightarrow> exn \<Rightarrow> est \<Rightarrow> est" where
  "server_error i err = eufy_sendJson i 500 [(''error'', JStr (emsg err))]"

text \<open>The answer of a route, or the 500 of the outer handler when it throws.\<close>

definition guarded :: "nat \<Rightarrow> est \<Rightarrow> exn + est \<Rightarrow> est" where
  "guarded i e r = (case r of Inl err \<Rightarrow> server_error i err e | Inr e1 \<Rightarrow> e1)"

definition eufy_http :: "nat \<Rightarrow> http_req \<Rightarrow> est \<Rightarrow> est" where
  "eufy_http i rq e =
     (let isGet = (h_method rq = ''GET''); isPost = (h_method rq = ''POST''); path = h_path rq in
      if isGet \<and> path = ''/'' then emit (Reply i 200 Page) e
      else if isGet \<and> path = ''/api/health''
      then eufy_sendJson i 200 [(''ok'', JBool True), (''connected'', JBool (connected e))] e
      else if isGet \<and> path = ''/api/events'' then route_events i e
      else if isGet \<and> path = ''/api/auth/status'' then eufy_sendJson i 200 (auth_fields e) e
      else if isPost \<and> path = ''/api/auth/submit'' then guarded i e (route_submit i (h_body rq) e)
      else if isGet \<and> path = ''/api/debug/devices'' then route_debug i e
      else if isGet \<and> path = ''/api/cameras'' then route_cameras i e
      else if isGet \<and> path_segment ''/api/snapshot/'' '''' path \<noteq> None
      then guarded i e (route_snapshot i (the (path_segment ''/api/snapshot/'' '''' path)) e)
      else if isPost \<and> path_segment ''/api/snapshot/'' ''/refresh'' path \<noteq> None
      then guarded i e (route_refresh i (the (path_segment ''/api/snapshot/'' ''/refresh'' path)) e)
      else if isGet \<and> path = ''/api/autosnap'' then route_autosnap i e
      else if isPost \<and> path_segment ''/api/autosnap/'' '''' path \<noteq> None
      then guarded i e (route_autosnap_set i (the (path_segment ''/api/autosnap/'' '''' path)) (h_body rq) e)
      else eufy_sendJson i 404 [(''error'', JStr ''Not found'')] e)"

section \<open>Open awaits and timers\<close>

definition cameras_found :: "string \<Rightarrow> nat \<Rightarrow> outcome \<Rightarrow> est \<Rightarrow> est" where
  "cameras_found serials i res e =
     (case res of
        DeviceList ds \<Rightarrow> eufy_sendJson i 200 [(''cameras'', JArr (select_cameras serials (eufy_getCameras ds)))] e
      | Failed err \<Rightarrow> server_error i err e
      | _ \<Rightarrow> e)"

definition debug_found :: "nat \<Rightarrow> outcome \<Rightarrow> est \<Rightarrow> est" where
  "debug_found i res e =
     (case res of
        DeviceList ds \<Rightarrow> add_task (DebugStations i ds) (emit (Sdk GetStations) e)
      | Failed err \<Rightarrow> server_error i err e
      | _ \<Rightarrow> e)"

definition stations_found :: "nat \<Rightarrow> device list \<Rightarrow> outcome \<Rightarrow> est \<Rightarrow> est" where
  "stations_found i ds res e =
     (case res of
        StationList sts \<Rightarrow> eufy_sendJson i 200 (debug_devices ds sts) e
      | Failed err \<Rightarrow> server_error i err e
      | _ \<Rightarrow> e)"

definition submitted :: "nat \<Rightarrow> outcome \<Rightarrow> est \<Rightarrow> est" where
  "submitted i res e = submit_result i (case res of Failed err \<Rightarrow> Some (emsg err) | _ \<Rightarrow> None) e"

definition finish_task :: "string \<Rightarrow> task \<Rightarrow> outcome \<Rightarrow> est \<Rightarrow> est" where
  "finish_task serials t res e =
     (case t of
        RefreshStarting w sn pid tm \<Rightarrow> refresh_started w sn pid tm res e
      | StartStopping sn sock \<Rightarrow> session_create sn sock e
      | StartConnecting sn sock \<Rightarrow> session_connected sn sock res e
      | StartStarting sn sock \<Rightarrow> session_started sn sock res e
      | SubmitWait i \<Rightarrow> submitted i res e
      | CamerasWait i \<Rightarrow> cameras_found serials i res e
      | BatteryWait sn \<Rightarrow> battery_found sn res e
      | DebugDevices i \<Rightarrow> debug_found i res e
      | DebugStations i ds \<Rightarrow> stations_found i ds res e)"

text \<open>A timeout is gone when its callback runs; the two intervals stay.\<close>

definition fire_timer :: "nat \<Rightarrow> timer \<Rightarrow> est \<Rightarrow> est" where
  "fire_timer i t e =
     (case t of
        LoginFail \<Rightarrow> login_fail_fires (clear_timer (Some i) e)
      | SnapshotTimeout sn pid \<Rightarrow> snapshot_timeout sn pid (clear_timer (Some i) e)
      | AutoSnapInterval sn ms \<Rightarrow> auto_snap_fires sn e
      | CaptureWatchdog ff \<Rightarrow> capture_finish ff (Some (Error ''Snapshot capture timed out'')) (clear_timer (Some i) e)
      | SubmitDelay rq \<Rightarrow> eufy_sendJson rq 200 (auth_fields e) (clear_timer (Some i) e)
      | Heartbeat c \<Rightarrow> emit (SseComment c) e)"

section \<open>Start\<close>

text \<open>
  \<open>loadSnapshotsFromDisk\<close> on the files of the directory, in the order of \<open>readdirSync\<close>, and the parts of
  \<open>initEufy\<close> after the checks; \<open>None\<close> is the exit of a process without credentials.
\<close>

definition jpg_name :: "string \<Rightarrow> string option" where
  "jpg_name file = (let n = length file - 4 in
     if 4 < length file \<and> drop n file = ''.jpg'' \<and> CHR 0x0A \<notin> set (take n file) \<and> CHR 0x0D \<notin> set (take n file)
     then Some (take n file) else None)"

definition loadSnapshotsFromDisk :: "(string \<times> bytes \<times> int) list \<Rightarrow> est \<Rightarrow> est" where
  "loadSnapshotsFromDisk files e = e\<lparr>snapshotCache :=
     fold (\<lambda>(file, buffer, ts) c. case jpg_name file of Some sn \<Rightarrow> c(sn \<mapsto> (buffer, ts)) | None \<Rightarrow> c) files (snapshotCache e)\<rparr>"

definition initEufy :: "jsval \<Rightarrow> jsval \<Rightarrow> est \<Rightarrow> est option" where
  "initEufy user pass e =
     (if \<not> truthy user \<or> \<not> truthy pass then None
      else Some (emit (Sdk ConnectPlain) (armLoginFailTimer e)))"

definition eufy_main ::
  "jsval \<Rightarrow> jsval \<Rightarrow> (string \<times> bytes \<times> int) list \<Rightarrow> string option \<Rightarrow> int \<Rightarrow> est option" where
  "eufy_main user pass files schedule t =
     initEufy user pass (loadAutoSnapConfig schedule (loadSnapshotsFromDisk files (eufy_init t)))"

section \<open>Steps\<close>

text \<open>
  What can happen next: a request or a socket, an event of the SDK or of an FFmpeg process, the end
  of an await that is open, or a timer that is set.
\<close>

datatype event = HttpReq nat http_req | Upgrade nat string jsval | SocketClosed nat | SseClosed nat
  | TfaRequest | CaptchaRequest jsval jsval | CloudConnect | CloudClose
  | DeviceAdded device | PropertyChanged device string "bytes option" | PersonDetected device jsval
  | LivestreamStart string stream_meta bool
  | FfmpegData nat bytes | FfmpegClosed nat | FfmpegFailed nat exn
  | AwaitEnds nat outcome | TimerFires nat | TimePasses nat

definition eufy_step :: "nat \<Rightarrow> string \<Rightarrow> event \<Rightarrow> est \<Rightarrow> est option" where
  "eufy_step codecNone serials ev e =
     (case ev of
        HttpReq i rq \<Rightarrow> Some (eufy_http i rq e)
      | Upgrade sock path sn \<Rightarrow> Some (on_upgrade sock path sn e)
      | SocketClosed sock \<Rightarrow> Some (on_ws_close sock e)
      | SseClosed i \<Rightarrow> Some (on_sse_close i e)
      | TfaRequest \<Rightarrow> Some (on_tfa_request e)
      | CaptchaRequest cid c \<Rightarrow> Some (on_captcha_request cid c e)
      | CloudConnect \<Rightarrow> Some (on_connect e)
      | CloudClose \<Rightarrow> Some (on_close e)
      | DeviceAdded d \<Rightarrow> Some (on_device_added d e)
      | PropertyChanged d name data \<Rightarrow> Some (on_device_property d name data e)
      | PersonDetected d v \<Rightarrow> Some (on_person_detected d v e)
      | LivestreamStart sn md audio \<Rightarrow> Some (on_livestream_start codecNone sn md audio e)
      | FfmpegData ff chunk \<Rightarrow> Some (on_ffmpeg_data ff chunk e)
      | FfmpegClosed ff \<Rightarrow> Some (capture_finish ff None e)
      | FfmpegFailed ff err \<Rightarrow> Some (capture_finish ff (Some err) e)
      | AwaitEnds i res \<Rightarrow>
          (case tasks e i of None \<Rightarrow> None
           | Some t \<Rightarrow> Some (finish_task serials t res (e\<lparr>tasks := (tasks e)(i := None)\<rparr>)))
      | TimerFires i \<Rightarrow> (case timers e i of None \<Rightarrow> None | Some t \<Rightarrow> Some (fire_timer i t e))
      | TimePasses d \<Rightarrow> Some (e\<lparr>e_now := e_now e + int d\<rparr>))"

text \<open>The states in which the process starts to serve.\<close>

definition eufy_starts :: "est \<Rightarrow> bool" where
  "eufy_starts e = (\<exists>user pass files schedule t. eufy_main user pass files schedule t = Some e)"

end
