(* ===== verification/EufyFrames.thy ===== *)
theory EufyFrames
  imports EufyServer
begin

text \<open>
  What the handlers of the viewer process leave alone. A property \<open>Q\<close> of states that the elementary
  updates respect is respected by the handlers made of them: \<open>plain_steps\<close> has the updates of the
  video sessions, the device events and the outputs, \<open>snapshot_steps\<close> adds those of the snapshots,
  \<open>schedule_steps\<close> those of the schedule, and the last three locales reach every event.
\<close>

definition plain_task :: "task \<Rightarrow> bool" where
  "plain_task t = (case t of RefreshStarting _ _ _ _ \<Rightarrow> False | _ \<Rightarrow> True)"

definition plain_timer :: "timer \<Rightarrow> bool" where
  "plain_timer t = (case t of SnapshotTimeout _ _ \<Rightarrow> False | AutoSnapInterval _ _ \<Rightarrow> False | _ \<Rightarrow> True)"

text \<open>Outputs other than the answers to a login challenge.\<close>

definition plain_out :: "effect \<Rightarrow> bool" where
  "plain_out x = (case x of Sdk (ConnectCaptcha _ _) \<Rightarrow> False | Sdk (ConnectCode _) \<Rightarrow> False | _ \<Rightarrow> True)"

lemma plain_out_simps [simp]:
  "plain_out (Reply i c b)" "plain_out (SseWrite c v)" "plain_out (SseComment c)" "plain_out (WsError w m)"
  "plain_out (WsData w bs)" "plain_out (WsClose w)" "plain_out (WsRefuse w)" "plain_out (Spawn ff args)"
  "plain_out (Kill ff)" "plain_out (SaveFile sn bs)" "plain_out (SaveSchedule s)" "plain_out (Sdk ConnectPlain)"
  "plain_out (Sdk (StartLive sn))" "plain_out (Sdk (StopLive sn))" "plain_out (Sdk GetDevices)"
  "plain_out (Sdk GetStations)" "plain_out (Sdk (GetDevice sn))"
  by (simp_all add: plain_out_def)

lemma plain_simps [simp]:
  "plain_task (StartStopping sn w)" "plain_task (StartConnecting sn w)" "plain_task (StartStarting sn w)"
  "plain_task (SubmitWait i)" "plain_task (CamerasWait i)" "plain_task (BatteryWait sn)"
  "plain_task (DebugDevices i)" "plain_task (DebugStations i ds)"
  "plain_timer LoginFail" "plain_timer (CaptureWatchdog ff)" "plain_timer (SubmitDelay i)" "plain_timer (Heartbeat i)"
  by (simp_all add: plain_task_def plain_timer_def)

lemmas session_ends = stopSession_def session_failed_def Let_def

locale plain_steps =
  fixes Q :: "est \<Rightarrow> bool"
  assumes p_emit: "Q e \<Longrightarrow> plain_out x \<Longrightarrow> Q (emit x e)"
    and p_broadcast: "Q e \<Longrightarrow> Q (broadcastEvent v e)"
    and q_task: "Q e \<Longrightarrow> plain_task t \<Longrightarrow> Q (add_task t e)"
    and q_next: "Q e \<Longrightarrow> Q (e\<lparr>next_id := Suc (next_id e)\<rparr>)"
    and q_opens: "Q e \<Longrightarrow> Q (e\<lparr>sessions := (sessions e)(sn \<mapsto> se)\<rparr>)"
    and q_stops: "Q e \<Longrightarrow> Q (stopSession sn e)"
    and q_cache: "Q e \<Longrightarrow> Q (e\<lparr>snapshotCache := snc\<rparr>)"
    and q_streams: "Q e \<Longrightarrow> Q (e\<lparr>streams := st\<rparr>)"
    and q_ws: "Q e \<Longrightarrow> Q (e\<lparr>ws_sn := wm\<rparr>)"
    and q_open: "Q e \<Longrightarrow> Q (e\<lparr>open_ws := ow\<rparr>)"
    and q_sse: "Q e \<Longrightarrow> Q (e\<lparr>sseClients := sseClients e @ cs\<rparr>)"
    and q_now: "Q e \<Longrightarrow> Q (e\<lparr>e_now := tm\<rparr>)"
    and q_login: "Q e \<Longrightarrow> Q (e\<lparr>loginFailTimer := lt\<rparr>)"
    and q_clear: "Q e \<Longrightarrow> Q (clear_timer k e)"
    and q_set: "Q e \<Longrightarrow> plain_timer t' \<Longrightarrow> Q (snd (set_timer t' e))"
    and q_chunks: "Q e \<Longrightarrow> captures e ff = Some c \<Longrightarrow> Q (e\<lparr>captures := (captures e)(ff \<mapsto> c\<lparr>ca_chunks := bs\<rparr>)\<rparr>)"
begin

lemma p_json: "Q e \<Longrightarrow> Q (eufy_sendJson i code v e)"
  by (simp add: eufy_sendJson_def p_emit)

lemma p_error: "Q e \<Longrightarrow> Q (server_error i err e)"
  by (simp add: server_error_def p_json)

lemmas p_basic = p_emit p_json p_broadcast p_error q_task q_opens q_stops q_cache q_streams q_ws q_open q_sse q_now
  q_clear q_set q_next q_login

lemma p_reply: "Q e \<Longrightarrow> Q (reply_snapshot r w e)"
  by (cases "(r, w, e)" rule: reply_snapshot.cases) (simp_all add: p_basic)

lemma p_fold: "(\<And>x e. Q e \<Longrightarrow> Q (f x e)) \<Longrightarrow> Q e \<Longrightarrow> Q (fold f xs e)"
  by (induction xs arbitrary: e) simp_all

lemma p_save: "Q e \<Longrightarrow> Q (saveSnapshot sn b e)"
  by (auto simp: saveSnapshot_def broadcastBattery_def Let_def intro!: p_basic)

lemma p_ffmpeg: "Q e \<Longrightarrow> Q (startFfmpeg cn s md a e)"
proof -
  assume "Q e"
  then have "Q (e\<lparr>next_id := Suc (next_id e)\<rparr>)" by (rule q_next)
  from q_opens [OF this] have "Q (e\<lparr>next_id := Suc (next_id e), sessions := (sessions e)(a \<mapsto> b)\<rparr>)" for a b by simp
  then have "Q (e\<lparr>next_id := Suc (next_id e), sessions := (sessions e)(a \<mapsto> b)\<rparr>\<lparr>streams := y\<rparr>)" for a b y by (rule q_streams)
  then show ?thesis by (simp add: startFfmpeg_def Let_def p_emit)
qed

lemma p_create: "Q e \<Longrightarrow> Q (session_create sn w e)"
  by (auto simp: session_create_def intro!: p_basic)

lemma p_start: "Q e \<Longrightarrow> Q (startSession sn w e)"
  by (auto simp: startSession_def intro!: p_basic p_create)

lemma p_session:
  "Q e \<Longrightarrow> (\<And>err. res = Failed err \<Longrightarrow> Q (session_failed sn w err e)) \<Longrightarrow> Q (session_connected sn w res e)"
  "Q e \<Longrightarrow> (\<And>err. res = Failed err \<Longrightarrow> Q (session_failed sn w err e)) \<Longrightarrow> Q (session_started sn w res e)"
  by (auto simp: session_connected_def session_started_def intro!: p_basic split: outcome.split)

lemma p_upgrade: "Q e \<Longrightarrow> Q (on_upgrade w path v e)"
proof -
  assume "Q e"
  then have "Q (e\<lparr>open_ws := x\<rparr>\<lparr>ws_sn := y\<rparr>)" for x y by (intro p_basic)
  then show ?thesis using \<open>Q e\<close> by (auto simp: on_upgrade_def intro!: p_basic p_start)
qed

lemma p_socket: "Q e \<Longrightarrow> Q (on_ws_close w e)"
  by (auto simp: on_ws_close_def Let_def intro!: p_basic split: option.split)

lemma p_data: "Q e \<Longrightarrow> Q (on_ffmpeg_data ff chunk e)"
  by (auto simp: on_ffmpeg_data_def intro!: p_basic q_chunks split: option.split)

lemma p_devices:
  "Q e \<Longrightarrow> Q (on_device_added d e)" "Q e \<Longrightarrow> Q (on_device_property d name b e)"
  "Q e \<Longrightarrow> Q (on_person_detected d v e)" "Q e \<Longrightarrow> Q (battery_found sn res e)"
  by (auto simp: on_device_added_def on_device_property_def on_person_detected_def battery_found_def
      intro!: p_basic p_save split: option.split outcome.split)

lemma p_waits:
  "Q e \<Longrightarrow> Q (cameras_found serials i res e)" "Q e \<Longrightarrow> Q (debug_found i res e)"
  "Q e \<Longrightarrow> Q (stations_found i ds res e)" "Q e \<Longrightarrow> Q (submitted i res e)"
  by (auto simp: cameras_found_def debug_found_def stations_found_def submitted_def submit_result_def
      intro!: p_basic split: option.split outcome.split)

lemma p_subscribe: "Q e \<Longrightarrow> Q (route_events i e)"
proof -
  assume q: "Q e"
  have "Q (snd (set_timer (Heartbeat i) (emit (SseComment i) (emit (Reply i 200 EventStream) e))))"
    using q by (intro p_basic plain_simps plain_out_simps)
  then show "Q (route_events i e)" by (simp add: route_events_def Let_def case_prod_beta q_sse)
qed

lemma p_arm: "Q e \<Longrightarrow> Q (armLoginFailTimer e)"
proof -
  assume "Q e"
  then have "Q (snd (set_timer LoginFail (clear_timer (loginFailTimer e) e)))" by (intro p_basic plain_simps)
  then show ?thesis by (simp add: armLoginFailTimer_def Let_def case_prod_beta q_login)
qed

end

locale snapshot_steps = plain_steps +
  assumes q_promises: "Q e \<Longrightarrow> Q (e\<lparr>promises := pm\<rparr>)"
    and q_pending: "Q e \<Longrightarrow> Q (e\<lparr>pendingSnapshots := ps\<rparr>)"
    and q_captures: "Q e \<Longrightarrow> Q (e\<lparr>captures := cm\<rparr>)"
    and q_timeout: "Q e \<Longrightarrow> Q (snd (set_timer (SnapshotTimeout sn pid) e))"
    and q_refresh: "Q e \<Longrightarrow> Q (add_task (RefreshStarting w sn pid k) e)"
begin

lemmas s_basic = p_basic q_promises q_pending q_captures q_timeout q_refresh

lemma s_settle: "Q e \<Longrightarrow> Q (settle pid r e)"
  by (auto simp: settle_def intro!: s_basic p_fold p_reply split: option.split)

lemma s_await: "Q e \<Longrightarrow> Q (await_promise w pid e)"
  by (auto simp: await_promise_def intro!: s_basic p_reply split: option.split)

lemma s_refresh: "Q e \<Longrightarrow> Q (refreshSnapshot w e)"
proof -
  assume q: "Q e"
  let ?e1 = "e\<lparr>promises := (promises e)(next_id e \<mapsto> \<lparr>pr_result = None, pr_waiters = []\<rparr>), next_id := next_id e + 1\<rparr>"
  have "Q (e\<lparr>promises := (promises e)(next_id e \<mapsto> \<lparr>pr_result = None, pr_waiters = []\<rparr>)\<rparr>)" using q by (intro s_basic)
  from q_next [OF this] have "Q ?e1" by simp
  then have "Q (snd (set_timer (SnapshotTimeout (requester_sn w) (next_id e)) ?e1))" by (rule q_timeout)
  then show ?thesis using q
    by (auto simp: refreshSnapshot_def Let_def case_prod_beta intro!: s_basic p_reply s_await split: option.split)
qed

lemma s_started: "Q e \<Longrightarrow> Q (refresh_started w sn pid k res e)"
  by (auto simp: refresh_started_def Let_def intro!: s_basic s_await p_reply split: outcome.split)

lemma s_timeout: "Q e \<Longrightarrow> Q (snapshot_timeout sn pid e)"
  by (auto simp: snapshot_timeout_def Let_def intro!: s_basic s_settle)

lemma s_capture: "Q e \<Longrightarrow> Q (captureSnapshotFromStream sn p md e)"
proof -
  assume "Q e"
  then have "Q (e\<lparr>next_id := Suc (next_id e)\<rparr>\<lparr>captures := cm\<rparr>)" for cm by (intro s_basic)
  then show ?thesis by (simp add: captureSnapshotFromStream_def Let_def q_set p_emit)
qed

lemma s_finish: "Q e \<Longrightarrow> Q (capture_finish ff err e)"
  by (auto simp: capture_finish_def Let_def intro!: s_basic s_settle p_save split: option.split prod.split)

lemma s_livestream: "Q e \<Longrightarrow> Q (on_livestream_start cn sn md a e)"
  by (auto simp: on_livestream_start_def intro!: s_basic s_capture p_ffmpeg split: option.split)

lemma s_auto: "Q e \<Longrightarrow> Q (auto_snap_fires sn e)"
  by (simp add: auto_snap_fires_def s_refresh)

end

locale schedule_steps = snapshot_steps +
  assumes q_minutes: "Q e \<Longrightarrow> Q (e\<lparr>autoSnapMinutes := ms\<rparr>)"
    and q_schedule: "Q e \<Longrightarrow> Q (e\<lparr>autoSnapTimers := am\<rparr>)"
    and q_interval: "Q e \<Longrightarrow> Q (snd (set_timer (AutoSnapInterval sn per) e))"
    and q_failed: "Q e \<Longrightarrow> Q (session_failed sn w err e)"
begin

lemma s_task: "Q e \<Longrightarrow> Q (finish_task serials t res e)"
  by (cases t) (simp_all add: finish_task_def s_started p_create p_session q_failed p_waits p_devices)

lemma c_clear: "Q e \<Longrightarrow> Q (clearAutoSnapTimer sn e)"
  by (simp add: clearAutoSnapTimer_def Let_def q_schedule q_clear)

lemma c_schedule: "Q e \<Longrightarrow> Q (scheduleAutoSnap sn e)"
proof -
  assume q: "Q e"
  have "Q (snd (set_timer (AutoSnapInterval sn per) (clearAutoSnapTimer sn e)))" for per
    using q by (intro q_interval c_clear)
  then show ?thesis using q
    by (simp add: scheduleAutoSnap_def Let_def case_prod_beta c_clear q_schedule split: option.split)
qed

lemma c_set: "Q e \<Longrightarrow> setAutoSnap sn n e = Inr e1 \<Longrightarrow> Q e1"
  by (auto simp: setAutoSnap_def persistAutoSnapConfig_def intro!: s_basic c_clear c_schedule q_minutes split: if_splits)

lemma c_all: "Q e \<Longrightarrow> Q (startAllAutoSnapTimers e)"
  by (simp add: startAllAutoSnapTimers_def p_fold c_schedule)

lemma c_load: "Q e \<Longrightarrow> Q (loadAutoSnapConfig c e)"
  by (auto simp: loadAutoSnapConfig_def intro: q_minutes split: option.split)

end

text \<open>
  A property that the fields of the login, the open awaits and all outputs leave alone and that the
  schedule and the snapshots keep is kept by every step but the end of an event stream and a video session
  that cannot start: what is left are the handlers of the login and the routes, which only choose between
  them. \<open>client_steps\<close> adds the session that fails and \<open>server_steps\<close> the removal of a client.
\<close>

definition start_fails :: "event \<Rightarrow> est \<Rightarrow> string \<Rightarrow> bool" where
  "start_fails ev e sn =
     (\<exists>i err w. ev = AwaitEnds i (Failed err) \<and> tasks e i \<in> {Some (StartConnecting sn w), Some (StartStarting sn w)})"

locale open_steps = plain_steps +
  assumes k_emit: "Q e \<Longrightarrow> Q (emit x e)"
    and k_status: "Q e \<Longrightarrow> Q (e\<lparr>a_status := as\<rparr>)"
    and k_message: "Q e \<Longrightarrow> Q (e\<lparr>a_message := am\<rparr>)"
    and k_captchaId: "Q e \<Longrightarrow> Q (e\<lparr>a_captchaId := ai\<rparr>)"
    and k_captchaImage: "Q e \<Longrightarrow> Q (e\<lparr>a_captchaImage := aim\<rparr>)"
    and k_connected: "Q e \<Longrightarrow> Q (e\<lparr>connected := cb\<rparr>)"
    and k_tasks: "Q e \<Longrightarrow> Q (e\<lparr>tasks := ts\<rparr>)"
    and k_schedule: "Q e \<Longrightarrow> Q (scheduleAutoSnap sn e)"
    and k_set: "Q e \<Longrightarrow> setAutoSnap sn n e = Inr e1 \<Longrightarrow> Q e1"
    and k_refresh: "Q e \<Longrightarrow> Q (refreshSnapshot w e)"
    and k_started: "Q e \<Longrightarrow> Q (refresh_started w sn pid k res e)"
    and k_timeout: "Q e \<Longrightarrow> timers e j = Some (SnapshotTimeout sn pid) \<Longrightarrow>
      Q (snapshot_timeout sn pid (clear_timer (Some j) e))"
    and k_livestream: "Q e \<Longrightarrow> Q (on_livestream_start codecNone sn md audio e)"
    and k_finish: "Q e \<Longrightarrow> Q (capture_finish ff err e)"
begin

lemmas k_basic = k_emit k_status k_message k_captchaId k_captchaImage k_connected k_tasks p_json q_clear q_task q_set p_arm

lemma h_login:
  assumes "Q e"
  shows "Q (on_tfa_request e)" "Q (on_captcha_request cid cv e)" "Q (on_connect e)" "Q (on_close e)"
    "Q (login_fail_fires e)" "Q (submitAuthCode i code e)"
  using assms
  by (auto simp: on_tfa_request_def on_captcha_request_def on_close_def on_connect_def login_fail_fires_def
      submitAuthCode_def submit_result_def startAllAutoSnapTimers_def Let_def
      intro!: k_basic p_fold k_schedule split: auth_status.split)

lemma h_await:
  assumes "Q e" "\<And>sn w err. t \<in> {StartConnecting sn w, StartStarting sn w} \<Longrightarrow> res = Failed err \<Longrightarrow>
    Q (session_failed sn w err (e\<lparr>tasks := ts\<rparr>))"
  shows "Q (finish_task serials t res (e\<lparr>tasks := ts\<rparr>))"
  using assms by (cases t) (simp_all add: finish_task_def k_tasks k_started p_create p_session p_waits p_devices)

lemma h_fire: "Q e \<Longrightarrow> timers e j = Some tr \<Longrightarrow> Q (fire_timer j tr e)"
  by (cases tr) (auto simp: fire_timer_def auto_snap_fires_def
      intro!: h_login k_timeout k_refresh k_finish k_basic)

lemma h_guarded: "Q e \<Longrightarrow> (\<And>e1. r = Inr e1 \<Longrightarrow> Q e1) \<Longrightarrow> Q (guarded i e r)"
  by (auto simp: guarded_def intro!: p_error split: sum.split)

lemma h_http:
  assumes ok: "Q e"
  shows "Q (eufy_http i rq e)"
proof -
  note json = p_json [OF ok]
  have submit: "Q (guarded i e (route_submit i b e))" for b using ok
    by (intro h_guarded) (auto simp: route_submit_def bindR_def json h_login split: sum.splits if_splits)
  have snap: "Q (guarded i e (route_snapshot i seg e))" "Q (guarded i e (route_refresh i seg e))" for seg
    using ok
    by (intro h_guarded; auto simp: route_snapshot_def route_refresh_def bindR_def json
        intro!: k_refresh k_emit split: sum.splits option.splits)+
  have change: "Q (guarded i e (route_autosnap_set i seg b e))" for seg b
    using ok
    by (intro h_guarded) (auto simp: route_autosnap_set_def bindR_def json intro!: p_json intro: k_set
        split: sum.splits option.splits if_splits)
  have wait: "Q (route_debug i e)" "Q (route_cameras i e)" using ok
    by (auto simp: route_debug_def route_cameras_def json intro!: q_task k_emit)
  show ?thesis unfolding eufy_http_def Let_def
    by (auto simp: ok json submit snap change wait route_autosnap_def intro!: p_subscribe k_emit)
qed

lemma h_open:
  assumes "Q e" "\<And>i. ev \<noteq> SseClosed i" "\<And>sn. \<not> start_fails ev e sn" "eufy_step codecNone serials ev e = Some e'"
  shows "Q e'"
proof (cases ev)
  case (AwaitEnds i res)
  with assms show ?thesis by (auto simp: eufy_step_def start_fails_def intro!: h_await split: option.splits)
qed (use assms in \<open>auto simp: eufy_step_def intro!: h_http h_fire h_login k_livestream k_finish
  p_upgrade p_socket p_devices p_data q_now split: option.splits\<close>)

end

locale client_steps = open_steps +
  assumes k_failed: "Q e \<Longrightarrow> Q (session_failed sn w err e)"
begin

lemma h_client:
  assumes "Q e" "\<And>i. ev \<noteq> SseClosed i" "eufy_step codecNone serials ev e = Some e'"
  shows "Q e'"
proof (cases "\<exists>i res. ev = AwaitEnds i res")
  case True
  with assms show ?thesis by (auto simp: eufy_step_def intro!: h_await k_failed k_tasks split: option.splits)
next
  case False
  then have "\<not> start_fails ev e sn" for sn by (auto simp: start_fails_def)
  from h_open [OF assms(1,2) this assms(3)] show ?thesis .
qed

end

locale server_steps = client_steps +
  assumes k_sse: "Q e \<Longrightarrow> Q (e\<lparr>sseClients := filter f (sseClients e)\<rparr>)"
begin

lemma h_step: "Q e \<Longrightarrow> eufy_step codecNone serials ev e = Some e' \<Longrightarrow> Q e'"
proof (cases "\<exists>i. ev = SseClosed i")
  case True
  assume "Q e" "eufy_step codecNone serials ev e = Some e'"
  moreover have "sseClients (clear_timer k e) = sseClients e" for k by (simp add: clear_timer_def split: option.split)
  moreover from this \<open>Q e\<close> have "Q ((clear_timer k e)\<lparr>sseClients := filter f (sseClients e)\<rparr>)" for k f
    using k_sse [OF q_clear] by metis
  ultimately show ?thesis using True by (auto simp: eufy_step_def on_sse_close_def)
qed (use h_client in blast)

end

sublocale server_steps \<subseteq> step_invariant "eufy_step codecNone serials" Q for codecNone serials
  by unfold_locales (rule h_step)

section \<open>The viewer's outputs only grow\<close>

interpretation grows: schedule_steps "\<lambda>e. prefix xs (outs e)" for xs
  by unfold_locales
    (auto simp: emit_def broadcastEvent_def add_task_def clear_timer_def set_timer_def session_ends split: option.split)

interpretation grows_server: server_steps "\<lambda>e. prefix xs (outs e)" for xs
  by unfold_locales
    (auto simp: emit_def session_ends intro: grows.c_set
      intro!: grows.c_schedule grows.s_refresh grows.s_started grows.s_timeout grows.q_clear grows.s_livestream grows.s_finish)

lemma outs_grow: "eufy_step cn serials ev e = Some e' \<Longrightarrow> prefix (outs e) (outs e')"
  by (rule grows_server.h_step [OF prefix_order.refl])

end
