(* ===== verification/EufyProps.thy ===== *)
theory EufyProps
  imports EufyFrames
begin

text \<open>
  The login of the Eufy viewer process: an abstract dialogue of challenges and answers, the refinement of
  it by every step of the process, and what follows for the answers that reach the SDK.
\<close>

section \<open>The login dialogue\<close>

text \<open>
  What the dialogue is about: whether the cloud is connected, the status and the pending captcha that
  the page shows, the ids of the captchas answered so far and the number of answered codes.
\<close>

definition captcha_answers :: "effect list \<Rightarrow> jsval list" where
  "captcha_answers xs = concat (map (\<lambda>x. case x of Sdk (ConnectCaptcha cid _) \<Rightarrow> [cid] | _ \<Rightarrow> []) xs)"

definition code_answers :: "effect list \<Rightarrow> nat" where
  "code_answers xs = length (concat (map (\<lambda>x. case x of Sdk (ConnectCode c) \<Rightarrow> [c] | _ \<Rightarrow> []) xs))"

record login_view =
  v_connected :: bool
  v_status :: auth_status
  v_id :: jsval
  v_image :: jsval
  v_answers :: "jsval list"
  v_codes :: nat

definition login_of :: "est \<Rightarrow> login_view" where
  "login_of e = \<lparr>v_connected = connected e, v_status = a_status e, v_id = a_captchaId e, v_image = a_captchaImage e,
     v_answers = captcha_answers (outs e), v_codes = code_answers (outs e)\<rparr>"

lemma answers_append [simp]:
  "captcha_answers (xs @ ys) = captcha_answers xs @ captcha_answers ys"
  "code_answers (xs @ ys) = code_answers xs + code_answers ys"
  by (simp_all add: captcha_answers_def code_answers_def)

lemma answers_failed: "captcha_answers [WsError w m, WsClose w] = []" "code_answers [WsError w m, WsClose w] = 0"
  by (simp_all add: captcha_answers_def code_answers_def)

lemma answers_plain: "plain_out x \<Longrightarrow> captcha_answers [x] = [] \<and> code_answers [x] = 0"
  by (auto simp: captcha_answers_def code_answers_def plain_out_def split: effect.splits sdk_call.splits)

lemma answers_sse: "captcha_answers (map (\<lambda>(c, _). SseWrite c v) l) = []" "code_answers (map (\<lambda>(c, _). SseWrite c v) l) = 0"
  by (induction l) (auto simp: captcha_answers_def code_answers_def)

interpretation login: schedule_steps "\<lambda>e. login_of e = v" for v
  by unfold_locales
    (auto simp: login_of_def emit_def broadcastEvent_def add_task_def clear_timer_def set_timer_def session_ends
      answers_plain answers_sse answers_failed split: option.split)

text \<open>
  The dialogue as an abstract machine, labelled with the event: challenges replace each other, an
  answer goes to the challenge that is shown and ends it, the cloud connects and closes, and an attempt
  without any reaction is given up.
\<close>

inductive dialogue :: "event \<Rightarrow> login_view \<Rightarrow> login_view \<Rightarrow> bool" where
  captcha: "prefix ''data:'' im \<Longrightarrow>
    dialogue (CaptchaRequest cid c) v (v\<lparr>v_status := Captcha, v_id := cid, v_image := JStr im\<rparr>)"
| tfa: "dialogue TfaRequest v (v\<lparr>v_status := Tfa\<rparr>)"
| answer: "v_status v = Captcha \<Longrightarrow>
    dialogue (HttpReq i rq) v (v\<lparr>v_status := Connecting, v_answers := v_answers v @ [v_id v]\<rparr>)"
| code: "v_status v = Tfa \<Longrightarrow>
    dialogue (HttpReq i rq) v (v\<lparr>v_status := Connecting, v_codes := v_codes v + 1\<rparr>)"
| connect: "dialogue CloudConnect v (v\<lparr>v_connected := True, v_status := Connected, v_image := JNull\<rparr>)"
| close: "dialogue CloudClose v
    (v\<lparr>v_connected := False, v_status := (if v_status v = Connected then Connecting else v_status v)\<rparr>)"
| give_up: "\<not> v_connected v \<Longrightarrow> v_status v = Connecting \<Longrightarrow> dialogue (TimerFires i) v (v\<lparr>v_status := AuthError\<rparr>)"

inductive_cases dialogue_captcha: "dialogue (CaptchaRequest cid c) v v'"
inductive_cases dialogue_tfa: "dialogue TfaRequest v v'"
inductive_cases dialogue_request: "dialogue (HttpReq i rq) v v'"

text \<open>The events of the SDK that always are a move of the dialogue.\<close>

definition cloud_event :: "event \<Rightarrow> bool" where
  "cloud_event ev = (case ev of CaptchaRequest _ _ \<Rightarrow> True | TfaRequest \<Rightarrow> True | CloudConnect \<Rightarrow> True
     | CloudClose \<Rightarrow> True | _ \<Rightarrow> False)"

lemma captcha_data_uri: "prefix ''data:'' (normalizeCaptcha c)"
  by (simp add: normalizeCaptcha_def Let_def)

lemma login_arm: "login_of (armLoginFailTimer e) = login_of e"
  by (rule login.p_arm) simp

lemma submit_moves:
  "login_of (submitAuthCode i code e) = login_of e \<or>
   dialogue (HttpReq i rq) (login_of e) (login_of (submitAuthCode i code e))"
proof (cases "code = '''' \<or> a_status e \<notin> {Captcha, Tfa}")
  case True
  then have "login_of (submitAuthCode i code e) = login_of e"
    by (auto simp: submitAuthCode_def submit_result_def intro!: login.p_basic split: auth_status.split)
  then show ?thesis ..
next
  case False
  let ?e1 = "\<lambda>m. armLoginFailTimer (e\<lparr>a_status := Connecting, a_message := m\<rparr>)"
  have view: "login_of (add_task t (emit x (?e1 m))) = (login_of e)\<lparr>v_status := Connecting,
      v_answers := v_answers (login_of e) @ captcha_answers [x], v_codes := v_codes (login_of e) + code_answers [x]\<rparr>" for t x m
  proof -
    have "login_of (emit x s) = (login_of s)\<lparr>v_answers := v_answers (login_of s) @ captcha_answers [x],
        v_codes := v_codes (login_of s) + code_answers [x]\<rparr>" for s
      by (simp add: login_of_def emit_def)
    moreover have "login_of (e\<lparr>a_status := Connecting, a_message := m\<rparr>) = (login_of e)\<lparr>v_status := Connecting\<rparr>"
      by (simp add: login_of_def)
    moreover have "login_of (add_task t s) = login_of s" for s by (simp add: login_of_def add_task_def)
    ultimately show ?thesis by (simp add: login_arm)
  qed
  consider "a_status e = Captcha" | "a_status e = Tfa" using False by auto
  then show ?thesis
  proof cases
    case 1
    then have "login_of (submitAuthCode i code e)
        = (login_of e)\<lparr>v_status := Connecting, v_answers := v_answers (login_of e) @ [v_id (login_of e)]\<rparr>"
      using False by (simp add: submitAuthCode_def Let_def view captcha_answers_def code_answers_def)
        (simp add: login_of_def)
    then show ?thesis using dialogue.answer [of "login_of e" i rq] 1 by (simp add: login_of_def)
  next
    case 2
    then have "login_of (submitAuthCode i code e)
        = (login_of e)\<lparr>v_status := Connecting, v_codes := v_codes (login_of e) + 1\<rparr>"
      using False by (simp add: submitAuthCode_def Let_def view captcha_answers_def code_answers_def)
    then show ?thesis using dialogue.code [of "login_of e" i rq] 2 by (simp add: login_of_def)
  qed
qed

lemma login_guarded:
  "(\<And>e1. r = Inr e1 \<Longrightarrow> login_of e1 = login_of e) \<Longrightarrow> login_of (guarded i e r) = login_of e"
  by (auto simp: guarded_def intro!: login.p_error split: sum.split)

lemma login_json: "login_of (eufy_sendJson i c v e) = login_of e"
  by (rule login.p_json) simp

lemma submit_route_moves:
  "login_of (guarded i e (route_submit i b e)) = login_of e \<or>
   dialogue (HttpReq i rq) (login_of e) (login_of (guarded i e (route_submit i b e)))"
proof (cases "route_submit i b e")
  case (Inl err)
  then show ?thesis by (simp add: guarded_def server_error_def login_json)
next
  case (Inr e1)
  then obtain code where "e1 = eufy_sendJson i 400 [(''error'', JStr ''Missing code'')] e \<or> e1 = submitAuthCode i code e"
    by (auto simp: route_submit_def bindR_def split: sum.splits if_splits)
  then show ?thesis using submit_moves [of i code e rq] Inr by (auto simp: guarded_def login_json)
qed

lemma login_autosnap: "route_autosnap_set i seg b e = Inr e1 \<Longrightarrow> login_of e1 = login_of e"
  by (auto simp: route_autosnap_set_def bindR_def login_json dest: login.c_set [where v = "login_of e", OF refl]
      split: sum.splits option.splits if_splits)

lemma http_moves:
  "login_of (eufy_http i rq e) = login_of e \<or> dialogue (HttpReq i rq) (login_of e) (login_of (eufy_http i rq e))"
proof -
  have page: "login_of (emit (Reply i 200 Page) e) = login_of e" by (rule login.p_emit) simp_all
  have ev: "login_of (route_events i e) = login_of e" by (rule login.p_subscribe) simp
  have wait: "login_of (route_debug i e) = login_of e" "login_of (route_cameras i e) = login_of e"
    by (auto simp: route_debug_def route_cameras_def login_json intro!: login.p_basic)
  have snap: "login_of (guarded i e (route_snapshot i seg e)) = login_of e"
    "login_of (guarded i e (route_refresh i seg e)) = login_of e" for seg
    by (rule login_guarded, auto simp: route_snapshot_def route_refresh_def bindR_def login_json
        intro!: login.p_emit login.s_refresh split: sum.splits option.splits)+
  have auto1: "login_of (guarded i e (route_autosnap_set i seg b e)) = login_of e" for seg b
    by (rule login_guarded) (rule login_autosnap)
  show ?thesis
    unfolding eufy_http_def Let_def
    using submit_route_moves [of i e "h_body rq" rq]
    by (auto simp: page ev wait snap auto1 login_json route_autosnap_def)
qed

lemma step_dialogue:
  assumes "eufy_step codecNone serials ev e = Some e'"
  shows "\<not> cloud_event ev \<and> login_of e' = login_of e \<or> dialogue ev (login_of e) (login_of e')"
proof (cases ev)
  case (HttpReq i rq)
  then show ?thesis using assms http_moves [of i rq e] by (auto simp: eufy_step_def cloud_event_def)
next
  case TfaRequest
  then have e': "e' = on_tfa_request e" using assms by (simp add: eufy_step_def)
  have "login_of e' = (login_of e)\<lparr>v_status := Tfa\<rparr>"
    by (simp add: e' on_tfa_request_def login_of_def clear_timer_def split: option.split)
  with TfaRequest dialogue.tfa show ?thesis by simp
next
  case (CaptchaRequest cid c)
  then have e': "e' = on_captcha_request cid c e" using assms by (simp add: eufy_step_def)
  have "login_of e' = (login_of e)\<lparr>v_status := Captcha, v_id := cid, v_image := JStr (normalizeCaptcha c)\<rparr>"
    by (simp add: e' on_captcha_request_def login_of_def clear_timer_def split: option.split)
  with CaptchaRequest dialogue.captcha [OF captcha_data_uri] show ?thesis by simp
next
  case CloudConnect
  then have e': "e' = on_connect e" using assms by (simp add: eufy_step_def)
  let ?e1 = "(clear_timer (loginFailTimer e) (e\<lparr>connected := True\<rparr>))\<lparr>a_status := Connected, a_message := ''Connected.'', a_captchaImage := JNull\<rparr>"
  have "login_of e' = login_of ?e1" unfolding e' on_connect_def Let_def by (rule login.c_all) simp
  also have "\<dots> = (login_of e)\<lparr>v_connected := True, v_status := Connected, v_image := JNull\<rparr>"
    by (simp add: login_of_def clear_timer_def split: option.split)
  finally show ?thesis using CloudConnect dialogue.connect by simp
next
  case CloudClose
  then have e': "e' = on_close e" using assms by (simp add: eufy_step_def)
  have "login_of e' = (login_of e)\<lparr>v_connected := False,
      v_status := (if v_status (login_of e) = Connected then Connecting else v_status (login_of e))\<rparr>"
    by (simp add: e' on_close_def login_of_def Let_def)
  with CloudClose dialogue.close show ?thesis by simp
next
  case (TimerFires i)
  then obtain t where t: "e' = fire_timer i t e" using assms by (auto simp: eufy_step_def split: option.splits)
  have clr: "login_of (clear_timer k e) = login_of e" for k by (rule login.q_clear) simp
  show ?thesis
  proof (cases t)
    case LoginFail
    with t have e': "e' = login_fail_fires (clear_timer (Some i) e)" by (simp add: fire_timer_def)
    show ?thesis
    proof (cases "\<not> connected e \<and> a_status e = Connecting")
      case True
      then have "login_of e' = (login_of e)\<lparr>v_status := AuthError\<rparr>"
        by (simp add: e' login_fail_fires_def clear_timer_def login_of_def)
      moreover have "dialogue ev (login_of e) ((login_of e)\<lparr>v_status := AuthError\<rparr>)"
        using True unfolding TimerFires by (intro dialogue.give_up) (simp_all add: login_of_def)
      ultimately show ?thesis by simp
    next
      case False
      then show ?thesis
        by (auto simp: e' login_fail_fires_def clear_timer_def login_of_def TimerFires cloud_event_def)
    qed
  next
    case (SnapshotTimeout sn pid)
    then show ?thesis using t TimerFires login.s_timeout [where v = "login_of e", OF clr]
      by (simp add: fire_timer_def cloud_event_def)
  next
    case (AutoSnapInterval sn ms)
    then show ?thesis using t TimerFires login.s_auto [where v = "login_of e", OF refl] by (simp add: fire_timer_def cloud_event_def)
  next
    case (CaptureWatchdog ff)
    then show ?thesis using t TimerFires login.s_finish [where v = "login_of e", OF clr]
      by (simp add: fire_timer_def cloud_event_def)
  next
    case (SubmitDelay j)
    then show ?thesis using t TimerFires clr by (simp add: fire_timer_def cloud_event_def login_json)
  next
    case (Heartbeat c)
    then show ?thesis using t TimerFires login.p_emit [where v = "login_of e", OF refl] by (simp add: fire_timer_def cloud_event_def)
  qed
next
  case (AwaitEnds i res)
  then obtain t where "e' = finish_task serials t res (e\<lparr>tasks := (tasks e)(i := None)\<rparr>)"
    using assms by (auto simp: eufy_step_def split: option.splits)
  moreover have "login_of (e\<lparr>tasks := (tasks e)(i := None)\<rparr>) = login_of e" by (simp add: login_of_def)
  ultimately show ?thesis
    using login.s_task [where v = "login_of e" and e = "e\<lparr>tasks := (tasks e)(i := None)\<rparr>"] AwaitEnds by (simp add: cloud_event_def)
next
  case (SseClosed i)
  have "login_of (x\<lparr>sseClients := cs\<rparr>) = login_of x" for x cs by (simp add: login_of_def)
  then show ?thesis using assms SseClosed login.q_clear [where v = "login_of e", OF refl]
    by (auto simp: eufy_step_def cloud_event_def on_sse_close_def)
qed (use assms in \<open>auto simp: eufy_step_def cloud_event_def
  intro: login.p_upgrade login.p_socket login.p_devices login.s_livestream login.p_data login.s_finish login.q_now\<close>)

text \<open>
  C9. The server implements the login dialogue. Every step of the process, whatever the event, either
  leaves the dialogue alone or is one of its moves; the four login events of the SDK always are. In
  particular an answer goes to the challenge that was received last and only while it is pending.
\<close>

theorem eufy_login_refines:
  assumes "eufy_step codecNone serials ev e = Some e'"
  shows "\<not> cloud_event ev \<and> login_of e' = login_of e \<or> dialogue ev (login_of e) (login_of e')"
  by (rule step_dialogue [OF assms])

lemma eufy_login_refines_witness:
  "\<exists>e'. eufy_step 0 '''' (CaptchaRequest (JStr ''c1'') (JStr ''QUJD'')) (eufy_init 0) = Some e' \<and>
    v_status (login_of e') = Captcha \<and> v_id (login_of e') = JStr ''c1''"
proof -
  have step: "eufy_step 0 '''' (CaptchaRequest (JStr ''c1'') (JStr ''QUJD'')) (eufy_init 0)
      = Some (on_captcha_request (JStr ''c1'') (JStr ''QUJD'') (eufy_init 0))"
    by (simp add: eufy_step_def)
  from eufy_login_refines [OF step] have "dialogue (CaptchaRequest (JStr ''c1'') (JStr ''QUJD'')) (login_of (eufy_init 0))
      (login_of (on_captcha_request (JStr ''c1'') (JStr ''QUJD'') (eufy_init 0)))"
    by (simp add: cloud_event_def)
  then show ?thesis unfolding step by (auto elim: dialogue_captcha)
qed

text \<open>What a run has been asked: the ids of its captchas, and the number of its code requests.\<close>

definition captcha_requests :: "event list \<Rightarrow> jsval list" where
  "captcha_requests evs = concat (map (\<lambda>ev. case ev of CaptchaRequest cid _ \<Rightarrow> [cid] | _ \<Rightarrow> []) evs)"

definition code_requests :: "event list \<Rightarrow> nat" where
  "code_requests evs = length (filter (\<lambda>ev. case ev of TfaRequest \<Rightarrow> True | _ \<Rightarrow> False) evs)"

lemma requests_append [simp]:
  "captcha_requests (a @ b) = captcha_requests a @ captcha_requests b" "code_requests (a @ b) = code_requests a + code_requests b"
  by (simp_all add: captcha_requests_def code_requests_def)

definition answered_ok :: "jsval list \<Rightarrow> nat \<Rightarrow> login_view \<Rightarrow> bool" where
  "answered_ok rs n v =
     (subseq (v_answers v @ (if v_status v = Captcha then [v_id v] else [])) rs \<and>
      v_codes v + (if v_status v = Tfa then 1 else 0) \<le> n \<and>
      (v_status v = Connected \<longrightarrow> v_connected v) \<and>
      (v_status v = Captcha \<longrightarrow> rs \<noteq> [] \<and> v_id v = last rs \<and> (\<exists>im. v_image v = JStr im \<and> prefix ''data:'' im)))"

lemma subseq_weaken: "subseq (a @ b) rs \<Longrightarrow> subseq a rs"
  by (meson prefixI subseq_order.dual_order.trans prefix_imp_subseq)

lemma dialogue_answered:
  assumes "dialogue ev v v'" "answered_ok rs n v"
  shows "answered_ok (rs @ captcha_requests [ev]) (n + code_requests [ev]) v'"
  using assms
proof (induction rule: dialogue.induct)
  case (captcha im cid c v)
  then have "subseq (v_answers v) rs" using subseq_weaken by (auto simp: answered_ok_def)
  with captcha show ?case by (auto simp: answered_ok_def captcha_requests_def code_requests_def split: if_splits)
next
  case (tfa v)
  then show ?case using subseq_weaken
    by (auto simp: answered_ok_def captcha_requests_def code_requests_def split: if_splits)
next
  case (connect v)
  then show ?case using subseq_weaken
    by (auto simp: answered_ok_def captcha_requests_def code_requests_def split: if_splits)
qed (auto simp: answered_ok_def captcha_requests_def code_requests_def split: if_splits)

text \<open>
  C8. Captchas are answered in order and once. In every run from the start of the process the ids that
  were answered are a subsequence of the ids that were received, there are no more code answers than
  code requests, the status is \<open>connected\<close> only while the cloud is, and while a captcha is pending the
  page shows the last one received, as a data URI.
\<close>

theorem captchas_answered_once:
  assumes "eufy_starts e" and "run (eufy_step codecNone serials) evs e = Some e'"
  shows "subseq (captcha_answers (outs e')) (captcha_requests evs) \<and> code_answers (outs e') \<le> code_requests evs \<and>
    (a_status e' = Connected \<longrightarrow> connected e') \<and>
    (a_status e' = Captcha \<longrightarrow> captcha_requests evs \<noteq> [] \<and> a_captchaId e' = last (captcha_requests evs) \<and>
      (\<exists>im. a_captchaImage e' = JStr im \<and> prefix ''data:'' im))"
proof -
  obtain user pass files schedule t0 where "eufy_main user pass files schedule t0 = Some e"
    using assms(1) by (auto simp: eufy_starts_def)
  then have "login_of e = login_of (eufy_init t0)"
    by (auto simp: eufy_main_def initEufy_def loadSnapshotsFromDisk_def
        intro!: login.p_emit login.p_arm login.c_load login.q_cache split: if_splits)
  moreover have "answered_ok [] 0 (login_of (eufy_init t0))"
    by (simp add: answered_ok_def login_of_def eufy_init_def captcha_answers_def code_answers_def)
  ultimately have first: "answered_ok [] 0 (login_of e)" by simp
  have ok: "answered_ok (captcha_requests evs) (code_requests evs) (login_of e')" using assms(2)
  proof (induction evs arbitrary: e' rule: rev_induct)
    case Nil
    with first show ?case by (simp add: captcha_requests_def code_requests_def)
  next
    case (snoc ev evs)
    then obtain e1 where e1: "run (eufy_step codecNone serials) evs e = Some e1" "eufy_step codecNone serials ev e1 = Some e'"
      by (auto simp: run_append split: option.splits)
    note ok = snoc.IH [OF e1(1)]
    from step_dialogue [OF e1(2)] show ?case
    proof
      assume same: "\<not> cloud_event ev \<and> login_of e' = login_of e1"
      then have "captcha_requests [ev] = []" "code_requests [ev] = 0"
        by (auto simp: captcha_requests_def code_requests_def cloud_event_def split: event.splits)
      with ok same show ?thesis by simp
    next
      assume "dialogue ev (login_of e1) (login_of e')"
      from dialogue_answered [OF this ok] show ?thesis by simp
    qed
  qed
  then have "subseq (v_answers (login_of e')) (captcha_requests evs)"
    unfolding answered_ok_def by (elim conjE) (rule subseq_weaken)
  with ok show ?thesis by (auto simp: answered_ok_def login_of_def split: if_splits)
qed

lemma captchas_answered_once_witness:
  "\<exists>e e'. eufy_starts e \<and> run (eufy_step 0 '''') [CaptchaRequest (JStr ''c1'') (JStr ''QUJD'')] e = Some e' \<and>
    a_captchaId e' = JStr ''c1''"
proof -
  obtain e where e: "eufy_main (JStr ''u'') (JStr ''p'') [] None 0 = Some e"
    by (simp add: eufy_main_def initEufy_def)
  then have start: "eufy_starts e" unfolding eufy_starts_def by blast
  let ?e' = "on_captcha_request (JStr ''c1'') (JStr ''QUJD'') e"
  have run: "run (eufy_step 0 '''') [CaptchaRequest (JStr ''c1'') (JStr ''QUJD'')] e = Some ?e'"
    by (simp add: eufy_step_def)
  have "a_status ?e' = Captcha" by (simp add: on_captcha_request_def)
  with captchas_answered_once [OF start run] have "a_captchaId ?e' = JStr ''c1''" by (simp add: captcha_requests_def)
  with start run show ?thesis by blast
qed

end
