(* ===== verification/EufySchedule.thy ===== *)
theory EufySchedule
  imports EufyFrames
begin

text \<open>
  The auto-snapshot schedule of the viewer process: its intervals are those of the current setting, and
  the file it writes is what a restart reads.
\<close>

section \<open>One interval for each camera\<close>

definition schedule_ok :: "(string \<times> int) list \<Rightarrow> bool" where
  "schedule_ok ms = (distinct (map fst ms) \<and> (\<forall>(sn, m) \<in> set ms. 1 \<le> m))"

lemma schedule_ok_map:
  "schedule_ok ms = (distinct (map fst ms) \<and> (\<forall>sn m. map_of ms sn = Some m \<longrightarrow> 1 \<le> m))"
  unfolding schedule_ok_def using map_of_SomeD map_of_is_SomeI by fastforce

lemma schedule_ok_delete: "schedule_ok ms \<Longrightarrow> schedule_ok (AList.delete sn ms)"
  by (auto simp: schedule_ok_map distinct_delete delete_conv' split: if_splits)

lemma schedule_ok_update: "schedule_ok ms \<Longrightarrow> 1 \<le> n \<Longrightarrow> schedule_ok (AList.update sn n ms)"
  by (auto simp: schedule_ok_map distinct_update update_conv' split: if_splits)

definition intervals_ok :: "string set \<Rightarrow> est \<Rightarrow> bool" where
  "intervals_ok S e = (\<forall>i sn ms. timers e i = Some (AutoSnapInterval sn ms) \<longrightarrow>
     autoSnapTimers e sn = Some i \<and>
     (sn \<notin> S \<longrightarrow> (\<exists>m. map_of (autoSnapMinutes e) sn = Some m \<and> ms = m * 60 * 1000)))"

definition ids_ok :: "est \<Rightarrow> bool" where
  "ids_ok e = (\<forall>a i. autoSnapTimers e a = Some i \<longrightarrow>
     i < next_id e \<and> (\<forall>b. autoSnapTimers e b = Some i \<longrightarrow> a = b))"

definition auto_ok :: "est \<Rightarrow> bool" where
  "auto_ok e = (schedule_ok (autoSnapMinutes e) \<and> intervals_ok {} e \<and> ids_ok e)"

interpretation auto: snapshot_steps auto_ok
  by unfold_locales
    (auto simp: auto_ok_def intervals_ok_def ids_ok_def less_Suc_eq emit_def broadcastEvent_def add_task_def clear_timer_def set_timer_def
      plain_timer_def session_ends split: option.splits if_splits)

lemma auto_auth:
  "auto_ok (e\<lparr>a_status := a\<rparr>) = auto_ok e" "auto_ok (e\<lparr>a_message := m\<rparr>) = auto_ok e"
  "auto_ok (e\<lparr>a_captchaId := v\<rparr>) = auto_ok e" "auto_ok (e\<lparr>a_captchaImage := w\<rparr>) = auto_ok e"
  "auto_ok (e\<lparr>connected := b\<rparr>) = auto_ok e" "auto_ok (e\<lparr>tasks := ts\<rparr>) = auto_ok e" "auto_ok (emit x e) = auto_ok e"
  "auto_ok (e\<lparr>sseClients := cs\<rparr>) = auto_ok e" "auto_ok (e\<lparr>sessions := ss\<rparr>) = auto_ok e"
  "auto_ok (e\<lparr>open_ws := ow\<rparr>) = auto_ok e"
  by (simp_all add: emit_def auto_ok_def intervals_ok_def ids_ok_def)

lemma clear_restores:
  assumes "schedule_ok (autoSnapMinutes e)" "intervals_ok {sn} e" "ids_ok e"
  shows "auto_ok (clearAutoSnapTimer sn e)"
    "timers (clearAutoSnapTimer sn e) i = Some (AutoSnapInterval sn' ms) \<Longrightarrow> sn' \<noteq> sn"
  using assms
  by (auto simp: auto_ok_def intervals_ok_def ids_ok_def clearAutoSnapTimer_def clear_timer_def split: option.splits if_splits)

lemma schedule_restores:
  assumes "schedule_ok (autoSnapMinutes e)" "intervals_ok {sn} e" "ids_ok e"
  shows "auto_ok (scheduleAutoSnap sn e)"
proof (cases "map_of (autoSnapMinutes e) sn")
  case None
  then show ?thesis using clear_restores(1) [OF assms]
    by (auto simp: scheduleAutoSnap_def Let_def clearAutoSnapTimer_def clear_timer_def split: option.splits)
next
  case (Some m)
  let ?e1 = "clearAutoSnapTimer sn e"
  have mins: "autoSnapMinutes ?e1 = autoSnapMinutes e"
    by (simp add: clearAutoSnapTimer_def clear_timer_def split: option.split)
  have "1 \<le> m" using assms(1) map_of_SomeD [OF Some] by (auto simp: schedule_ok_def)
  moreover have "auto_ok ((snd (set_timer (AutoSnapInterval sn (m * 60 * 1000)) ?e1))\<lparr>autoSnapTimers :=
      (autoSnapTimers (snd (set_timer (AutoSnapInterval sn (m * 60 * 1000)) ?e1)))(sn \<mapsto> next_id ?e1)\<rparr>)"
    using clear_restores [OF assms] Some mins
    by (auto simp: auto_ok_def intervals_ok_def ids_ok_def set_timer_def less_Suc_eq)
  ultimately show ?thesis using Some mins
    by (simp add: scheduleAutoSnap_def Let_def set_timer_def)
qed

lemma auto_set:
  assumes "auto_ok e" "setAutoSnap sn n e = Inr e1"
  shows "auto_ok e1"
proof -
  have sched: "schedule_ok (AList.delete sn (autoSnapMinutes e))"
    "1 \<le> n \<Longrightarrow> schedule_ok (AList.update sn n (autoSnapMinutes e))"
    using assms(1) by (auto simp: auto_ok_def schedule_ok_delete schedule_ok_update)
  have part: "intervals_ok {sn} (e\<lparr>autoSnapMinutes := AList.delete sn (autoSnapMinutes e)\<rparr>)"
    "intervals_ok {sn} (e\<lparr>autoSnapMinutes := AList.update sn n (autoSnapMinutes e)\<rparr>)"
    "ids_ok (e\<lparr>autoSnapMinutes := ms\<rparr>)" for ms
    using assms(1) by (auto simp: auto_ok_def intervals_ok_def ids_ok_def delete_conv' update_conv')
  show ?thesis
    using assms(2) sched part
    by (auto simp: setAutoSnap_def persistAutoSnapConfig_def ALLOWED_AUTOSNAP_MINUTES_def
        intro!: auto.p_emit clear_restores(1) schedule_restores split: if_splits)
qed


lemma auto_schedule: "auto_ok e \<Longrightarrow> auto_ok (scheduleAutoSnap sn e)"
  by (rule schedule_restores) (auto simp: auto_ok_def intervals_ok_def)

interpretation auto_server: server_steps auto_ok
  by unfold_locales (auto simp: auto_auth session_ends intro: auto_set
      intro!: auto_schedule auto.q_clear auto.s_refresh auto.s_started auto.s_timeout auto.s_livestream auto.s_finish)

lemma load_ok:
  assumes "schedule_ok ms"
  shows "schedule_ok (fold (\<lambda>(sn, v) ms. case js_number v of Some m \<Rightarrow> if 1 \<le> m then AList.update sn m ms else ms
    | None \<Rightarrow> ms) es ms)"
  using assms by (induction es arbitrary: ms) (auto simp: schedule_ok_update split: option.split)

lemma auto_start: "eufy_starts e \<Longrightarrow> auto_ok e"
proof -
  assume "eufy_starts e"
  then obtain files schedule t where
    "e = emit (Sdk ConnectPlain) (armLoginFailTimer (loadAutoSnapConfig schedule (loadSnapshotsFromDisk files (eufy_init t))))"
    by (auto simp: eufy_starts_def eufy_main_def initEufy_def split: if_splits)
  moreover have "schedule_ok (autoSnapMinutes (loadAutoSnapConfig schedule (loadSnapshotsFromDisk files (eufy_init t))))"
    by (simp add: loadAutoSnapConfig_def loadSnapshotsFromDisk_def eufy_init_def load_ok schedule_ok_def [of "[]"]
        split: option.split)
  then have "auto_ok (loadAutoSnapConfig schedule (loadSnapshotsFromDisk files (eufy_init t)))"
    by (simp add: auto_ok_def intervals_ok_def ids_ok_def loadAutoSnapConfig_def loadSnapshotsFromDisk_def eufy_init_def
        split: option.split)
  ultimately show ?thesis by (simp add: auto_auth auto.p_arm)
qed

interpretation auto_snap: invariant "eufy_step codecNone serials" auto_ok eufy_starts for codecNone serials
  by unfold_locales (rule auto_start)

text \<open>The interval of a camera with a period in minutes.\<close>

definition interval_at :: "string \<Rightarrow> int \<Rightarrow> nat \<Rightarrow> est \<Rightarrow> bool" where
  "interval_at sn m i e = (autoSnapTimers e sn = Some i \<and> timers e i = Some (AutoSnapInterval sn (m * 60 * 1000)))"

lemma schedule_minutes [simp]:
  "autoSnapMinutes (clearAutoSnapTimer sn e) = autoSnapMinutes e" "autoSnapMinutes (scheduleAutoSnap sn e) = autoSnapMinutes e"
  by (simp_all add: scheduleAutoSnap_def clearAutoSnapTimer_def clear_timer_def set_timer_def Let_def split: option.split)

lemma schedule_sets:
  assumes "map_of (autoSnapMinutes e) sn = Some m" "m \<noteq> 0"
  shows "interval_at sn m (next_id e) (scheduleAutoSnap sn e)"
  using assms
  by (simp add: interval_at_def scheduleAutoSnap_def clearAutoSnapTimer_def clear_timer_def set_timer_def Let_def
      split: option.split)

lemma schedule_keeps:
  assumes "interval_at a m i e" "a \<noteq> sn" "ids_ok e"
  shows "interval_at a m i (scheduleAutoSnap sn e)"
proof -
  have i: "i < next_id e" and other: "\<And>j. autoSnapTimers e sn = Some j \<Longrightarrow> i \<noteq> j"
    using assms by (auto simp: interval_at_def ids_ok_def)
  have "interval_at a m i (clearAutoSnapTimer sn e)" "next_id (clearAutoSnapTimer sn e) = next_id e"
    using assms(1,2) other by (auto simp: interval_at_def clearAutoSnapTimer_def clear_timer_def split: option.split)
  then show ?thesis using i assms(2)
    by (auto simp: scheduleAutoSnap_def Let_def set_timer_def split: option.split) (auto simp: interval_at_def)
qed

lemma schedule_all:
  assumes "auto_ok e" "distinct sns" "\<And>sn. sn \<in> set sns \<Longrightarrow> \<exists>m. map_of (autoSnapMinutes e) sn = Some m"
  shows "\<forall>sn \<in> set sns. \<exists>m i. map_of (autoSnapMinutes e) sn = Some m \<and> interval_at sn m i (fold scheduleAutoSnap sns e)"
  using assms(2,3)
proof (induction sns rule: rev_induct)
  case Nil
  then show ?case by simp
next
  case (snoc a sns)
  let ?e = "fold scheduleAutoSnap sns e"
  have ok: "auto_ok ?e" by (rule auto.p_fold [OF auto_schedule assms(1)])
  have mins: "autoSnapMinutes ?e = autoSnapMinutes e" by (induction sns rule: rev_induct) simp_all
  obtain m where m: "map_of (autoSnapMinutes e) a = Some m" using snoc.prems by auto
  then have "m \<noteq> 0" using assms(1) by (fastforce simp: auto_ok_def schedule_ok_map)
  then have "interval_at a m (next_id ?e) (scheduleAutoSnap a ?e)" using m by (intro schedule_sets) (simp_all add: mins)
  moreover have "\<exists>m i. map_of (autoSnapMinutes e) sn = Some m \<and> interval_at sn m i (scheduleAutoSnap a ?e)"
    if sn: "sn \<in> set sns" for sn
  proof -
    obtain k i where k: "map_of (autoSnapMinutes e) sn = Some k" "interval_at sn k i ?e"
      using snoc sn by auto
    have "sn \<noteq> a" using snoc.prems(1) sn by auto
    with schedule_keeps [OF k(2)] ok k(1) show ?thesis by (auto simp: auto_ok_def)
  qed
  ultimately show ?case using m by auto
qed

lemma intervals_configured:
  assumes "auto_ok e" "timers e i = Some (AutoSnapInterval sn ms)"
  shows "\<exists>m. 1 \<le> m \<and> map_of (autoSnapMinutes e) sn = Some m \<and> ms = m * 60 * 1000"
    "timers e j = Some (AutoSnapInterval sn ms') \<Longrightarrow> i = j"
proof -
  from assms show "\<exists>m. 1 \<le> m \<and> map_of (autoSnapMinutes e) sn = Some m \<and> ms = m * 60 * 1000"
    by (fastforce simp: auto_ok_def intervals_ok_def schedule_ok_map)
  have "autoSnapTimers e sn = Some k" if "timers e k = Some (AutoSnapInterval sn q)" for k q
    using assms(1) that by (simp add: auto_ok_def intervals_ok_def)
  from this [OF assms(2)] this [of j ms'] show "timers e j = Some (AutoSnapInterval sn ms') \<Longrightarrow> i = j" by simp
qed

lemma interval_set:
  assumes "auto_ok e" "setAutoSnap sn n e = Inr e1"
  shows "if n = 0 then \<forall>i ms. timers e1 i \<noteq> Some (AutoSnapInterval sn ms)
    else \<exists>i. timers e1 i = Some (AutoSnapInterval sn (n * 60 * 1000))"
proof (cases "n = 0")
  case True
  have "autoSnapMinutes e1 = AList.delete sn (autoSnapMinutes e)"
    using assms(2) True by (auto simp: setAutoSnap_def persistAutoSnapConfig_def emit_def)
  then have "map_of (autoSnapMinutes e1) sn = None" by (simp add: delete_conv')
  with intervals_configured(1) [OF auto_set [OF assms]] True show ?thesis by fastforce
next
  case False
  let ?e = "e\<lparr>autoSnapMinutes := AList.update sn n (autoSnapMinutes e)\<rparr>"
  have "interval_at sn n (next_id ?e) (scheduleAutoSnap sn ?e)"
    using False by (intro schedule_sets) (simp_all add: update_conv')
  with assms(2) False show ?thesis
    by (auto simp: setAutoSnap_def persistAutoSnapConfig_def emit_def interval_at_def split: if_splits)
qed

lemma connect_starts:
  assumes "auto_ok e" "map_of (autoSnapMinutes (on_connect e)) sn = Some m"
  shows "\<exists>i. timers (on_connect e) i = Some (AutoSnapInterval sn (m * 60 * 1000))"
proof -
  let ?e = "(clear_timer (loginFailTimer e) (e\<lparr>connected := True\<rparr>))\<lparr>a_status := Connected, a_message := ''Connected.'', a_captchaImage := JNull\<rparr>"
  let ?sns = "map fst (autoSnapMinutes ?e)"
  have e2: "on_connect e = fold scheduleAutoSnap ?sns ?e" by (simp add: on_connect_def startAllAutoSnapTimers_def Let_def)
  have mins: "autoSnapMinutes (fold scheduleAutoSnap xs ?e) = autoSnapMinutes ?e" for xs
    by (induction xs rule: rev_induct) simp_all
  have okc: "auto_ok ?e" using assms(1) by (simp add: auto_auth auto.q_clear)
  then have "distinct ?sns" by (simp add: auto_ok_def schedule_ok_def)
  then have all: "\<forall>sn \<in> set ?sns. \<exists>m i. map_of (autoSnapMinutes ?e) sn = Some m \<and> interval_at sn m i (on_connect e)"
    unfolding e2 by (intro schedule_all okc) (auto simp: map_of_eq_Some_iff)
  have m: "map_of (autoSnapMinutes ?e) sn = Some m" using assms(2) by (simp only: e2 mins)
  then have "sn \<in> set ?sns" by (force dest: map_of_SomeD)
  from bspec [OF all this] obtain k i where "map_of (autoSnapMinutes ?e) sn = Some k" "interval_at sn k i (on_connect e)" by blast
  with m have "interval_at sn m i (on_connect e)" by (simp only: option.inject)
  then show ?thesis unfolding interval_at_def by blast
qed


text \<open>A process that loads a schedule of five minutes for one camera and connects.\<close>

definition five_minutes :: string where
  "five_minutes = schedule_json [(''T8410'', 5)]"


section \<open>The schedule survives a restart\<close>

lemma space_skip:
  assumes "json_space c"
  shows "pval (Suc n) (c # s) = pval (Suc n) s" "pmembers (Suc n) (c # s) = pmembers (Suc n) s"
  using assms by (simp_all add: ws_def)

lemma blanks [simp]: "json_space CHR '' ''" "json_space CHR 0x0A"
  by (simp_all add: json_space_def)

definition schedule_line :: "string \<times> int \<Rightarrow> string" where
  "schedule_line p = (case p of (sn, m) \<Rightarrow> ''  '' @ json_quote sn @ '': '' @ show_int m)"

abbreviation newline_sep :: string where
  "newline_sep \<equiv> [CHR '','', CHR 0x0A]"

lemma line_parses:
  assumes "no_digit t"
  shows "pmembers (Suc (Suc n)) (schedule_line (sn, m) @ t) =
    (case ws t of
       [] \<Rightarrow> None
     | d # t1 \<Rightarrow>
         if d = CHR '','' then map_option (\<lambda>(ob, t'). ((sn, JNum m) # ob, t')) (pmembers (Suc n) t1)
         else if d = CHR ''}'' then Some ([(sn, JNum m)], t1)
         else None)"
proof -
  have "pmembers (Suc (Suc n)) (schedule_line (sn, m) @ t)
      = pmembers (Suc (Suc n)) (json_quote sn @ '':'' @ CHR '' '' # show_int m @ t)"
    by (simp add: schedule_line_def space_skip del: pmembers.simps)
  moreover have "pval (Suc n) (CHR '' '' # show_int m @ t) = Some (JNum m, t)"
    by (simp add: space_skip pval_number [OF assms] del: pval.simps)
  ultimately show ?thesis using pmembers_key [of "Suc n" sn "CHR '' '' # show_int m @ t"]
    by (simp del: pmembers.simps pval.simps)
qed

lemma lines_parse:
  assumes "es \<noteq> []"
  shows "pmembers (length es + Suc n) (join newline_sep (map schedule_line es) @ CHR 0x0A # CHR ''}'' # r)
    = Some (map (\<lambda>(sn, m). (sn, JNum m)) es, r)"
  using assms
proof (induction es)
  case Nil
  then show ?case by simp
next
  case (Cons p es)
  obtain sn m where p: "p = (sn, m)" by (cases p)
  show ?case
  proof (cases es)
    case Nil
    then show ?thesis by (simp add: p line_parses ws_def json_space_def no_digit_def is_digit_def del: pmembers.simps)
  next
    case (Cons q qs)
    let ?t = "join newline_sep (map schedule_line es) @ CHR 0x0A # CHR ''}'' # r"
    have j: "join newline_sep (map schedule_line (p # es)) @ CHR 0x0A # CHR ''}'' # r
        = schedule_line p @ CHR '','' # CHR 0x0A # ?t"
      using Cons by (simp add: join_Cons)
    have ih: "pmembers (length es + Suc n) (CHR 0x0A # ?t) = Some (map (\<lambda>(sn, m). (sn, JNum m)) es, r)"
      using Cons.IH Cons by (simp add: space_skip del: pmembers.simps)
    have "pmembers (Suc (Suc (length es + n))) (schedule_line p @ CHR '','' # CHR 0x0A # ?t)
        = Some (map (\<lambda>(sn, m). (sn, JNum m)) (p # es), r)"
      using ih by (simp add: p line_parses no_digit_def is_digit_def del: pmembers.simps)
    then show ?thesis unfolding j by (simp del: pmembers.simps)
  qed
qed

lemma schedule_json_lines:
  "es \<noteq> [] \<Longrightarrow> schedule_json es = CHR ''{'' # CHR 0x0A # join newline_sep (map schedule_line es) @ CHR 0x0A # ''}''"
  by (simp add: schedule_json_def schedule_line_def [abs_def])

lemma lines_length: "length es \<le> length (join newline_sep (map schedule_line es))"
proof (induction es)
  case (Cons p es)
  obtain sn m where "p = (sn, m)" by (cases p)
  with Cons show ?case by (cases es) (simp_all add: join_Cons schedule_line_def)
qed simp

lemma join_first: "\<exists>t. join sep (x # xs) = x @ t"
  by (cases xs) auto

lemma schedule_parses:
  assumes "distinct (map fst es)"
  shows "json_parse (schedule_json es) = Some (JObj (map (\<lambda>(sn, m). (sn, JNum m)) es))"
proof (cases "es = []")
  case True
  then show ?thesis by (simp add: schedule_json_def) code_simp
next
  case False
  let ?ob = "map (\<lambda>(sn, m). (sn, JNum m)) es"
  let ?t = "join newline_sep (map schedule_line es) @ CHR 0x0A # ''}''"
  have "length es + 2 \<le> 2 * length (schedule_json es)"
    using lines_length [of es] by (simp add: schedule_json_lines [OF False])
  then obtain k where k: "2 * length (schedule_json es) = length es + Suc k"
    by (metis add_2_eq_Suc' add_Suc_right le_Suc_ex add_Suc)
  have keys: "map fst ?ob = map fst es" by (simp add: case_prod_beta comp_def)
  have sp: "spread [] ?ob = ?ob" by (rule spread_fresh [of "[]" ?ob, unfolded append_Nil]) (simp only: keys assms)
  have mem: "pmembers (length es + Suc k) (CHR 0x0A # ?t) = Some (?ob, [])"
    using lines_parse [OF False, of k "[]"] by (simp add: space_skip del: pmembers.simps)
  obtain sn m es' where "es = (sn, m) # es'" using False by (cases es) auto
  then obtain t where "join newline_sep (map schedule_line es) = schedule_line (sn, m) @ t"
    using join_first [of newline_sep "schedule_line (sn, m)" "map schedule_line es'"] by auto
  then have "\<exists>u. ws (CHR 0x0A # ?t) = CHR 0x22 # u"
    by (simp add: ws_def schedule_line_def json_quote_def)
  then obtain u where u: "ws (CHR 0x0A # ?t) = CHR 0x22 # u" ..
  have "pval (Suc (length es + Suc k)) (schedule_json es) = Some (JObj (spread [] ?ob), [])"
    using mem u by (simp add: schedule_json_lines [OF False] del: pmembers.simps)
  then have "pval (2 * length (schedule_json es) + 1) (schedule_json es) = Some (JObj ?ob, [])"
    by (simp only: k sp Suc_eq_plus1)
  then show ?thesis by (simp add: json_parse_def ws_def del: pval.simps)
qed

lemma update_fresh: "sn \<notin> fst ` set ms \<Longrightarrow> AList.update sn m ms = ms @ [(sn, m)]"
  by (induction ms) auto

lemma load_entries:
  assumes "distinct (map fst (ms @ es))" "\<forall>(sn, m) \<in> set es. 1 \<le> m"
  shows "fold (\<lambda>(sn, v) ms. case js_number v of Some m \<Rightarrow> if 1 \<le> m then AList.update sn m ms else ms | None \<Rightarrow> ms)
    (map (\<lambda>(sn, m). (sn, JNum m)) es) ms = ms @ es"
  using assms by (induction es arbitrary: ms) (auto simp: update_fresh)

lemma schedule_reloads:
  assumes "schedule_ok ms" "autoSnapMinutes e = []"
  shows "autoSnapMinutes (loadAutoSnapConfig (Some (schedule_json ms)) e) = ms"
  using assms load_entries [of "[]" ms]
  by (simp add: schedule_ok_def loadAutoSnapConfig_def schedule_parses schedule_entries_def js_or_def)

lemma main_minutes:
  "eufy_main user pass files schedule t = Some e \<Longrightarrow>
   autoSnapMinutes e = autoSnapMinutes (loadAutoSnapConfig schedule (loadSnapshotsFromDisk files (eufy_init t)))"
  by (auto simp: eufy_main_def initEufy_def emit_def armLoginFailTimer_def set_timer_def clear_timer_def
      split: if_splits option.splits)

text \<open>
  C13. The schedule survives a restart. A successful change of the schedule in any reachable state ends
  with the write of a file from which a new process loads exactly the schedule of that moment, the change
  included, whatever the rest of its environment.
\<close>

theorem schedule_survives_restart:
  assumes "reachable eufy_starts (eufy_step codecNone serials) e"
    and "setAutoSnap sn n e = Inr e1"
    and "eufy_main user pass files (Some config) t = Some e2"
    and "last (outs e1) = SaveSchedule config"
  shows "map_of (autoSnapMinutes e2) = (map_of (autoSnapMinutes e))(sn := if n = 0 then None else Some n)"
proof -
  have ok: "auto_ok e1" using auto_snap.always [OF assms(1)] assms(2) by (rule auto_set)
  have "config = schedule_json (autoSnapMinutes e1)"
    and mins: "autoSnapMinutes e1 = (if n = 0 then AList.delete sn (autoSnapMinutes e) else AList.update sn n (autoSnapMinutes e))"
    using assms(2,4) by (auto simp: setAutoSnap_def persistAutoSnapConfig_def emit_def split: if_splits)
  then have "autoSnapMinutes e2 = autoSnapMinutes e1"
    using main_minutes [OF assms(3)] ok
    by (simp add: auto_ok_def schedule_reloads loadSnapshotsFromDisk_def eufy_init_def)
  with mins show ?thesis by (simp add: delete_conv' update_conv')
qed

lemma schedule_survives_restart_witness:
  "\<exists>e e1 e2. reachable eufy_starts (eufy_step 0 '''') e \<and> setAutoSnap ''T8410'' 15 e = Inr e1 \<and>
    eufy_main (JStr ''u'') (JStr ''p'') [] (Some (schedule_json [(''T8410'', 15)])) 60 = Some e2 \<and>
    map_of (autoSnapMinutes e2) ''T8410'' = Some 15"
proof -
  obtain e where e: "eufy_main (JStr ''u'') (JStr ''p'') [] None 0 = Some e"
    by (simp add: eufy_main_def initEufy_def)
  then have "eufy_starts e" unfolding eufy_starts_def by blast
  then have r: "reachable eufy_starts (eufy_step 0 '''') e" by (rule reachable.first)
  have "autoSnapMinutes e = []" using main_minutes [OF e]
    by (simp add: loadAutoSnapConfig_def loadSnapshotsFromDisk_def eufy_init_def)
  then obtain e1 where e1: "setAutoSnap ''T8410'' 15 e = Inr e1" "last (outs e1) = SaveSchedule (schedule_json [(''T8410'', 15)])"
    by (simp add: setAutoSnap_def ALLOWED_AUTOSNAP_MINUTES_def persistAutoSnapConfig_def emit_def)
  obtain e2 where e2: "eufy_main (JStr ''u'') (JStr ''p'') [] (Some (schedule_json [(''T8410'', 15)])) 60 = Some e2"
    by (simp add: eufy_main_def initEufy_def)
  from schedule_survives_restart [OF r e1(1) e2 e1(2)] r e1 e2 show ?thesis by auto
qed

end
