(* ===== verification/EufySnapshots.thy ===== *)
theory EufySnapshots
  imports EufyFrames
begin

text \<open>
  On-demand snapshots of the viewer process: what one wake of a camera gives to everybody who asked for
  a frame, and a case in which those who joined are forgotten.
\<close>

section \<open>One wake for all requests\<close>

definition refresh_req :: "string \<Rightarrow> http_req" where
  "refresh_req sn = \<lparr>h_method = ''POST'', h_path = ''/api/snapshot/'' @ sn @ ''/refresh'', h_body = ''''\<rparr>"

text \<open>Serial numbers as the SDK has them: letters and digits.\<close>

definition plain_serial :: "string \<Rightarrow> bool" where
  "plain_serial sn = (sn \<noteq> '''' \<and> (\<forall>c \<in> set sn. c \<noteq> CHR ''/'' \<and> c \<noteq> CHR ''%'' \<and> (of_char c :: nat) < 128))"

lemma decode_plain: "CHR ''%'' \<notin> set s \<Longrightarrow> decodeURIComponent s = Some s"
  by (induction s) auto

lemma segment_of: "seg \<noteq> '''' \<Longrightarrow> CHR ''/'' \<notin> set seg \<Longrightarrow> path_segment pre post (pre @ seg @ post) = Some seg"
  by (simp add: path_segment_def)

lemma segment_slash: "path_segment ''/api/snapshot/'' '''' (''/api/snapshot/'' @ sn @ ''/refresh'') = None"
  by (simp add: path_segment_def)

lemma refresh_route:
  assumes "plain_serial sn"
  shows "eufy_http j (refresh_req sn) e = refreshSnapshot (Http j sn) e"
proof -
  have sn: "CHR ''%'' \<notin> set sn" "CHR ''/'' \<notin> set sn" "sn \<noteq> ''''" using assms by (auto simp: plain_serial_def)
  then have seg: "path_segment ''/api/snapshot/'' ''/refresh'' (''/api/snapshot/'' @ sn @ ''/refresh'') = Some sn"
    by (intro segment_of)
  have "route_refresh j sn e = Inr (refreshSnapshot (Http j sn) e)"
    by (simp add: route_refresh_def uri_component_def decode_plain [OF sn(1)] bindR_def)
  then show ?thesis using seg
    by (simp add: eufy_http_def refresh_req_def guarded_def)
qed

text \<open>A camera that is being woken: its pending snapshot with the requests that wait for it.\<close>

definition waiting :: "string \<Rightarrow> nat \<Rightarrow> nat \<Rightarrow> requester list \<Rightarrow> est \<Rightarrow> bool" where
  "waiting sn pid tm rs e =
     (connected e \<and> sessions e sn = None \<and> pendingSnapshots e sn = Some \<lparr>pn_promise = pid, pn_timer = tm\<rparr> \<and>
      promises e pid = Some \<lparr>pr_result = None, pr_waiters = rs\<rparr>)"

definition with_waiters :: "nat \<Rightarrow> requester list \<Rightarrow> est \<Rightarrow> est" where
  "with_waiters pid rs e = e\<lparr>promises := (promises e)(pid \<mapsto> \<lparr>pr_result = None, pr_waiters = rs\<rparr>)\<rparr>"

lemma with_waiters_simps [simp]:
  "outs (with_waiters pid rs e) = outs e" "e_now (with_waiters pid rs e) = e_now e" "tasks (with_waiters pid rs e) = tasks e"
  "timers (with_waiters pid rs e) = timers e" "captures (with_waiters pid rs e) = captures e"
  "next_id (with_waiters pid rs e) = next_id e" "sseClients (with_waiters pid rs e) = sseClients e"
  by (simp_all add: with_waiters_def)

lemma waiting_with: "waiting sn pid tm rs e \<Longrightarrow> waiting sn pid tm rs' (with_waiters pid rs' e)"
  by (simp add: waiting_def with_waiters_def)

lemma joins:
  assumes "waiting sn pid tm rs e" "plain_serial sn"
  shows "run (eufy_step codecNone serials) (map (\<lambda>j. HttpReq j (refresh_req sn)) js) e
      = Some (with_waiters pid (rs @ map (\<lambda>j. Http j sn) js) e)"
  using assms(1)
proof (induction js arbitrary: rs e)
  case Nil
  then show ?case by (simp add: waiting_def with_waiters_def map_upd_triv)
next
  case (Cons j js)
  have "refreshSnapshot (Http j sn) e = with_waiters pid (rs @ [Http j sn]) e"
    using Cons.prems by (simp add: refreshSnapshot_def waiting_def await_promise_def with_waiters_def)
  then have step: "eufy_step codecNone serials (HttpReq j (refresh_req sn)) e = Some (with_waiters pid (rs @ [Http j sn]) e)"
    by (simp add: eufy_step_def refresh_route [OF assms(2)])
  from Cons.IH [OF waiting_with [OF Cons.prems]] step show ?case by (simp add: with_waiters_def)
qed

lemma chunks_collect:
  assumes "captures e ff = Some c"
  shows "run (eufy_step codecNone serials) (map (FfmpegData ff) bs) e
      = Some (e\<lparr>captures := (captures e)(ff \<mapsto> c\<lparr>ca_chunks := ca_chunks c @ concat bs\<rparr>)\<rparr>)"
  using assms
proof (induction bs arbitrary: c e)
  case Nil
  then show ?case by (simp add: map_upd_triv)
next
  case (Cons b bs)
  let ?c = "c\<lparr>ca_chunks := ca_chunks c @ b\<rparr>"
  have "captures (e\<lparr>captures := (captures e)(ff \<mapsto> ?c)\<rparr>) ff = Some ?c" by simp
  from Cons.IH [OF this] Cons.prems show ?case by (simp add: eufy_step_def on_ffmpeg_data_def del: fun_upd_apply)
qed

text \<open>The pictures go out in the order in which the requests came to wait.\<close>

definition picture_reply :: "bytes \<Rightarrow> int \<Rightarrow> requester \<Rightarrow> effect list" where
  "picture_reply b ts w = (case w of Http i _ \<Rightarrow> [Reply i 200 (Jpeg b (JNum ts))] | AutoSnap _ \<Rightarrow> [])"

lemma replies_sent:
  assumes "snapshotCache e sn = Some (b, ts)" "\<forall>w \<in> set rs. requester_sn w = sn"
  shows "fold (reply_snapshot (Inr b)) rs e = e\<lparr>outs := outs e @ concat (map (picture_reply b ts) rs)\<rparr>"
  using assms
proof (induction rs arbitrary: e)
  case (Cons w rs)
  have "reply_snapshot (Inr b) w e = e\<lparr>outs := outs e @ picture_reply b ts w\<rparr>"
    using Cons.prems by (cases w) (auto simp: picture_reply_def emit_def snapshot_ts_def)
  with Cons show ?case by simp
qed simp


lemma capture_succeeds:
  assumes "waiting sn pid tm rs e" "\<forall>w \<in> set rs. requester_sn w = sn" "b \<noteq> []"
    and "captures e ff = Some \<lparr>ca_sn = sn, ca_pending = \<lparr>pn_promise = pid, pn_timer = tm\<rparr>, ca_chunks = b\<rparr>"
  shows "\<exists>e'. capture_finish ff None e = e' \<and>
    outs e' = outs e @ [Kill ff, SaveFile sn b]
      @ map (\<lambda>(c, _). SseWrite c (JObj [(''type'', JStr ''snapshot''), (''sn'', JStr sn), (''ts'', JNum (e_now e))])) (sseClients e)
      @ [Sdk (GetDevice sn), Sdk (StopLive sn)] @ concat (map (picture_reply b (e_now e)) rs) \<and>
    snapshotCache e' sn = Some (b, e_now e) \<and> pendingSnapshots e' sn = None \<and> timers e' tm = None \<and>
    promises e' pid = Some \<lparr>pr_result = Some (Inr b), pr_waiters = rs\<rparr>"
proof -
  let ?e1 = "emit (Kill ff) (e\<lparr>captures := (captures e)(ff := None)\<rparr>)"
  let ?e2 = "clear_timer (Some tm) (saveSnapshot sn b ?e1)"
  let ?e3 = "emit (Sdk (StopLive sn)) (?e2\<lparr>pendingSnapshots := (pendingSnapshots ?e2)(sn := None)\<rparr>)"
  let ?e4 = "?e3\<lparr>promises := (promises ?e3)(pid \<mapsto> \<lparr>pr_result = Some (Inr b), pr_waiters = rs\<rparr>)\<rparr>"
  have e3: "outs ?e3 = outs e @ [Kill ff, SaveFile sn b]
      @ map (\<lambda>(c, _). SseWrite c (JObj [(''type'', JStr ''snapshot''), (''sn'', JStr sn), (''ts'', JNum (e_now e))])) (sseClients e)
      @ [Sdk (GetDevice sn), Sdk (StopLive sn)]"
    "snapshotCache ?e3 sn = Some (b, e_now e)" "pendingSnapshots ?e3 sn = None" "timers ?e3 tm = None" "promises ?e3 = promises e"
    by (simp_all add: saveSnapshot_def broadcastBattery_def broadcastEvent_def add_task_def emit_def clear_timer_def Let_def)
  have "capture_finish ff None e = settle pid (Inr b) ?e3"
    using assms(3,4) by (simp add: capture_finish_def Let_def)
  also have "\<dots> = fold (reply_snapshot (Inr b)) rs ?e4"
    using assms(1) e3(5) by (simp add: settle_def waiting_def)
  also have "\<dots> = ?e4\<lparr>outs := outs ?e4 @ concat (map (picture_reply b (e_now e)) rs)\<rparr>"
    by (rule replies_sent [where sn = sn]) (use assms(2) e3(2) in simp_all)
  finally show ?thesis using e3 by simp
qed

text \<open>The requests that come first, before and after the answer of the SDK, and the frame in pieces.\<close>

definition one_wake :: "string \<Rightarrow> nat \<Rightarrow> nat \<Rightarrow> nat list \<Rightarrow> nat list \<Rightarrow> stream_meta \<Rightarrow> bool \<Rightarrow> bytes list \<Rightarrow> event list" where
  "one_wake sn k i js js' md audio bs =
     HttpReq i (refresh_req sn) # map (\<lambda>j. HttpReq j (refresh_req sn)) js @ AwaitEnds (k + 2) Done #
     map (\<lambda>j. HttpReq j (refresh_req sn)) js' @ LivestreamStart sn md audio # map (FfmpegData (k + 3)) bs @ [FfmpegClosed (k + 3)]"

lemma woken:
  assumes "plain_serial sn" "connected e" "sessions e sn = None" "pendingSnapshots e sn = None"
  shows "\<exists>e4. run (eufy_step codecNone serials) (HttpReq i (refresh_req sn) # map (\<lambda>j. HttpReq j (refresh_req sn)) js
      @ AwaitEnds (next_id e + 2) Done # map (\<lambda>j. HttpReq j (refresh_req sn)) js') e = Some e4 \<and>
    waiting sn (next_id e) (Suc (next_id e)) (map (\<lambda>j. Http j sn) (js @ [i] @ js')) e4 \<and>
    outs e4 = outs e @ [Sdk (StartLive sn)] \<and> next_id e4 = Suc (Suc (Suc (next_id e))) \<and>
    e_now e4 = e_now e \<and> sseClients e4 = sseClients e"
proof -
  let ?pid = "next_id e" and ?tm = "Suc (next_id e)" and ?k = "Suc (Suc (next_id e))" and ?ff = "Suc (Suc (Suc (next_id e)))"
  let ?step = "eufy_step codecNone serials"
  define e1 where "e1 = refreshSnapshot (Http i sn) e"
  have step1: "?step (HttpReq i (refresh_req sn)) e = Some e1"
    by (simp add: eufy_step_def refresh_route [OF assms(1)] e1_def)
  have e1: "waiting sn ?pid ?tm [] e1" "outs e1 = outs e @ [Sdk (StartLive sn)]" "tasks e1 ?k = Some (RefreshStarting (Http i sn) sn ?pid ?tm)"
    "next_id e1 = ?ff" "e_now e1 = e_now e" "sseClients e1 = sseClients e"
    using assms(2-4)
    by (simp_all add: e1_def refreshSnapshot_def Let_def set_timer_def add_task_def emit_def waiting_def)
  let ?w = "map (\<lambda>j. Http j sn)"
  define e2 where "e2 = with_waiters ?pid (?w js) e1"
  have run2: "run ?step (map (\<lambda>j. HttpReq j (refresh_req sn)) js) e1 = Some e2"
    using joins [OF e1(1) assms(1), of _ _ js] by (simp add: e2_def)
  have w2: "waiting sn ?pid ?tm (?w js) e2" unfolding e2_def by (rule waiting_with [OF e1(1)])
  have t2: "tasks e2 ?k = Some (RefreshStarting (Http i sn) sn ?pid ?tm)" by (simp add: e2_def e1)
  define e3 where "e3 = with_waiters ?pid (?w (js @ [i])) (e2\<lparr>tasks := (tasks e2)(?k := None)\<rparr>)"
  have step3: "?step (AwaitEnds ?k Done) e2 = Some e3"
    using w2 t2 by (simp add: eufy_step_def finish_task_def refresh_started_def await_promise_def waiting_def e3_def with_waiters_def)
  have w3: "waiting sn ?pid ?tm (?w (js @ [i])) e3"
    using w2 unfolding e3_def by (intro waiting_with [of _ _ _ "?w js"]) (simp add: waiting_def)
  define e4 where "e4 = with_waiters ?pid (?w (js @ [i] @ js')) e3"
  have run4: "run ?step (map (\<lambda>j. HttpReq j (refresh_req sn)) js') e3 = Some e4"
    using joins [OF w3 assms(1), of _ _ js'] by (simp add: e4_def)
  have w4: "waiting sn ?pid ?tm (?w (js @ [i] @ js')) e4" unfolding e4_def by (rule waiting_with [OF w3])
  have e4: "outs e4 = outs e @ [Sdk (StartLive sn)]" "next_id e4 = ?ff" "e_now e4 = e_now e" "sseClients e4 = sseClients e"
    by (simp_all add: e4_def e3_def e2_def e1)
  with w4 show ?thesis by (simp add: run_append step1 run2 step3 run4)
qed

text \<open>
  C23. One wake serves everybody. However many requests for a fresh frame of a camera arrive while it is
  being woken, the camera is started and stopped once and one frame is captured; that frame, whatever the
  pieces it comes in, is cached, announced to the open event streams and sent to every request.
\<close>

theorem snapshot_single_wake:
  assumes "plain_serial sn" "connected e" "sessions e sn = None" "pendingSnapshots e sn = None" "concat bs \<noteq> []"
  shows "\<exists>e'. run (eufy_step codecNone serials) (one_wake sn (next_id e) i js js' md audio bs) e = Some e' \<and>
    outs e' = outs e @ [Sdk (StartLive sn), Spawn (next_id e + 3) (snapshot_args md), Kill (next_id e + 3), SaveFile sn (concat bs)]
      @ map (\<lambda>(c, _). SseWrite c (JObj [(''type'', JStr ''snapshot''), (''sn'', JStr sn), (''ts'', JNum (e_now e))])) (sseClients e)
      @ [Sdk (GetDevice sn), Sdk (StopLive sn)]
      @ map (\<lambda>j. Reply j 200 (Jpeg (concat bs) (JNum (e_now e)))) (js @ [i] @ js') \<and>
    snapshotCache e' sn = Some (concat bs, e_now e) \<and> pendingSnapshots e' sn = None"
proof -
  let ?pid = "next_id e" and ?tm = "Suc (next_id e)" and ?ff = "Suc (Suc (Suc (next_id e)))"
  let ?step = "eufy_step codecNone serials"
  let ?w = "map (\<lambda>j. Http j sn)"
  obtain e4 where run4: "run ?step (HttpReq i (refresh_req sn) # map (\<lambda>j. HttpReq j (refresh_req sn)) js
      @ AwaitEnds (next_id e + 2) Done # map (\<lambda>j. HttpReq j (refresh_req sn)) js') e = Some e4"
    and w4: "waiting sn ?pid ?tm (?w (js @ [i] @ js')) e4"
    and e4: "outs e4 = outs e @ [Sdk (StartLive sn)]" "next_id e4 = ?ff" "e_now e4 = e_now e" "sseClients e4 = sseClients e"
    using woken [OF assms(1-4), of codecNone serials i js js'] by blast
  let ?c = "\<lparr>ca_sn = sn, ca_pending = \<lparr>pn_promise = ?pid, pn_timer = ?tm\<rparr>, ca_chunks = []\<rparr>"
  define e5 where "e5 = captureSnapshotFromStream sn \<lparr>pn_promise = ?pid, pn_timer = ?tm\<rparr> md e4"
  have step5: "?step (LivestreamStart sn md audio) e4 = Some e5"
    using w4 by (simp add: eufy_step_def on_livestream_start_def waiting_def e5_def)
  have e5: "waiting sn ?pid ?tm (?w (js @ [i] @ js')) e5" "captures e5 ?ff = Some ?c"
    "outs e5 = outs e @ [Sdk (StartLive sn), Spawn ?ff (snapshot_args md)]" "e_now e5 = e_now e" "sseClients e5 = sseClients e"
    using w4 by (simp_all add: e5_def captureSnapshotFromStream_def Let_def set_timer_def emit_def e4 waiting_def)
  define e6 where "e6 = e5\<lparr>captures := (captures e5)(?ff \<mapsto> ?c\<lparr>ca_chunks := concat bs\<rparr>)\<rparr>"
  have run6: "run ?step (map (FfmpegData ?ff) bs) e5 = Some e6"
    using chunks_collect [OF e5(2), of _ _ bs] by (simp add: e6_def)
  have w6: "waiting sn ?pid ?tm (?w (js @ [i] @ js')) e6" using e5(1) by (simp add: e6_def waiting_def)
  have "captures e6 ?ff = Some \<lparr>ca_sn = sn, ca_pending = \<lparr>pn_promise = ?pid, pn_timer = ?tm\<rparr>, ca_chunks = concat bs\<rparr>"
    by (simp add: e6_def)
  moreover have rs: "\<forall>w \<in> set (?w (js @ [i] @ js')). requester_sn w = sn" by auto
  ultimately obtain e7 where c7: "capture_finish ?ff None e6 = e7" and e7: "outs e7 = outs e6 @ [Kill ?ff, SaveFile sn (concat bs)]
      @ map (\<lambda>(c, _). SseWrite c (JObj [(''type'', JStr ''snapshot''), (''sn'', JStr sn), (''ts'', JNum (e_now e6))])) (sseClients e6)
      @ [Sdk (GetDevice sn), Sdk (StopLive sn)] @ concat (map (picture_reply (concat bs) (e_now e6)) (?w (js @ [i] @ js')))"
      "snapshotCache e7 sn = Some (concat bs, e_now e6)" "pendingSnapshots e7 sn = None"
    using capture_succeeds [OF w6 _ assms(5)] by blast
  then have "?step (FfmpegClosed ?ff) e6 = Some e7" by (simp add: eufy_step_def)
  note e7 this
  moreover have "concat (map (picture_reply b t) (?w xs)) = map (\<lambda>j. Reply j 200 (Jpeg b (JNum t))) xs" for b t xs
    by (induction xs) (simp_all add: picture_reply_def)
  moreover have "outs e6 = outs e5" "e_now e6 = e_now e" "sseClients e6 = sseClients e" by (simp_all add: e6_def e5)
  moreover have "one_wake sn (next_id e) i js js' md audio bs = (HttpReq i (refresh_req sn) # map (\<lambda>j. HttpReq j (refresh_req sn)) js
      @ AwaitEnds (next_id e + 2) Done # map (\<lambda>j. HttpReq j (refresh_req sn)) js')
      @ LivestreamStart sn md audio # map (FfmpegData ?ff) bs @ [FfmpegClosed ?ff]"
    by (simp add: one_wake_def)
  ultimately show ?thesis
    by (simp only: run_append [of _ "HttpReq i (refresh_req sn) # _"] run4) (simp add: run_append step5 run6 e5)
qed

lemma snapshot_single_wake_witness:
  "\<exists>e'. run (eufy_step 0 '''') (one_wake ''T1'' 0 7 [8] [9] \<lparr>videoCodec = H264, audioCodec = None, videoWidth = 0, videoHeight = 0\<rparr>
      False [[255], [216]]) ((eufy_init 5)\<lparr>connected := True\<rparr>) = Some e' \<and>
    filter (\<lambda>x. case x of Reply _ _ _ \<Rightarrow> True | _ \<Rightarrow> False) (outs e') = map (\<lambda>j. Reply j 200 (Jpeg [255, 216] (JNum 5))) [8, 7, 9]"
proof -
  have e: "plain_serial ''T1''" "connected ((eufy_init 5)\<lparr>connected := True\<rparr>)" "sessions ((eufy_init 5)\<lparr>connected := True\<rparr>) ''T1'' = None"
    "pendingSnapshots ((eufy_init 5)\<lparr>connected := True\<rparr>) ''T1'' = None" "concat [[255], [216]] \<noteq> ([] :: bytes)"
    by (simp_all add: plain_serial_def eufy_init_def)
  have n: "next_id ((eufy_init 5)\<lparr>connected := True\<rparr>) = 0" by (simp add: eufy_init_def)
  from snapshot_single_wake [OF e, of 0 "''''" 7 "[8]" "[9]"
      "\<lparr>videoCodec = H264, audioCodec = None, videoWidth = 0, videoHeight = 0\<rparr>" False, unfolded n]
  show ?thesis by (elim exE conjE) (rule exI, rule conjI, assumption, simp add: eufy_init_def)
qed

section \<open>Requests that joined a wake which fails\<close>

text \<open>A promise that is open and that nothing in the state can settle any more.\<close>

definition orphan :: "nat \<Rightarrow> requester list \<Rightarrow> est \<Rightarrow> bool" where
  "orphan pid rs e =
     (pid < next_id e \<and> (\<exists>ws. promises e pid = Some \<lparr>pr_result = None, pr_waiters = rs @ ws\<rparr>) \<and>
      (\<forall>sn p. pendingSnapshots e sn = Some p \<longrightarrow> pn_promise p \<noteq> pid) \<and>
      (\<forall>ff c. captures e ff = Some c \<longrightarrow> pn_promise (ca_pending c) \<noteq> pid) \<and>
      (\<forall>i sn. timers e i \<noteq> Some (SnapshotTimeout sn pid)))"

interpretation orphan: plain_steps "orphan pid rs" for pid rs
  by unfold_locales
    (auto simp: orphan_def emit_def broadcastEvent_def add_task_def clear_timer_def set_timer_def plain_timer_def
      session_ends less_Suc_eq split: option.splits if_splits)

lemma orphan_same:
  "orphan pid rs (e\<lparr>a_status := a\<rparr>) = orphan pid rs e" "orphan pid rs (e\<lparr>a_message := m\<rparr>) = orphan pid rs e"
  "orphan pid rs (e\<lparr>a_captchaId := v\<rparr>) = orphan pid rs e" "orphan pid rs (e\<lparr>a_captchaImage := w\<rparr>) = orphan pid rs e"
  "orphan pid rs (e\<lparr>connected := b\<rparr>) = orphan pid rs e" "orphan pid rs (e\<lparr>tasks := ts\<rparr>) = orphan pid rs e"
  "orphan pid rs (e\<lparr>sessions := ss\<rparr>) = orphan pid rs e" "orphan pid rs (e\<lparr>open_ws := ow\<rparr>) = orphan pid rs e"
  "orphan pid rs (emit x e) = orphan pid rs e" "orphan pid rs (e\<lparr>autoSnapMinutes := ms\<rparr>) = orphan pid rs e"
  "orphan pid rs (e\<lparr>autoSnapTimers := at\<rparr>) = orphan pid rs e" "orphan pid rs (e\<lparr>sseClients := cs\<rparr>) = orphan pid rs e"
  by (simp_all add: emit_def orphan_def)

lemma orphan_pending:
  "orphan pid rs e \<Longrightarrow> orphan pid rs (e\<lparr>pendingSnapshots := (pendingSnapshots e)(sn := None)\<rparr>)"
  by (auto simp: orphan_def split: if_splits)

lemma orphan_drop: "orphan pid rs e \<Longrightarrow> orphan pid rs (e\<lparr>captures := (captures e)(ff := None)\<rparr>)"
  by (auto simp: orphan_def split: if_splits)

lemma orphan_settle: "orphan pid rs e \<Longrightarrow> q \<noteq> pid \<Longrightarrow> orphan pid rs (settle q r e)"
  by (auto simp: settle_def intro!: orphan.p_fold orphan.p_reply split: option.split) (auto simp: orphan_def)

lemma orphan_await: "orphan pid rs e \<Longrightarrow> orphan pid rs (await_promise w q e)"
  by (auto simp: await_promise_def intro!: orphan.p_reply split: option.split) (auto simp: orphan_def)

lemma orphan_started: "orphan pid rs e \<Longrightarrow> orphan pid rs (refresh_started w sn q k res e)"
  by (auto simp: refresh_started_def Let_def intro!: orphan_await orphan.p_reply orphan_pending orphan.q_clear split: outcome.split)

lemma orphan_refresh:
  assumes o: "orphan pid rs e"
  shows "orphan pid rs (refreshSnapshot w e)"
proof -
  let ?e1 = "e\<lparr>promises := (promises e)(next_id e \<mapsto> \<lparr>pr_result = None, pr_waiters = []\<rparr>), next_id := next_id e + 1\<rparr>"
  let ?e2 = "snd (set_timer (SnapshotTimeout (requester_sn w) (next_id e)) ?e1)"
  let ?e3 = "?e2\<lparr>pendingSnapshots := (pendingSnapshots ?e2)(requester_sn w \<mapsto> \<lparr>pn_promise = next_id e, pn_timer = next_id ?e1\<rparr>)\<rparr>"
  have "orphan pid rs ?e3" using o by (auto simp: orphan_def set_timer_def split: if_splits)
  then have "orphan pid rs (add_task (RefreshStarting w (requester_sn w) (next_id e) (next_id ?e1)) (emit (Sdk (StartLive (requester_sn w))) ?e3))"
    by (simp add: orphan_def add_task_def emit_def less_Suc_eq)
  then show ?thesis using o
    by (auto simp: refreshSnapshot_def Let_def set_timer_def intro!: orphan_await orphan.p_reply split: option.split)
qed

lemma orphan_timeout: "orphan pid rs e \<Longrightarrow> q \<noteq> pid \<Longrightarrow> orphan pid rs (snapshot_timeout sn q e)"
  by (simp add: snapshot_timeout_def Let_def orphan_settle orphan_same orphan_pending)

lemma orphan_finish:
  assumes "orphan pid rs e"
  shows "orphan pid rs (capture_finish ff err e)"
proof (cases "captures e ff")
  case (Some c)
  then have q: "pn_promise (ca_pending c) \<noteq> pid" using assms by (auto simp: orphan_def)
  have k: "orphan pid rs (emit (Kill ff) (e\<lparr>captures := (captures e)(ff := None)\<rparr>))"
    using orphan_drop [OF assms] by (simp add: orphan_same)
  show ?thesis using Some
    by (auto simp: capture_finish_def Let_def orphan_same intro!: orphan_settle q orphan_pending orphan.q_clear orphan.p_save
        k [unfolded orphan_same] split: option.split)
qed (simp add: capture_finish_def assms)

lemma orphan_livestream: "orphan pid rs e \<Longrightarrow> orphan pid rs (on_livestream_start codecNone sn md audio e)"
proof -
  assume o: "orphan pid rs e"
  have "orphan pid rs (captureSnapshotFromStream sn p md e)" if "pendingSnapshots e sn = Some p" for p
  proof -
    have "orphan pid rs (e\<lparr>next_id := Suc (next_id e),
        captures := (captures e)(next_id e \<mapsto> \<lparr>ca_sn = sn, ca_pending = p, ca_chunks = []\<rparr>)\<rparr>)"
      using o that by (auto simp: orphan_def split: if_splits)
    then show ?thesis by (simp add: captureSnapshotFromStream_def Let_def orphan.q_set orphan_same)
  qed
  with o show ?thesis
    by (auto simp: on_livestream_start_def orphan_same intro!: orphan.p_ffmpeg split: option.split)
qed

lemma orphan_clear_auto: "orphan pid rs e \<Longrightarrow> orphan pid rs (clearAutoSnapTimer sn e)"
  by (simp add: clearAutoSnapTimer_def Let_def orphan_same orphan.q_clear)

lemma orphan_schedule: "orphan pid rs e \<Longrightarrow> orphan pid rs (scheduleAutoSnap sn e)"
proof -
  assume "orphan pid rs e"
  then have c: "orphan pid rs (clearAutoSnapTimer sn e)" by (rule orphan_clear_auto)
  then have "orphan pid rs (snd (set_timer (AutoSnapInterval sn m) (clearAutoSnapTimer sn e)))" for m
    by (auto simp: orphan_def set_timer_def)
  then show ?thesis using c
    by (simp add: scheduleAutoSnap_def Let_def case_prod_beta orphan_same split: option.split)
qed

lemma orphan_set: "orphan pid rs e \<Longrightarrow> setAutoSnap sn n e = Inr e1 \<Longrightarrow> orphan pid rs e1"
  by (auto simp: setAutoSnap_def persistAutoSnapConfig_def orphan_same intro!: orphan_clear_auto orphan_schedule split: if_splits)

lemma orphan_fires:
  "orphan pid rs e \<Longrightarrow> timers e j = Some (SnapshotTimeout sn q) \<Longrightarrow> orphan pid rs (snapshot_timeout sn q (clear_timer (Some j) e))"
  by (intro orphan_timeout orphan.q_clear) (auto simp: orphan_def)

interpretation orphan_server: server_steps "orphan pid rs" for pid rs
  by unfold_locales (auto simp: orphan_same session_ends intro: orphan_set orphan_refresh orphan_started orphan_schedule
      orphan_livestream orphan_finish orphan_fires)

section \<open>Ids are fresh\<close>

text \<open>Every id in use, and every promise that a timer, a pending snapshot or a capture names, is below the next id.\<close>

definition fresh :: "est \<Rightarrow> bool" where
  "fresh e =
     ((\<forall>k t. timers e k = Some t \<longrightarrow> k < next_id e \<and> (\<forall>a p. t = SnapshotTimeout a p \<longrightarrow> p < next_id e)) \<and>
      (\<forall>a p. pendingSnapshots e a = Some p \<longrightarrow> pn_promise p < next_id e) \<and>
      (\<forall>ff c. captures e ff = Some c \<longrightarrow> pn_promise (ca_pending c) < next_id e))"

interpretation fresh: plain_steps fresh
  by unfold_locales
    (auto simp: fresh_def emit_def broadcastEvent_def add_task_def clear_timer_def set_timer_def plain_timer_def
      session_ends less_Suc_eq split: option.splits if_splits)

lemma fresh_same:
  "fresh (e\<lparr>a_status := a\<rparr>) = fresh e" "fresh (e\<lparr>a_message := m\<rparr>) = fresh e" "fresh (e\<lparr>a_captchaId := v\<rparr>) = fresh e"
  "fresh (e\<lparr>a_captchaImage := w\<rparr>) = fresh e" "fresh (e\<lparr>connected := b\<rparr>) = fresh e" "fresh (e\<lparr>tasks := ts\<rparr>) = fresh e"
  "fresh (e\<lparr>sessions := ss\<rparr>) = fresh e" "fresh (e\<lparr>open_ws := ow\<rparr>) = fresh e"
  "fresh (emit x e) = fresh e" "fresh (e\<lparr>autoSnapMinutes := ms\<rparr>) = fresh e" "fresh (e\<lparr>autoSnapTimers := at\<rparr>) = fresh e"
  "fresh (e\<lparr>promises := ps\<rparr>) = fresh e" "fresh (e\<lparr>sseClients := cs\<rparr>) = fresh e"
  by (simp_all add: emit_def fresh_def)

lemma fresh_drops:
  "fresh e \<Longrightarrow> fresh (e\<lparr>pendingSnapshots := (pendingSnapshots e)(sn := None)\<rparr>)"
  "fresh e \<Longrightarrow> fresh (e\<lparr>captures := (captures e)(ff := None)\<rparr>)"
  by (auto simp: fresh_def split: if_splits)

lemma fresh_settle: "fresh e \<Longrightarrow> fresh (settle q r e)"
  by (auto simp: settle_def fresh_same intro!: fresh.p_fold fresh.p_reply split: option.split)

lemma fresh_await: "fresh e \<Longrightarrow> fresh (await_promise w q e)"
  by (auto simp: await_promise_def fresh_same intro!: fresh.p_reply split: option.split)

lemma fresh_started: "fresh e \<Longrightarrow> fresh (refresh_started w sn q k res e)"
  by (auto simp: refresh_started_def Let_def intro!: fresh_await fresh.p_reply fresh_drops fresh.q_clear split: outcome.split)

lemma fresh_refresh:
  assumes o: "fresh e"
  shows "fresh (refreshSnapshot w e)"
proof -
  let ?e1 = "e\<lparr>promises := (promises e)(next_id e \<mapsto> \<lparr>pr_result = None, pr_waiters = []\<rparr>), next_id := next_id e + 1\<rparr>"
  let ?e2 = "snd (set_timer (SnapshotTimeout (requester_sn w) (next_id e)) ?e1)"
  let ?e3 = "?e2\<lparr>pendingSnapshots := (pendingSnapshots ?e2)(requester_sn w \<mapsto> \<lparr>pn_promise = next_id e, pn_timer = next_id ?e1\<rparr>)\<rparr>"
  have "fresh ?e3" using o by (fastforce simp: fresh_def set_timer_def split: if_splits)
  then have "fresh (add_task (RefreshStarting w (requester_sn w) (next_id e) (next_id ?e1)) (emit (Sdk (StartLive (requester_sn w))) ?e3))"
    by (auto simp: fresh_def add_task_def emit_def less_Suc_eq)
  then show ?thesis using o
    by (auto simp: refreshSnapshot_def Let_def set_timer_def intro!: fresh_await fresh.p_reply split: option.split)
qed

lemma fresh_snapshots:
  assumes "fresh e"
  shows "fresh (snapshot_timeout sn q e)" "fresh (capture_finish ff err e)"
  using assms
  by (auto simp: snapshot_timeout_def capture_finish_def Let_def fresh_same
      intro!: fresh_settle fresh.q_clear fresh.p_save fresh_drops split: option.split)

lemma fresh_livestream: "fresh e \<Longrightarrow> fresh (on_livestream_start codecNone sn md audio e)"
proof -
  assume o: "fresh e"
  have "fresh (captureSnapshotFromStream sn p md e)" if "pendingSnapshots e sn = Some p" for p
  proof -
    have "fresh (e\<lparr>next_id := Suc (next_id e),
        captures := (captures e)(next_id e \<mapsto> \<lparr>ca_sn = sn, ca_pending = p, ca_chunks = []\<rparr>)\<rparr>)"
      using o that by (fastforce simp: fresh_def split: if_splits)
    then show ?thesis by (simp add: captureSnapshotFromStream_def Let_def fresh.q_set fresh_same)
  qed
  with o show ?thesis
    by (auto simp: on_livestream_start_def fresh_same intro!: fresh.p_ffmpeg split: option.split)
qed

lemma fresh_clear_auto: "fresh e \<Longrightarrow> fresh (clearAutoSnapTimer sn e)"
  by (simp add: clearAutoSnapTimer_def Let_def fresh_same fresh.q_clear)

lemma fresh_schedule: "fresh e \<Longrightarrow> fresh (scheduleAutoSnap sn e)"
proof -
  assume "fresh e"
  then have c: "fresh (clearAutoSnapTimer sn e)" by (rule fresh_clear_auto)
  then have "fresh (snd (set_timer (AutoSnapInterval sn m) (clearAutoSnapTimer sn e)))" for m
    by (fastforce simp: fresh_def set_timer_def split: if_splits)
  then show ?thesis using c
    by (simp add: scheduleAutoSnap_def Let_def case_prod_beta fresh_same split: option.split)
qed

lemma fresh_set: "fresh e \<Longrightarrow> setAutoSnap sn n e = Inr e1 \<Longrightarrow> fresh e1"
  by (auto simp: setAutoSnap_def persistAutoSnapConfig_def fresh_same intro!: fresh_clear_auto fresh_schedule split: if_splits)

interpretation fresh_server: server_steps fresh
  by unfold_locales (auto simp: fresh_same session_ends intro: fresh_set fresh_refresh fresh_started fresh_schedule
      fresh_livestream fresh_snapshots fresh.q_clear)

lemma fresh_start: "eufy_starts e \<Longrightarrow> fresh e"
proof -
  assume "eufy_starts e"
  then obtain files schedule t where
    "e = emit (Sdk ConnectPlain) (armLoginFailTimer (loadAutoSnapConfig schedule (loadSnapshotsFromDisk files (eufy_init t))))"
    by (auto simp: eufy_starts_def eufy_main_def initEufy_def split: if_splits)
  moreover have "fresh (loadAutoSnapConfig schedule (loadSnapshotsFromDisk files (eufy_init t)))"
    by (simp add: fresh_def loadAutoSnapConfig_def loadSnapshotsFromDisk_def eufy_init_def split: option.split)
  ultimately show ?thesis by (simp add: fresh_same fresh.p_arm)
qed

interpretation fresh_always: invariant "eufy_step codecNone serials" fresh eufy_starts for codecNone serials
  by unfold_locales (rule fresh_start)

text \<open>
  C24. A failed wake forgets those who joined it. When the SDK refuses to start a camera, the request that
  asked for it is answered with the error, but the requests that joined it wait for a promise that no
  later event settles: whatever happens next, its result stays open with all of them in its list.
\<close>

theorem failed_wake_strands_joiners:
  assumes "reachable eufy_starts (eufy_step codecNone serials) e" "plain_serial sn"
    and "connected e" "sessions e sn = None" "pendingSnapshots e sn = None"
    and "run (eufy_step codecNone serials) (HttpReq i (refresh_req sn) # map (\<lambda>j. HttpReq j (refresh_req sn)) js
      @ AwaitEnds (next_id e + 2) (Failed err) # evs) e = Some e'"
  shows "\<exists>ws. promises e' (next_id e) = Some \<lparr>pr_result = None, pr_waiters = map (\<lambda>j. Http j sn) js @ ws\<rparr>"
proof -
  let ?pid = "next_id e" and ?tm = "Suc (next_id e)" and ?k = "Suc (Suc (next_id e))" and ?js = "map (\<lambda>j. Http j sn) js"
  let ?step = "eufy_step codecNone serials"
  define e1 where "e1 = refreshSnapshot (Http i sn) e"
  have step1: "?step (HttpReq i (refresh_req sn)) e = Some e1"
    by (simp add: eufy_step_def refresh_route [OF assms(2)] e1_def)
  have w1: "waiting sn ?pid ?tm [] e1" and t1: "tasks e1 ?k = Some (RefreshStarting (Http i sn) sn ?pid ?tm)"
    using assms(3-5) by (simp_all add: e1_def refreshSnapshot_def Let_def set_timer_def add_task_def emit_def waiting_def)
  have run2: "run ?step (map (\<lambda>j. HttpReq j (refresh_req sn)) js) e1 = Some (with_waiters ?pid ?js e1)"
    using joins [OF w1 assms(2), of _ _ js] by simp
  let ?e2 = "(with_waiters ?pid ?js e1)\<lparr>tasks := (tasks e1)(?k := None)\<rparr>"
  define e3 where "e3 = (clear_timer (Some ?tm) ?e2)\<lparr>pendingSnapshots := (pendingSnapshots e1)(sn := None)\<rparr>"
  have step3: "?step (AwaitEnds ?k (Failed err)) (with_waiters ?pid ?js e1) = Some (reply_snapshot (Inl err) (Http i sn) e3)"
    using t1 by (simp add: eufy_step_def finish_task_def refresh_started_def Let_def e3_def with_waiters_def clear_timer_def)
  have "fresh e" by (rule fresh_always.always [OF assms(1)])
  then have "orphan ?pid ?js e3" using assms(3-5)
    by (fastforce simp: e3_def e1_def refreshSnapshot_def Let_def set_timer_def add_task_def emit_def with_waiters_def
        clear_timer_def orphan_def fresh_def split: if_splits)
  then have "orphan ?pid ?js (reply_snapshot (Inl err) (Http i sn) e3)" by (rule orphan.p_reply)
  moreover have "run ?step evs (reply_snapshot (Inl err) (Http i sn) e3) = Some e'"
    using assms(6) by (simp add: step1 run_append run2 step3)
  ultimately have "orphan ?pid ?js e'" by (rule orphan_server.run_keeps)
  then show ?thesis by (auto simp: orphan_def)
qed

lemma failed_wake_strands_joiners_witness:
  "\<exists>e e' ws. reachable eufy_starts (eufy_step 0 '''') e \<and>
    run (eufy_step 0 '''') [HttpReq 1 (refresh_req ''T1''), HttpReq 2 (refresh_req ''T1''), AwaitEnds (next_id e + 2) (Failed (Error ''x'')),
      TimePasses 100000] e = Some e' \<and> promises e' (next_id e) = Some \<lparr>pr_result = None, pr_waiters = Http 2 ''T1'' # ws\<rparr>"
proof -
  let ?init = "emit (Sdk ConnectPlain) (armLoginFailTimer (eufy_init 0))"
  let ?e = "on_connect ?init"
  have "eufy_main (JStr ''u'') (JStr ''p'') [] None 0 = Some ?init"
    by (simp add: eufy_main_def initEufy_def loadAutoSnapConfig_def loadSnapshotsFromDisk_def eufy_init_def)
  then have "eufy_starts ?init" unfolding eufy_starts_def by blast
  then have start: "reachable eufy_starts (eufy_step 0 '''') ?init" by (rule reachable.first)
  have "eufy_step 0 '''' CloudConnect ?init = Some ?e" by (simp add: eufy_step_def)
  with start have r: "reachable eufy_starts (eufy_step 0 '''') ?e" by (rule reachable.next_state)
  have serial: "plain_serial ''T1''" by (simp add: plain_serial_def)
  have e: "connected ?e" "sessions ?e ''T1'' = None" "pendingSnapshots ?e ''T1'' = None"
    by (simp_all add: on_connect_def startAllAutoSnapTimers_def armLoginFailTimer_def set_timer_def clear_timer_def emit_def eufy_init_def)
  let ?evs = "[HttpReq 1 (refresh_req ''T1''), HttpReq 2 (refresh_req ''T1''), AwaitEnds (next_id ?e + 2) (Failed (Error ''x'')), TimePasses 100000]"
  let ?woken = "refreshSnapshot (Http 1 ''T1'') ?e"
  have s1: "eufy_step 0 '''' (HttpReq 1 (refresh_req ''T1'')) ?e = Some ?woken"
    by (simp add: eufy_step_def refresh_route [OF serial])
  have w1: "waiting ''T1'' (next_id ?e) (Suc (next_id ?e)) [] ?woken"
    and t1: "tasks ?woken (Suc (Suc (next_id ?e))) = Some (RefreshStarting (Http 1 ''T1'') ''T1'' (next_id ?e) (Suc (next_id ?e)))"
    using e by (simp_all add: refreshSnapshot_def Let_def set_timer_def add_task_def emit_def waiting_def)
  let ?joined = "with_waiters (next_id ?e) [Http 2 ''T1''] ?woken"
  have s2: "eufy_step 0 '''' (HttpReq 2 (refresh_req ''T1'')) ?woken = Some ?joined"
    using joins [OF w1 serial, of 0 "''''" "[2]"] by (simp split: option.splits)
  obtain e3 where s3: "eufy_step 0 '''' (AwaitEnds (Suc (Suc (next_id ?e))) (Failed (Error ''x''))) ?joined = Some e3"
    using t1 by (simp add: eufy_step_def)
  have "\<exists>e'. run (eufy_step 0 '''') ?evs ?e = Some e'"
    by (simp only: run.simps s1 s2 option.case add_2_eq_Suc' s3) (simp add: eufy_step_def)
  then obtain e' where run: "run (eufy_step 0 '''') ?evs ?e = Some e'" ..
  from failed_wake_strands_joiners [OF r serial e, of 1 "[2]" "Error ''x''" "[TimePasses 100000]" e'] run r
  show ?thesis by auto
qed

end
