(* ===== verification/EufySessions.thy ===== *)
theory EufySessions
  imports EufyFrames
begin

text \<open>
  Video sessions of the viewer process: the life of one viewer, and what happens to a viewer that takes
  over the camera of another.
\<close>

section \<open>One viewer\<close>

lemma video_data:
  assumes "captures e ff = None" "streams e ff = Some w" "w \<in> open_ws e"
  shows "run (eufy_step codecNone serials) (map (FfmpegData ff) bs) e = Some (e\<lparr>outs := outs e @ map (WsData w) bs\<rparr>)"
  using assms
proof (induction bs arbitrary: e)
  case (Cons b bs)
  have "eufy_step codecNone serials (FfmpegData ff b) e = Some (emit (WsData w b) e)"
    using Cons.prems by (simp add: eufy_step_def on_ffmpeg_data_def)
  with Cons.prems Cons.IH [of "emit (WsData w b) e"] show ?case by (simp add: emit_def)
qed simp

text \<open>A viewer opens a socket, watches and closes it.\<close>

definition watch :: "nat \<Rightarrow> nat \<Rightarrow> string \<Rightarrow> stream_meta \<Rightarrow> bool \<Rightarrow> bytes list \<Rightarrow> event list" where
  "watch k w sn md audio bs =
     [Upgrade w ''/stream'' (JStr sn), AwaitEnds k Done, AwaitEnds (k + 1) Done, LivestreamStart sn md audio]
     @ map (FfmpegData (k + 2)) bs @ [SocketClosed w]"

text \<open>
  C25. One viewer sees the video. The socket of a viewer makes the process start the camera and, when its
  stream comes, one FFmpeg process for it, with sound when the stream has a known codec; every piece of
  its output goes to that socket, in order, and when the socket closes the process is killed and the
  camera stopped, and nothing of the session is left.
\<close>

theorem viewer_lifecycle:
  assumes "sn \<noteq> ''''" "sessions e sn = None" "pendingSnapshots e sn = None" "captures e (next_id e + 2) = None"
  shows "\<exists>e'. run (eufy_step codecNone serials) (watch (next_id e) w sn md audio bs) e = Some e' \<and>
    outs e' = outs e @ [Sdk ConnectPlain, Sdk (StartLive sn),
        Spawn (next_id e + 2) (buildFfmpegArgs md (stream_has_audio codecNone md audio))]
      @ map (WsData w) bs @ [Kill (next_id e + 2), Sdk (StopLive sn)] \<and>
    sessions e' = sessions e \<and> open_ws e' = open_ws e - {w} \<and> pendingSnapshots e' = pendingSnapshots e"
proof -
  let ?k = "next_id e" and ?step = "eufy_step codecNone serials"
  define e1 where "e1 = session_create sn w (e\<lparr>open_ws := insert w (open_ws e), ws_sn := (ws_sn e)(w \<mapsto> sn)\<rparr>)"
  have s1: "?step (Upgrade w ''/stream'' (JStr sn)) e = Some e1"
    using assms(1,2) by (simp add: eufy_step_def on_upgrade_def startSession_def e1_def)
  define e2 where "e2 = session_connected sn w Done (e1\<lparr>tasks := (tasks e1)(?k := None)\<rparr>)"
  have s2: "?step (AwaitEnds ?k Done) e1 = Some e2"
    by (simp add: eufy_step_def e2_def finish_task_def e1_def session_create_def add_task_def emit_def)
  define e3 where "e3 = e2\<lparr>tasks := (tasks e2)(Suc ?k := None)\<rparr>"
  have s3: "?step (AwaitEnds (Suc ?k) Done) e2 = Some e3"
    by (simp add: eufy_step_def e3_def finish_task_def e2_def e1_def session_create_def session_connected_def
        session_started_def add_task_def emit_def)
  let ?s = "\<lparr>se_sn = sn, se_ws = w, se_ffmpeg = None\<rparr>"
  have e3: "sessions e3 = (sessions e)(sn \<mapsto> ?s)" "pendingSnapshots e3 = pendingSnapshots e" "captures e3 = captures e"
    "next_id e3 = Suc (Suc ?k)" "open_ws e3 = insert w (open_ws e)" "ws_sn e3 w = Some sn"
    "outs e3 = outs e @ [Sdk ConnectPlain, Sdk (StartLive sn)]"
    by (simp_all add: e3_def e2_def e1_def session_create_def session_connected_def add_task_def emit_def)
  define e4 where "e4 = startFfmpeg codecNone ?s md audio e3"
  have s4: "?step (LivestreamStart sn md audio) e3 = Some e4"
    using assms(3) by (simp add: eufy_step_def on_livestream_start_def e3 e4_def)
  have e4: "sessions e4 = (sessions e)(sn \<mapsto> ?s\<lparr>se_ffmpeg := Some (Suc (Suc ?k))\<rparr>)" "streams e4 (Suc (Suc ?k)) = Some w"
    "captures e4 = captures e" "open_ws e4 = insert w (open_ws e)" "ws_sn e4 w = Some sn" "pendingSnapshots e4 = pendingSnapshots e"
    "outs e4 = outs e @ [Sdk ConnectPlain, Sdk (StartLive sn),
        Spawn (Suc (Suc ?k)) (buildFfmpegArgs md (stream_has_audio codecNone md audio))]"
    by (simp_all add: e4_def startFfmpeg_def Let_def emit_def e3)
  let ?e5 = "e4\<lparr>outs := outs e4 @ map (WsData w) bs\<rparr>"
  have s5: "run ?step (map (FfmpegData (Suc (Suc ?k))) bs) e4 = Some ?e5"
    by (rule video_data) (use assms(4) in \<open>simp_all add: e4\<close>)
  define e6 where "e6 = on_ws_close w ?e5"
  have s6: "?step (SocketClosed w) ?e5 = Some e6" by (simp add: eufy_step_def e6_def)
  have "sessions e6 = sessions e"
    using assms(2) by (auto simp: e6_def on_ws_close_def stopSession_def Let_def emit_def e4)
  moreover have "outs e6 = outs e4 @ map (WsData w) bs @ [Kill (Suc (Suc ?k)), Sdk (StopLive sn)]"
    "open_ws e6 = open_ws e - {w}" "pendingSnapshots e6 = pendingSnapshots e"
    by (simp_all add: e6_def on_ws_close_def stopSession_def Let_def emit_def e4)
  moreover have "run ?step (watch ?k w sn md audio bs) e = Some e6"
    by (simp add: watch_def run_append s1 s2 s3 s4 s5 s6)
  ultimately show ?thesis using e4(7) by (intro exI [of _ e6]) simp
qed

lemma viewer_lifecycle_witness:
  "\<exists>e'. run (eufy_step 0 '''') (watch 0 7 ''T1'' \<lparr>videoCodec = H265, audioCodec = Some 1, videoWidth = 0, videoHeight = 0\<rparr>
      True [[71], [72]]) (eufy_init 0) = Some e' \<and>
    filter (\<lambda>x. case x of WsData _ _ \<Rightarrow> True | _ \<Rightarrow> False) (outs e') = [WsData 7 [71], WsData 7 [72]]"
proof -
  have e: "''T1'' \<noteq> ''''" "sessions (eufy_init 0) ''T1'' = None" "pendingSnapshots (eufy_init 0) ''T1'' = None"
    "captures (eufy_init 0) (next_id (eufy_init 0) + 2) = None" "next_id (eufy_init 0) = 0"
    by (simp_all add: eufy_init_def)
  from viewer_lifecycle [OF e(1-4), of 0 "''''" 7 "\<lparr>videoCodec = H265, audioCodec = Some 1, videoWidth = 0, videoHeight = 0\<rparr>"
      True "[[71], [72]]"] obtain e' where
    "run (eufy_step 0 '''') (watch (next_id (eufy_init 0)) 7 ''T1'' \<lparr>videoCodec = H265, audioCodec = Some 1, videoWidth = 0, videoHeight = 0\<rparr>
      True [[71], [72]]) (eufy_init 0) = Some e'"
    and o: "outs e' = outs (eufy_init 0) @ [Sdk ConnectPlain, Sdk (StartLive ''T1''), Spawn (next_id (eufy_init 0) + 2)
        (buildFfmpegArgs \<lparr>videoCodec = H265, audioCodec = Some 1, videoWidth = 0, videoHeight = 0\<rparr>
          (stream_has_audio 0 \<lparr>videoCodec = H265, audioCodec = Some 1, videoWidth = 0, videoHeight = 0\<rparr> True))]
      @ map (WsData 7) [[71], [72]] @ [Kill (next_id (eufy_init 0) + 2), Sdk (StopLive ''T1'')]" by blast
  moreover have "filter (\<lambda>x. case x of WsData _ _ \<Rightarrow> True | _ \<Rightarrow> False) (outs e') = [WsData 7 [71], WsData 7 [72]]"
    unfolding o by (simp add: eufy_init_def)
  ultimately show ?thesis unfolding e(5) by blast
qed

section \<open>A second viewer\<close>

text \<open>
  C26. A viewer that takes over can lose its session. When a second viewer opens a socket for a camera
  that is being watched, the first session is stopped and the second replaces it; but the first socket
  stays open, and when it closes later it stops the session of the second viewer, whose socket stays open
  without one: the next stream of the camera is stopped as one that nobody watches.
\<close>

theorem takeover_stopped_by_first:
  assumes "sn \<noteq> ''''" "sessions e sn = Some s" "ws_sn e a = Some sn" "a \<in> open_ws e" "a \<noteq> b" "pendingSnapshots e sn = None"
  shows "\<exists>e1 e2. run (eufy_step codecNone serials) [Upgrade b ''/stream'' (JStr sn), AwaitEnds (next_id e) Done] e = Some e1 \<and>
    sessions e1 sn = Some \<lparr>se_sn = sn, se_ws = b, se_ffmpeg = None\<rparr> \<and> a \<in> open_ws e1 \<and>
    eufy_step codecNone serials (SocketClosed a) e1 = Some e2 \<and> sessions e2 sn = None \<and> b \<in> open_ws e2 \<and>
    eufy_step codecNone serials (LivestreamStart sn md audio) e2 = Some (emit (Sdk (StopLive sn)) e2)"
proof -
  let ?step = "eufy_step codecNone serials"
  let ?in = "e\<lparr>open_ws := insert b (open_ws e), ws_sn := (ws_sn e)(b \<mapsto> sn)\<rparr>"
  define e0 where "e0 = add_task (StartStopping sn b) (stopSession sn ?in)"
  have s0: "?step (Upgrade b ''/stream'' (JStr sn)) e = Some e0"
    using assms(1,2) by (simp add: eufy_step_def on_upgrade_def startSession_def e0_def)
  have e0: "tasks e0 (next_id e) = Some (StartStopping sn b)" "open_ws e0 = insert b (open_ws e)" "ws_sn e0 = (ws_sn e)(b \<mapsto> sn)"
    "pendingSnapshots e0 = pendingSnapshots e"
    using assms(2) by (auto simp: e0_def stopSession_def add_task_def emit_def Let_def split: option.split)
  define e1 where "e1 = session_create sn b (e0\<lparr>tasks := (tasks e0)(next_id e := None)\<rparr>)"
  have s1: "?step (AwaitEnds (next_id e) Done) e0 = Some e1"
    by (simp add: eufy_step_def e0 finish_task_def e1_def)
  have e1: "sessions e1 sn = Some \<lparr>se_sn = sn, se_ws = b, se_ffmpeg = None\<rparr>" "open_ws e1 = insert b (open_ws e)"
    "ws_sn e1 a = Some sn" "pendingSnapshots e1 = pendingSnapshots e"
    using assms(3,5) by (simp_all add: e1_def session_create_def add_task_def emit_def e0)
  define e2 where "e2 = on_ws_close a e1"
  have s2: "?step (SocketClosed a) e1 = Some e2" by (simp add: eufy_step_def e2_def)
  have e2: "sessions e2 sn = None" "b \<in> open_ws e2" "pendingSnapshots e2 = pendingSnapshots e"
    using assms(5) by (simp_all add: e2_def on_ws_close_def stopSession_def Let_def emit_def e1)
  have "?step (LivestreamStart sn md audio) e2 = Some (emit (Sdk (StopLive sn)) e2)"
    using assms(6) by (simp add: eufy_step_def on_livestream_start_def e2)
  with s0 s1 e1 s2 e2 assms(4) show ?thesis by (intro exI [of _ e1] exI [of _ e2]) simp
qed

lemma takeover_stopped_by_first_witness:
  "\<exists>e e2. sessions e ''T1'' = Some \<lparr>se_sn = ''T1'', se_ws = 1, se_ffmpeg = None\<rparr> \<and>
    run (eufy_step 0 '''') [Upgrade 2 ''/stream'' (JStr ''T1''), AwaitEnds (next_id e) Done, SocketClosed 1] e = Some e2 \<and>
    sessions e2 ''T1'' = None \<and> 2 \<in> open_ws e2"
proof -
  define e where "e = on_upgrade 1 ''/stream'' (JStr ''T1'') (eufy_init 0)"
  have e: "sessions e ''T1'' = Some \<lparr>se_sn = ''T1'', se_ws = 1, se_ffmpeg = None\<rparr>" "ws_sn e 1 = Some ''T1''" "1 \<in> open_ws e"
    "pendingSnapshots e ''T1'' = None"
    by (simp_all add: e_def on_upgrade_def startSession_def session_create_def add_task_def emit_def eufy_init_def)
  from takeover_stopped_by_first [OF _ e(1-3) _ e(4), of 2 0 "''''" "\<lparr>videoCodec = H264, audioCodec = None, videoWidth = 0, videoHeight = 0\<rparr>" False]
  obtain e1 e2 where "run (eufy_step 0 '''') [Upgrade 2 ''/stream'' (JStr ''T1''), AwaitEnds (next_id e) Done] e = Some e1"
    "eufy_step 0 '''' (SocketClosed 1) e1 = Some e2" "sessions e2 ''T1'' = None" "2 \<in> open_ws e2" by auto
  moreover from this have "run (eufy_step 0 '''') ([Upgrade 2 ''/stream'' (JStr ''T1''), AwaitEnds (next_id e) Done] @ [SocketClosed 1]) e = Some e2"
    unfolding run_append by simp
  ultimately show ?thesis using e(1) by (intro exI [of _ e] exI [of _ e2]) simp
qed

section \<open>A start that fails late\<close>


text \<open>The first viewer's connect hangs; the second viewer takes over and sees the video.\<close>

definition hanging_start :: "event list" where
  "hanging_start =
     [Upgrade 1 ''/stream'' (JStr ''T1''), Upgrade 2 ''/stream'' (JStr ''T1''), AwaitEnds 1 Done, AwaitEnds 2 Done, AwaitEnds 3 Done,
      LivestreamStart ''T1'' \<lparr>videoCodec = H264, audioCodec = None, videoWidth = 0, videoHeight = 0\<rparr> False]"


end
