(* ===== verification/EufyShutdown.thy ===== *)
theory EufyShutdown
  imports EufySchedule
begin

text \<open>
  The end of the viewer process: the handler of the interrupt signal (the last lines of
  \<open>eufy/server.js\<close>), which ends the schedule, stops the cameras one after the other, closes the client of
  the cloud and exits. While it waits for a camera the process serves on, and every further signal starts a
  handler of its own.
\<close>

section \<open>The handler\<close>

text \<open>A handler waits for a camera to stop, with the cameras left, or for the client to close.\<close>

datatype shutdown = Stopping "string list" | Closing

record viewer_process =
  serving :: est
  shutdowns :: "shutdown list"
  closes :: nat
  exited :: bool

text \<open>The loop over the sessions at the signal: one that is gone needs no wait, the next one is stopped.\<close>

fun stop_next :: "string list \<Rightarrow> est \<Rightarrow> est \<times> shutdown" where
  "stop_next [] e = (e, Closing)"
| "stop_next (sn # sns) e =
     (if sessions e sn = None then stop_next sns e else (stopSession sn e, Stopping sns))"

definition closes_of :: "shutdown \<Rightarrow> nat" where
  "closes_of h = (if h = Closing then 1 else 0)"

text \<open>The handler up to its first await, with the keys of the two maps in their order.\<close>

definition on_sigint :: "string list \<Rightarrow> string list \<Rightarrow> viewer_process \<Rightarrow> viewer_process" where
  "on_sigint tks sns p =
     (let (e, h) = stop_next sns (fold clearAutoSnapTimer tks (serving p))
      in p\<lparr>serving := e, shutdowns := shutdowns p @ [h], closes := closes p + closes_of h\<rparr>)"

text \<open>The handler after an await, whose failure it ignores.\<close>

definition shutdown_resumes :: "nat \<Rightarrow> viewer_process \<Rightarrow> viewer_process" where
  "shutdown_resumes j p =
     (case shutdowns p ! j of
        Closing \<Rightarrow> p\<lparr>exited := True\<rparr>
      | Stopping sns \<Rightarrow>
          (let (e, h) = stop_next sns (serving p)
           in p\<lparr>serving := e, shutdowns := (shutdowns p)[j := h], closes := closes p + closes_of h\<rparr>))"

datatype process_event = Serves event | Sigint "string list" "string list" | Resumes nat

definition process_step :: "nat \<Rightarrow> string \<Rightarrow> process_event \<Rightarrow> viewer_process \<Rightarrow> viewer_process option" where
  "process_step codecNone serials ev p =
     (if exited p then None
      else
        (case ev of
           Serves x \<Rightarrow>
             (case eufy_step codecNone serials x (serving p) of None \<Rightarrow> None | Some e \<Rightarrow> Some (p\<lparr>serving := e\<rparr>))
         | Sigint tks sns \<Rightarrow>
             if distinct tks \<and> set tks = dom (autoSnapTimers (serving p)) \<and>
               distinct sns \<and> set sns = dom (sessions (serving p))
             then Some (on_sigint tks sns p) else None
         | Resumes j \<Rightarrow> if j < length (shutdowns p) then Some (shutdown_resumes j p) else None))"

section \<open>Every camera is stopped\<close>

definition asked :: "effect list \<Rightarrow> string \<Rightarrow> est \<Rightarrow> bool" where
  "asked xs sn e = (\<exists>ys. outs e = xs @ ys \<and> Sdk (StopLive sn) \<in> set ys)"

definition stoppable :: "effect list \<Rightarrow> string \<Rightarrow> est \<Rightarrow> bool" where
  "stoppable xs sn e = (prefix xs (outs e) \<and> (sessions e sn \<noteq> None \<or> asked xs sn e))"

lemma asked_outs: "asked xs sn e \<Longrightarrow> prefix (outs e) (outs e') \<Longrightarrow> asked xs sn e'"
  by (auto simp: asked_def prefix_def)

lemma stop_outs: "prefix (outs e) (outs (stopSession sn e))"
  by (auto simp: stopSession_def emit_def Let_def split: option.split)

lemma stop_asks: "sessions e sn \<noteq> None \<Longrightarrow> prefix xs (outs e) \<Longrightarrow> asked xs sn (stopSession sn e)"
  by (auto simp: asked_def prefix_def stopSession_def Let_def emit_def split: option.split)

lemma stop_stoppable: "stoppable xs sn e \<Longrightarrow> stoppable xs sn (stopSession sn' e)"
proof (cases "sn' = sn \<and> sessions e sn \<noteq> None")
  case True
  assume "stoppable xs sn e"
  with True show ?thesis using stop_outs [of e sn] stop_asks [of e sn xs]
    by (auto simp: stoppable_def intro: prefix_order.trans)
next
  case False
  assume s: "stoppable xs sn e"
  from False have "sessions (stopSession sn' e) sn = sessions e sn"
    by (auto simp: stopSession_def Let_def emit_def split: option.split)
  with s stop_outs [of e sn'] show ?thesis
    by (auto simp: stoppable_def intro: asked_outs prefix_order.trans)
qed

interpretation stoppable: snapshot_steps "stoppable xs sn" for xs sn
proof unfold_locales
  show "stoppable xs sn (stopSession sn' e)" if "stoppable xs sn e" for sn' e
    using that by (rule stop_stoppable)
qed (auto simp: stoppable_def asked_def emit_def broadcastEvent_def add_task_def clear_timer_def set_timer_def
    split: option.split)

lemma schedule_fields:
  "sessions (clearAutoSnapTimer sn e) = sessions e" "outs (clearAutoSnapTimer sn e) = outs e"
  "sessions (scheduleAutoSnap sn e) = sessions e" "outs (scheduleAutoSnap sn e) = outs e"
  by (auto simp: scheduleAutoSnap_def clearAutoSnapTimer_def clear_timer_def set_timer_def Let_def split: option.split)

lemma stoppable_outs:
  "stoppable xs sn e \<Longrightarrow> prefix (outs e) (outs e') \<Longrightarrow> sessions e' sn = sessions e sn \<Longrightarrow> stoppable xs sn e'"
  by (auto simp: stoppable_def intro: asked_outs prefix_order.trans)

interpretation stoppable_open: open_steps "stoppable xs sn" for xs sn
proof unfold_locales
  show "stoppable xs sn e1" if "stoppable xs sn e" "setAutoSnap sn' n e = Inr e1" for sn' n e e1
    by (rule stoppable_outs [OF that(1)])
      (use that(2) in \<open>auto simp: setAutoSnap_def persistAutoSnapConfig_def emit_def schedule_fields split: if_splits\<close>)
qed (auto intro: stoppable_outs simp: emit_def schedule_fields
    intro!: stoppable.s_refresh stoppable.s_started stoppable.s_timeout stoppable.q_clear stoppable.s_livestream
      stoppable.s_finish)

text \<open>A start that fails takes the session of its camera away, and of no other.\<close>

lemma failed_other:
  assumes "stoppable xs sn e" "sn' \<noteq> sn"
  shows "stoppable xs sn (session_failed sn' w err e)"
  by (rule stoppable_outs [OF assms(1)]) (use assms(2) in \<open>auto simp: session_failed_def emit_def Let_def\<close>)

lemma stoppable_step:
  assumes "stoppable xs sn e" "eufy_step codecNone serials ev e = Some e'" "\<not> start_fails ev e sn"
  shows "stoppable xs sn e'"
proof -
  consider i where "ev = SseClosed i" | i res where "ev = AwaitEnds i res"
    | "\<And>i. ev \<noteq> SseClosed i" "\<And>i res. ev \<noteq> AwaitEnds i res" by blast
  then show ?thesis
  proof cases
    case 1
    show ?thesis by (rule stoppable_outs [OF assms(1)])
        (use assms(2) 1 in \<open>auto simp: eufy_step_def on_sse_close_def clear_timer_def split: option.split\<close>)
  next
    case 2
    then obtain t where t: "tasks e i = Some t" "e' = finish_task serials t res (e\<lparr>tasks := (tasks e)(i := None)\<rparr>)"
      using assms(2) by (auto simp: eufy_step_def split: option.splits)
    show ?thesis unfolding t(2)
    proof (rule stoppable_open.h_await [OF assms(1)])
      fix sn' w err
      assume "t \<in> {StartConnecting sn' w, StartStarting sn' w}" "res = Failed err"
      with assms(3) 2 t(1) have "sn' \<noteq> sn" by (auto simp: start_fails_def)
      then show "stoppable xs sn (session_failed sn' w err (e\<lparr>tasks := (tasks e)(i := None)\<rparr>))"
        by (rule failed_other [OF stoppable_open.k_tasks [OF assms(1)]])
    qed
  next
    case 3
    from 3(2) have "\<not> start_fails ev e x" for x by (auto simp: start_fails_def)
    from stoppable_open.h_open [OF assms(1) 3(1) this assms(2)] show ?thesis .
  qed
qed

text \<open>What a handler that is at work promises for a camera, relative to the state at the first signal.\<close>

definition promised :: "effect list \<Rightarrow> nat \<Rightarrow> string \<Rightarrow> viewer_process \<Rightarrow> shutdown \<Rightarrow> bool" where
  "promised xs n sn q h =
     (case h of
        Stopping rest \<Rightarrow> sn \<in> set rest \<or> asked xs sn (serving q)
      | Closing \<Rightarrow> asked xs sn (serving q) \<and> n < closes q)"

definition stopping :: "effect list \<Rightarrow> nat \<Rightarrow> string \<Rightarrow> viewer_process \<Rightarrow> bool" where
  "stopping xs n sn q =
     (stoppable xs sn (serving q) \<and> n \<le> closes q \<and> (\<forall>h \<in> set (shutdowns q). promised xs n sn q h) \<and>
      (exited q \<longrightarrow> asked xs sn (serving q) \<and> n < closes q))"

lemma stop_next_asks:
  assumes "stoppable xs sn e" "sn \<in> set sns \<or> asked xs sn e" "stop_next sns e = (e', h)"
  shows "stoppable xs sn e' \<and> (h = Closing \<longrightarrow> asked xs sn e') \<and>
    (\<forall>rest. h = Stopping rest \<longrightarrow> sn \<in> set rest \<or> asked xs sn e')"
  using assms
proof (induction sns)
  case (Cons x sns)
  show ?case
  proof (cases "sessions e x = None")
    case True
    with Cons.prems(1,2) have "sn \<in> set sns \<or> asked xs sn e" by (auto simp: stoppable_def)
    with Cons True show ?thesis by simp
  next
    case False
    with Cons.prems have "e' = stopSession x e" "h = Stopping sns" by auto
    moreover have "asked xs sn (stopSession x e)" if "x = sn \<or> asked xs sn e"
      using that False Cons.prems(1) stop_asks asked_outs [OF _ stop_outs] by (auto simp: stoppable_def)
    ultimately show ?thesis using Cons.prems(1,2) by (auto intro: stop_stoppable)
  qed
qed simp

lemma stop_next_outs: "stop_next sns e = (e', h) \<Longrightarrow> prefix (outs e) (outs e')"
  by (induction sns) (auto split: if_splits intro: stop_outs)

lemma promised_mono:
  "promised xs n sn q h \<Longrightarrow> (asked xs sn (serving q) \<Longrightarrow> asked xs sn (serving q')) \<Longrightarrow> closes q \<le> closes q' \<Longrightarrow>
   promised xs n sn q' h"
  by (auto simp: promised_def split: shutdown.splits)

lemma handler_keeps:
  assumes "stopping xs n sn q" "sn \<in> set sns \<or> asked xs sn (serving q)" "stoppable xs sn e" "outs (serving q) = outs e"
    "stop_next sns e = (e', h)" "set hs \<subseteq> insert h (set (shutdowns q))" "\<not> exited q"
  shows "stopping xs n sn (q\<lparr>serving := e', shutdowns := hs, closes := closes q + closes_of h\<rparr>)"
proof -
  have asked: "asked xs sn e'" if "asked xs sn (serving q)"
    by (rule asked_outs [OF that]) (use stop_next_outs [OF assms(5)] assms(4) in simp)
  from assms(2,4) have "sn \<in> set sns \<or> asked xs sn e" by (simp add: asked_def)
  note new = stop_next_asks [OF assms(3) this assms(5)]
  have "promised xs n sn (q\<lparr>serving := e', shutdowns := hs, closes := closes q + closes_of h\<rparr>) x" if "x \<in> set hs" for x
  proof (cases "x = h")
    case True
    with new assms(1) show ?thesis by (cases h) (auto simp: promised_def stopping_def closes_of_def)
  next
    case False
    with that assms(1,6) have "promised xs n sn q x" by (auto simp: stopping_def)
    from promised_mono [OF this] asked show ?thesis by simp
  qed
  with new assms(1,7) show ?thesis by (auto simp: stopping_def)
qed

lemma clear_all: "sessions (fold clearAutoSnapTimer tks e) = sessions e" "outs (fold clearAutoSnapTimer tks e) = outs e"
  by (induction tks arbitrary: e) (simp_all add: schedule_fields)

lemma sigint_keeps:
  assumes "stopping xs n sn q" "\<not> exited q" "set sns = dom (sessions (serving q))"
  shows "stopping xs n sn (on_sigint tks sns q)"
proof -
  obtain e h where n: "stop_next sns (fold clearAutoSnapTimer tks (serving q)) = (e, h)" by fastforce
  have "sn \<in> set sns \<or> asked xs sn (serving q)" using assms(1,3) by (auto simp: stopping_def stoppable_def)
  moreover have "stoppable xs sn (fold clearAutoSnapTimer tks (serving q))"
    by (rule stoppable_outs [of _ _ "serving q"]) (use assms(1) in \<open>simp_all add: clear_all stopping_def\<close>)
  ultimately have "stopping xs n sn (q\<lparr>serving := e, shutdowns := shutdowns q @ [h], closes := closes q + closes_of h\<rparr>)"
    by (rule handler_keeps [OF assms(1) _ _ _ n]) (use assms(2) in \<open>simp_all add: clear_all\<close>)
  with n show ?thesis by (simp add: on_sigint_def)
qed

lemma resumes_keeps:
  assumes "stopping xs n sn q" "\<not> exited q" "j < length (shutdowns q)"
  shows "stopping xs n sn (shutdown_resumes j q)"
proof -
  have h: "promised xs n sn q (shutdowns q ! j)" using assms(1,3) by (simp add: stopping_def)
  show ?thesis
  proof (cases "shutdowns q ! j")
    case (Stopping rest)
    obtain e h where n: "stop_next rest (serving q) = (e, h)" by fastforce
    from h Stopping have "sn \<in> set rest \<or> asked xs sn (serving q)" by (simp add: promised_def)
    moreover have "stoppable xs sn (serving q)" using assms(1) by (simp add: stopping_def)
    ultimately have "stopping xs n sn (q\<lparr>serving := e, shutdowns := (shutdowns q)[j := h], closes := closes q + closes_of h\<rparr>)"
      by (rule handler_keeps [OF assms(1) _ _ refl n set_update_subset_insert assms(2)])
    with n Stopping show ?thesis by (simp add: shutdown_resumes_def)
  next
    case Closing
    with h assms(1) show ?thesis by (auto simp: shutdown_resumes_def stopping_def promised_def split: shutdown.splits)
  qed
qed

lemma serves_keeps:
  assumes "stopping xs n sn q" "\<not> exited q" "eufy_step cn ser x (serving q) = Some e" "\<not> start_fails x (serving q) sn"
  shows "stopping xs n sn (q\<lparr>serving := e\<rparr>)"
proof -
  have "asked xs sn e" if "asked xs sn (serving q)" by (rule asked_outs [OF that outs_grow [OF assms(3)]])
  moreover have "stoppable xs sn e" by (rule stoppable_step [OF _ assms(3,4)]) (use assms(1) in \<open>simp add: stopping_def\<close>)
  ultimately show ?thesis using assms(1,2) by (auto simp: stopping_def elim!: promised_mono)
qed

text \<open>In a run a start of the camera fails.\<close>

definition start_fails_during :: "nat \<Rightarrow> string \<Rightarrow> process_event list \<Rightarrow> viewer_process \<Rightarrow> string \<Rightarrow> bool" where
  "start_fails_during cn ser evs p sn =
     (\<exists>a x b q. evs = a @ Serves x # b \<and> run (process_step cn ser) a p = Some q \<and> start_fails x (serving q) sn)"

lemma during_first: "start_fails x (serving p) sn \<Longrightarrow> start_fails_during cn ser (Serves x # b) p sn"
  unfolding start_fails_during_def by (rule exI [of _ "[]"]) simp

lemma during_later:
  assumes "process_step cn ser ev p = Some q" "start_fails_during cn ser evs q sn"
  shows "start_fails_during cn ser (ev # evs) p sn"
proof -
  obtain a x b r where "evs = a @ Serves x # b" "run (process_step cn ser) a q = Some r" "start_fails x (serving r) sn"
    using assms(2) by (auto simp: start_fails_during_def)
  with assms(1) show ?thesis unfolding start_fails_during_def
    by (intro exI [of _ "ev # a"] exI [of _ x] exI [of _ b] exI [of _ r]) simp
qed

lemma stopping_run:
  assumes "stopping xs n sn q" "run (process_step cn ser) evs q = Some q'" "\<not> start_fails_during cn ser evs q sn"
  shows "stopping xs n sn q'"
  using assms
proof (induction evs arbitrary: q)
  case (Cons ev evs)
  then obtain q1 where s: "process_step cn ser ev q = Some q1" "run (process_step cn ser) evs q1 = Some q'"
    by (auto split: option.splits)
  have "stopping xs n sn q1"
  proof (cases ev)
    case (Serves x)
    with Cons.prems(3) have "\<not> start_fails x (serving q) sn" by (auto dest: during_first)
    with s(1) Serves Cons.prems(1) show ?thesis
      by (auto simp: process_step_def split: option.splits if_splits intro: serves_keeps)
  qed (use s(1) Cons.prems(1) in \<open>auto simp: process_step_def split: if_splits intro: sigint_keeps resumes_keeps\<close>)
  moreover have "\<not> start_fails_during cn ser evs q1 sn" using Cons.prems(3) during_later [OF s(1)] by blast
  ultimately show ?case by (rule Cons.IH [OF _ s(2)])
qed simp

text \<open>A viewer process with one video session.\<close>

definition one_session :: viewer_process where
  "one_session = \<lparr>serving = on_upgrade 7 ''/stream'' (JStr ''T1'') (eufy_init 0), shutdowns = [], closes = 0, exited = False\<rparr>"

lemma one_session [simp]: "sessions (serving one_session) = [''T1'' \<mapsto> \<lparr>se_sn = ''T1'', se_ws = 7, se_ffmpeg = None\<rparr>]"
  "autoSnapTimers (serving one_session) = Map.empty" "shutdowns one_session = []" "closes one_session = 0"
  "\<not> exited one_session"
  by (simp_all add: one_session_def on_upgrade_def startSession_def session_create_def add_task_def emit_def eufy_init_def)

lemma one_session_signal: "process_step cn ser (Sigint [] [''T1'']) one_session =
    Some (one_session\<lparr>serving := stopSession ''T1'' (serving one_session), shutdowns := [Stopping []]\<rparr>)"
  by (simp add: process_step_def on_sigint_def closes_of_def)

lemma one_session_ends: "run (process_step cn ser) [Resumes 0, Resumes 0]
    (one_session\<lparr>serving := stopSession ''T1'' (serving one_session), shutdowns := [Stopping []]\<rparr>) =
  Some (one_session\<lparr>serving := stopSession ''T1'' (serving one_session), shutdowns := [Closing], closes := 1, exited := True\<rparr>)"
  by (simp add: process_step_def shutdown_resumes_def closes_of_def)

text \<open>
  C10. An orderly end. When the process exits after its first interrupt signal, it has since the signal
  asked every camera that had a video session then to stop, and told the client of the cloud to close,
  whatever was served meanwhile and however often the signal came; only a camera whose start failed in
  that time is left out.
\<close>

theorem shutdown_stops_cameras:
  assumes "shutdowns p = []" "process_step cn ser (Sigint tks sns) p = Some p1" "run (process_step cn ser) evs p1 = Some p2"
    "exited p2" "sessions (serving p) sn \<noteq> None" "\<not> start_fails_during cn ser evs p1 sn"
  shows "\<exists>ys. outs (serving p2) = outs (serving p) @ ys \<and> Sdk (StopLive sn) \<in> set ys \<and> closes p < closes p2"
proof -
  let ?xs = "outs (serving p)"
  have p: "\<not> exited p" "set sns = dom (sessions (serving p))" "p1 = on_sigint tks sns p"
    using assms(2) by (auto simp: process_step_def split: if_splits)
  have "stopping ?xs (closes p) sn p" using assms(1,5) p(1) by (simp add: stopping_def stoppable_def)
  from sigint_keeps [OF this p(1,2), of tks] have "stopping ?xs (closes p) sn p1" by (simp add: p(3))
  from stopping_run [OF this assms(3,6)] assms(4) show ?thesis by (auto simp: stopping_def asked_def)
qed

lemma shutdown_stops_cameras_witness:
  "\<exists>p2 ys. run (process_step 0 '''') [Sigint [] [''T1''], Resumes 0, Resumes 0] one_session = Some p2 \<and> exited p2 \<and>
     outs (serving p2) = outs (serving one_session) @ ys \<and> Sdk (StopLive ''T1'') \<in> set ys"
proof -
  have "\<not> start_fails_during 0 '''' [Resumes 0, Resumes 0] q ''T1''" for q
    by (auto simp: start_fails_during_def Cons_eq_append_conv)
  from shutdown_stops_cameras [OF one_session(3) one_session_signal one_session_ends _ _ this]
  show ?thesis using one_session_signal [of 0 "''''"] one_session_ends [of 0 "''''"] by auto
qed

section \<open>The process exits\<close>

text \<open>How often a handler waits at most.\<close>

definition waits :: "shutdown \<Rightarrow> nat" where
  "waits h = (case h of Stopping rest \<Rightarrow> length rest + 2 | Closing \<Rightarrow> 1)"

lemma stop_next_waits: "stop_next sns e = (e', h) \<Longrightarrow> 0 < waits h \<and> waits h \<le> length sns + 1"
  by (induction sns) (auto simp: waits_def split: if_splits)

definition due :: "nat \<Rightarrow> nat \<Rightarrow> viewer_process \<Rightarrow> bool" where
  "due j k q = (\<not> exited q \<longrightarrow> j < length (shutdowns q) \<and> 0 < waits (shutdowns q ! j) \<and> waits (shutdowns q ! j) \<le> k)"

lemma due_step:
  assumes "due j k q" "process_step cn ser ev q = Some q'"
  shows "due j (k - count_list [ev] (Resumes j)) q' \<and> count_list [ev] (Resumes j) \<le> k"
proof -
  have q: "\<not> exited q" using assms(2) by (auto simp: process_step_def split: if_splits)
  with assms(1) have k: "j < length (shutdowns q)" "0 < waits (shutdowns q ! j)" "waits (shutdowns q ! j) \<le> k" by (auto simp: due_def)
  show ?thesis
  proof (cases ev)
    case (Serves x)
    with assms(2) q k show ?thesis by (auto simp: process_step_def due_def split: option.splits)
  next
    case (Sigint tks sns)
    with assms(2) q k show ?thesis
      by (auto simp: process_step_def on_sigint_def due_def nth_append split: if_splits prod.splits)
  next
    case (Resumes i)
    with assms(2) q have i: "i < length (shutdowns q)" "q' = shutdown_resumes i q"
      by (auto simp: process_step_def split: if_splits)
    show ?thesis
    proof (cases "shutdowns q ! i")
      case (Stopping rest)
      obtain e h where n: "stop_next rest (serving q) = (e, h)" by fastforce
      with Stopping i k q Resumes stop_next_waits [OF n] show ?thesis
        by (auto simp: due_def shutdown_resumes_def waits_def nth_list_update)
    next
      case Closing
      with i k Resumes show ?thesis by (auto simp: due_def shutdown_resumes_def)
    qed
  qed
qed

lemma due_run:
  assumes "due j k q" "run (process_step cn ser) evs q = Some q'"
  shows "due j (k - count_list evs (Resumes j)) q' \<and> count_list evs (Resumes j) \<le> k"
  using assms
proof (induction evs arbitrary: q k)
  case (Cons ev evs)
  then obtain q1 where s: "process_step cn ser ev q = Some q1" "run (process_step cn ser) evs q1 = Some q'"
    by (auto split: option.splits)
  let ?c = "count_list [ev] (Resumes j)"
  from due_step [OF Cons.prems(1) s(1)] have "due j (k - ?c) q1" "?c \<le> k" by simp_all
  moreover from Cons.IH [OF this(1) s(2)]
  have "due j (k - ?c - count_list evs (Resumes j)) q'" "count_list evs (Resumes j) \<le> k - ?c" by simp_all
  moreover have "count_list (ev # evs) (Resumes j) = ?c + count_list evs (Resumes j)" by simp
  ultimately show ?case by (simp only: diff_diff_eq) arith
qed simp

text \<open>
  C11. The end comes. After an interrupt signal with n video sessions, the handler of that signal goes on
  from an await at most n + 1 times, whatever else happens, and until then it always waits for one more
  await to end: when that many awaits have ended, the process has exited.
\<close>

theorem shutdown_ends:
  assumes "process_step cn ser (Sigint tks sns) p = Some p1" "run (process_step cn ser) evs p1 = Some p2"
  shows "count_list evs (Resumes (length (shutdowns p))) \<le> length sns + 1 \<and>
    (exited p2 \<or> count_list evs (Resumes (length (shutdowns p))) < length sns + 1 \<and>
       process_step cn ser (Resumes (length (shutdowns p))) p2 \<noteq> None)"
proof -
  let ?j = "length (shutdowns p)"
  have p1: "p1 = on_sigint tks sns p" using assms(1) by (auto simp: process_step_def split: if_splits)
  obtain e h where n: "stop_next sns (fold clearAutoSnapTimer tks (serving p)) = (e, h)" by fastforce
  with stop_next_waits [OF n] have "due ?j (length sns + 1) p1" by (simp add: p1 on_sigint_def due_def)
  from due_run [OF this assms(2)] have d: "due ?j (length sns + 1 - count_list evs (Resumes ?j)) p2"
    "count_list evs (Resumes ?j) \<le> length sns + 1" by simp_all
  then show ?thesis by (auto simp: due_def process_step_def)
qed

lemma shutdown_ends_witness:
  "\<exists>p1 p2. process_step 0 '''' (Sigint [] [''T1'']) one_session = Some p1 \<and>
     run (process_step 0 '''') [Resumes 0, Resumes 0] p1 = Some p2 \<and> exited p2"
proof -
  let ?p1 = "one_session\<lparr>serving := stopSession ''T1'' (serving one_session), shutdowns := [Stopping []]\<rparr>"
  obtain p2 where p2: "run (process_step 0 '''') [Resumes 0, Resumes 0] ?p1 = Some p2" using one_session_ends by blast
  from shutdown_ends [OF one_session_signal p2] have "exited p2" by simp
  with one_session_signal p2 show ?thesis by blast
qed

section \<open>The schedule ends first\<close>

definition process_starts :: "viewer_process \<Rightarrow> bool" where
  "process_starts p = (eufy_starts (serving p) \<and> shutdowns p = [] \<and> closes p = 0 \<and> \<not> exited p)"

lemma auto_stop_next: "auto_ok e \<Longrightarrow> stop_next sns e = (e', h) \<Longrightarrow> auto_ok e'"
  by (induction sns) (auto split: if_splits intro: auto.q_stops)

lemma auto_clear: "auto_ok e \<Longrightarrow> auto_ok (clearAutoSnapTimer sn e)"
  by (rule clear_restores) (auto simp: auto_ok_def intervals_ok_def)

interpretation process_auto: invariant "process_step cn ser" "\<lambda>p. auto_ok (serving p)" process_starts for cn ser
proof unfold_locales
  fix p p' :: viewer_process and ev
  assume p: "auto_ok (serving p)" "process_step cn ser ev p = Some p'"
  show "auto_ok (serving p')"
  proof (cases ev)
    case (Serves x)
    with p show ?thesis by (auto simp: process_step_def split: option.splits if_splits intro: auto_server.h_step)
  next
    case (Sigint tks sns)
    have "auto_ok (fold clearAutoSnapTimer tks (serving p))" by (rule auto.p_fold [OF auto_clear p(1)])
    with p Sigint show ?thesis
      by (auto simp: process_step_def on_sigint_def split: if_splits prod.splits intro: auto_stop_next)
  next
    case (Resumes j)
    with p show ?thesis
      by (auto simp: process_step_def shutdown_resumes_def split: if_splits prod.splits shutdown.splits intro: auto_stop_next)
  qed
qed (auto simp: process_starts_def intro: auto_snap.starts)

lemma clear_all_timers:
  "timers (fold clearAutoSnapTimer tks e) i = Some t \<Longrightarrow> timers e i = Some t \<and> (\<forall>sn \<in> set tks. autoSnapTimers e sn \<noteq> Some i)"
proof (induction tks arbitrary: e)
  case (Cons sn tks)
  then have "timers (clearAutoSnapTimer sn e) i = Some t" "\<forall>x \<in> set tks. autoSnapTimers (clearAutoSnapTimer sn e) x \<noteq> Some i"
    by simp_all
  then show ?case by (auto simp: clearAutoSnapTimer_def clear_timer_def Let_def split: option.splits if_splits)
qed simp

lemma stop_next_timers: "stop_next sns e = (e', h) \<Longrightarrow> timers e' = timers e"
  by (induction sns) (auto simp: stopSession_def Let_def emit_def split: if_splits option.splits)

text \<open>Once the signal is handled no periodic picture is due, whatever was scheduled.\<close>

lemma shutdown_ends_schedule:
  assumes "reachable process_starts (process_step cn ser) p" "process_step cn ser (Sigint tks sns) p = Some p1"
  shows "timers (serving p1) i \<noteq> Some (AutoSnapInterval sn ms)"
proof
  assume t: "timers (serving p1) i = Some (AutoSnapInterval sn ms)"
  obtain e h where n: "stop_next sns (fold clearAutoSnapTimer tks (serving p)) = (e, h)" by fastforce
  have p: "set tks = dom (autoSnapTimers (serving p))" "p1 = on_sigint tks sns p"
    using assms(2) by (auto simp: process_step_def split: if_splits)
  with t n have "timers (fold clearAutoSnapTimer tks (serving p)) i = Some (AutoSnapInterval sn ms)"
    by (simp add: on_sigint_def stop_next_timers)
  from clear_all_timers [OF this] have c: "timers (serving p) i = Some (AutoSnapInterval sn ms)"
    "\<And>x. autoSnapTimers (serving p) x \<noteq> Some i" using p(1) by (auto simp: dom_def)
  from process_auto.always [OF assms(1)] have "intervals_ok {} (serving p)" by (simp add: auto_ok_def)
  with c(1) have "autoSnapTimers (serving p) sn = Some i" by (auto simp: intervals_ok_def)
  with c(2) [of sn] show False by simp
qed

end
