(* ===== verification/Dashboard.thy ===== *)
theory Dashboard
  imports EufyServer CameraStream DeviceCommands
begin

text \<open>
  The dashboard (\<open>src/cam-frontend/server.js\<close>): its HTTP routes over the \<open>WyzeAPI\<close> client, the routes
  and the socket that it passes on to the Eufy viewer process, and the event list. The files it serves
  and the proxied requests are answers of their own, and \<open>DashTransport\<close> has the transport of the latter.
\<close>

section \<open>Requests and answers\<close>

record dash_req =
  d_method :: string
  d_path :: string
  d_param :: "string \<Rightarrow> jsval"
  d_body :: string

datatype dash_reply = DJson nat jsval | DHtml | DImage bytes snapshot_source
  | DProxy string | DFetch bool string

definition dash_json :: "nat \<Rightarrow> obj \<Rightarrow> dash_reply m" where
  "dash_json code payload = ret (DJson code (JObj payload))"

section \<open>What is passed on to the Eufy viewer\<close>

definition EUFY_PROXY :: "(string \<times> string) list" where
  "EUFY_PROXY =
     [(''GET /api/eufy/cameras'', ''/api/cameras''),
      (''GET /api/eufy/auth/status'', ''/api/auth/status''),
      (''POST /api/eufy/auth/submit'', ''/api/auth/submit''),
      (''GET /api/eufy/events'', ''/api/events''),
      (''GET /api/eufy/autosnap'', ''/api/autosnap'')]"

text \<open>The path that \<open>proxyToEufy\<close> gets; the segments stay percent-encoded.\<close>

definition eufy_target :: "string \<Rightarrow> string \<Rightarrow> string option" where
  "eufy_target meth p =
     (case map_of EUFY_PROXY (meth @ '' '' @ p) of
        Some t \<Rightarrow> Some t
      | None \<Rightarrow>
          let snapGet = path_segment ''/api/eufy/snapshot/'' '''' p;
              snapRefresh = path_segment ''/api/eufy/snapshot/'' ''/refresh'' p;
              autoSnapSet = path_segment ''/api/eufy/autosnap/'' '''' p in
          if meth = ''GET'' \<and> snapGet \<noteq> None then Some (''/api/snapshot/'' @ the snapGet)
          else if meth = ''POST'' \<and> snapRefresh \<noteq> None then Some (''/api/snapshot/'' @ the snapRefresh @ ''/refresh'')
          else if meth = ''POST'' \<and> autoSnapSet \<noteq> None then Some (''/api/autosnap/'' @ the autoSnapSet)
          else None)"

section \<open>Camera controls\<close>

definition CAMERA_ACTIONS :: "(string \<times> (env \<Rightarrow> jsval \<Rightarrow> jsval \<Rightarrow> jsval m)) list" where
  "CAMERA_ACTIONS =
     [(''floodlight_on'', cameraFloodLightOn), (''floodlight_off'', cameraFloodLightOff),
      (''siren_on'', cameraSirenOn), (''siren_off'', cameraSirenOff),
      (''motion_on'', cameraMotionOn), (''motion_off'', cameraMotionOff),
      (''recording_on'', cameraMotionRecordingOn), (''recording_off'', cameraMotionRecordingOff),
      (''notifications_on'', cameraNotificationsOn), (''notifications_off'', cameraNotificationsOff),
      (''power_on'', cameraTurnOn), (''power_off'', cameraTurnOff)]"

definition APP_ONLY_ACTIONS :: "string list" where
  "APP_ONLY_ACTIONS = [''spotlight_on'', ''spotlight_off'']"

text \<open>
  What an object literal inherits. \<open>CAMERA_ACTIONS[action]\<close> is a function or an object for these names,
  so it is truthy, and its string is no method of the client.
\<close>

definition object_names :: "string list" where
  "object_names = [''constructor'', ''__defineGetter__'', ''__defineSetter__'', ''hasOwnProperty'',
     ''__lookupGetter__'', ''__lookupSetter__'', ''isPrototypeOf'', ''propertyIsEnumerable'', ''toString'',
     ''valueOf'', ''__proto__'', ''toLocaleString'']"

definition camera_method :: "string \<Rightarrow> (env \<Rightarrow> jsval \<Rightarrow> jsval \<Rightarrow> jsval m) option" where
  "camera_method action =
     (case map_of CAMERA_ACTIONS action of
        Some f \<Rightarrow> Some f
      | None \<Rightarrow> if action \<in> set object_names
                then Some (\<lambda>E mac model. throw (TypeError ''wyze[method] is not a function'')) else None)"

definition route_control :: "env \<Rightarrow> string \<Rightarrow> dash_reply m" where
  "route_control E text =
     bindE (liftE (eufy_readJsonBody text)) (\<lambda>body.
     bindE (liftE (get_prop body ''mac'')) (\<lambda>mac.
     let productModel = own_prop body ''productModel''; action = own_prop body ''action'' in
     if \<not> truthy mac \<or> \<not> truthy productModel \<or> \<not> truthy action
     then dash_json 400 [(''error'', JStr ''Missing mac, productModel, or action'')]
     else if action \<in> JStr ` set APP_ONLY_ACTIONS
     then dash_json 501 [(''error'', JStr (''Spotlight can'' @ [CHR 0x27] @ ''t be controlled over the web on this camera - use ''
            @ ''the Wyze app. The Wyze Cam v4 spotlight is only reachable over the camera'' @ [CHR 0x27] @ ''s live connection.''))]
     else case camera_method (js_string action) of
       None \<Rightarrow> dash_json 400 [(''error'', JStr (''Unknown action: '' @ js_string action))]
     | Some f \<Rightarrow>
         seqE (maybeLogin E)
         (catchE (bindE (f E mac productModel) (\<lambda>_. dash_json 200 [(''ok'', JBool True), (''action'', action)]))
           (\<lambda>err. dash_json 502 [(''error'', JStr (js_string action @ '' failed: '' @ emsg err))]))))"

section \<open>Events\<close>

fun map_js :: "(jsval \<Rightarrow> exn + 'b) \<Rightarrow> jsval list \<Rightarrow> exn + 'b list" where
  "map_js f [] = Inr []"
| "map_js f (v # vs) = bindR (f v) (\<lambda>b. bindR (map_js f vs) (\<lambda>bs. Inr (b # bs)))"

text \<open>The names of the cameras; any failure leaves none.\<close>

definition camera_names :: "env \<Rightarrow> obj m" where
  "camera_names E =
     catchE
       (bindE (getCameras E) (\<lambda>cams.
        liftE (bindR (array_of ''map'' cams) (\<lambda>cs.
          bindR (map_js (\<lambda>c. bindR (get_prop c ''mac'') (\<lambda>mac. Inr (js_string mac, own_prop c ''nickname''))) cs) (\<lambda>ps.
          Inr (spread [] ps))))))
       (\<lambda>_. ret [])"

definition file_of_type :: "int \<Rightarrow> jsval list \<Rightarrow> exn + jsval" where
  "file_of_type n = find_js (\<lambda>f. bindR (get_prop f ''type'') (\<lambda>t. Inr (t = JNum n)))"

text \<open>An event of the answer with its time; \<open>None\<close> is \<open>NaN\<close>.\<close>

definition normalized_event :: "obj \<Rightarrow> jsval \<Rightarrow> exn + (int option \<times> obj)" where
  "normalized_event names e =
     bindR (get_prop e ''file_list'') (\<lambda>fl.
     bindR (array_of ''find'' (js_or fl (JArr []))) (\<lambda>files.
     bindR (file_of_type 1 files) (\<lambda>i.
     bindR (file_of_type 2 files) (\<lambda>video.
     bindR (array_of ''map'' (js_or (own_prop e ''tag_list'') (JArr []))) (\<lambda>ts.
     bindR (map_js (\<lambda>t. bindR (get_prop t ''name'') (\<lambda>n. Inr (js_or n (own_prop t ''tag_id'')))) ts) (\<lambda>tags.
     let image = js_or i (if files = [] then JUndef else hd files); mac = own_prop e ''device_mac'';
         time = js_number (own_prop e ''event_ts'') in
     Inr (time,
       [(''id'', own_prop e ''event_id''), (''mac'', mac), (''model'', own_prop e ''device_model''),
        (''nickname'', js_or (oget names (js_string mac)) mac), (''time'', num_val time),
        (''value'', JStr (js_string (js_coalesce (own_prop e ''event_value'') (JStr '''')))),
        (''category'', own_prop e ''event_category''), (''tags'', JArr (filter truthy tags)),
        (''thumbnail'', js_or (opt_prop image ''url'') JNull), (''video'', js_or (opt_prop video ''url'') JNull)])))))))"

text \<open>\<open>filter\<close> and the stable \<open>sort\<close> with the newest first.\<close>

definition later_than :: "int option \<Rightarrow> int option \<Rightarrow> bool" where
  "later_than t since = (case (t, since) of (Some a, Some b) \<Rightarrow> b < a | _ \<Rightarrow> False)"

definition recent_events :: "int option \<Rightarrow> (int option \<times> 'a) list \<Rightarrow> (int option \<times> 'a) list" where
  "recent_events since es = sort_key (\<lambda>(t, _). - the t) (filter (\<lambda>(t, _). later_than t since) es)"

definition route_dash_events :: "env \<Rightarrow> (string \<Rightarrow> jsval) \<Rightarrow> dash_reply m" where
  "route_dash_events E param =
     seqE (maybeLogin E)
     (bindE (getS (\<lambda>s. if truthy (param ''since'') then js_number (param ''since'') else Some (now s - 60 * 60 * 1000))) (\<lambda>since.
      bindE (getEventList E [(''beginTime'', num_val since), (''count'', JNum 50),
        (''deviceMacList'', JArr (if truthy (param ''mac'') then [param ''mac''] else []))]) (\<lambda>events.
      bindE (camera_names E) (\<lambda>names.
      bindE (liftE (bindR (array_of ''map'' events) (map_js (normalized_event names)))) (\<lambda>es.
      dash_json 200 [(''events'', JArr (map (\<lambda>(_, ob). JObj ob) (recent_events since es)))])))))"

section \<open>Other routes\<close>

definition route_summaries :: "env \<Rightarrow> dash_reply m" where
  "route_summaries E =
     seqE (maybeLogin E) (bindE (getCameraSummaries E) (\<lambda>cs. dash_json 200 [(''cameras'', cs)]))"

definition route_stream_params :: "env \<Rightarrow> (string \<Rightarrow> jsval) \<Rightarrow> dash_reply m" where
  "route_stream_params E param =
     (let mac = param ''mac''; productModel = param ''productModel'';
          substream = JBool (param ''substream'' = JStr ''true'') in
      if \<not> truthy mac \<or> \<not> truthy productModel
      then dash_json 400 [(''error'', JStr ''Missing mac or productModel'')]
      else seqE (maybeLogin E)
        (bindE (getCameraWebRTCConnectionInfo E mac productModel
            (default_conn_options\<lparr>o_substream := substream, o_noCache := JBool True\<rparr>)) (\<lambda>params.
         dash_json 200 [(''params'', JObj params), (''cached'', oget params ''cached'')])))"

definition route_dash_snapshot ::
  "env \<Rightarrow> (jsval \<Rightarrow> jsval \<Rightarrow> int \<Rightarrow> bytes m) \<Rightarrow> (string \<Rightarrow> jsval) \<Rightarrow> dash_reply m" where
  "route_dash_snapshot E capture param =
     (let mac = param ''mac'' in
      if \<not> truthy mac then dash_json 400 [(''error'', JStr ''Missing mac'')]
      else seqE (maybeLogin E)
        (catchE (bindE (getCameraSnapshotImage E capture mac JUndef 20000 (JBool False) 10000)
            (\<lambda>(buffer, source). ret (DImage buffer source)))
          (\<lambda>err. dash_json 502 [(''error'', JStr (''Snapshot failed: '' @ emsg err))])))"

definition route_thumbnail :: "(string \<Rightarrow> jsval) \<Rightarrow> dash_reply m" where
  "route_thumbnail param =
     (let thumbUrl = param ''url'' in
      if \<not> truthy thumbUrl then dash_json 400 [(''error'', JStr ''Missing url'')]
      else ret (DFetch (prefix ''https'' (js_string thumbUrl)) (js_string thumbUrl)))"

definition route_config :: "jsval \<Rightarrow> dash_reply m" where
  "route_config autostart =
     (let flag = to_lower (js_string (js_or autostart (JStr ''''))) in
      dash_json 200 [(''autoStartStreams'', JBool (flag = ''1'' \<or> flag = ''true'' \<or> flag = ''yes''))])"

definition route_raw_devices :: "env \<Rightarrow> dash_reply m" where
  "route_raw_devices E =
     seqE (maybeLogin E)
     (bindE (getCameras E) (\<lambda>cs.
      bindE (liftE (get_prop cs ''length'')) (\<lambda>n.
      dash_json 200 [(''count'', (case cs of JArr vs \<Rightarrow> JNum (int (length vs)) | _ \<Rightarrow> n)), (''cameras'', cs)])))"

text \<open>An exception in a handler is the answer 500 with the response that it carries.\<close>

definition dash_error :: "exn \<Rightarrow> dash_reply m" where
  "dash_error err = dash_json 500 [(''error'', JStr (emsg err)),
     (''response'', js_or (case eresp err of Some r \<Rightarrow> resp_data r | None \<Rightarrow> JUndef) JNull)]"

definition dash_http ::
  "env \<Rightarrow> (jsval \<Rightarrow> jsval \<Rightarrow> int \<Rightarrow> bytes m) \<Rightarrow> jsval \<Rightarrow> dash_req \<Rightarrow> dash_reply m" where
  "dash_http E capture autostart rq =
     (let isGet = (d_method rq = ''GET''); p = d_path rq; param = d_param rq in
      catchE
        (if isGet \<and> p = ''/'' then ret DHtml
         else case eufy_target (d_method rq) p of Some t \<Rightarrow> ret (DProxy t)
         | None \<Rightarrow>
           if isGet \<and> p = ''/api/cameras'' then route_summaries E
           else if isGet \<and> p = ''/api/stream-params'' then route_stream_params E param
           else if isGet \<and> p = ''/api/snapshot'' then route_dash_snapshot E capture param
           else if isGet \<and> p = ''/api/thumbnail'' then route_thumbnail param
           else if isGet \<and> p = ''/api/events'' then route_dash_events E param
           else if isGet \<and> p = ''/api/health'' then dash_json 200 [(''ok'', JBool True)]
           else if isGet \<and> p = ''/api/config'' then route_config autostart
           else if isGet \<and> p = ''/api/debug/devices'' then route_raw_devices E
           else if d_method rq = ''POST'' \<and> p = ''/api/camera/control'' then route_control E (d_body rq)
           else dash_json 404 [(''error'', JStr ''Not found'')])
        dash_error)"

end
