(* ===== verification/Sockets.thy ===== *)
theory Sockets
  imports Main
begin

text \<open>
  The states of a WebSocket of the \<open>ws\<close> package, in the order of the package's constants
  (\<open>CONNECTING = 0\<close> to \<open>CLOSED = 3\<close>), which is the order in which a socket goes through them.
\<close>

datatype ready_state = CONNECTING | OPEN | CLOSING | CLOSED

fun ready_code :: "ready_state \<Rightarrow> nat" where
  "ready_code CONNECTING = 0"
| "ready_code OPEN = 1"
| "ready_code CLOSING = 2"
| "ready_code CLOSED = 3"

lemma ready_code_inj: "ready_code a = ready_code b \<Longrightarrow> a = b"
  by (cases a; cases b) simp_all

instantiation ready_state :: linorder
begin

definition less_eq_ready_state :: "ready_state \<Rightarrow> ready_state \<Rightarrow> bool" where
  "less_eq_ready_state a b = (ready_code a \<le> ready_code b)"

definition less_ready_state :: "ready_state \<Rightarrow> ready_state \<Rightarrow> bool" where
  "less_ready_state a b = (ready_code a < ready_code b)"

instance
  by standard (auto simp: less_eq_ready_state_def less_ready_state_def intro: ready_code_inj)

end

text \<open>\<open>close()\<close> of the package: it has no effect on a socket that is closing or closed.\<close>

definition ws_close :: "ready_state \<Rightarrow> ready_state" where
  "ws_close r = (if r = CLOSED then CLOSED else CLOSING)"

lemma ready_extremes [simp]: "CONNECTING \<le> r" "r \<le> CLOSED" "CLOSED \<le> r \<longleftrightarrow> r = CLOSED" "r \<le> CONNECTING \<longleftrightarrow> r = CONNECTING"
  by (cases r; simp add: less_eq_ready_state_def)+

lemma ws_close_forward [simp]: "r \<le> ws_close r"
  by (cases r) (simp_all add: ws_close_def less_eq_ready_state_def)

lemma ws_close_simps [simp]:
  "ws_close r \<noteq> CONNECTING" "ws_close r \<noteq> OPEN" "ws_close r = CLOSED \<longleftrightarrow> r = CLOSED" "ws_close (ws_close r) = ws_close r"
  by (simp_all add: ws_close_def)

end
