(* ===== verification/DashSocket.thy ===== *)
theory DashSocket
  imports Dashboard Sockets
begin

text \<open>
  The video socket of the dashboard: the browser's socket is joined to one of the Eufy viewer process.
  What the browser sends before the upstream socket is open waits in a queue.
\<close>

section \<open>The two sockets\<close>

record 'msg ws_proxy =
  upstream :: ready_state
  client :: ready_state
  queue :: "'msg list"
  to_upstream :: "'msg list"
  to_client :: "'msg list"

definition ws_init :: "'msg ws_proxy" where
  "ws_init = \<lparr>upstream = CONNECTING, client = OPEN, queue = [], to_upstream = [], to_client = []\<rparr>"

datatype 'msg ws_event = UpOpen | UpMessage 'msg | UpClose | UpError
  | ClientMessage 'msg | ClientClose | ClientError

text \<open>The handlers.\<close>

definition on_up_open :: "'msg ws_proxy \<Rightarrow> 'msg ws_proxy" where
  "on_up_open w = w\<lparr>to_upstream := to_upstream w @ queue w, queue := []\<rparr>"

definition on_up_message :: "'msg \<Rightarrow> 'msg ws_proxy \<Rightarrow> 'msg ws_proxy" where
  "on_up_message d w = (if client w = OPEN then w\<lparr>to_client := to_client w @ [d]\<rparr> else w)"

definition close_client :: "'msg ws_proxy \<Rightarrow> 'msg ws_proxy" where
  "close_client w = w\<lparr>client := ws_close (client w)\<rparr>"

definition close_upstream :: "'msg ws_proxy \<Rightarrow> 'msg ws_proxy" where
  "close_upstream w = w\<lparr>upstream := ws_close (upstream w)\<rparr>"

definition on_client_message :: "'msg \<Rightarrow> 'msg ws_proxy \<Rightarrow> 'msg ws_proxy" where
  "on_client_message d w =
     (if upstream w = OPEN then w\<lparr>to_upstream := to_upstream w @ [d]\<rparr> else w\<lparr>queue := queue w @ [d]\<rparr>)"

text \<open>
  What the sockets allow: an upstream socket opens once, messages arrive while the sender is not closed,
  and each socket closes once. The state of a socket changes before its event is emitted.
\<close>

definition ws_step :: "'msg ws_event \<Rightarrow> 'msg ws_proxy \<Rightarrow> 'msg ws_proxy option" where
  "ws_step ev w =
     (case ev of
        UpOpen \<Rightarrow> if upstream w = CONNECTING then Some (on_up_open (w\<lparr>upstream := OPEN\<rparr>)) else None
      | UpMessage d \<Rightarrow> if upstream w \<in> {OPEN, CLOSING} then Some (on_up_message d w) else None
      | UpClose \<Rightarrow> if upstream w \<noteq> CLOSED then Some (close_client (w\<lparr>upstream := CLOSED\<rparr>)) else None
      | UpError \<Rightarrow> Some (close_client w)
      | ClientMessage d \<Rightarrow> if client w \<in> {OPEN, CLOSING} then Some (on_client_message d w) else None
      | ClientClose \<Rightarrow> if client w \<noteq> CLOSED then Some (close_upstream (w\<lparr>client := CLOSED\<rparr>)) else None
      | ClientError \<Rightarrow> Some (close_upstream w))"

section \<open>Its address\<close>

definition stream_target :: "string \<Rightarrow> string" where
  "stream_target sn = ''/stream?sn='' @ encodeURIComponent sn"

text \<open>
  \<open>URL\<close> and \<open>searchParams.get\<close> on a request path: the part before the first question mark, and the first
  pair with that name, where a plus sign is a space.
\<close>

definition url_path :: "string \<Rightarrow> string" where
  "url_path u = takeWhile (\<lambda>c. c \<noteq> CHR ''?'') u"

definition query_pairs :: "string \<Rightarrow> (string \<times> string) list" where
  "query_pairs q =
     map (\<lambda>p. (takeWhile (\<lambda>c. c \<noteq> CHR ''='') p, drop 1 (dropWhile (\<lambda>c. c \<noteq> CHR ''='') p)))
       (filter (\<lambda>p. p \<noteq> '''') (split_on CHR ''&'' q))"

definition form_decode :: "string \<Rightarrow> string option" where
  "form_decode s = decodeURIComponent (map (\<lambda>c. if c = CHR ''+'' then CHR '' '' else c) s)"

definition search_param :: "string \<Rightarrow> string \<Rightarrow> jsval" where
  "search_param u name =
     (case map_of (query_pairs (drop 1 (dropWhile (\<lambda>c. c \<noteq> CHR ''?'') u))) name of
        None \<Rightarrow> JNull
      | Some v \<Rightarrow> (case form_decode v of Some t \<Rightarrow> JStr t | None \<Rightarrow> JStr v))"

text \<open>The dashboard's upgrade handler: \<open>None\<close> destroys the socket, otherwise the upstream address.\<close>

definition dash_upgrade :: "string \<Rightarrow> string option" where
  "dash_upgrade url =
     (if url_path url \<noteq> ''/eufy-stream'' then None
      else let sn = search_param url ''sn'' in
        if \<not> truthy sn then None else Some (stream_target (js_string sn)))"

end
