(* ===== verification/DashProps.thy ===== *)
theory DashProps
  imports DashSocket CameraProps DeviceProps
begin

text \<open>
  Properties of the dashboard: it passes on exactly the routes of the Eufy viewer that are meant for
  browsers, its controls send the request of their action, its events are the recent ones in order, and
  its video sockets lose nothing and reach the camera they name.
\<close>

section \<open>The routes of the viewer process\<close>

definition not_found :: "nat \<Rightarrow> est \<Rightarrow> est" where
  "not_found i e = eufy_sendJson i 404 [(''error'', JStr ''Not found'')] e"

lemma segment_iff:
  "path_segment pre post p = Some seg \<longleftrightarrow> p = pre @ seg @ post \<and> seg \<noteq> '''' \<and> CHR ''/'' \<notin> set seg"
  by (auto simp: path_segment_def Let_def)

lemma segment_prefix:
  "path_segment (c @ pre) post (c @ p) = path_segment pre post p"
  by (simp add: path_segment_def Let_def)

text \<open>The routes that take no segment, and all routes that are passed on, without their prefix.\<close>

definition fixed_routes :: "(string \<times> string) list" where
  "fixed_routes = [(''GET'', ''/cameras''), (''GET'', ''/auth/status''), (''POST'', ''/auth/submit''), (''GET'', ''/events''),
     (''GET'', ''/autosnap'')]"

definition browser_route :: "string \<Rightarrow> string \<Rightarrow> bool" where
  "browser_route meth r =
     ((meth, r) \<in> set fixed_routes \<or>
      meth = ''GET'' \<and> path_segment ''/snapshot/'' '''' r \<noteq> None \<or>
      meth = ''POST'' \<and> path_segment ''/snapshot/'' ''/refresh'' r \<noteq> None \<or>
      meth = ''POST'' \<and> path_segment ''/autosnap/'' '''' r \<noteq> None)"

lemma space_split: "a @ CHR '' '' # b = c @ CHR '' '' # d \<Longrightarrow> CHR '' '' \<notin> set c \<Longrightarrow> CHR '' '' \<notin> set d \<Longrightarrow> a = c \<and> b = d"
proof (induction a arbitrary: c)
  case (Cons x a)
  then show ?case by (cases c) auto
qed (auto simp: Cons_eq_append_conv)

lemma keyed_lookup:
  assumes "\<forall>(a, r) \<in> set rs. CHR '' '' \<notin> set a \<and> CHR '' '' \<notin> set (pre @ r)" "distinct rs"
  shows "map_of (map (\<lambda>(a, r). (a @ CHR '' '' # pre @ r, f r)) rs) (meth @ CHR '' '' # p) = Some t \<longleftrightarrow>
    (\<exists>r. (meth, r) \<in> set rs \<and> p = pre @ r \<and> t = f r)"
  using assms
proof (induction rs)
  case (Cons x rs)
  obtain a r where x: "x = (a, r)" by (cases x)
  have "meth @ CHR '' '' # p = a @ CHR '' '' # pre @ r \<longleftrightarrow> meth = a \<and> p = pre @ r"
    using space_split [of meth p a "pre @ r"] Cons.prems x by auto
  with Cons x show ?case by auto
qed simp

lemma proxy_table: "EUFY_PROXY = map (\<lambda>(a, r). (a @ CHR '' '' # ''/api/eufy'' @ r, ''/api'' @ r)) fixed_routes"
  by (simp add: EUFY_PROXY_def fixed_routes_def)

lemma proxy_key:
  "map_of EUFY_PROXY (meth @ '' '' @ p) = Some t \<longleftrightarrow>
   (\<exists>r. (meth, r) \<in> set fixed_routes \<and> p = ''/api/eufy'' @ r \<and> t = ''/api'' @ r)"
proof -
  have "\<forall>(a, r) \<in> set fixed_routes. CHR '' '' \<notin> set a \<and> CHR '' '' \<notin> set (''/api/eufy'' @ r)" by code_simp
  moreover have "distinct fixed_routes" by code_simp
  ultimately show ?thesis unfolding proxy_table using keyed_lookup [of fixed_routes "''/api/eufy''"] by simp
qed

lemma segment_split:
  "path_segment (a @ pre) post p = Some sn \<longleftrightarrow> (\<exists>r. p = a @ r \<and> path_segment pre post r = Some sn)"
  by (auto simp only: segment_iff append_assoc)

lemma target_segments:
  "path_segment ''/api/eufy/snapshot/'' '''' p = Some sn \<longleftrightarrow>
    (\<exists>r. p = ''/api/eufy'' @ r \<and> path_segment ''/snapshot/'' '''' r = Some sn)"
  "path_segment ''/api/eufy/snapshot/'' ''/refresh'' p = Some sn \<longleftrightarrow>
    (\<exists>r. p = ''/api/eufy'' @ r \<and> path_segment ''/snapshot/'' ''/refresh'' r = Some sn)"
  "path_segment ''/api/eufy/autosnap/'' '''' p = Some sn \<longleftrightarrow>
    (\<exists>r. p = ''/api/eufy'' @ r \<and> path_segment ''/autosnap/'' '''' r = Some sn)"
  using segment_split [of "''/api/eufy''" "''/snapshot/''" "''''" p sn] segment_split [of "''/api/eufy''" "''/snapshot/''" "''/refresh''" p sn]
    segment_split [of "''/api/eufy''" "''/autosnap/''" "''''" p sn] by simp_all

lemma target_paths:
  "path_segment ''/snapshot/'' '''' r = Some sn \<Longrightarrow> ''/api/snapshot/'' @ sn = ''/api'' @ r"
  "path_segment ''/snapshot/'' ''/refresh'' r = Some sn \<Longrightarrow> ''/api/snapshot/'' @ sn @ ''/refresh'' = ''/api'' @ r"
  "path_segment ''/autosnap/'' '''' r = Some sn \<Longrightarrow> ''/api/autosnap/'' @ sn = ''/api'' @ r"
  by (simp_all add: segment_iff)

lemma target_none:
  assumes "\<And>r. p \<noteq> ''/api/eufy'' @ r"
  shows "eufy_target meth p = None"
proof -
  have "map_of EUFY_PROXY (meth @ '' '' @ p) = None" using proxy_key assms by (metis option.exhaust)
  moreover have "path_segment ''/api/eufy/snapshot/'' '''' p = None" "path_segment ''/api/eufy/snapshot/'' ''/refresh'' p = None"
    "path_segment ''/api/eufy/autosnap/'' '''' p = None"
    using target_segments assms by (metis option.exhaust)+
  ultimately show ?thesis by (simp only: eufy_target_def Let_def option.case simp_thms if_False)
qed

lemma target_some: "eufy_target meth (''/api/eufy'' @ r) = (if browser_route meth r then Some (''/api'' @ r) else None)"
proof (cases "(meth, r) \<in> set fixed_routes")
  case True
  then have "map_of EUFY_PROXY (meth @ '' '' @ ''/api/eufy'' @ r) = Some (''/api'' @ r)" using proxy_key by blast
  with True show ?thesis by (simp only: eufy_target_def option.case browser_route_def simp_thms if_True)
next
  case False
  then have "map_of EUFY_PROXY (meth @ '' '' @ ''/api/eufy'' @ r) = None"
    using proxy_key [of meth "''/api/eufy'' @ r"] by (metis not_None_eq same_append_eq)
  moreover have "path_segment (''/api/eufy'' @ pre) post (''/api/eufy'' @ r) = path_segment pre post r" for pre post
    by (rule segment_prefix)
  from this [of "''/snapshot/''" "''''"] this [of "''/snapshot/''" "''/refresh''"] this [of "''/autosnap/''" "''''"]
  have "path_segment ''/api/eufy/snapshot/'' '''' (''/api/eufy'' @ r) = path_segment ''/snapshot/'' '''' r"
    "path_segment ''/api/eufy/snapshot/'' ''/refresh'' (''/api/eufy'' @ r) = path_segment ''/snapshot/'' ''/refresh'' r"
    "path_segment ''/api/eufy/autosnap/'' '''' (''/api/eufy'' @ r) = path_segment ''/autosnap/'' '''' r"
    by (simp_all only: append.simps)
  ultimately have e: "eufy_target meth (''/api/eufy'' @ r) =
      (if meth = ''GET'' \<and> path_segment ''/snapshot/'' '''' r \<noteq> None then Some (''/api/snapshot/'' @ the (path_segment ''/snapshot/'' '''' r))
       else if meth = ''POST'' \<and> path_segment ''/snapshot/'' ''/refresh'' r \<noteq> None
       then Some (''/api/snapshot/'' @ the (path_segment ''/snapshot/'' ''/refresh'' r) @ ''/refresh'')
       else if meth = ''POST'' \<and> path_segment ''/autosnap/'' '''' r \<noteq> None
       then Some (''/api/autosnap/'' @ the (path_segment ''/autosnap/'' '''' r)) else None)"
    by (simp only: eufy_target_def Let_def option.case)
  consider (get) "meth = ''GET'' \<and> path_segment ''/snapshot/'' '''' r \<noteq> None"
    | (refresh) "\<not> (meth = ''GET'' \<and> path_segment ''/snapshot/'' '''' r \<noteq> None)"
        "meth = ''POST'' \<and> path_segment ''/snapshot/'' ''/refresh'' r \<noteq> None"
    | (set) "\<not> (meth = ''GET'' \<and> path_segment ''/snapshot/'' '''' r \<noteq> None)"
        "\<not> (meth = ''POST'' \<and> path_segment ''/snapshot/'' ''/refresh'' r \<noteq> None)"
        "meth = ''POST'' \<and> path_segment ''/autosnap/'' '''' r \<noteq> None"
    | (other) "\<not> (meth = ''GET'' \<and> path_segment ''/snapshot/'' '''' r \<noteq> None)"
        "\<not> (meth = ''POST'' \<and> path_segment ''/snapshot/'' ''/refresh'' r \<noteq> None)"
        "\<not> (meth = ''POST'' \<and> path_segment ''/autosnap/'' '''' r \<noteq> None)" by argo
  then show ?thesis
  proof cases
    case get
    then have b: "browser_route meth r" by (simp only: browser_route_def simp_thms)
    obtain sn where sn: "path_segment ''/snapshot/'' '''' r = Some sn" using get by auto
    with e b sn show ?thesis unfolding if_P [OF get] by (simp only: option.sel target_paths(1) if_True)
  next
    case refresh
    then have b: "browser_route meth r" by (simp only: browser_route_def simp_thms)
    obtain sn where sn: "path_segment ''/snapshot/'' ''/refresh'' r = Some sn" using refresh by auto
    with e b sn show ?thesis unfolding if_not_P [OF refresh(1)] if_P [OF refresh(2)] by (simp only: option.sel target_paths(2) if_True)
  next
    case set
    then have b: "browser_route meth r" by (simp only: browser_route_def simp_thms)
    obtain sn where sn: "path_segment ''/autosnap/'' '''' r = Some sn" using set by auto
    with e b sn show ?thesis unfolding if_not_P [OF set(1)] if_not_P [OF set(2)] if_P [OF set(3)] by (simp only: option.sel target_paths(3) if_True)
  next
    case other
    then have b: "\<not> browser_route meth r" using False by (simp only: browser_route_def simp_thms)
    then show ?thesis using e unfolding if_not_P [OF other(1)] if_not_P [OF other(2)] if_not_P [OF other(3)] by (simp only: if_False)
  qed
qed

text \<open>An output list that grows by something other than the answer to an unknown route.\<close>

definition answers :: "nat \<Rightarrow> est \<Rightarrow> est \<Rightarrow> bool" where
  "answers i e e' = (\<exists>xs. outs e' = outs e @ xs \<and> Reply i 404 (Json (JObj [(''error'', JStr ''Not found'')])) \<notin> set xs)"

lemma answers_differ: "answers i e e' \<Longrightarrow> e' \<noteq> not_found i e"
  by (auto simp: answers_def not_found_def eufy_sendJson_def emit_def)

lemma answers_json: "(code, v) \<noteq> (404, [(''error'', JStr ''Not found'')]) \<Longrightarrow> answers i e (eufy_sendJson i code v e)"
  by (auto simp: answers_def eufy_sendJson_def emit_def)

lemma answers_outs: "outs e' = outs e @ xs \<Longrightarrow> (\<And>c b. Reply i c b \<notin> set xs) \<Longrightarrow> answers i e e'"
  by (auto simp: answers_def)

lemma answers_reply: "answers i e (reply_snapshot r (Http i sn) e)"
  by (cases r) (auto simp: answers_json, auto simp: answers_def emit_def)

lemma answers_await: "answers i e (await_promise (Http i sn) p e)"
  by (auto simp: await_promise_def answers_reply split: option.split) (auto simp: answers_def)

lemma answers_refresh: "answers i e (refreshSnapshot (Http i sn) e)"
  by (auto simp: refreshSnapshot_def Let_def answers_reply answers_await simp del: reply_snapshot.simps split: option.split)
    (auto simp: answers_def set_timer_def add_task_def emit_def)

lemma answers_submit: "answers i e (submitAuthCode i code e)"
proof -
  have "outs (armLoginFailTimer e) = outs e" for e
    by (simp add: armLoginFailTimer_def set_timer_def clear_timer_def split: option.split)
  then have "outs (add_task t (emit (Sdk c) (armLoginFailTimer (e\<lparr>a_status := a, a_message := m\<rparr>)))) = outs e @ [Sdk c]" for t c a m
    by (simp add: add_task_def emit_def)
  then have "answers i e (add_task t (emit (Sdk c) (armLoginFailTimer (e\<lparr>a_status := a, a_message := m\<rparr>))))" for t c a m
    by (rule answers_outs) simp
  then show ?thesis
    by (auto simp: submitAuthCode_def submit_result_def Let_def answers_json split: auth_status.split)
qed

lemma answers_guarded: "(\<And>e1. r = Inr e1 \<Longrightarrow> answers i e e1) \<Longrightarrow> answers i e (guarded i e r)"
  by (auto simp: guarded_def server_error_def answers_json split: sum.split)

lemma answers_set: "route_autosnap_set i seg b e = Inr e1 \<Longrightarrow> answers i e e1"
proof -
  have "outs (clearAutoSnapTimer sn e) = outs e" for sn e
    by (simp add: clearAutoSnapTimer_def clear_timer_def Let_def split: option.split)
  then have sch: "outs (scheduleAutoSnap sn e) = outs e" for sn e
    by (simp add: scheduleAutoSnap_def set_timer_def Let_def split: option.split)
  have "\<exists>s. outs e2 = outs e @ [SaveSchedule s]" if "setAutoSnap sn n e = Inr e2" for sn n e2
    using that sch by (auto simp: setAutoSnap_def persistAutoSnapConfig_def emit_def clearAutoSnapTimer_def clear_timer_def Let_def
        split: if_splits option.splits)
  then have "answers i e (eufy_sendJson i 200 v e2)" if "setAutoSnap sn n e = Inr e2" for sn n e2 v
    using that by (fastforce simp: answers_def eufy_sendJson_def emit_def)
  then show "route_autosnap_set i seg b e = Inr e1 \<Longrightarrow> answers i e e1"
    by (auto simp: route_autosnap_set_def bindR_def answers_json split: sum.splits option.splits if_splits)
qed

lemma answers_routes:
  "answers i e (route_cameras i e)" "answers i e (eufy_sendJson i 200 v e)" "answers i e (guarded i e (route_submit i b e))"
  "answers i e (route_events i e)" "answers i e (route_autosnap i e)" "answers i e (guarded i e (route_snapshot i seg e))"
  "answers i e (guarded i e (route_refresh i seg e))" "answers i e (guarded i e (route_autosnap_set i seg b e))"
  "answers i e (route_debug i e)"
proof -
  show "answers i e (route_cameras i e)" "answers i e (route_debug i e)"
    by (auto simp: route_cameras_def route_debug_def answers_json) (auto simp: answers_def add_task_def emit_def)
  show "answers i e (guarded i e (route_submit i b e))"
    by (rule answers_guarded) (auto simp: route_submit_def bindR_def answers_json answers_submit split: sum.splits if_splits)
  show "answers i e (route_events i e)"
    by (auto simp: route_events_def set_timer_def Let_def emit_def answers_def)
  show "answers i e (guarded i e (route_snapshot i seg e))"
    by (rule answers_guarded)
      (auto simp: route_snapshot_def bindR_def answers_def emit_def eufy_sendJson_def split: sum.splits option.splits)
  show "answers i e (guarded i e (route_refresh i seg e))"
    by (rule answers_guarded) (auto simp: route_refresh_def bindR_def answers_refresh split: sum.splits)
  show "answers i e (guarded i e (route_autosnap_set i seg b e))" by (rule answers_guarded) (rule answers_set)
qed (simp_all add: route_autosnap_def answers_json)

lemma answers_if: "(c \<Longrightarrow> answers i e x) \<Longrightarrow> (\<not> c \<Longrightarrow> answers i e y) \<Longrightarrow> answers i e (if c then x else y)"
  by simp

text \<open>The handler on paths below \<open>/api\<close>.\<close>

lemma eufy_api:
  "eufy_http i \<lparr>h_method = meth, h_path = ''/api'' @ r, h_body = b\<rparr> e =
     (if meth = ''GET'' \<and> r = ''/health'' then eufy_sendJson i 200 [(''ok'', JBool True), (''connected'', JBool (connected e))] e
      else if meth = ''GET'' \<and> r = ''/events'' then route_events i e
      else if meth = ''GET'' \<and> r = ''/auth/status'' then eufy_sendJson i 200 (auth_fields e) e
      else if meth = ''POST'' \<and> r = ''/auth/submit'' then guarded i e (route_submit i b e)
      else if meth = ''GET'' \<and> r = ''/debug/devices'' then route_debug i e
      else if meth = ''GET'' \<and> r = ''/cameras'' then route_cameras i e
      else if meth = ''GET'' \<and> path_segment ''/snapshot/'' '''' r \<noteq> None
      then guarded i e (route_snapshot i (the (path_segment ''/snapshot/'' '''' r)) e)
      else if meth = ''POST'' \<and> path_segment ''/snapshot/'' ''/refresh'' r \<noteq> None
      then guarded i e (route_refresh i (the (path_segment ''/snapshot/'' ''/refresh'' r)) e)
      else if meth = ''GET'' \<and> r = ''/autosnap'' then route_autosnap i e
      else if meth = ''POST'' \<and> path_segment ''/autosnap/'' '''' r \<noteq> None
      then guarded i e (route_autosnap_set i (the (path_segment ''/autosnap/'' '''' r)) b e)
      else not_found i e)"
proof -
  have seg: "path_segment ''/api/snapshot/'' '''' (''/api'' @ r) = path_segment ''/snapshot/'' '''' r"
    "path_segment ''/api/snapshot/'' ''/refresh'' (''/api'' @ r) = path_segment ''/snapshot/'' ''/refresh'' r"
    "path_segment ''/api/autosnap/'' '''' (''/api'' @ r) = path_segment ''/autosnap/'' '''' r"
    using segment_prefix [of "''/api''" "''/snapshot/''" "''''" r] segment_prefix [of "''/api''" "''/snapshot/''" "''/refresh''" r]
      segment_prefix [of "''/api''" "''/autosnap/''" "''''" r] by (simp_all only: append.simps)
  have eqs: "(''/api'' @ r = ''/'') = False" "(''/api'' @ r = ''/api/health'') = (r = ''/health'')"
    "(''/api'' @ r = ''/api/events'') = (r = ''/events'')" "(''/api'' @ r = ''/api/auth/status'') = (r = ''/auth/status'')"
    "(''/api'' @ r = ''/api/auth/submit'') = (r = ''/auth/submit'')" "(''/api'' @ r = ''/api/debug/devices'') = (r = ''/debug/devices'')"
    "(''/api'' @ r = ''/api/cameras'') = (r = ''/cameras'')" "(''/api'' @ r = ''/api/autosnap'') = (r = ''/autosnap'')"
    by simp_all
  show ?thesis
    by (simp only: eufy_http_def Let_def http_req.simps seg eqs simp_thms if_False not_found_def)
qed

lemma route_unknown:
  "browser_route meth r \<and> (meth, r) \<notin> {(''GET'', ''/health''), (''GET'', ''/debug/devices'')} \<longleftrightarrow>
   (meth, r) \<notin> {(''GET'', ''/health''), (''GET'', ''/debug/devices'')} \<and>
   (\<forall>i b e. eufy_http i \<lparr>h_method = meth, h_path = ''/api'' @ r, h_body = b\<rparr> e \<noteq> not_found i e)"
proof (cases "(meth, r) \<in> {(''GET'', ''/health''), (''GET'', ''/debug/devices'')}")
  case False
  show ?thesis
  proof (cases "browser_route meth r")
    case True
    have "answers i e (eufy_http i \<lparr>h_method = meth, h_path = ''/api'' @ r, h_body = b\<rparr> e)" for i b e
      unfolding eufy_api
    proof (intro answers_if answers_routes, goal_cases)
      case 1
      with True show ?case unfolding browser_route_def fixed_routes_def list.set insert_iff prod.inject by blast
    qed
    with True False show ?thesis using answers_differ by blast
  next
    case no: False
    then have f: "\<not> (meth = ''GET'' \<and> r = ''/events'')" "\<not> (meth = ''GET'' \<and> r = ''/auth/status'')"
      "\<not> (meth = ''POST'' \<and> r = ''/auth/submit'')" "\<not> (meth = ''GET'' \<and> r = ''/cameras'')"
      "\<not> (meth = ''GET'' \<and> path_segment ''/snapshot/'' '''' r \<noteq> None)"
      "\<not> (meth = ''POST'' \<and> path_segment ''/snapshot/'' ''/refresh'' r \<noteq> None)" "\<not> (meth = ''GET'' \<and> r = ''/autosnap'')"
      "\<not> (meth = ''POST'' \<and> path_segment ''/autosnap/'' '''' r \<noteq> None)"
      unfolding browser_route_def fixed_routes_def list.set insert_iff prod.inject by argo+
    have g: "\<not> (meth = ''GET'' \<and> r = ''/health'')" "\<not> (meth = ''GET'' \<and> r = ''/debug/devices'')"
      using False unfolding insert_iff prod.inject by argo+
    have "eufy_http i \<lparr>h_method = meth, h_path = ''/api'' @ r, h_body = b\<rparr> e = not_found i e" for i b e
      unfolding eufy_api if_not_P [OF f(1)] if_not_P [OF f(2)] if_not_P [OF f(3)] if_not_P [OF f(4)] if_not_P [OF f(5)]
        if_not_P [OF f(6)] if_not_P [OF f(7)] if_not_P [OF f(8)] if_not_P [OF g(1)] if_not_P [OF g(2)] by (rule refl)
    with no show ?thesis by blast
  qed
qed blast

lemma browser_route_public: "browser_route meth r \<Longrightarrow> (meth, r) \<notin> {(''GET'', ''/health''), (''GET'', ''/debug/devices'')}"
proof -
  have "\<not> browser_route ''GET'' ''/health''" "\<not> browser_route ''GET'' ''/debug/devices''" by code_simp+
  then show "browser_route meth r \<Longrightarrow> ?thesis" unfolding insert_iff prod.inject by blast
qed

definition never_proxy :: "dash_reply m \<Rightarrow> bool" where
  "never_proxy f = (\<forall>s t s'. f s \<noteq> Some (Inr (DProxy t), s'))"

lemma never_proxy_intros [intro!]:
  "(\<And>a. never_proxy (f a)) \<Longrightarrow> never_proxy (bindE k f)"
  "never_proxy f' \<Longrightarrow> never_proxy (seqE k' f')"
  "never_proxy f' \<Longrightarrow> (\<And>err. never_proxy (h err)) \<Longrightarrow> never_proxy (catchE f' h)"
  "never_proxy (dash_json code v)" "never_proxy (ret (DImage b src))" "never_proxy (ret (DFetch tls u))" "never_proxy (ret DHtml)"
  by (auto simp: never_proxy_def dash_json_def elim!: bindE_cases seqE_cases catchE_cases)

lemma never_proxy_if: "never_proxy f' \<Longrightarrow> never_proxy g' \<Longrightarrow> never_proxy (if b then f' else g')"
  by simp

lemma never_proxy_routes:
  "never_proxy (route_summaries E)" "never_proxy (route_stream_params E param)" "never_proxy (route_dash_snapshot E capture param)"
  "never_proxy (route_thumbnail param)" "never_proxy (route_dash_events E param)" "never_proxy (route_config au)"
  "never_proxy (route_raw_devices E)" "never_proxy (route_control E text)" "never_proxy (dash_error err)"
  by (auto simp: route_summaries_def route_stream_params_def route_dash_snapshot_def route_thumbnail_def route_dash_events_def
      route_config_def route_raw_devices_def route_control_def dash_error_def Let_def split: prod.split option.split)

text \<open>
  C28. The dashboard passes on the right routes. It forwards a request to the Eufy viewer exactly when its
  path is \<open>/api/eufy\<close> followed by the rest of an \<open>/api\<close> route that the viewer knows for the same method, the
  health and debug routes excepted, and then to that route and without a request of its own.
\<close>

theorem dashboard_mirrors_eufy:
  "dash_http E capture autostart \<lparr>d_method = meth, d_path = p, d_param = param, d_body = body\<rparr> s = Some (Inr (DProxy t), s') \<longleftrightarrow>
   s' = s \<and> (\<exists>r. p = ''/api/eufy'' @ r \<and> t = ''/api'' @ r \<and> (meth, r) \<notin> {(''GET'', ''/health''), (''GET'', ''/debug/devices'')} \<and>
     (\<forall>i b e. eufy_http i \<lparr>h_method = meth, h_path = t, h_body = b\<rparr> e \<noteq> eufy_sendJson i 404 [(''error'', JStr ''Not found'')] e))"
  (is "?run = Some (Inr (DProxy t), s') \<longleftrightarrow> _")
proof -
  have target: "eufy_target meth p = Some t \<longleftrightarrow> (\<exists>r. p = ''/api/eufy'' @ r \<and> t = ''/api'' @ r \<and>
      (meth, r) \<notin> {(''GET'', ''/health''), (''GET'', ''/debug/devices'')} \<and>
      (\<forall>i b e. eufy_http i \<lparr>h_method = meth, h_path = t, h_body = b\<rparr> e \<noteq> not_found i e))"
    using route_unknown [of meth] browser_route_public [of meth] target_some [of meth] target_none [of p meth]
    by (smt (verit, best) option.distinct(1) option.inject)
  show ?thesis
  proof (cases "eufy_target meth p")
    case None
    have "never_proxy (dash_http E capture autostart \<lparr>d_method = meth, d_path = p, d_param = param, d_body = body\<rparr>)"
      unfolding dash_http_def Let_def dash_req.simps None option.case
      by (intro never_proxy_intros never_proxy_if never_proxy_routes)
    with None target show ?thesis by (simp add: never_proxy_def not_found_def)
  next
    case (Some u)
    then have "p \<noteq> ''/''" using target_none [of p meth] by (cases "\<exists>r. p = ''/api/eufy'' @ r") auto
    with Some have run: "?run = Some (Inr (DProxy u), s)" by (simp add: dash_http_def)
    note target [unfolded Some option.inject not_found_def]
    then show ?thesis unfolding run option.inject prod.inject sum.inject dash_reply.inject by (simp only: conj_ac eq_commute)
  qed
qed

section \<open>Controls\<close>

text \<open>What a control asks of the camera: a property with its value, or an action.\<close>

datatype control = SetProp string jsval | RunAct string

definition control_spec :: "(string \<times> control) list" where
  "control_spec =
     [(''floodlight_on'', SetProp ''P1056'' (JStr ''1'')), (''floodlight_off'', SetProp ''P1056'' (JStr ''2'')),
      (''siren_on'', RunAct ''siren_on''), (''siren_off'', RunAct ''siren_off''),
      (''motion_on'', SetProp ''P1001'' (JNum 1)), (''motion_off'', SetProp ''P1001'' (JNum 0)),
      (''recording_on'', SetProp ''P1047'' (JStr ''1'')), (''recording_off'', SetProp ''P1047'' (JStr ''0'')),
      (''notifications_on'', SetProp ''P1'' (JStr ''1'')), (''notifications_off'', SetProp ''P1'' (JStr ''0'')),
      (''power_on'', RunAct ''power_on''), (''power_off'', RunAct ''power_off'')]"

definition performs :: "env \<Rightarrow> jsval \<Rightarrow> jsval \<Rightarrow> control \<Rightarrow> jsval m" where
  "performs E mac model c = (case c of SetProp pid v \<Rightarrow> void (setProperty E mac model (JStr pid) v)
     | RunAct k \<Rightarrow> void (runAction E mac model (JStr k)))"

lemma actions_spec: "map (\<lambda>(a, f). (a, f E mac model)) CAMERA_ACTIONS = map (\<lambda>(a, c). (a, performs E mac model c)) control_spec"
  by (simp add: CAMERA_ACTIONS_def control_spec_def performs_def cameraFloodLightOn_def cameraFloodLightOff_def
      cameraSirenOn_def cameraSirenOff_def cameraMotionOn_def cameraMotionOff_def cameraMotionRecordingOn_def
      cameraMotionRecordingOff_def cameraNotificationsOn_def cameraNotificationsOff_def cameraTurnOn_def cameraTurnOff_def)

lemma camera_method_spec:
  assumes "(a, c) \<in> set control_spec"
  shows "\<exists>f. camera_method a = Some f \<and> (\<forall>E mac model. f E mac model = performs E mac model c)"
proof -
  have "distinct (map fst control_spec)" by code_simp
  then have c: "map_of control_spec a = Some c" using assms by simp
  have keys: "map_of (map (\<lambda>(a, f). (a, g f)) xs) a = map_option g (map_of xs a)" for g :: "'x \<Rightarrow> 'y" and xs
    by (induction xs) auto
  have eq: "map_option (\<lambda>f. f E mac model) (map_of CAMERA_ACTIONS a) = Some (performs E mac model c)" for E mac model
    using arg_cong [OF actions_spec [of E mac model], of "\<lambda>xs. map_of xs a"] c
    by (simp add: keys [of "\<lambda>f. f E mac model"] keys [of "performs E mac model"])
  then obtain f where "map_of CAMERA_ACTIONS a = Some f" by blast
  with eq show ?thesis by (auto simp: camera_method_def)
qed

definition control_body :: "string \<Rightarrow> jsval \<Rightarrow> jsval \<Rightarrow> string \<Rightarrow> bool" where
  "control_body text mac model a =
     (length text \<le> 1000000 \<and> truthy mac \<and> truthy model \<and> a \<noteq> '''' \<and>
      (\<exists>body. json_parse text = Some (JObj body) \<and> oget body ''mac'' = mac \<and> oget body ''productModel'' = model \<and>
         oget body ''action'' = JStr a))"

definition control_request :: "string \<Rightarrow> dash_req" where
  "control_request text = \<lparr>d_method = ''POST'', d_path = ''/api/camera/control'', d_param = \<lambda>_. JNull, d_body = text\<rparr>"

lemma control_route: "dash_http E capture au (control_request text) = catchE (route_control E text) dash_error"
proof -
  have "eufy_target ''POST'' ''/api/camera/control'' = None" by code_simp
  then show ?thesis by (simp add: dash_http_def control_request_def)
qed

lemma control_parsed:
  assumes "control_body text mac model a"
  shows "route_control E text =
    (if a \<in> set APP_ONLY_ACTIONS
     then dash_json 501 [(''error'', JStr (''Spotlight can'' @ [CHR 0x27] @ ''t be controlled over the web on this camera - use ''
            @ ''the Wyze app. The Wyze Cam v4 spotlight is only reachable over the camera'' @ [CHR 0x27] @ ''s live connection.''))]
     else case camera_method a of
       None \<Rightarrow> dash_json 400 [(''error'', JStr (''Unknown action: '' @ a))]
     | Some f \<Rightarrow>
         seqE (maybeLogin E)
         (catchE (bindE (f E mac model) (\<lambda>_. dash_json 200 [(''ok'', JBool True), (''action'', JStr a)]))
           (\<lambda>err. dash_json 502 [(''error'', JStr (a @ '' failed: '' @ emsg err))])))"
proof -
  obtain body where b: "json_parse text = Some (JObj body)" "oget body ''mac'' = mac" "oget body ''productModel'' = model"
      "oget body ''action'' = JStr a" and t: "\<not> 1000000 < length text" "truthy mac" "truthy model" "a \<noteq> ''''"
    using assms by (auto simp: control_body_def)
  have "text \<noteq> ''''" using b(1) by (auto simp: json_parse_def ws_def)
  with b t have "eufy_readJsonBody text = Inr (JObj body)" by (simp add: eufy_readJsonBody_def)
  moreover have "(JStr a \<in> JStr ` set APP_ONLY_ACTIONS) = (a \<in> set APP_ONLY_ACTIONS)" by auto
  moreover have "own_prop (JObj body) k = oget body k" for k by (simp add: own_prop_def)
  ultimately show ?thesis using b t by (simp add: route_control_def Let_def split: option.split)
qed

lemma logged_in: "truthy (access_token s) \<Longrightarrow> seqE (maybeLogin E) f s = f s"
  by (simp add: maybeLogin_def seqE_def bindE_def)

lemma voided: "f s = Some (Inr v, s') \<Longrightarrow> void f s = Some (Inr JUndef, s')"
  by (simp add: void_def seqE_def bindE_def)

text \<open>
  C30. A control reaches its camera. For each of the twelve actions the dashboard sends the cloud one
  authenticated request, which sets the property or runs the action of that name on the camera of the
  request, and answers 200 when the cloud accepts it.
\<close>

theorem control_reaches_camera:
  assumes "serves E s ob" and "(a, c) \<in> set control_spec" and "control_body text mac model a"
  shows "\<exists>q. dash_http E capture au (control_request text) s
      = Some (Inr (DJson 200 (JObj [(''ok'', JBool True), (''action'', JStr a)])), after E q s) \<and>
    opt_prop (rq_data q) ''access_token'' = access_token s \<and>
    (case c of
       SetProp pid v \<Rightarrow> rq_url q = ''app/v2/device/set_property'' \<and> opt_prop (rq_data q) ''device_mac'' = mac \<and>
         opt_prop (rq_data q) ''device_model'' = model \<and> opt_prop (rq_data q) ''pid'' = JStr pid \<and> opt_prop (rq_data q) ''pvalue'' = v
     | RunAct k \<Rightarrow> rq_url q = ''app/v2/auto/run_action'' \<and> opt_prop (rq_data q) ''instance_id'' = mac \<and>
         opt_prop (rq_data q) ''provider_key'' = model \<and> opt_prop (rq_data q) ''action_key'' = JStr k)"
proof -
  obtain f where f: "camera_method a = Some f" "\<And>E mac model. f E mac model = performs E mac model c"
    using camera_method_spec [OF assms(2)] by blast
  have "\<forall>x \<in> set APP_ONLY_ACTIONS. x \<notin> set (map fst control_spec)" by code_simp
  then have app: "a \<notin> set APP_ONLY_ACTIONS" using assms(2) by force
  have run: "dash_http E capture au (control_request text) s =
      Some (Inr (DJson 200 (JObj [(''ok'', JBool True), (''action'', JStr a)])), s')"
    if "performs E mac model c s = Some (Inr JUndef, s')" for s'
    using that f assms(1) unfolding control_route control_parsed [OF assms(3)] if_not_P [OF app]
    by (simp add: catchE_def serves_def logged_in bindE_def dash_json_def)
  show ?thesis
  proof (cases c)
    case (SetProp pid v)
    let ?d = "[(''device_mac'', mac), (''device_model'', model), (''pid'', JStr pid), (''pvalue'', v)]"
    let ?q = "api_request E s ''app/v2/device/set_property'' ?d"
    have "performs E mac model c s = Some (Inr JUndef, after E ?q s)"
      unfolding SetProp performs_def control.case
      by (rule voided) (simp only: setProperty_def Let_def accepted_data [OF assms(1)])
    note sent = run [OF this]
    have "oget (getRequestData E s ?d) ''access_token'' = access_token s" by (simp add: token_of_request)
    moreover have "oget (getRequestData E s ?d) ''device_mac'' = mac" "oget (getRequestData E s ?d) ''device_model'' = model"
      "oget (getRequestData E s ?d) ''pid'' = JStr pid" "oget (getRequestData E s ?d) ''pvalue'' = v"
      by (simp_all add: getRequestData_def oget_spread)
    ultimately show ?thesis using sent unfolding SetProp control.case
      by (intro exI [of _ ?q] conjI) (simp_all only: api_request_fields opt_prop_JObj)
  next
    case (RunAct k)
    let ?d = "[(''instance_id'', mac), (''provider_key'', model), (''action_key'', JStr k), (''action_params'', JObj []), (''custom_string'', JStr '''')]"
    let ?q = "api_request E s ''app/v2/auto/run_action'' ?d"
    have "performs E mac model c s = Some (Inr JUndef, after E ?q s)"
      unfolding RunAct performs_def control.case
      by (rule voided) (simp only: runAction_def Let_def accepted_data [OF assms(1)])
    note sent = run [OF this]
    have "oget (getRequestData E s ?d) ''access_token'' = access_token s" by (simp add: token_of_request)
    moreover have "oget (getRequestData E s ?d) ''instance_id'' = mac" "oget (getRequestData E s ?d) ''provider_key'' = model"
      "oget (getRequestData E s ?d) ''action_key'' = JStr k"
      by (simp_all add: getRequestData_def oget_spread)
    ultimately show ?thesis using sent unfolding RunAct control.case
      by (intro exI [of _ ?q] conjI) (simp_all only: api_request_fields opt_prop_JObj)
  qed
qed

definition siren_text :: string where
  "siren_text = stringify (JObj [(''mac'', JStr ''A1''), (''productModel'', JStr ''M''), (''action'', JStr ''siren_on'')])"

lemma siren_body: "control_body siren_text (JStr ''A1'') (JStr ''M'') ''siren_on''"
proof -
  have "json_parse siren_text = Some (JObj [(''mac'', JStr ''A1''), (''productModel'', JStr ''M''), (''action'', JStr ''siren_on'')])"
    unfolding siren_text_def by (rule json_roundtrip) simp
  moreover have "length siren_text < 100" by code_simp
  then have "length siren_text \<le> 1000000" by simp
  ultimately show ?thesis by (simp add: control_body_def)
qed

lemma control_reaches_camera_witness:
  "\<exists>q. dash_http (demo_env (constant_server [(''code'', JNum 1)])) (\<lambda>_ _ _. ret []) JUndef (control_request siren_text) (demo_state (JStr ''t''))
      = Some (Inr (DJson 200 (JObj [(''ok'', JBool True), (''action'', JStr ''siren_on'')])),
          after (demo_env (constant_server [(''code'', JNum 1)])) q (demo_state (JStr ''t''))) \<and>
    opt_prop (rq_data q) ''action_key'' = JStr ''siren_on''"
proof -
  have "classify (JObj [(''code'', JNum 1)]) = Accepted"
    by (simp add: classify_def nullish_def response_code_def own_prop_def)
  from control_reaches_camera [OF demo_serves [OF this] _ siren_body, of "RunAct ''siren_on''" "(\<lambda>_ _ _. ret [])" JUndef]
  show ?thesis by (auto simp: control_spec_def)
qed

text \<open>
  C31. Other controls are refused. An action of the app is answered 501 and an unknown one 400, both
  without a request to the cloud; but a name that every object inherits is taken for a method, and the
  call of what is not a function is answered 502.
\<close>

theorem other_controls_refused:
  assumes "control_body text mac model a" and "a \<notin> fst ` set control_spec" and "truthy (access_token s)"
  shows "\<exists>code msg. dash_http E capture au (control_request text) s = Some (Inr (DJson code (JObj [(''error'', JStr msg)])), s) \<and>
    (code = 501 \<longleftrightarrow> a \<in> set APP_ONLY_ACTIONS) \<and> (code = 502 \<longleftrightarrow> a \<in> set object_names) \<and>
    (code = 400 \<longleftrightarrow> a \<notin> set APP_ONLY_ACTIONS \<union> set object_names)"
proof -
  have "map fst CAMERA_ACTIONS = map fst control_spec" by (simp add: CAMERA_ACTIONS_def control_spec_def)
  then have "map_of CAMERA_ACTIONS a = None" using assms(2) by (metis list.set_map map_of_eq_None_iff)
  then have m: "camera_method a = (if a \<in> set object_names
      then Some (\<lambda>E mac model. throw (TypeError ''wyze[method] is not a function'')) else None)"
    by (simp add: camera_method_def)
  have "\<forall>x \<in> set APP_ONLY_ACTIONS. x \<notin> set object_names" by code_simp
  then have d: "a \<in> set APP_ONLY_ACTIONS \<Longrightarrow> a \<notin> set object_names" by blast
  have app: "\<exists>msg. route_control E text s = Some (Inr (DJson 501 (JObj [(''error'', JStr msg)])), s)" if "a \<in> set APP_ONLY_ACTIONS"
    unfolding control_parsed [OF assms(1)] dash_json_def ret_def if_P [OF that] by blast
  have inherited: "\<exists>msg. route_control E text s = Some (Inr (DJson 502 (JObj [(''error'', JStr msg)])), s)"
    if "a \<notin> set APP_ONLY_ACTIONS" "a \<in> set object_names"
    using that unfolding control_parsed [OF assms(1)] m if_not_P [OF that(1)]
    by (simp add: catchE_def dash_json_def logged_in [OF assms(3)] bindE_def)
  have unknown: "\<exists>msg. route_control E text s = Some (Inr (DJson 400 (JObj [(''error'', JStr msg)])), s)"
    if "a \<notin> set APP_ONLY_ACTIONS" "a \<notin> set object_names"
    using that(2) unfolding control_parsed [OF assms(1)] m if_not_P [OF that(1)] by (simp add: dash_json_def)
  have http: "dash_http E capture au (control_request text) s = Some (Inr r, s)" if "route_control E text s = Some (Inr r, s)" for r
    unfolding control_route using that by (simp add: catchE_def)
  consider "a \<in> set APP_ONLY_ACTIONS" | "a \<notin> set APP_ONLY_ACTIONS" "a \<in> set object_names"
    | "a \<notin> set APP_ONLY_ACTIONS" "a \<notin> set object_names" by blast
  then show ?thesis
  proof cases
    case 1
    then obtain msg where "route_control E text s = Some (Inr (DJson 501 (JObj [(''error'', JStr msg)])), s)" using app by blast
    from http [OF this] 1 d show ?thesis by (intro exI [of _ 501] exI [of _ msg]) simp
  next
    case 2
    then obtain msg where "route_control E text s = Some (Inr (DJson 502 (JObj [(''error'', JStr msg)])), s)" using inherited by blast
    from http [OF this] 2 show ?thesis by (intro exI [of _ 502] exI [of _ msg]) simp
  next
    case 3
    then obtain msg where "route_control E text s = Some (Inr (DJson 400 (JObj [(''error'', JStr msg)])), s)" using unknown by blast
    from http [OF this] 3 show ?thesis by (intro exI [of _ 400] exI [of _ msg]) simp
  qed
qed

definition toString_text :: string where
  "toString_text = stringify (JObj [(''mac'', JStr ''A1''), (''productModel'', JStr ''M''), (''action'', JStr ''toString'')])"

lemma other_controls_refused_witness:
  "\<exists>msg. dash_http (demo_env (constant_server [])) (\<lambda>_ _ _. ret []) JUndef (control_request toString_text) (demo_state (JStr ''t''))
      = Some (Inr (DJson 502 (JObj [(''error'', JStr msg)])), demo_state (JStr ''t''))"
proof -
  have "json_parse toString_text = Some (JObj [(''mac'', JStr ''A1''), (''productModel'', JStr ''M''), (''action'', JStr ''toString'')])"
    unfolding toString_text_def by (rule json_roundtrip) simp
  moreover have "length toString_text < 100" by code_simp
  then have "length toString_text \<le> 1000000" by simp
  ultimately have b: "control_body toString_text (JStr ''A1'') (JStr ''M'') ''toString''" by (simp add: control_body_def)
  have "''toString'' \<notin> fst ` set control_spec" "''toString'' \<in> set object_names" by code_simp+
  moreover have "truthy (access_token (demo_state (JStr ''t'')))" by (simp add: demo_state_def construct_state_def)
  ultimately show ?thesis using other_controls_refused [OF b, of "demo_state (JStr ''t'')" "demo_env (constant_server [])" "(\<lambda>_ _ _. ret [])" JUndef] by auto
qed

section \<open>Events\<close>

text \<open>
  The events of an answer are recent and in order. They are the normalised events that are newer than
  the bound, each once, with the newest first, and events of the same time stay in the order of the cloud;
  without a bound that is a number there are none.
\<close>

theorem events_recent_in_order:
  "(\<exists>b. since = Some b \<and> mset (recent_events since es) = mset (filter (\<lambda>(t, _). \<exists>a. t = Some a \<and> b < a) es) \<and>
      sorted_wrt (\<lambda>(t, _) (u, _). the u \<le> the t) (recent_events since es) \<and>
      (\<forall>a. filter (\<lambda>(t, _). t = Some a) (recent_events since es) = filter (\<lambda>(t, _). t = Some a \<and> b < a) es)) \<or>
   since = None \<and> recent_events since es = []"
proof (cases since)
  case None
  then show ?thesis by (simp add: recent_events_def later_than_def case_prod_beta split: option.splits)
next
  case (Some b)
  have later: "later_than t since = (\<exists>a. t = Some a \<and> b < a)" for t by (auto simp: Some later_than_def split: option.split)
  let ?recent = "filter (\<lambda>(t, _). later_than t since) es"
  have "sorted (map (\<lambda>(t, _). - the t) (recent_events since es))" by (simp add: recent_events_def)
  then have sorted: "sorted_wrt (\<lambda>(t, _) (u, _). the u \<le> the t) (recent_events since es)"
    by (simp add: sorted_map case_prod_unfold)
  have stable: "filter (\<lambda>(t, _). t = Some a) (recent_events since es) = filter (\<lambda>(t, _). t = Some a \<and> b < a) es" for a
  proof -
    have "filter (\<lambda>(t, _). t = Some a) (recent_events since es) = filter (\<lambda>x. (case x of (t, _) \<Rightarrow> - the t) = - a) (recent_events since es)"
      by (rule filter_cong) (auto simp: recent_events_def later)
    also have "\<dots> = filter (\<lambda>x. (case x of (t, _) \<Rightarrow> - the t) = - a) ?recent"
      unfolding recent_events_def by (rule sort_key_stable)
    also have "\<dots> = filter (\<lambda>(t, _). t = Some a \<and> b < a) es"
      by (auto simp: later intro: filter_cong)
    finally show ?thesis .
  qed
  have "mset (recent_events since es) = mset (filter (\<lambda>(t, _). \<exists>a. t = Some a \<and> b < a) es)"
    by (simp add: recent_events_def later)
  with sorted stable Some show ?thesis by blast
qed

section \<open>Video sockets\<close>

text \<open>What each side has sent so far.\<close>

definition client_sent :: "'msg ws_event list \<Rightarrow> 'msg list" where
  "client_sent evs = concat (map (\<lambda>ev. case ev of ClientMessage d \<Rightarrow> [d] | _ \<Rightarrow> []) evs)"

definition upstream_sent :: "'msg ws_event list \<Rightarrow> 'msg list" where
  "upstream_sent evs = concat (map (\<lambda>ev. case ev of UpMessage d \<Rightarrow> [d] | _ \<Rightarrow> []) evs)"

lemma sent_append [simp]:
  "client_sent (a @ b) = client_sent a @ client_sent b" "upstream_sent (a @ b) = upstream_sent a @ upstream_sent b"
  by (simp_all add: client_sent_def upstream_sent_def)

definition relayed :: "'msg ws_event list \<Rightarrow> 'msg ws_proxy \<Rightarrow> bool" where
  "relayed evs w =
     (to_upstream w @ queue w = client_sent evs \<and> (upstream w = OPEN \<longrightarrow> queue w = []) \<and>
      (upstream w = CONNECTING \<longrightarrow> to_upstream w = []) \<and>
      prefix (to_client w) (upstream_sent evs) \<and> (client w = OPEN \<longrightarrow> to_client w = upstream_sent evs))"

lemma relayed_step:
  assumes "relayed evs w" "ws_step ev w = Some w'"
  shows "relayed (evs @ [ev]) w'"
  using assms
  by (cases ev) (auto simp: relayed_def ws_step_def on_up_open_def on_up_message_def close_client_def close_upstream_def
      on_client_message_def ws_close_def client_sent_def upstream_sent_def split: if_splits)

text \<open>The sockets' states only go forward, so what a closing browser has got is all it gets.\<close>

lemma sockets_forward: "ws_step ev w = Some w' \<Longrightarrow> upstream w \<le> upstream w' \<and> client w \<le> client w'"
  by (cases ev) (auto simp: ws_step_def on_up_open_def on_up_message_def close_client_def close_upstream_def
      on_client_message_def split: if_splits)

interpretation ended: step_invariant ws_step "\<lambda>w. CLOSING \<le> client w \<and> to_client w = ms" for ms
proof
  fix w w' ev
  assume w: "CLOSING \<le> client w \<and> to_client w = ms" and step: "ws_step ev w = Some w'"
  then have "CLOSING \<le> client w'" using sockets_forward by fastforce
  moreover have "client w \<noteq> OPEN" using w by (auto simp: less_eq_ready_state_def)
  ultimately show "CLOSING \<le> client w' \<and> to_client w' = ms" using w step
    by (cases ev) (auto simp: ws_step_def on_up_open_def on_up_message_def close_client_def close_upstream_def
        on_client_message_def split: if_splits)
qed

text \<open>
  C33. The video socket loses nothing. In every run what the browser sent is, in order, what went upstream
  followed by what still waits; nothing waits while the upstream socket is open, and nothing has gone
  before it was. What comes from upstream reaches the browser in order, all of it while its socket is
  open, and nothing more once that socket is closing.
\<close>

theorem ws_proxy_fifo:
  assumes "run ws_step evs ws_init = Some w"
  shows "to_upstream w @ queue w = client_sent evs \<and> (upstream w = OPEN \<longrightarrow> queue w = []) \<and>
    (upstream w = CONNECTING \<longrightarrow> to_upstream w = []) \<and>
    prefix (to_client w) (upstream_sent evs) \<and> (client w = OPEN \<longrightarrow> to_client w = upstream_sent evs) \<and>
    (\<forall>evs' w'. CLOSING \<le> client w \<longrightarrow> run ws_step evs' w = Some w' \<longrightarrow> to_client w' = to_client w)"
proof -
  have "to_client w' = to_client w" if "CLOSING \<le> client w" "run ws_step evs' w = Some w'" for evs' w'
    using ended.run_keeps [of w "to_client w" evs' w'] that by simp
  moreover have "relayed evs w" using assms
  proof (induction evs arbitrary: w rule: rev_induct)
    case Nil
    then show ?case by (auto simp: relayed_def ws_init_def client_sent_def upstream_sent_def)
  next
    case (snoc ev evs)
    then obtain w1 where "run ws_step evs ws_init = Some w1" "ws_step ev w1 = Some w"
      by (auto simp: run_append split: option.splits)
    with snoc.IH show ?case by (blast intro: relayed_step)
  qed
  ultimately show ?thesis by (simp add: relayed_def)
qed

lemma ws_proxy_fifo_witness:
  "\<exists>w. run ws_step [ClientMessage (1::nat), ClientMessage 2, UpOpen, ClientMessage 3, UpMessage 9] ws_init = Some w \<and>
    to_upstream w @ queue w = [1, 2, 3] \<and> prefix (to_client w) [9]"
proof -
  obtain w where w: "run ws_step [ClientMessage (1::nat), ClientMessage 2, UpOpen, ClientMessage 3, UpMessage 9] ws_init = Some w"
    by (simp add: ws_step_def ws_init_def on_client_message_def on_up_open_def on_up_message_def)
  from ws_proxy_fifo [OF this] w show ?thesis by (simp add: client_sent_def upstream_sent_def)
qed

lemma pct_byte_chars: "b < 256 \<Longrightarrow> c \<in> set (pct_byte b) \<Longrightarrow> uri_unreserved c \<or> c = CHR ''%''"
proof -
  have "uri_unreserved (upper_char (hexdigit x))" if "x < 16" for x using that
    by (auto simp: hexdigit_def upper_char_def uri_unreserved_def is_alnum_def is_digit_def is_ascii_letter_def Let_def)
  moreover assume "b < 256" "c \<in> set (pct_byte b)"
  ultimately show ?thesis by (auto simp: pct_byte_def)
qed

lemma utf8_bytes: "b \<in> set (utf8_char c) \<Longrightarrow> b < 256"
proof -
  have n: "(of_char c :: nat) < 256" by simp
  then have "(of_char c :: nat) div 64 < 4" by (intro div_less_iff_less_mult [THEN iffD2]) simp_all
  then have "192 + (of_char c :: nat) div 64 < 256" "128 + (of_char c :: nat) mod 64 < 256" by simp_all
  with n show "b \<in> set (utf8_char c) \<Longrightarrow> ?thesis" by (auto simp: utf8_char_def Let_def split: if_splits)
qed

lemma encode_chars: "c \<in> set (encodeURIComponent s) \<Longrightarrow> uri_unreserved c \<or> c = CHR ''%''"
proof -
  assume "c \<in> set (encodeURIComponent s)"
  then obtain x where x: "c \<in> set (if uri_unreserved x then [x] else concat (map pct_byte (utf8_char x)))"
    unfolding encodeURIComponent_def set_concat set_map by blast
  show ?thesis
  proof (cases "uri_unreserved x")
    case False
    with x obtain b where "b \<in> set (utf8_char x)" "c \<in> set (pct_byte b)" by auto
    then show ?thesis using pct_byte_chars utf8_bytes by blast
  qed (use x in simp)
qed

lemma encode_plain:
  "CHR ''&'' \<notin> set (encodeURIComponent s)" "CHR ''='' \<notin> set (encodeURIComponent s)" "CHR ''+'' \<notin> set (encodeURIComponent s)"
  "CHR ''?'' \<notin> set (encodeURIComponent s)"
  using encode_chars [of "CHR ''&''" s] encode_chars [of "CHR ''=''" s] encode_chars [of "CHR ''+''" s] encode_chars [of "CHR ''?''" s]
  by (auto simp: uri_unreserved_def is_alnum_def is_digit_def is_ascii_letter_def)

lemma split_on_none: "c \<notin> set s \<Longrightarrow> split_on c s = [s]"
  by (induction s) auto

lemma encode_empty: "encodeURIComponent s = '''' \<Longrightarrow> s = ''''"
  using decode_encode [of s] by simp

lemma stream_query: "search_param (stream_target sn) ''sn'' = JStr sn"
proof -
  let ?v = "encodeURIComponent sn"
  have q: "drop 1 (dropWhile (\<lambda>c. c \<noteq> CHR ''?'') (stream_target sn)) = ''sn='' @ ?v"
    by (simp add: stream_target_def)
  have "split_on CHR ''&'' (''sn='' @ ?v) = [''sn='' @ ?v]"
    by (rule split_on_none) (simp add: encode_plain)
  then have "query_pairs (''sn='' @ ?v) = [(''sn'', ?v)]" by (simp add: query_pairs_def)
  moreover have "map (\<lambda>c. if c = CHR ''+'' then CHR '' '' else c) ?v = ?v"
    by (rule map_idI) (use encode_plain(3) [of sn] in auto)
  ultimately show ?thesis unfolding search_param_def q by (simp add: form_decode_def decode_encode)
qed

text \<open>
  C34. A video socket reaches its camera. When the dashboard accepts the socket of a browser for a serial
  number, whatever characters it has, the socket that it opens is one that the viewer process accepts,
  and it starts the session of exactly that camera.
\<close>

theorem video_socket_reaches_camera:
  assumes "dash_upgrade url = Some target"
  shows "\<exists>sn. search_param url ''sn'' = JStr sn \<and> sn \<noteq> '''' \<and>
    on_upgrade w (url_path target) (search_param target ''sn'') e =
      startSession sn w (e\<lparr>open_ws := insert w (open_ws e), ws_sn := (ws_sn e)(w \<mapsto> sn)\<rparr>)"
proof -
  have "search_param url ''sn'' = JNull \<or> (\<exists>sn. search_param url ''sn'' = JStr sn)"
    by (auto simp: search_param_def split: option.split)
  with assms obtain sn where sn: "search_param url ''sn'' = JStr sn" "sn \<noteq> ''''" "target = stream_target sn"
    by (auto simp: dash_upgrade_def Let_def split: if_splits)
  moreover have "url_path (stream_target sn) = ''/stream''" by (simp add: url_path_def stream_target_def)
  ultimately show ?thesis by (simp add: on_upgrade_def stream_query)
qed

lemma video_socket_reaches_camera_witness:
  "\<exists>t. dash_upgrade ''/eufy-stream?x=1&sn=T%2B1'' = Some t \<and> sessions (on_upgrade 5 (url_path t) (search_param t ''sn'') (eufy_init 0)) ''T+1''
    = Some \<lparr>se_sn = ''T+1'', se_ws = 5, se_ffmpeg = None\<rparr>"
proof -
  have sn: "search_param ''/eufy-stream?x=1&sn=T%2B1'' ''sn'' = JStr ''T+1''" by code_simp
  then have t: "dash_upgrade ''/eufy-stream?x=1&sn=T%2B1'' = Some (stream_target ''T+1'')"
    by (simp add: dash_upgrade_def url_path_def)
  from video_socket_reaches_camera [OF t, of 5 "eufy_init 0"] sn t show ?thesis
    by (auto simp: startSession_def session_create_def add_task_def emit_def eufy_init_def)
qed

end
