(* ===== verification/DashTypes.thy ===== *)
theory DashTypes
  imports Dashboard CacheProps
begin

text \<open>
  The types of the dashboard's answers: what the browser's page may rely on for each route of
  \<open>src/cam-frontend/server.js\<close>. A type lists the fields of an object that are read; other fields are free.
\<close>

section \<open>Types of JSON values\<close>

datatype jty = TAny | TBool | TNum | TStr | TArr jty | TObj "(string \<times> jty) list"

fun has_type :: "jsval \<Rightarrow> jty \<Rightarrow> bool" where
  "has_type v TAny = True"
| "has_type v TBool = (case v of JBool _ \<Rightarrow> True | _ \<Rightarrow> False)"
| "has_type v TNum = (case v of JNum _ \<Rightarrow> True | _ \<Rightarrow> False)"
| "has_type v TStr = (case v of JStr _ \<Rightarrow> True | _ \<Rightarrow> False)"
| "has_type v (TArr t) = (case v of JArr vs \<Rightarrow> \<forall>u \<in> set vs. has_type u t | _ \<Rightarrow> False)"
| "has_type v (TObj fs) = (case v of JObj ob \<Rightarrow> \<forall>f \<in> set fs. has_type (oget ob (fst f)) (snd f) | _ \<Rightarrow> False)"

definition summary_type :: jty where
  "summary_type = TObj [(''mac'', TAny), (''productModel'', TAny), (''nickname'', TAny), (''online'', TBool), (''thumbnail'', TAny)]"

definition event_type :: jty where
  "event_type = TObj [(''id'', TAny), (''mac'', TAny), (''time'', TNum), (''value'', TStr), (''tags'', TArr TAny), (''thumbnail'', TAny),
     (''video'', TAny)]"

definition stream_type :: jty where
  "stream_type = TObj [(''signalingUrl'', TAny), (''iceServers'', TArr (TObj [(''urls'', TAny)])), (''substream'', TBool),
     (''cached'', TBool), (''clientId'', TStr)]"

definition error_type :: jty where
  "error_type = TObj [(''error'', TStr)]"

text \<open>The bodies of the answers with status 200.\<close>

definition response_types :: "((string \<times> string) \<times> jty) list" where
  "response_types =
     [((''GET'', ''/api/cameras''), TObj [(''cameras'', TArr summary_type)]),
      ((''GET'', ''/api/stream-params''), TObj [(''params'', stream_type), (''cached'', TBool)]),
      ((''GET'', ''/api/events''), TObj [(''events'', TArr event_type)]),
      ((''GET'', ''/api/health''), TObj [(''ok'', TBool)]),
      ((''GET'', ''/api/config''), TObj [(''autoStartStreams'', TBool)]),
      ((''GET'', ''/api/debug/devices''), TObj [(''count'', TNum), (''cameras'', TArr TAny)]),
      ((''POST'', ''/api/camera/control''), TObj [(''ok'', TBool), (''action'', TAny)])]"

definition typed_reply :: "string \<Rightarrow> string \<Rightarrow> dash_reply \<Rightarrow> bool" where
  "typed_reply meth path r =
     (case r of
        DJson code v \<Rightarrow>
          if code = 200 then (case map_of response_types (meth, path) of None \<Rightarrow> False | Some t \<Rightarrow> has_type v t)
          else code \<in> {400, 404, 500, 501, 502} \<and> has_type v error_type
      | DHtml \<Rightarrow> (meth, path) = (''GET'', ''/'')
      | DImage _ _ \<Rightarrow> (meth, path) = (''GET'', ''/api/snapshot'')
      | DFetch _ _ \<Rightarrow> (meth, path) = (''GET'', ''/api/thumbnail'')
      | DProxy t \<Rightarrow> eufy_target meth path = Some t)"

section \<open>Programs with typed results\<close>

definition gives :: "('a \<Rightarrow> bool) \<Rightarrow> 'a m \<Rightarrow> bool" where
  "gives P c = (\<forall>s a s'. c s = Some (Inr a, s') \<longrightarrow> P a)"

lemma gives_rules:
  "P a \<Longrightarrow> gives P (ret a)" "gives P (throw e)" "gives P k \<Longrightarrow> gives P (seqE c k)"
  "gives P f \<Longrightarrow> gives P g \<Longrightarrow> gives P (if b then f else g)"
  by (auto simp: gives_def elim!: seqE_cases)

lemma gives_catch: "gives P c \<Longrightarrow> (\<And>e. gives P (h e)) \<Longrightarrow> gives P (catchE c h)"
  unfolding gives_def by (blast elim!: catchE_cases)

lemma gives_bind: "gives Q c \<Longrightarrow> (\<And>a. Q a \<Longrightarrow> gives P (f a)) \<Longrightarrow> gives P (bindE c f)"
  unfolding gives_def by (blast elim!: bindE_cases)

lemma gives_any: "gives (\<lambda>_. True) c"
  by (simp add: gives_def)

lemma gives_lift: "(\<And>a. x = Inr a \<Longrightarrow> P a) \<Longrightarrow> gives P (liftE x)"
  by (auto simp: gives_def liftE_def)

lemma gives_const: "gives P (k a) \<Longrightarrow> gives P (bindE (getS (\<lambda>_. a)) k)"
  by (simp add: gives_def)

lemma gives_json: "typed_reply meth path (DJson code (JObj ob)) \<Longrightarrow> gives (typed_reply meth path) (dash_json code ob)"
  by (simp add: dash_json_def gives_rules)

lemma gives_error: "code \<in> {400, 404, 500, 501, 502} \<Longrightarrow> gives (typed_reply meth path) (dash_json code ((''error'', JStr msg) # ob))"
  by (rule gives_json) (auto simp: typed_reply_def error_type_def)

lemma status_ok:
  "map_of response_types (meth, path) = Some t \<Longrightarrow> has_type v t \<Longrightarrow> typed_reply meth path (DJson 200 v)"
  by (simp add: typed_reply_def)

section \<open>The routes\<close>

lemma cameras_array: "gives (\<lambda>cs. \<exists>vs. cs = JArr vs) (getCameras E)"
  unfolding getCameras_def getDevicesByType_def
  by (rule gives_bind [OF gives_any gives_lift]) (auto simp: filter_devices_def bindR_def split: sum.splits)

lemma summaries_typed: "gives (typed_reply ''GET'' ''/api/cameras'') (route_summaries E)"
proof -
  have "gives (\<lambda>cs. has_type cs (TArr summary_type)) (getCameraSummaries E)"
    unfolding getCameraSummaries_def
    by (rule gives_bind [OF gives_any gives_lift])
      (auto simp: bindR_def cameraToSummary_def summary_type_def split: sum.splits)
  then show ?thesis
    unfolding route_summaries_def
    by (intro gives_rules gives_bind gives_json status_ok) (auto simp: response_types_def)
qed

lemma bundle_typed: "make_bundle info = Inr b \<Longrightarrow> has_type (oget b ''iceServers'') (TArr (TObj [(''urls'', TAny)]))"
  by (auto simp: make_bundle_def sanitizeCameraIceServers_def bindR_def map_filter_def sanitize_server_def Let_def
      split: sum.splits if_splits)

lemma stream_params_typed: "gives (typed_reply ''GET'' ''/api/stream-params'') (route_stream_params E param)"
proof -
  let ?opts = "\<lambda>sub. default_conn_options\<lparr>o_substream := JBool sub, o_noCache := JBool True\<rparr>"
  have fetched: "gives (\<lambda>bc. has_type (oget (fst bc) ''iceServers'') (TArr (TObj [(''urls'', TAny)])))
      (bindE (cameraGetStreamInfo E mac model sub) (\<lambda>info.
       bindE (liftE (make_bundle info)) (\<lambda>bundle. ret (bundle, False))))" for mac model sub
    by (rule gives_bind [OF gives_any], rule gives_bind [OF gives_lift [OF bundle_typed]], assumption) (simp add: gives_rules)
  have client: "gives (\<lambda>v. has_type v TStr) (createCameraStreamClientId E mac pfx)" for mac pfx
    unfolding createCameraStreamClientId_def Let_def
    by (intro gives_bind [OF gives_any]) (simp add: gives_def)
  have finish: "gives (\<lambda>ob. has_type (JObj ob) stream_type) (conn_finish E mac model (?opts sub) bc)"
    if "has_type (oget (fst bc) ''iceServers'') (TArr (TObj [(''urls'', TAny)]))" for mac model sub bc
    using that
    by (cases bc)
      (auto simp: conn_finish_def default_conn_options_def Let_def stream_type_def oget_spread
        intro!: gives_bind [OF client] gives_rules)
  have conn: "gives (\<lambda>ob. has_type (JObj ob) stream_type) (getCameraWebRTCConnectionInfo E mac model (?opts sub))" for mac model sub
    using gives_bind [OF fetched finish]
    by (simp add: conn_info_unfold Let_def gives_rules gives_const default_conn_options_def)
  have answer: "typed_reply ''GET'' ''/api/stream-params'' (DJson 200 (JObj [(''params'', JObj ob), (''cached'', oget ob ''cached'')]))"
    if "has_type (JObj ob) stream_type" for ob
    by (rule status_ok) (use that in \<open>auto simp: response_types_def stream_type_def\<close>)
  show ?thesis
    unfolding route_stream_params_def Let_def
    by (intro gives_rules gives_bind [OF conn] gives_error gives_json [OF answer]) simp_all
qed

lemma map_js_result: "map_js f vs = Inr bs \<Longrightarrow> \<forall>b \<in> set bs. \<exists>v. f v = Inr b"
  by (induction vs arbitrary: bs) (auto simp: bindR_def split: sum.splits)

lemma event_typed: "normalized_event names e = Inr (time, ob) \<Longrightarrow> time = Some n \<Longrightarrow> has_type (JObj ob) event_type"
  by (auto simp: normalized_event_def bindR_def Let_def event_type_def num_val_def split: sum.splits)

lemma events_typed: "gives (typed_reply ''GET'' ''/api/events'') (route_dash_events E param)"
proof -
  have ev: "gives (\<lambda>es. \<forall>(time, ob) \<in> set es. \<exists>e. normalized_event names e = Inr (time, ob))
      (liftE (bindR (array_of ''map'' events) (map_js (normalized_event names))))" for names events
    by (rule gives_lift) (auto simp: bindR_def split: sum.splits dest!: map_js_result)
  have answer: "typed_reply ''GET'' ''/api/events'' (DJson 200 (JObj [(''events'', JArr (map (\<lambda>(_, ob). JObj ob) (recent_events since es)))]))"
    if "\<forall>(time, ob) \<in> set es. \<exists>e. normalized_event names e = Inr (time, ob)" for names es since
  proof -
    have "has_type (JObj ob) event_type" if "(time, ob) \<in> set (recent_events since es)" for time ob
    proof -
      have "(time, ob) \<in> set es" "later_than time since" using that by (auto simp: recent_events_def)
      moreover from this obtain n where "time = Some n" by (auto simp: later_than_def split: option.splits)
      ultimately show ?thesis using \<open>\<forall>(time, ob) \<in> set es. _\<close> event_typed by blast
    qed
    then show ?thesis by (intro status_ok) (auto simp: response_types_def)
  qed
  show ?thesis
    unfolding route_dash_events_def Let_def
    by (intro gives_rules gives_bind [OF gives_any] gives_bind [OF ev] gives_json answer) assumption
qed

lemma devices_typed: "gives (typed_reply ''GET'' ''/api/debug/devices'') (route_raw_devices E)"
proof -
  have answer: "typed_reply ''GET'' ''/api/debug/devices'' (DJson 200 (JObj
      [(''count'', (case cs of JArr vs \<Rightarrow> JNum (int (length vs)) | _ \<Rightarrow> n)), (''cameras'', cs)]))" if "\<exists>vs. cs = JArr vs" for cs n
    by (rule status_ok) (use that in \<open>auto simp: response_types_def\<close>)
  show ?thesis
    unfolding route_raw_devices_def
    by (intro gives_rules gives_bind [OF gives_any] gives_bind [OF cameras_array] gives_json answer)
qed

lemma control_typed: "gives (typed_reply ''POST'' ''/api/camera/control'') (route_control E text)"
proof -
  have "typed_reply ''POST'' ''/api/camera/control'' (DJson 200 (JObj [(''ok'', JBool True), (''action'', action)]))" for action
    by (rule status_ok) (auto simp: response_types_def)
  note ok = gives_json [OF this]
  have act: "gives (typed_reply ''POST'' ''/api/camera/control'')
      (case m of None \<Rightarrow> dash_json 400 [(''error'', JStr msg)]
       | Some f \<Rightarrow> seqE (maybeLogin E) (catchE (bindE (f E mac model) (\<lambda>_. dash_json 200 [(''ok'', JBool True), (''action'', action)]))
           (\<lambda>err. dash_json 502 [(''error'', JStr (fail err))])))" for m mac model action msg fail
    by (cases m) (simp_all add: gives_error, intro gives_rules gives_catch gives_bind [OF gives_any] ok gives_error, simp)
  show ?thesis
    unfolding route_control_def Let_def
    by (intro gives_bind [OF gives_any] gives_rules gives_error act) simp_all
qed

lemma other_routes_typed:
  "gives (typed_reply ''GET'' ''/api/snapshot'') (route_dash_snapshot E capture param)"
  "gives (typed_reply ''GET'' ''/api/thumbnail'') (route_thumbnail param)"
  "gives (typed_reply ''GET'' ''/api/config'') (route_config autostart)"
  "gives (typed_reply ''GET'' ''/api/health'') (dash_json 200 [(''ok'', JBool True)])"
  "gives (typed_reply meth path) (dash_error err)" "gives (typed_reply meth path) (dash_json 404 [(''error'', JStr ''Not found'')])"
proof -
  have image: "gives (typed_reply ''GET'' ''/api/snapshot'') (case bs of (buffer, source) \<Rightarrow> ret (DImage buffer source))" for bs
    by (cases bs) (simp add: gives_rules typed_reply_def)
  show "gives (typed_reply ''GET'' ''/api/snapshot'') (route_dash_snapshot E capture param)"
    unfolding route_dash_snapshot_def Let_def
    by (intro gives_rules gives_catch gives_bind [OF gives_any] image gives_error) simp_all
  show "gives (typed_reply ''GET'' ''/api/thumbnail'') (route_thumbnail param)"
    unfolding route_thumbnail_def Let_def by (intro gives_rules gives_error) (simp_all add: typed_reply_def)
  show "gives (typed_reply ''GET'' ''/api/config'') (route_config autostart)"
    unfolding route_config_def Let_def by (intro gives_json status_ok) (auto simp: response_types_def)
  show "gives (typed_reply ''GET'' ''/api/health'') (dash_json 200 [(''ok'', JBool True)])"
    by (intro gives_json status_ok) (auto simp: response_types_def)
  show "gives (typed_reply meth path) (dash_error err)" "gives (typed_reply meth path) (dash_json 404 [(''error'', JStr ''Not found'')])"
    unfolding dash_error_def by (intro gives_error; simp)+
qed



end
