(* ===== verification/DashTransport.thy ===== *)
theory DashTransport
  imports Dashboard Machine
begin

text \<open>
  \<open>proxyToEufy\<close> of \<open>src/cam-frontend/server.js\<close>: one request of the browser joined to one request to the Eufy
  viewer process by two pipes. An event is what one of the two connections does; the state has what was
  written to either side. A pipe passes chunks on in order and ends its target when its source ends; when
  the target closes it only stops reading, and when the source breaks off it does nothing.
\<close>

section \<open>The two requests\<close>

text \<open>The parts of \<open>EUFY_BASE_URL\<close> that are used.\<close>

record eufy_base =
  b_hostname :: string
  b_port :: string
  b_host :: string
  b_origin :: string

record upstream_request =
  u_hostname :: string
  u_port :: string
  u_path :: string
  u_method :: string
  u_headers :: obj

definition upstream_request_of :: "eufy_base \<Rightarrow> string \<Rightarrow> obj \<Rightarrow> string \<Rightarrow> upstream_request" where
  "upstream_request_of B meth headers eufyPath =
     \<lparr>u_hostname = b_hostname B, u_port = b_port B, u_path = eufyPath, u_method = meth,
      u_headers = spread headers [(''host'', JStr (b_host B))]\<rparr>"

section \<open>The state\<close>

datatype exchange = Waiting | Responding | Over

record http_proxy =
  up_request :: upstream_request
  up_body :: "bytes list"
  up_ended :: bool
  exchange :: exchange
  res_head :: "(nat \<times> obj) option"
  res_body :: "bytes list"
  res_ended :: bool
  browser_done :: bool
  browser_gone :: bool

definition proxy_init :: "eufy_base \<Rightarrow> string \<Rightarrow> obj \<Rightarrow> string \<Rightarrow> http_proxy" where
  "proxy_init B meth headers eufyPath =
     \<lparr>up_request = upstream_request_of B meth headers eufyPath, up_body = [], up_ended = False, exchange = Waiting,
      res_head = None, res_body = [], res_ended = False, browser_done = False, browser_gone = False\<rparr>"

section \<open>Handlers\<close>

definition unreachable_error :: "eufy_base \<Rightarrow> string \<Rightarrow> obj" where
  "unreachable_error B msg = [(''error'', JStr (''Eufy server unreachable at '' @ b_origin B
     @ '' - is eufy/server.js running? ('' @ msg @ '')''))]"

definition send_json :: "nat \<Rightarrow> obj \<Rightarrow> http_proxy \<Rightarrow> http_proxy" where
  "send_json code payload p =
     p\<lparr>res_head := Some (code, [(''Content-Type'', JStr ''application/json'')]),
       res_body := res_body p @ [utf8_encode (stringify (JObj payload))], res_ended := True\<rparr>"

definition on_response :: "nat \<Rightarrow> obj \<Rightarrow> http_proxy \<Rightarrow> http_proxy" where
  "on_response code headers p = p\<lparr>res_head := Some (code, headers)\<rparr>"

definition on_upstream_error :: "eufy_base \<Rightarrow> string \<Rightarrow> http_proxy \<Rightarrow> http_proxy" where
  "on_upstream_error B msg p =
     (if res_head p = None then send_json 502 (unreachable_error B msg) p else p\<lparr>res_ended := True\<rparr>)"

definition pipe_down :: "bytes \<Rightarrow> http_proxy \<Rightarrow> http_proxy" where
  "pipe_down chunk p = (if browser_gone p then p else p\<lparr>res_body := res_body p @ [chunk]\<rparr>)"

definition end_down :: "http_proxy \<Rightarrow> http_proxy" where
  "end_down p = (if browser_gone p then p else p\<lparr>res_ended := True\<rparr>)"

definition pipe_up :: "bytes \<Rightarrow> http_proxy \<Rightarrow> http_proxy" where
  "pipe_up chunk p = (if exchange p = Over then p else p\<lparr>up_body := up_body p @ [chunk]\<rparr>)"

definition end_up :: "http_proxy \<Rightarrow> http_proxy" where
  "end_up p = (if exchange p = Over then p else p\<lparr>up_ended := True\<rparr>)"

section \<open>Steps\<close>

datatype proxy_event = BrowserChunk bytes | BrowserEnd | BrowserClosed
  | UpResponse nat obj | UpChunk bytes | UpEnd | UpBroken | UpFailed string

text \<open>
  The browser sends its body before it ends and nothing after it has gone; the upstream request is answered
  once, or fails, and its answer ends or breaks off.
\<close>

definition proxy_step :: "eufy_base \<Rightarrow> proxy_event \<Rightarrow> http_proxy \<Rightarrow> http_proxy option" where
  "proxy_step B ev p =
     (case ev of
        BrowserChunk chunk \<Rightarrow> if browser_done p \<or> browser_gone p then None else Some (pipe_up chunk p)
      | BrowserEnd \<Rightarrow> if browser_done p \<or> browser_gone p then None else Some (end_up (p\<lparr>browser_done := True\<rparr>))
      | BrowserClosed \<Rightarrow> if browser_gone p then None else Some (p\<lparr>browser_gone := True\<rparr>)
      | UpResponse code headers \<Rightarrow>
          if exchange p = Waiting then Some (on_response code headers (p\<lparr>exchange := Responding\<rparr>)) else None
      | UpChunk chunk \<Rightarrow> if exchange p = Responding then Some (pipe_down chunk p) else None
      | UpEnd \<Rightarrow> if exchange p = Responding then Some (end_down (p\<lparr>exchange := Over\<rparr>)) else None
      | UpBroken \<Rightarrow> if exchange p = Responding then Some (p\<lparr>exchange := Over\<rparr>) else None
      | UpFailed msg \<Rightarrow> if exchange p \<noteq> Over then Some (on_upstream_error B msg (p\<lparr>exchange := Over\<rparr>)) else None)"

abbreviation proxy_run :: "eufy_base \<Rightarrow> proxy_event list \<Rightarrow> http_proxy \<Rightarrow> http_proxy option" where
  "proxy_run B \<equiv> run (proxy_step B)"

end
