(* ===== verification/TransportProps.thy ===== *)
theory TransportProps
  imports DashTransport
begin

text \<open>
  The dashboard's HTTP transport: what reaches the browser is the answer of the viewer process, and what
  happens to the two connections when one side goes away.
\<close>

section \<open>What the events carry\<close>

definition browser_chunks :: "proxy_event list \<Rightarrow> bytes list" where
  "browser_chunks evs = [chunk. BrowserChunk chunk \<leftarrow> evs]"

definition answers :: "proxy_event list \<Rightarrow> (nat \<times> obj) list" where
  "answers evs = [(code, headers). UpResponse code headers \<leftarrow> evs]"

definition up_chunks :: "proxy_event list \<Rightarrow> bytes list" where
  "up_chunks evs = [chunk. UpChunk chunk \<leftarrow> evs]"

lemma carried_append [simp]:
  "browser_chunks (a @ b) = browser_chunks a @ browser_chunks b" "answers (a @ b) = answers a @ answers b"
  "up_chunks (a @ b) = up_chunks a @ up_chunks b"
  by (simp_all add: browser_chunks_def answers_def up_chunks_def)

lemma carried_simps [simp]:
  "browser_chunks [] = []" "answers [] = []" "up_chunks [] = []"
  "browser_chunks (ev # evs) = (case ev of BrowserChunk chunk \<Rightarrow> [chunk] | _ \<Rightarrow> []) @ browser_chunks evs"
  "answers (ev # evs) = (case ev of UpResponse code headers \<Rightarrow> [(code, headers)] | _ \<Rightarrow> []) @ answers evs"
  "up_chunks (ev # evs) = (case ev of UpChunk chunk \<Rightarrow> [chunk] | _ \<Rightarrow> []) @ up_chunks evs"
  by (simp_all add: browser_chunks_def answers_def up_chunks_def split: proxy_event.split)

section \<open>The answer is passed on\<close>

definition unreachable :: "eufy_base \<Rightarrow> proxy_event list \<Rightarrow> http_proxy \<Rightarrow> bool" where
  "unreachable B evs p = (\<exists>msg. UpFailed msg \<in> set evs \<and>
     res_head p = Some (502, [(''Content-Type'', JStr ''application/json'')]) \<and>
     res_body p = [utf8_encode (stringify (JObj (unreachable_error B msg)))] \<and> res_ended p)"

definition passed_on :: "proxy_event list \<Rightarrow> http_proxy \<Rightarrow> bool" where
  "passed_on evs p =
     ((\<exists>a. answers evs = [a] \<and> res_head p = Some a) \<and> prefix (res_body p) (up_chunks evs) \<and>
      (BrowserClosed \<notin> set evs \<longrightarrow> res_body p = up_chunks evs \<and>
         (res_ended p \<longleftrightarrow> UpEnd \<in> set evs \<or> (\<exists>msg. UpFailed msg \<in> set evs))))"

definition open_answer :: "proxy_event list \<Rightarrow> http_proxy \<Rightarrow> bool" where
  "open_answer evs p = (UpEnd \<notin> set evs \<and> (\<forall>msg. UpFailed msg \<notin> set evs) \<and> \<not> res_ended p)"

definition transported :: "eufy_base \<Rightarrow> proxy_event list \<Rightarrow> http_proxy \<Rightarrow> bool" where
  "transported B evs p =
     ((browser_gone p \<longleftrightarrow> BrowserClosed \<in> set evs) \<and>
      (case exchange p of
         Waiting \<Rightarrow> up_body p = browser_chunks evs \<and> open_answer evs p \<and>
           answers evs = [] \<and> up_chunks evs = [] \<and> res_head p = None \<and> res_body p = []
       | Responding \<Rightarrow> up_body p = browser_chunks evs \<and> open_answer evs p \<and> passed_on evs p
       | Over \<Rightarrow> prefix (up_body p) (browser_chunks evs) \<and> (answers evs = [] \<and> unreachable B evs p \<or> passed_on evs p)))"

lemmas proxy_defs = proxy_step_def pipe_up_def end_up_def pipe_down_def end_down_def on_response_def
  on_upstream_error_def send_json_def

lemma transported_step:
  assumes "transported B evs p" "proxy_step B ev p = Some p'"
  shows "transported B (evs @ [ev]) p'"
  using assms
  by (cases ev; cases "exchange p"; auto simp: proxy_defs transported_def passed_on_def unreachable_def open_answer_def
      split: if_splits)

lemma transported_run: "proxy_run B evs (proxy_init B meth headers path) = Some p \<Longrightarrow> transported B evs p"
proof (induction evs arbitrary: p rule: rev_induct)
  case Nil
  then show ?case by (auto simp: proxy_init_def transported_def open_answer_def)
next
  case (snoc ev evs)
  then show ?case by (auto simp: run_append split: option.splits intro: transported_step)
qed

text \<open>
  The browser gets the viewer process's answer. The upstream request is the browser's with the viewer's
  host, and its body arrives in order; when an answer comes its status and headers are sent once and its
  body follows in order, all of it as long as the browser stays, and it is ended when the answer ends; a
  viewer process that cannot be reached is answered 502 with the reason, and nothing else is ever sent.
\<close>

theorem proxy_transparent:
  assumes "proxy_run B evs (proxy_init B meth headers path) = Some p"
  shows "up_request p = upstream_request_of B meth headers path \<and> prefix (up_body p) (browser_chunks evs) \<and>
    (exchange p \<noteq> Over \<longrightarrow> up_body p = browser_chunks evs) \<and>
    (if answers evs = []
     then res_head p = None \<and> res_body p = [] \<and> \<not> res_ended p \<or> unreachable B evs p
     else (\<exists>a. answers evs = [a] \<and> res_head p = Some a) \<and> prefix (res_body p) (up_chunks evs) \<and>
       (BrowserClosed \<notin> set evs \<longrightarrow> res_body p = up_chunks evs \<and>
          (res_ended p \<longleftrightarrow> UpEnd \<in> set evs \<or> (\<exists>msg. UpFailed msg \<in> set evs))))"
proof -
  have t: "transported B evs p" using assms by (rule transported_run)
  have "proxy_run B evs q = Some p \<Longrightarrow> up_request p = up_request q" for q
    by (induction evs arbitrary: q) (auto simp: proxy_defs split: option.splits proxy_event.splits if_splits)
  from this [OF assms] have "up_request p = upstream_request_of B meth headers path" by (simp add: proxy_init_def)
  with t show ?thesis
    by (cases "exchange p") (auto simp: transported_def passed_on_def open_answer_def)
qed

end
