(* ===== verification/Site.thy ===== *)
theory Site
  imports TransportProps EufyFrames
begin

text \<open>
  The dashboard and the Eufy viewer process together. A browser's request that the dashboard passes on is
  a link: a proxied request on the one side and a request of the viewer on the other, with the same
  number. What the viewer writes to it arrives in order. Nothing but the loss of the connection between
  the two processes closes the viewer's side of a link, because the dashboard never closes it.
\<close>

section \<open>What the viewer writes\<close>

text \<open>
  \<open>wire_headers\<close> is what the dashboard reads of the headers that the viewer wrote; \<open>page\<close> is the file of the
  viewer's page.
\<close>

record site_env =
  eufy_url :: eufy_base
  wire_headers :: "obj \<Rightarrow> obj"
  page :: bytes
  codec_none :: nat
  camera_serials :: string

definition content_type :: "string \<Rightarrow> string \<times> jsval" where
  "content_type t = (''Content-Type'', JStr t)"

abbreviation json_headers :: obj where
  "json_headers \<equiv> [content_type ''application/json'']"

abbreviation jpeg_headers :: "bytes \<Rightarrow> jsval \<Rightarrow> obj" where
  "jpeg_headers buffer ts \<equiv> [content_type ''image/jpeg'', (''Content-Length'', JNum (int (length buffer))),
     (''Cache-Control'', JStr ''no-store''), (''X-Snapshot-Ts'', JStr (js_string ts))]"

abbreviation page_headers :: obj where
  "page_headers \<equiv> [content_type ''text/html; charset=utf-8'']"

abbreviation sse_headers :: obj where
  "sse_headers \<equiv> [content_type ''text/event-stream'', (''Cache-Control'', JStr ''no-cache''), (''Connection'', JStr ''keep-alive'')]"

fun reply_events :: "site_env \<Rightarrow> nat \<Rightarrow> reply_body \<Rightarrow> proxy_event list" where
  "reply_events E code (Json v) = [UpResponse code (wire_headers E json_headers), UpChunk (utf8_encode (stringify v)), UpEnd]"
| "reply_events E code (Jpeg buffer ts) = [UpResponse code (wire_headers E (jpeg_headers buffer ts)), UpChunk buffer, UpEnd]"
| "reply_events E code Page = [UpResponse code (wire_headers E page_headers), UpChunk (page E), UpEnd]"
| "reply_events E code EventStream = [UpResponse code (wire_headers E sse_headers)]"

definition sse_text :: "jsval \<Rightarrow> string" where
  "sse_text v = ''data: '' @ stringify v @ [CHR 0x0A, CHR 0x0A]"

definition sse_comment :: "bool \<Rightarrow> string" where
  "sse_comment first = (if first then '': connected'' else '': hb'') @ [CHR 0x0A, CHR 0x0A]"

text \<open>The outputs for one request, in order; \<open>opened\<close> is set after the head of an event stream.\<close>

fun wire :: "site_env \<Rightarrow> nat \<Rightarrow> bool \<Rightarrow> effect list \<Rightarrow> proxy_event list" where
  "wire E c opened [] = []"
| "wire E c opened (x # xs) =
     (case x of
        Reply i code body \<Rightarrow>
          if i = c then reply_events E code body @ wire E c (body = EventStream) xs else wire E c opened xs
      | SseWrite i v \<Rightarrow>
          if i = c then UpChunk (utf8_encode (sse_text v)) # wire E c False xs else wire E c opened xs
      | SseComment i \<Rightarrow>
          if i = c then UpChunk (utf8_encode (sse_comment opened)) # wire E c False xs else wire E c opened xs
      | _ \<Rightarrow> wire E c opened xs)"

section \<open>Steps\<close>

record site =
  viewer :: est
  links :: "nat \<rightharpoonup> http_proxy"
  taken :: "nat \<Rightarrow> nat"
  direct :: "nat set"

definition site_init :: "est \<Rightarrow> site" where
  "site_init e = \<lparr>viewer = e, links = Map.empty, taken = (\<lambda>_. 0), direct = {}\<rparr>"

datatype site_event = Visit nat string string obj string | Leave nat | Arrive nat | Cut nat string | ViewerDoes event

definition sent_body :: "string \<Rightarrow> proxy_event list" where
  "sent_body body = (if body = '''' then [] else [BrowserChunk (utf8_encode body)]) @ [BrowserEnd]"

definition set_link :: "nat \<Rightarrow> http_proxy option \<Rightarrow> site \<Rightarrow> site option" where
  "set_link c p s = map_option (\<lambda>p. s\<lparr>links := (links s)(c \<mapsto> p)\<rparr>) p"

definition viewer_step :: "site_env \<Rightarrow> event \<Rightarrow> site \<Rightarrow> site option" where
  "viewer_step E ev s = map_option (\<lambda>e. s\<lparr>viewer := e\<rparr>) (eufy_step (codec_none E) (camera_serials E) ev (viewer s))"

text \<open>
  A request of the viewer's own page is \<open>direct\<close>. The numbers of requests are used once. A lost connection
  is an error of the upstream request before its answer and breaks the answer off after it; the viewer
  sees its client go.
\<close>

definition site_step :: "site_env \<Rightarrow> site_event \<Rightarrow> site \<Rightarrow> site option" where
  "site_step E ev s =
     (case ev of
        Visit c meth path headers body \<Rightarrow>
          (case eufy_target meth path of
             None \<Rightarrow> None
           | Some t \<Rightarrow>
               if c \<in> dom (links s) \<or> c \<in> direct s then None
               else Option.bind
                 (set_link c (proxy_run (eufy_url E) (sent_body body) (proxy_init (eufy_url E) meth headers t)) s)
                 (viewer_step E (HttpReq c \<lparr>h_method = meth, h_path = t, h_body = body\<rparr>)))
      | Leave c \<Rightarrow> Option.bind (links s c) (\<lambda>p. set_link c (proxy_step (eufy_url E) BrowserClosed p) s)
      | Arrive c \<Rightarrow>
          (let w = wire E c False (outs (viewer s)) in
           if length w \<le> taken s c then None
           else Option.bind (links s c) (\<lambda>p.
             set_link c (proxy_step (eufy_url E) (w ! taken s c) p) (s\<lparr>taken := (taken s)(c := Suc (taken s c))\<rparr>)))
      | Cut c msg \<Rightarrow>
          Option.bind (links s c) (\<lambda>p.
          Option.bind (set_link c (proxy_step (eufy_url E) (if exchange p = Waiting then UpFailed msg else UpBroken) p) s)
            (viewer_step E (SseClosed c)))
      | ViewerDoes ev \<Rightarrow>
          (case ev of
             HttpReq i rq \<Rightarrow> if i \<in> dom (links s) \<or> i \<in> direct s then None
               else viewer_step E ev (s\<lparr>direct := insert i (direct s)\<rparr>)
           | SseClosed i \<Rightarrow> if i \<in> direct s then viewer_step E ev s else None
           | _ \<Rightarrow> viewer_step E ev s))"

end
