(* ===== verification/SiteProps.thy ===== *)
theory SiteProps
  imports Site
begin

text \<open>
  The two servers together: what a browser gets over a link is what the viewer wrote for its request, and
  what becomes of event streams whose browsers have gone.
\<close>

lemma wire_prefix: "prefix xs ys \<Longrightarrow> prefix (wire E c b xs) (wire E c b ys)"
proof (induction xs arbitrary: b ys)
  case (Cons x xs)
  then obtain zs where "ys = x # zs" "prefix xs zs" by (auto simp: prefix_def)
  with Cons.IH show ?case by (auto split: effect.split)
qed simp

section \<open>Links relay what the viewer writes\<close>

text \<open>
  The proxied request has seen the first outputs for it, and between them only what its browser does, and
  at last the loss of the connection.
\<close>

definition upstream_part :: "proxy_event list \<Rightarrow> proxy_event list" where
  "upstream_part evs = filter (\<lambda>ev. case ev of UpResponse _ _ \<Rightarrow> True | UpChunk _ \<Rightarrow> True | UpEnd \<Rightarrow> True | _ \<Rightarrow> False) evs"

lemma upstream_carries:
  "answers (upstream_part evs) = answers evs" "up_chunks (upstream_part evs) = up_chunks evs"
  "UpEnd \<in> set (upstream_part evs) \<longleftrightarrow> UpEnd \<in> set evs"
  by (induction evs) (auto simp: upstream_part_def split: proxy_event.splits)

lemma upstream_append [simp]: "upstream_part (a @ b) = upstream_part a @ upstream_part b"
  by (simp add: upstream_part_def)

lemma reply_upstream: "upstream_part (reply_events E code body) = reply_events E code body"
  by (cases body) (simp_all add: upstream_part_def)

lemma wire_upstream: "upstream_part (wire E c b xs) = wire E c b xs"
proof (induction xs arbitrary: b)
  case (Cons x xs)
  then show ?case
    by (cases x) (simp_all add: reply_upstream, simp_all add: upstream_part_def)
qed (simp add: upstream_part_def)

definition has_seen :: "site_env \<Rightarrow> http_proxy \<Rightarrow> proxy_event list \<Rightarrow> bool" where
  "has_seen E p xs = (\<exists>evs meth headers path.
     proxy_run (eufy_url E) evs (proxy_init (eufy_url E) meth headers path) = Some p \<and> upstream_part evs = xs \<and>
     ((\<exists>msg. UpFailed msg \<in> set evs) \<longrightarrow> answers evs = []))"

definition relays :: "site_env \<Rightarrow> site \<Rightarrow> bool" where
  "relays E s = (\<forall>c. taken s c \<le> length (wire E c False (outs (viewer s))) \<and> (links s c = None \<longrightarrow> taken s c = 0) \<and>
     (\<forall>p. links s c = Some p \<longrightarrow> has_seen E p (take (taken s c) (wire E c False (outs (viewer s))))))"

lemma relays_viewer:
  assumes "relays E s" "viewer_step E ev s = Some s'"
  shows "relays E s'"
proof -
  obtain e where e: "eufy_step (codec_none E) (camera_serials E) ev (viewer s) = Some e" "s' = s\<lparr>viewer := e\<rparr>"
    using assms(2) by (auto simp: viewer_step_def)
  have w: "prefix (wire E c False (outs (viewer s))) (wire E c False (outs e))" for c
    by (rule wire_prefix [OF outs_grow [OF e(1)]])
  have "taken s c \<le> length (wire E c False (outs e))" and
    "take (taken s c) (wire E c False (outs e)) = take (taken s c) (wire E c False (outs (viewer s)))" for c
    using assms(1) w [of c] unfolding relays_def prefix_def by (auto simp: trans_le_add1 dest!: spec [of _ c])
  with assms(1) show ?thesis unfolding relays_def e(2) by simp
qed

lemma failed_over:
  assumes "proxy_run B evs (proxy_init B meth headers path) = Some p" "UpFailed msg \<in> set evs"
  shows "exchange p = Over"
  using transported_run [OF assms(1)] assms(2) by (cases "exchange p") (auto simp: transported_def open_answer_def)

lemma relays_link:
  assumes "relays E s" "links s c = Some p" "proxy_step (eufy_url E) ev p = Some p'"
    and "upstream_part [ev] = xs" "xs = take (length xs) (drop (taken s c) (wire E c False (outs (viewer s))))"
    and "(\<exists>msg. ev = UpFailed msg) \<longrightarrow> exchange p = Waiting"
    and "taken s c + length xs \<le> length (wire E c False (outs (viewer s)))"
  shows "relays E (s\<lparr>links := (links s)(c \<mapsto> p'), taken := (taken s)(c := taken s c + length xs)\<rparr>)"
proof -
  let ?B = "eufy_url E" and ?w = "wire E c False (outs (viewer s))"
  have "has_seen E p (take (taken s c) ?w)" using assms(1,2) by (simp add: relays_def)
  then obtain evs meth headers path where evs: "proxy_run ?B evs (proxy_init ?B meth headers path) = Some p"
    "upstream_part evs = take (taken s c) ?w" "(\<exists>msg. UpFailed msg \<in> set evs) \<longrightarrow> answers evs = []"
    unfolding has_seen_def by blast
  have run: "proxy_run ?B (evs @ [ev]) (proxy_init ?B meth headers path) = Some p'"
    using evs(1) assms(3) by (simp add: run_append)
  have up: "upstream_part (evs @ [ev]) = take (taken s c + length xs) ?w"
    using evs(2) assms(4,5) by (simp add: take_add)
  have failed: "answers (evs @ [ev]) = []" if "UpFailed msg \<in> set (evs @ [ev])" for msg
  proof (cases "UpFailed msg \<in> set evs")
    case True
    then have "exchange p = Over" by (rule failed_over [OF evs(1)])
    then have "answers [ev] = []" using assms(3) by (cases ev) (auto simp: proxy_step_def)
    with True evs(3) show ?thesis by auto
  next
    case False
    then have "ev = UpFailed msg" using that by simp
    moreover from this have "answers evs = []"
      using assms(6) transported_run [OF evs(1)] by (simp add: transported_def)
    ultimately show ?thesis by simp
  qed
  have "has_seen E p' (take (taken s c + length xs) ?w)" unfolding has_seen_def using run up failed by blast
  with assms(1,7) show ?thesis unfolding relays_def by simp
qed

lemma relays_quiet:
  assumes "relays E s" "links s c = Some p" "proxy_step (eufy_url E) ev p = Some p'" "upstream_part [ev] = []"
    and "(\<exists>msg. ev = UpFailed msg) \<longrightarrow> exchange p = Waiting"
  shows "relays E (s\<lparr>links := (links s)(c \<mapsto> p')\<rparr>)"
proof -
  have "taken s c \<le> length (wire E c False (outs (viewer s)))" using assms(1) by (simp add: relays_def)
  with relays_link [OF assms(1-4) _ assms(5)] show ?thesis by simp
qed

lemma relays_visit:
  assumes "relays E s" "c \<notin> dom (links s)"
    and "proxy_run (eufy_url E) (sent_body body) (proxy_init (eufy_url E) meth headers path) = Some p"
  shows "relays E (s\<lparr>links := (links s)(c \<mapsto> p)\<rparr>)"
proof -
  have "upstream_part (sent_body body) = []" "\<not> (\<exists>msg. UpFailed msg \<in> set (sent_body body))"
    by (simp_all add: sent_body_def upstream_part_def)
  moreover have "taken s c = 0" using assms(1,2) by (auto simp: relays_def domIff dest!: spec [of _ c])
  ultimately have "has_seen E p (take (taken s c) (wire E c False (outs (viewer s))))"
    unfolding has_seen_def using assms(3) by (intro exI [of _ "sent_body body"]) auto
  with assms(1) show ?thesis unfolding relays_def by simp
qed

lemma relays_step:
  assumes "relays E s" "site_step E ev s = Some s'"
  shows "relays E s'"
proof (cases ev)
  case (Visit c meth path headers body)
  then obtain t p where p: "c \<notin> dom (links s)"
      "proxy_run (eufy_url E) (sent_body body) (proxy_init (eufy_url E) meth headers t) = Some p"
      "viewer_step E (HttpReq c \<lparr>h_method = meth, h_path = t, h_body = body\<rparr>) (s\<lparr>links := (links s)(c \<mapsto> p)\<rparr>) = Some s'"
    using assms(2) by (auto simp: site_step_def set_link_def bind_eq_Some_conv split: option.splits if_splits)
  show ?thesis by (rule relays_viewer [OF relays_visit [OF assms(1) p(1,2)] p(3)])
next
  case (Leave c)
  with assms show ?thesis
    by (auto simp: site_step_def set_link_def upstream_part_def bind_eq_Some_conv intro: relays_quiet)
next
  case (Arrive c)
  let ?w = "wire E c False (outs (viewer s))" and ?x = "wire E c False (outs (viewer s)) ! taken s c"
  obtain p p' where p: "taken s c < length ?w" "links s c = Some p" "proxy_step (eufy_url E) ?x p = Some p'"
      "s' = s\<lparr>links := (links s)(c \<mapsto> p'), taken := (taken s)(c := Suc (taken s c))\<rparr>"
    using assms(2) Arrive by (auto simp: site_step_def set_link_def Let_def bind_eq_Some_conv split: if_splits)
  have "?x \<in> set (upstream_part ?w)" using p(1) by (simp add: wire_upstream)
  then have x: "upstream_part [?x] = [?x]" "\<not> (\<exists>msg. ?x = UpFailed msg)"
    by (auto simp: upstream_part_def)
  have "[?x] = take (length [?x]) (drop (taken s c) ?w)" using p(1) by (simp add: take_Suc_conv_app_nth hd_drop_conv_nth take_Suc)
  from relays_link [OF assms(1) p(2,3) x(1) this] x(2) p(1) show ?thesis by (simp add: p(4))
next
  case (Cut c msg)
  then obtain p p' where p: "links s c = Some p"
      "proxy_step (eufy_url E) (if exchange p = Waiting then UpFailed msg else UpBroken) p = Some p'"
      "viewer_step E (SseClosed c) (s\<lparr>links := (links s)(c \<mapsto> p')\<rparr>) = Some s'"
    using assms(2) by (auto simp: site_step_def set_link_def bind_eq_Some_conv)
  have "relays E (s\<lparr>links := (links s)(c \<mapsto> p')\<rparr>)"
    by (rule relays_quiet [OF assms(1) p(1,2)]) (auto simp: upstream_part_def)
  then show ?thesis using p(3) by (rule relays_viewer)
next
  case (ViewerDoes x)
  have "relays E (s\<lparr>direct := d\<rparr>)" for d using assms(1) by (simp add: relays_def)
  with ViewerDoes assms show ?thesis by (auto simp: site_step_def split: event.splits if_splits intro: relays_viewer)
qed

lemma relays_init: "relays E (site_init e)"
  by (simp add: relays_def site_init_def)

interpretation relayed: invariant "site_step E" "relays E" "\<lambda>s. \<exists>e. s = site_init e" for E
  by unfold_locales (auto intro: relays_step relays_init)

text \<open>
  C7. Browsers get what the viewer writes. In every run of the two servers, what the browser of a link has
  got is made of the first outputs of the viewer for its request: the head of the viewer's answer and the
  answer's body in order, all that has arrived while the browser stays, ended when the answer is ended; or
  nothing, or the 502 of a viewer that was lost before it answered.
\<close>

theorem site_relays:
  assumes "reachable (\<lambda>s. \<exists>e. s = site_init e) (site_step E) s" "links s c = Some p"
  defines "w \<equiv> take (taken s c) (wire E c False (outs (viewer s)))"
  shows "(answers w = [] \<and> res_head p = None \<and> res_body p = [] \<and> \<not> res_ended p) \<or>
    (answers w = [] \<and> (\<exists>msg. res_head p = Some (502, [content_type ''application/json'']) \<and>
       res_body p = [utf8_encode (stringify (JObj (unreachable_error (eufy_url E) msg)))])) \<or>
    (\<exists>a. answers w = [a] \<and> res_head p = Some a \<and> prefix (res_body p) (up_chunks w) \<and>
       (\<not> browser_gone p \<longrightarrow> res_body p = up_chunks w \<and> (res_ended p \<longleftrightarrow> UpEnd \<in> set w)))"
proof -
  have "relays E s" using assms(1) by (rule relayed.always)
  then have "has_seen E p w" using assms(2) by (simp add: relays_def w_def)
  then obtain evs meth headers path where run: "proxy_run (eufy_url E) evs (proxy_init (eufy_url E) meth headers path) = Some p"
    and w: "upstream_part evs = w" and f: "(\<exists>msg. UpFailed msg \<in> set evs) \<longrightarrow> answers evs = []"
    unfolding has_seen_def by blast
  have c: "answers w = answers evs" "up_chunks w = up_chunks evs" "UpEnd \<in> set w \<longleftrightarrow> UpEnd \<in> set evs"
    using upstream_carries [of evs] unfolding w by simp_all
  show ?thesis using transported_run [OF run] f
    by (cases "exchange p")
      (auto simp: transported_def passed_on_def open_answer_def unreachable_def content_type_def c)
qed

section \<open>Abandoned event streams\<close>

interpretation client: snapshot_steps "\<lambda>e. x \<in> set (sseClients e)" for x
  by unfold_locales
    (auto simp: emit_def broadcastEvent_def add_task_def clear_timer_def set_timer_def session_ends split: option.split)

lemma client_schedule: "sseClients (clearAutoSnapTimer sn e) = sseClients e" "sseClients (scheduleAutoSnap sn e) = sseClients e"
  by (auto simp: scheduleAutoSnap_def clearAutoSnapTimer_def clear_timer_def set_timer_def Let_def split: option.split)

interpretation client_open: client_steps "\<lambda>e. x \<in> set (sseClients e)" for x
  by unfold_locales
    (auto simp: emit_def client_schedule session_ends setAutoSnap_def persistAutoSnapConfig_def split: if_splits
      intro!: client.s_refresh client.s_started client.s_timeout client.q_clear client.s_livestream client.s_finish)

lemma viewer_client:
  assumes "viewer_step E x s = Some s'" "(c, hb) \<in> set (sseClients (viewer s))" "x \<noteq> SseClosed c"
  shows "(c, hb) \<in> set (sseClients (viewer s')) \<and> links s' = links s \<and> direct s' = direct s"
proof -
  obtain e where e: "eufy_step (codec_none E) (camera_serials E) x (viewer s) = Some e" "s' = s\<lparr>viewer := e\<rparr>"
    using assms(1) by (auto simp: viewer_step_def)
  have "(c, hb) \<in> set (sseClients e)"
  proof (cases "\<exists>i. x = SseClosed i")
    case True
    with e assms(2,3) show ?thesis by (auto simp: eufy_step_def on_sse_close_def clear_timer_def split: option.split)
  next
    case False
    show ?thesis by (rule client_open.h_client [OF assms(2) _ e(1)]) (use False in blast)
  qed
  with e(2) show ?thesis by simp
qed

text \<open>An event stream over a link stays until the connection of the two processes is lost.\<close>

definition streaming :: "nat \<Rightarrow> nat \<Rightarrow> site \<Rightarrow> bool" where
  "streaming c hb s = ((c, hb) \<in> set (sseClients (viewer s)) \<and> c \<in> dom (links s) \<and> c \<notin> direct s)"

lemma streaming_viewer:
  assumes "streaming c hb s" "viewer_step E x s = Some s'" "x \<noteq> SseClosed c"
  shows "streaming c hb s'"
  using assms(1) viewer_client [OF assms(2) _ assms(3), of hb] by (simp add: streaming_def)

lemma streaming_fields [simp]:
  "streaming c hb (s\<lparr>taken := tk\<rparr>) = streaming c hb s"
  "streaming c hb s \<Longrightarrow> streaming c hb (s\<lparr>links := (links s)(d \<mapsto> p)\<rparr>)"
  "i \<noteq> c \<Longrightarrow> streaming c hb (s\<lparr>direct := insert i (direct s)\<rparr>) = streaming c hb s"
  by (auto simp: streaming_def)

lemma streaming_stays:
  assumes "streaming c hb s" "site_step E ev s = Some s'" "\<And>msg. ev \<noteq> Cut c msg"
  shows "streaming c hb s'"
proof (cases ev)
  case (ViewerDoes x)
  show ?thesis
  proof (cases x)
    case (HttpReq i rq)
    then have "i \<noteq> c" "viewer_step E x (s\<lparr>direct := insert i (direct s)\<rparr>) = Some s'"
      using assms(1,2) ViewerDoes by (auto simp: site_step_def streaming_def split: if_splits)
    from streaming_viewer [OF _ this(2)] this(1) assms(1) HttpReq show ?thesis by simp
  next
    case (SseClosed i)
    then have "i \<noteq> c" "viewer_step E x s = Some s'"
      using assms(1,2) ViewerDoes by (auto simp: site_step_def streaming_def split: if_splits)
    from streaming_viewer [OF assms(1) this(2)] this(1) SseClosed show ?thesis by simp
  qed (use assms(1,2) ViewerDoes in \<open>simp_all add: site_step_def streaming_viewer\<close>)
next
  case (Visit d meth path headers body)
  then obtain p t where "viewer_step E (HttpReq d \<lparr>h_method = meth, h_path = t, h_body = body\<rparr>) (s\<lparr>links := (links s)(d \<mapsto> p)\<rparr>) = Some s'"
    using assms(2) by (auto simp: site_step_def set_link_def bind_eq_Some_conv split: option.splits if_splits)
  from streaming_viewer [OF streaming_fields(2) [OF assms(1)] this] show ?thesis by simp
next
  case (Cut d msg)
  then obtain p where "viewer_step E (SseClosed d) (s\<lparr>links := (links s)(d \<mapsto> p)\<rparr>) = Some s'" "d \<noteq> c"
    using assms(2,3) by (auto simp: site_step_def set_link_def bind_eq_Some_conv)
  from streaming_viewer [OF streaming_fields(2) [OF assms(1)] this(1)] this(2) show ?thesis by simp
next
  case (Leave d)
  with assms(1,2) show ?thesis by (auto simp: site_step_def set_link_def bind_eq_Some_conv)
next
  case (Arrive d)
  with assms(1,2) show ?thesis
    by (auto simp: site_step_def set_link_def bind_eq_Some_conv Let_def streaming_def split: if_splits)
qed

lemma wire_silent: "wire E c b xs = [] \<Longrightarrow> wire E c b (xs @ ys) = wire E c b ys"
proof (induction xs arbitrary: b)
  case (Cons x xs)
  have "reply_events E code body \<noteq> []" for code body by (cases body) simp_all
  with Cons show ?case by (cases x) (auto split: if_splits)
qed simp

lemma events_outs:
  "outs (route_events c e) = outs e @ [Reply c 200 EventStream, SseComment c]"
  "sseClients (route_events c e) = sseClients e @ [(c, next_id e)]"
  by (simp_all add: route_events_def set_timer_def emit_def Let_def)

lemma wire_events:
  assumes "wire E c False (outs e) = []"
  shows "wire E c False (outs (route_events d e)) = (if d = c
    then reply_events E 200 EventStream @ [UpChunk (utf8_encode (sse_comment True))] else [])"
  using assms by (simp add: events_outs wire_silent)

text \<open>A page that is opened, gets the head and the greeting of the event stream, and is left.\<close>

definition page_view :: "obj \<Rightarrow> nat \<Rightarrow> site_event list" where
  "page_view headers c = [Visit c ''GET'' ''/api/eufy/events'' headers '''', Arrive c, Arrive c, Leave c]"

definition unused :: "site_env \<Rightarrow> nat \<Rightarrow> site \<Rightarrow> bool" where
  "unused E c s = (c \<notin> dom (links s) \<and> c \<notin> direct s \<and> taken s c = 0 \<and> wire E c False (outs (viewer s)) = [])"

lemma page_view_run:
  assumes "unused E c s"
  shows "\<exists>s' p. run (site_step E) (page_view headers c) s = Some s' \<and> viewer s' = route_events c (viewer s) \<and>
    links s' = (links s)(c \<mapsto> p) \<and> direct s' = direct s \<and> taken s' = (taken s)(c := 2) \<and>
    browser_gone p \<and> exchange p = Responding \<and> res_body p = [utf8_encode (sse_comment True)]"
proof -
  have t: "eufy_target ''GET'' ''/api/eufy/events'' = Some ''/api/events''" by (simp add: eufy_target_def EUFY_PROXY_def)
  have h: "eufy_http c \<lparr>h_method = ''GET'', h_path = ''/api/events'', h_body = ''''\<rparr> e = route_events c e" for e
    by (simp add: eufy_http_def Let_def)
  have w: "wire E c False (outs (route_events c (viewer s)))
      = reply_events E 200 EventStream @ [UpChunk (utf8_encode (sse_comment True))]"
    using assms by (simp add: wire_events unused_def)
  show ?thesis
    using assms
    by (simp add: page_view_def site_step_def t h w unused_def sent_body_def proxy_init_def proxy_defs set_link_def
        viewer_step_def eufy_step_def domIff numeral_2_eq_2 fun_upd_def cong: if_cong)
      (rule exI, rule conjI, rule refl, simp)
qed

lemma unused_after:
  assumes "unused E d s" "d \<noteq> c" "viewer s' = route_events c (viewer s)" "links s' = (links s)(c \<mapsto> p)"
    "direct s' = direct s" "taken s' = (taken s)(c := k)"
  shows "unused E d s'"
  using assms by (simp add: unused_def wire_events)

lemma page_views_run:
  assumes "distinct cs" "\<And>c. c \<in> set cs \<Longrightarrow> unused E c s"
  shows "\<exists>s'. run (site_step E) (concat (map (page_view headers) cs)) s = Some s' \<and>
    length (sseClients (viewer s')) = length (sseClients (viewer s)) + length cs \<and>
    direct s' = direct s \<and> (\<forall>x \<in> set (sseClients (viewer s)). x \<in> set (sseClients (viewer s'))) \<and>
    (\<forall>d. d \<notin> set cs \<longrightarrow> links s' d = links s d) \<and>
    (\<forall>c \<in> set cs. \<exists>p hb. links s' c = Some p \<and> browser_gone p \<and> exchange p = Responding \<and>
       res_body p = [utf8_encode (sse_comment True)] \<and> (c, hb) \<in> set (sseClients (viewer s')))"
  using assms
proof (induction cs arbitrary: s)
  case (Cons c cs)
  obtain s1 p where s1: "run (site_step E) (page_view headers c) s = Some s1" "viewer s1 = route_events c (viewer s)"
      "links s1 = (links s)(c \<mapsto> p)" "direct s1 = direct s" "taken s1 = (taken s)(c := 2)"
      "browser_gone p" "exchange p = Responding" "res_body p = [utf8_encode (sse_comment True)]"
    using page_view_run [of E c s headers] Cons.prems(2) by auto
  have "unused E d s1" if "d \<in> set cs" for d
    by (rule unused_after [OF _ _ s1(2,3,4,5)]) (use Cons.prems that in auto)
  with Cons.IH [of s1] Cons.prems(1) obtain s2 where s2: "run (site_step E) (concat (map (page_view headers) cs)) s1 = Some s2"
      "length (sseClients (viewer s2)) = length (sseClients (viewer s1)) + length cs" "direct s2 = direct s1"
      "\<forall>x \<in> set (sseClients (viewer s1)). x \<in> set (sseClients (viewer s2))" "\<forall>d. d \<notin> set cs \<longrightarrow> links s2 d = links s1 d"
      "\<forall>c \<in> set cs. \<exists>p hb. links s2 c = Some p \<and> browser_gone p \<and> exchange p = Responding \<and>
         res_body p = [utf8_encode (sse_comment True)] \<and> (c, hb) \<in> set (sseClients (viewer s2))"
    by auto
  have run: "run (site_step E) (concat (map (page_view headers) (c # cs))) s = Some s2"
    using s1(1) s2(1) by (simp add: run_append)
  have c: "links s2 c = Some p" "(c, next_id (viewer s)) \<in> set (sseClients (viewer s2))"
    using s2(4,5) Cons.prems(1) s1(2,3) by (simp_all add: events_outs)
  show ?case
    by (rule exI [of _ s2], intro conjI) (use run s2 s1 c in \<open>auto simp: events_outs\<close>)
qed simp


section \<open>Examples\<close>

definition demo_site :: site_env where
  "demo_site = \<lparr>eufy_url = \<lparr>b_hostname = ''localhost'', b_port = ''3040'', b_host = ''localhost:3040'',
     b_origin = ''http://localhost:3040''\<rparr>, wire_headers = (\<lambda>h. h), page = [], codec_none = 0, camera_serials = ''''\<rparr>"

lemma demo_unused: "unused E c (site_init (eufy_init 0))"
  by (simp add: unused_def site_init_def eufy_init_def)


text \<open>The schedule is asked for over the dashboard.\<close>

definition autosnap_view :: "site_event list" where
  "autosnap_view = [Visit 0 ''GET'' ''/api/eufy/autosnap'' [] '''', Arrive 0, Arrive 0, Arrive 0]"

lemma site_relays_witness:
  "\<exists>s p. run (site_step demo_site) autosnap_view (site_init (eufy_init 0)) = Some s \<and> links s 0 = Some p \<and>
    res_body p = [utf8_encode (stringify (JObj [(''allowed'', JArr (map JNum ALLOWED_AUTOSNAP_MINUTES)), (''config'', JObj [])]))] \<and>
    res_ended p"
proof -
  have t: "eufy_target ''GET'' ''/api/eufy/autosnap'' = Some ''/api/autosnap''" by (simp add: eufy_target_def EUFY_PROXY_def)
  have h: "eufy_http 0 \<lparr>h_method = ''GET'', h_path = ''/api/autosnap'', h_body = ''''\<rparr> e = route_autosnap 0 e" for e
    by (simp add: eufy_http_def Let_def path_segment_def)
  obtain s p where s: "run (site_step demo_site) autosnap_view (site_init (eufy_init 0)) = Some s" "links s 0 = Some p"
      "\<not> browser_gone p" "taken s 0 = Suc (Suc (Suc 0))" "outs (viewer s) = [Reply 0 200 (Json (JObj
        [(''allowed'', JArr (map JNum ALLOWED_AUTOSNAP_MINUTES)), (''config'', JObj [])]))]"
    by (simp add: autosnap_view_def site_step_def t h sent_body_def proxy_init_def proxy_defs set_link_def viewer_step_def
        eufy_step_def site_init_def eufy_init_def route_autosnap_def eufy_sendJson_def emit_def Let_def del: stringify.simps)
  have "reachable (\<lambda>s. \<exists>e. s = site_init e) (site_step demo_site) s"
    by (rule run_reachable [OF reachable.first s(1)]) blast
  from site_relays [OF this s(2)] s(3-5) have "res_body p = [utf8_encode (stringify (JObj
        [(''allowed'', JArr (map JNum ALLOWED_AUTOSNAP_MINUTES)), (''config'', JObj [])]))] \<and> res_ended p"
    by (auto simp del: stringify.simps)
  with s(1,2) show ?thesis by blast
qed

end
