(* ===== verification/Signaling.thy ===== *)
theory Signaling
  imports JsonText Base64 Sockets
begin

text \<open>
  Signaling messages of \<open>src/src/cameraStreamCapture.js\<close>: an envelope in JSON whose payload is JSON in
  Base64. \<open>parseSignalMessage\<close> gives \<open>None\<close> for what the code answers \<open>null\<close>.
\<close>

definition signal_text :: "string \<Rightarrow> obj \<Rightarrow> string \<Rightarrow> string" where
  "signal_text action payload recipientClientId =
     stringify (JObj [(''action'', JStr action),
       (''messagePayload'', JStr (b64_encode (utf8_encode (stringify (JObj payload))))),
       (''recipientClientId'', JStr recipientClientId)])"

text \<open>What the socket is given to send; nothing unless it is open.\<close>

definition sendSignal :: "ready_state option \<Rightarrow> string \<Rightarrow> obj \<Rightarrow> string option" where
  "sendSignal socket action payload =
     (if socket \<noteq> Some OPEN then None else Some (signal_text action payload ''MASTER''))"

text \<open>
  \<open>Buffer.from(v, "base64")\<close> for a truthy value of a parsed text: a string is decoded, an array or an
  object that is like one gives its elements as bytes, and \<open>None\<close> is a type error.
\<close>

definition byte_of :: "jsval \<Rightarrow> nat" where
  "byte_of v = (case js_number v of None \<Rightarrow> 0 | Some n \<Rightarrow> nat (n mod 256))"

definition signal_buffer :: "jsval \<Rightarrow> bytes option" where
  "signal_buffer v =
     (case v of
        JStr s \<Rightarrow> Some (b64_decode s)
      | JArr vs \<Rightarrow> Some (map byte_of vs)
      | JObj ob \<Rightarrow>
          (if oget ob ''length'' \<noteq> JUndef
           then (case oget ob ''length'' of
                   JNum n \<Rightarrow> Some (map (\<lambda>i. byte_of (oget ob (show_nat i))) [0..<nat n])
                 | _ \<Rightarrow> Some [])
           else case (oget ob ''type'', oget ob ''data'') of
             (JStr t, JArr vs) \<Rightarrow> if t = ''Buffer'' then Some (map byte_of vs) else None
           | _ \<Rightarrow> None)
      | _ \<Rightarrow> None)"

definition signal_payload :: "jsval \<Rightarrow> jsval" where
  "signal_payload v =
     (if \<not> truthy v then JNull
      else case signal_buffer v of
        None \<Rightarrow> JNull
      | Some bs \<Rightarrow>
          (case utf8_decode bs of
             None \<Rightarrow> JNull
           | Some t \<Rightarrow> (case json_parse t of None \<Rightarrow> JNull | Some p \<Rightarrow> p)))"

definition parseSignalMessage :: "string \<Rightarrow> (jsval \<times> jsval) option" where
  "parseSignalMessage raw =
     (if raw = '''' then None
      else case json_parse raw of
        None \<Rightarrow> None
      | Some env \<Rightarrow>
          if env = JNull then None
          else let type = js_or (own_prop env ''messageType'') (own_prop env ''action'') in
            if \<not> truthy type then None
            else Some (type, signal_payload (own_prop env ''messagePayload'')))"

lemma b64_encode_Nil [simp]: "b64_encode bs = '''' \<longleftrightarrow> bs = []"
  by (cases bs rule: b64_encode.cases) simp_all

lemma signal_payload_text:
  assumes "json_wf v"
  shows "signal_payload (JStr (b64_encode (utf8_encode (stringify v)))) = v"
proof -
  obtain c s where "stringify v = c # s" using assms by (rule stringify_first)
  then have "utf8_encode (stringify v) \<noteq> []" by (simp add: utf8_encode_def utf8_char_def Let_def)
  then show ?thesis
    by (simp add: signal_payload_def signal_buffer_def b64_roundtrip json_roundtrip [OF assms])
qed

lemma signal_roundtrip:
  assumes "action \<noteq> ''''" "json_wf (JObj payload)"
  shows "parseSignalMessage (signal_text action payload rid) = Some (JStr action, JObj payload)"
proof -
  define msg where "msg = b64_encode (utf8_encode (stringify (JObj payload)))"
  define env where "env = JObj [(''action'', JStr action), (''messagePayload'', JStr msg), (''recipientClientId'', JStr rid)]"
  have wf: "json_wf env" by (simp add: env_def)
  obtain c s where "stringify env = c # s" using wf by (rule stringify_first)
  moreover have "signal_text action payload rid = stringify env" by (simp only: signal_text_def env_def msg_def)
  moreover have "own_prop env ''messageType'' = JUndef" "own_prop env ''action'' = JStr action"
    "own_prop env ''messagePayload'' = JStr msg" "env \<noteq> JNull"
    by (simp_all add: env_def own_prop_def)
  ultimately show ?thesis
    using assms(1) json_roundtrip [OF wf] signal_payload_text [OF assms(2)]
    by (simp add: parseSignalMessage_def js_or_def msg_def)
qed

end
