(* ===== verification/Capture.thy ===== *)
theory Capture
  imports Signaling Machine
begin

text \<open>
  The frame capture of \<open>src/src/cameraStreamCapture.js\<close> as a state machine. An event is what happens
  outside (the free port, FFmpeg, the signaling socket, the peer connection, the timer); its handlers run
  and then the function goes on as far as its promises allow. What the function does outside is written
  to the list \<open>acts\<close>. \<open>uncaught\<close> has the errors that reach the process: a promise that is rejected
  while nobody waits for it, and an error event without a listener. Log lines are left out.
\<close>

section \<open>Promises\<close>

datatype cap_error = FfmpegMissing | FfmpegExited "int option" bytes | SignalingClosed int
  | TimedOut int | Passed string

text \<open>The messages; the bytes that FFmpeg wrote to its error output are read as UTF-8.\<close>

definition cap_message :: "string \<Rightarrow> cap_error \<Rightarrow> string option" where
  "cap_message ffmpegPath err =
     (case err of
        FfmpegMissing \<Rightarrow> Some (''ffmpeg binary not found (tried: '' @ ffmpegPath @ ''). ''
          @ ''Re-run `npm install` to fetch the bundled ffmpeg via ffmpeg-static, ''
          @ ''or install ffmpeg on your system PATH if your platform isn'' @ [CHR 0x27] @ ''t supported.'')
      | FfmpegExited code errs \<Rightarrow>
          map_option (\<lambda>t. ''ffmpeg exited ('' @ (case code of None \<Rightarrow> ''null'' | Some c \<Rightarrow> show_int c)
            @ '') without producing a frame: '' @ t) (utf8_decode errs)
      | SignalingClosed code \<Rightarrow> Some (''signaling WS closed ('' @ show_int code @ '')'')
      | TimedOut ms \<Rightarrow> Some (''capture timed out after '' @ show_int ms @ ''ms'')
      | Passed msg \<Rightarrow> Some msg)"

datatype 'a js_promise = Pending | Resolved 'a | Rejected cap_error

text \<open>\<open>Promise.race\<close> of promises: the first in the list that is settled when it is looked at.\<close>

fun race :: "'a js_promise list \<Rightarrow> 'a js_promise" where
  "race [] = Pending"
| "race (p # ps) = (if p = Pending then race ps else p)"

definition resolve_with :: "'a \<Rightarrow> 'a js_promise \<Rightarrow> 'a js_promise" where
  "resolve_with v p = (if p = Pending then Resolved v else p)"

definition reject_with :: "cap_error \<Rightarrow> 'a js_promise \<Rightarrow> 'a js_promise" where
  "reject_with err p = (if p = Pending then Rejected err else p)"

section \<open>What the function starts\<close>

text \<open>The binary and the value that is kept for the next call; \<open>None\<close> is a package that fails to load.\<close>

definition resolveFfmpegPath :: "string option \<Rightarrow> string option \<Rightarrow> (string \<Rightarrow> bool) \<Rightarrow> string \<times> string option" where
  "resolveFfmpegPath ffmpegBinaryPath ffmpegStatic existsSync =
     (if ffmpegBinaryPath \<notin> {None, Some ''''} then (the ffmpegBinaryPath, ffmpegBinaryPath)
      else case ffmpegStatic of
        Some p \<Rightarrow> if p \<noteq> '''' \<and> existsSync p then (p, Some p) else (''ffmpeg'', Some ''ffmpeg'')
      | None \<Rightarrow> (''ffmpeg'', Some ''ffmpeg''))"

definition sdp_text :: "int \<Rightarrow> string" where
  "sdp_text rtpPort =
     concat (map (\<lambda>l. l @ [CHR 0x0A])
       [''v=0'', ''o=- 0 0 IN IP4 127.0.0.1'', ''s=WyzeCapture'', ''c=IN IP4 127.0.0.1'', ''t=0 0'',
        ''m=video '' @ show_int rtpPort @ '' RTP/AVP 96'', ''a=rtpmap:96 H264/90000'', ''a=fmtp:96 packetization-mode=1''])"

definition ffmpeg_args :: "string \<Rightarrow> string list" where
  "ffmpeg_args sdpPath =
     [''-loglevel'', ''error'', ''-protocol_whitelist'', ''file,rtp,udp'',
      ''-fflags'', ''+genpts+discardcorrupt+nobuffer'', ''-flags'', ''low_delay'', ''-i'', sdpPath,
      ''-frames:v'', ''1'', ''-vsync'', ''passthrough'', ''-f'', ''image2'', ''-c:v'', ''mjpeg'', ''-q:v'', ''2'', ''pipe:1'']"

definition H264_CODECS :: jsval where
  "H264_CODECS = JArr [JObj [(''mimeType'', JStr ''video/H264''), (''clockRate'', JNum 90000),
     (''rtcpFeedback'', JArr [JObj [(''type'', JStr ''nack'')],
        JObj [(''type'', JStr ''nack''), (''parameter'', JStr ''pli'')], JObj [(''type'', JStr ''goog-remb'')]]),
     (''parameters'', JStr ''level-asymmetry-allowed=1;packetization-mode=1;profile-level-id=42001f'')]]"

section \<open>The state\<close>

text \<open>Where the function waits, or how its promise is settled.\<close>

datatype cap_loc = Picking | Opening | Offering | Describing | Answering | Framing
  | Settled "cap_error + bytes"

datatype cap_act = PickPort | WriteSdp string string | SpawnFfmpeg string "string list" | OpenUdp
  | NewPeer jsval jsval | ConnectSignaling string | StartTimer int
  | CreateOffer | SetLocal | SendSignal string | SetRemote jsval | AddCandidate jsval | Forward bytes int
  | CloseSignaling | ClosePeer | CloseUdp | KillFfmpeg | Unlink string

datatype crash = UnhandledRejection cap_error | UncaughtError string

record cap =
  at :: cap_loc
  sdpPath :: string
  rtpPort :: int
  spawned :: bool
  peer :: bool
  socket :: "ready_state option"
  stdoutChunks :: "bytes list"
  stderrChunks :: "bytes list"
  ffmpegOutcome :: "bytes js_promise"
  remoteAnswered :: "unit js_promise"
  opened :: "unit js_promise"
  timeout :: "unit js_promise"
  ff_raced :: bool
  answer_raced :: bool
  ff_listens :: bool
  ff_closed :: bool
  ws_listens :: bool
  timer_on :: bool
  candidates_on :: bool
  applying :: nat
  adding :: nat
  uncaught :: "crash list"
  acts :: "cap_act list"

definition cap_init :: cap where
  "cap_init = \<lparr>at = Picking, sdpPath = '''', rtpPort = 0, spawned = False, peer = False, socket = None,
     stdoutChunks = [], stderrChunks = [], ffmpegOutcome = Pending, remoteAnswered = Pending, opened = Pending,
     timeout = Pending, ff_raced = False, answer_raced = False, ff_listens = False, ff_closed = False,
     ws_listens = False, timer_on = False, candidates_on = False, applying = 0, adding = 0, uncaught = [],
     acts = [PickPort]\<rparr>"

text \<open>
  What it is called with, the binary that \<open>_resolveFfmpegPath\<close> found, and what the constructors of the
  peer connection and of the socket throw on their arguments, if anything.
\<close>

record cap_env =
  signalingUrl :: string
  iceServers :: jsval
  timeoutMs :: int
  ffmpegPath :: string
  peer_fails :: "jsval \<Rightarrow> string option"
  socket_fails :: "string \<Rightarrow> string option"

definition act :: "cap_act \<Rightarrow> cap \<Rightarrow> cap" where
  "act a c = c\<lparr>acts := acts c @ [a]\<rparr>"

section \<open>Settling\<close>

definition cleanup_acts :: "cap \<Rightarrow> cap_act list" where
  "cleanup_acts c = (if socket c \<noteq> None then [CloseSignaling] else []) @ (if peer c then [ClosePeer] else [])
     @ [CloseUdp, KillFfmpeg, Unlink (sdpPath c)]"

definition finish :: "cap_error + bytes \<Rightarrow> cap \<Rightarrow> cap" where
  "finish r c = c\<lparr>at := Settled r, socket := map_option ws_close (socket c), acts := acts c @ cleanup_acts c\<rparr>"

definition reject_ffmpeg :: "cap_error \<Rightarrow> cap \<Rightarrow> cap" where
  "reject_ffmpeg err c = c\<lparr>ffmpegOutcome := reject_with err (ffmpegOutcome c),
     uncaught := uncaught c @ (if ffmpegOutcome c = Pending \<and> \<not> ff_raced c then [UnhandledRejection err] else [])\<rparr>"

definition reject_answer :: "cap_error \<Rightarrow> cap \<Rightarrow> cap" where
  "reject_answer err c = c\<lparr>remoteAnswered := reject_with err (remoteAnswered c),
     uncaught := uncaught c @ (if remoteAnswered c = Pending \<and> \<not> answer_raced c then [UnhandledRejection err] else [])\<rparr>"

section \<open>The function between its awaits\<close>

definition after_port :: "cap_env \<Rightarrow> int \<Rightarrow> string \<Rightarrow> cap \<Rightarrow> cap" where
  "after_port E port path c =
     (let c1 = c\<lparr>rtpPort := port, sdpPath := path, spawned := True, ff_listens := True,
            acts := acts c @ [WriteSdp path (sdp_text port), SpawnFfmpeg (ffmpegPath E) (ffmpeg_args path), OpenUdp]\<rparr> in
      case peer_fails E (iceServers E) of
        Some err \<Rightarrow> finish (Inl (Passed err)) c1
      | None \<Rightarrow>
          let c2 = act (NewPeer (iceServers E) H264_CODECS) (c1\<lparr>peer := True\<rparr>) in
          (case socket_fails E (signalingUrl E) of
             Some err \<Rightarrow> finish (Inl (Passed err)) c2
           | None \<Rightarrow> c2\<lparr>at := Opening, socket := Some CONNECTING, ws_listens := True, ff_raced := True, timer_on := True,
               acts := acts c2 @ [ConnectSignaling (signalingUrl E), StartTimer (timer_delay (Some (timeoutMs E)))]\<rparr>))"

definition await_frame :: "cap \<Rightarrow> cap" where
  "await_frame c =
     (case race [ffmpegOutcome c, map_js_promise (\<lambda>_. []) (timeout c)] of
        Pending \<Rightarrow> c\<lparr>at := Framing\<rparr>
      | Resolved buffer \<Rightarrow> finish (Inr buffer) c
      | Rejected err \<Rightarrow> finish (Inl err) c)"

text \<open>The function goes on when the race that it awaits is over.\<close>

definition resume :: "cap \<Rightarrow> cap" where
  "resume c =
     (case at c of
        Opening \<Rightarrow>
          (case race [opened c, map_js_promise (\<lambda>_. ()) (ffmpegOutcome c), timeout c] of
             Pending \<Rightarrow> c
           | Resolved _ \<Rightarrow> act CreateOffer (c\<lparr>at := Offering\<rparr>)
           | Rejected err \<Rightarrow> finish (Inl err) c)
      | Answering \<Rightarrow>
          (case race [remoteAnswered c, map_js_promise (\<lambda>_. ()) (ffmpegOutcome c), timeout c] of
             Pending \<Rightarrow> c
           | Resolved _ \<Rightarrow> await_frame c
           | Rejected err \<Rightarrow> finish (Inl err) c)
      | Framing \<Rightarrow> await_frame c
      | _ \<Rightarrow> c)"

definition send_signal :: "string \<Rightarrow> obj \<Rightarrow> cap \<Rightarrow> cap" where
  "send_signal action payload c =
     (case sendSignal (socket c) action payload of None \<Rightarrow> c | Some msg \<Rightarrow> act (SendSignal msg) c)"

definition after_description :: "string \<Rightarrow> cap \<Rightarrow> cap" where
  "after_description sdp c =
     resume ((send_signal ''SDP_OFFER'' [(''type'', JStr ''offer''), (''sdp'', JStr sdp)] c)
       \<lparr>candidates_on := True, answer_raced := True, at := Answering\<rparr>)"

section \<open>Handlers\<close>

definition on_ffmpeg_error :: "bool \<Rightarrow> string \<Rightarrow> cap \<Rightarrow> cap" where
  "on_ffmpeg_error enoent msg c =
     (if ff_listens c
      then resume (reject_ffmpeg (if enoent then FfmpegMissing else Passed msg) (c\<lparr>ff_listens := False\<rparr>))
      else c\<lparr>uncaught := uncaught c @ [UncaughtError msg]\<rparr>)"

definition on_ffmpeg_close :: "int option \<Rightarrow> cap \<Rightarrow> cap" where
  "on_ffmpeg_close code c =
     (let c1 = c\<lparr>ff_closed := True\<rparr> in
      resume (if stdoutChunks c \<noteq> []
        then c1\<lparr>ffmpegOutcome := resolve_with (concat (stdoutChunks c)) (ffmpegOutcome c)\<rparr>
        else reject_ffmpeg (FfmpegExited code (concat (stderrChunks c))) c1))"

definition on_signal :: "string \<Rightarrow> cap \<Rightarrow> cap" where
  "on_signal raw c =
     (case parseSignalMessage raw of
        None \<Rightarrow> c
      | Some (type, payload) \<Rightarrow>
          if type = JStr ''SDP_ANSWER'' then act (SetRemote payload) (c\<lparr>applying := Suc (applying c)\<rparr>)
          else if type = JStr ''ICE_CANDIDATE'' then act (AddCandidate payload) (c\<lparr>adding := Suc (adding c)\<rparr>)
          else c)"

definition on_ws_error :: "string \<Rightarrow> cap \<Rightarrow> cap" where
  "on_ws_error msg c =
     (let c1 = c\<lparr>socket := map_option (\<lambda>r. if r = CONNECTING then CLOSING else r) (socket c)\<rparr> in
      if ws_listens c
      then resume ((reject_answer (Passed msg) c1)\<lparr>ws_listens := False, opened := reject_with (Passed msg) (opened c)\<rparr>)
      else c1\<lparr>uncaught := uncaught c @ [UncaughtError msg]\<rparr>)"

definition on_signaling_close :: "int \<Rightarrow> cap \<Rightarrow> cap" where
  "on_signaling_close code c =
     (let c1 = c\<lparr>socket := Some CLOSED\<rparr> in
      resume (if code \<noteq> 1000 then reject_answer (SignalingClosed code) c1 else c1))"

definition on_candidate :: "obj \<Rightarrow> cap \<Rightarrow> cap" where
  "on_candidate candidate c =
     (if candidates_on c \<and> truthy (oget candidate ''candidate'') then send_signal ''ICE_CANDIDATE'' candidate c else c)"

definition on_rtp :: "bytes \<Rightarrow> cap \<Rightarrow> cap" where
  "on_rtp packet c = (case at c of Settled _ \<Rightarrow> c | _ \<Rightarrow> act (Forward packet (rtpPort c)) c)"

section \<open>Steps\<close>

datatype cap_event =
    PortFailed string | PortPicked int string | SdpFailed string
  | FfmpegOut bytes | FfmpegErr bytes | FfmpegError bool string | FfmpegClose "int option"
  | WsOpen | WsMessage string | WsError string | WsClose int
  | Timeout
  | OfferMade | OfferFailed string | LocalSet string | LocalFailed string
  | RemoteSet | RemoteFailed string | CandidateAdded | CandidateFailed string
  | LocalCandidate obj | Rtp bytes

text \<open>
  An event that cannot happen in a state gives \<open>None\<close>: FFmpeg writes before its close event, a socket opens
  once and closes once, a promise of the peer connection settles after the call that made it.
\<close>

definition cap_step :: "cap_env \<Rightarrow> cap_event \<Rightarrow> cap \<Rightarrow> cap option" where
  "cap_step E ev c =
     (case ev of
        PortFailed err \<Rightarrow> if at c = Picking then Some (c\<lparr>at := Settled (Inl (Passed err))\<rparr>) else None
      | SdpFailed err \<Rightarrow> if at c = Picking then Some (c\<lparr>at := Settled (Inl (Passed err))\<rparr>) else None
      | PortPicked port path \<Rightarrow> if at c = Picking then Some (after_port E port path c) else None
      | FfmpegOut chunk \<Rightarrow> if spawned c \<and> \<not> ff_closed c then Some (c\<lparr>stdoutChunks := stdoutChunks c @ [chunk]\<rparr>) else None
      | FfmpegErr chunk \<Rightarrow> if spawned c \<and> \<not> ff_closed c then Some (c\<lparr>stderrChunks := stderrChunks c @ [chunk]\<rparr>) else None
      | FfmpegError enoent msg \<Rightarrow> if spawned c then Some (on_ffmpeg_error enoent msg c) else None
      | FfmpegClose code \<Rightarrow> if spawned c \<and> \<not> ff_closed c then Some (on_ffmpeg_close code c) else None
      | WsOpen \<Rightarrow> if socket c = Some CONNECTING
          then Some (resume (c\<lparr>socket := Some OPEN, opened := resolve_with () (opened c)\<rparr>)) else None
      | WsMessage raw \<Rightarrow> if socket c \<in> {Some OPEN, Some CLOSING} then Some (on_signal raw c) else None
      | WsError msg \<Rightarrow> if socket c \<notin> {None, Some CLOSED} then Some (on_ws_error msg c) else None
      | WsClose code \<Rightarrow> if socket c \<notin> {None, Some CLOSED} then Some (on_signaling_close code c) else None
      | Timeout \<Rightarrow> if timer_on c
          then Some (resume (c\<lparr>timer_on := False, timeout := reject_with (TimedOut (timeoutMs E)) (timeout c)\<rparr>)) else None
      | OfferMade \<Rightarrow> if at c = Offering then Some (act SetLocal (c\<lparr>at := Describing\<rparr>)) else None
      | OfferFailed err \<Rightarrow> if at c = Offering then Some (finish (Inl (Passed err)) c) else None
      | LocalSet sdp \<Rightarrow> if at c = Describing then Some (after_description sdp c) else None
      | LocalFailed err \<Rightarrow> if at c = Describing then Some (finish (Inl (Passed err)) c) else None
      | RemoteSet \<Rightarrow> if 0 < applying c
          then Some (resume (c\<lparr>applying := applying c - 1, remoteAnswered := resolve_with () (remoteAnswered c)\<rparr>)) else None
      | RemoteFailed err \<Rightarrow> if 0 < applying c
          then Some (resume (reject_answer (Passed err) (c\<lparr>applying := applying c - 1\<rparr>))) else None
      | CandidateAdded \<Rightarrow> if 0 < adding c then Some (c\<lparr>adding := adding c - 1\<rparr>) else None
      | CandidateFailed err \<Rightarrow> if 0 < adding c
          then Some (resume (reject_answer (Passed err) (c\<lparr>adding := adding c - 1\<rparr>))) else None
      | LocalCandidate candidate \<Rightarrow> if peer c then Some (on_candidate candidate c) else None
      | Rtp packet \<Rightarrow> if peer c then Some (on_rtp packet c) else None)"

abbreviation cap_run :: "cap_env \<Rightarrow> cap_event list \<Rightarrow> cap option" where
  "cap_run E evs \<equiv> run (cap_step E) evs cap_init"

end
