(* ===== verification/CaptureProps.thy ===== *)
theory CaptureProps
  imports Capture "HOL-Library.Multiset"
begin

text \<open>
  The frame capture: what it opens it closes, the timer ends it, the frame is FFmpeg's output, a
  negotiation that succeeds, and the errors of a signaling socket that never opens.
\<close>

lemmas handler_defs = on_ffmpeg_error_def on_ffmpeg_close_def on_signal_def on_ws_error_def
  on_signaling_close_def on_candidate_def on_rtp_def after_description_def send_signal_def
  reject_ffmpeg_def reject_answer_def act_def Let_def

lemma resume_cases:
  obtains (waits) "resume c = c"
  | (offers) "at c = Opening" "resume c = act CreateOffer (c\<lparr>at := Offering\<rparr>)"
  | (frames) "at c \<in> {Answering, Framing}" "resume c = c\<lparr>at := Framing\<rparr>"
  | (finishes) r where "at c \<in> {Opening, Answering, Framing}" "resume c = finish r c"
proof -
  have frame: "await_frame c = c\<lparr>at := Framing\<rparr> \<or> (\<exists>r. await_frame c = finish r c)"
    by (auto simp: await_frame_def simp del: race.simps split: js_promise.split)
  show ?thesis
  proof (cases "at c")
    case Opening
    then show ?thesis
      using waits offers finishes
      by (cases "race [opened c, map_js_promise (\<lambda>_. ()) (ffmpegOutcome c), timeout c]")
        (simp_all add: resume_def del: race.simps)
  next
    case Answering
    then show ?thesis
      using waits frames finishes frame
      by (cases "race [remoteAnswered c, map_js_promise (\<lambda>_. ()) (ffmpegOutcome c), timeout c]")
        (auto simp: resume_def simp del: race.simps)
  next
    case Framing
    then show ?thesis using frames finishes frame by (auto simp: resume_def)
  qed (use waits in \<open>simp_all add: resume_def\<close>)
qed

section \<open>Everything that is opened is closed\<close>

definition closing :: "cap_act \<Rightarrow> cap_act option" where
  "closing a = (case a of WriteSdp path _ \<Rightarrow> Some (Unlink path) | SpawnFfmpeg _ _ \<Rightarrow> Some KillFfmpeg
     | OpenUdp \<Rightarrow> Some CloseUdp | NewPeer _ _ \<Rightarrow> Some ClosePeer | ConnectSignaling _ \<Rightarrow> Some CloseSignaling | _ \<Rightarrow> None)"

definition is_closing :: "cap_act \<Rightarrow> bool" where
  "is_closing a = (case a of Unlink _ \<Rightarrow> True | KillFfmpeg \<Rightarrow> True | CloseUdp \<Rightarrow> True | ClosePeer \<Rightarrow> True
     | CloseSignaling \<Rightarrow> True | _ \<Rightarrow> False)"

definition settled :: "cap \<Rightarrow> bool" where
  "settled c = (case at c of Settled _ \<Rightarrow> True | _ \<Rightarrow> False)"

lemma settled_iff: "settled c \<longleftrightarrow> (\<exists>r. at c = Settled r)"
  by (auto simp: settled_def split: cap_loc.split)

definition to_close :: "cap_act list \<Rightarrow> cap_act multiset" where
  "to_close as = mset (List.map_filter closing as)"

definition closed :: "cap_act list \<Rightarrow> cap_act multiset" where
  "closed as = mset (filter is_closing as)"

lemma close_append [simp]:
  "to_close (a @ b) = to_close a + to_close b" "closed (a @ b) = closed a + closed b"
  by (simp_all add: to_close_def closed_def map_filter_def)

lemma close_single [simp]:
  "to_close [] = {#}" "closed [] = {#}"
  "to_close (a # as) = (case closing a of None \<Rightarrow> {#} | Some b \<Rightarrow> {#b#}) + to_close as"
  "closed (a # as) = (if is_closing a then {#a#} else {#}) + closed as"
  by (simp_all add: to_close_def closed_def map_filter_simps split: option.split)

lemma close_acts [simp]: "closed (cleanup_acts c) = mset (cleanup_acts c)" "to_close (cleanup_acts c) = {#}"
  by (auto simp: cleanup_acts_def is_closing_def closing_def)

definition balanced :: "cap \<Rightarrow> bool" where
  "balanced c =
     (to_close (acts c) = (if spawned c then mset (cleanup_acts c) else {#}) \<and>
      closed (acts c) = (if settled c then to_close (acts c) else {#}) \<and>
      (spawned c \<longrightarrow> at c \<noteq> Picking) \<and> (peer c \<or> socket c \<noteq> None \<longrightarrow> spawned c) \<and>
      (\<not> settled c \<longrightarrow> at c \<noteq> Picking \<longrightarrow> spawned c))"

lemma balanced_quiet:
  assumes "balanced c" "acts c' = acts c" "at c' = at c" "spawned c' = spawned c" "peer c' = peer c"
    and "socket c' = None \<longleftrightarrow> socket c = None" "sdpPath c' = sdpPath c"
  shows "balanced c'"
  using assms by (simp add: balanced_def cleanup_acts_def settled_def)

lemma balanced_act:
  assumes "balanced c" "closing a = None" "\<not> is_closing a"
  shows "balanced (act a c)"
  using assms by (simp add: balanced_def cleanup_acts_def settled_def act_def)

lemma balanced_finish:
  assumes "balanced c" "\<not> settled c" "spawned c"
  shows "balanced (finish r c)"
  using assms by (auto simp: balanced_def finish_def cleanup_acts_def settled_def is_closing_def closing_def)

lemma balanced_move:
  assumes "balanced c" "\<not> settled c" "spawned c" "l \<noteq> Picking" "\<And>r. l \<noteq> Settled r"
  shows "balanced (c\<lparr>at := l\<rparr>)"
  using assms by (auto simp: balanced_def cleanup_acts_def settled_def split: cap_loc.split)

lemma balanced_resume:
  assumes "balanced c"
  shows "balanced (resume c)"
proof -
  have live: "\<not> settled c \<and> spawned c" if "at c \<in> {Opening, Answering, Framing}"
    using that assms by (auto simp: balanced_def settled_def)
  show ?thesis
  proof (cases rule: resume_cases [of c])
    case waits
    then show ?thesis using assms by simp
  next
    case offers
    then have "balanced (c\<lparr>at := Offering\<rparr>)" using live by (intro balanced_move assms) simp_all
    then show ?thesis by (simp add: offers(2) balanced_act closing_def is_closing_def)
  next
    case frames
    then show ?thesis using live assms by (auto simp: intro: balanced_move)
  next
    case (finishes r)
    then show ?thesis using live assms by (simp add: balanced_finish)
  qed
qed

lemma balanced_send: "balanced c \<Longrightarrow> balanced (send_signal a p c)"
  by (auto simp: send_signal_def closing_def is_closing_def intro: balanced_act split: option.split)

lemma balanced_start:
  assumes "balanced c" "at c = Picking"
  shows "balanced (after_port E port path c)"
proof -
  have c: "to_close (acts c) = {#}" "closed (acts c) = {#}" "\<not> spawned c" "\<not> peer c" "socket c = None"
    using assms by (auto simp: balanced_def settled_def)
  then show ?thesis
    by (auto simp: after_port_def balanced_def finish_def cleanup_acts_def settled_def act_def Let_def closing_def is_closing_def
        split: option.split)
qed

lemma balanced_step:
  assumes "balanced c" "cap_step E ev c = Some c'"
  shows "balanced c'"
proof -
  note q = balanced_quiet [OF assms(1)]
  have live: "\<not> settled c \<and> spawned c" if "at c \<in> {Offering, Describing}"
    using that assms by (auto simp: balanced_def settled_def)
  have port: "balanced (c\<lparr>at := Settled (Inl (Passed err))\<rparr>)" if "at c = Picking" for err
    using that assms(1) by (auto simp: balanced_def settled_def)
  have offered: "balanced (act SetLocal (c\<lparr>at := Describing\<rparr>))" if "at c = Offering"
    using that live by (auto simp: closing_def is_closing_def intro!: balanced_act balanced_move assms(1))
  have described: "balanced (after_description sdp c)" if "at c = Describing" for sdp
  proof -
    let ?p = "[(''type'', JStr ''offer''), (''sdp'', JStr sdp)]"
    have "balanced (c\<lparr>at := Answering\<rparr>)" using that live by (intro balanced_move assms(1)) simp_all
    then have "balanced (send_signal ''SDP_OFFER'' ?p (c\<lparr>at := Answering\<rparr>))" by (rule balanced_send)
    then have "balanced ((send_signal ''SDP_OFFER'' ?p c)\<lparr>candidates_on := True, answer_raced := True, at := Answering\<rparr>)"
      by (rule balanced_quiet) (simp_all add: send_signal_def act_def split: option.split)
    then show ?thesis unfolding after_description_def by (rule balanced_resume)
  qed
  show ?thesis
  proof (cases ev)
    case (WsMessage raw)
    have "balanced (c\<lparr>applying := n\<rparr>)" "balanced (c\<lparr>adding := n\<rparr>)" for n by (rule q; simp)+
    with WsMessage assms show ?thesis
      by (auto simp: cap_step_def on_signal_def closing_def is_closing_def intro!: balanced_act
          split: if_splits option.splits)
  qed (use assms port offered described live in \<open>auto simp: cap_step_def on_ffmpeg_error_def on_ffmpeg_close_def
      on_ws_error_def on_signaling_close_def on_candidate_def on_rtp_def reject_ffmpeg_def reject_answer_def Let_def
      closing_def is_closing_def
      intro!: balanced_resume balanced_finish balanced_act balanced_start balanced_send intro: q split: if_splits cap_loc.splits\<close>)
qed

lemma balanced_init: "balanced cap_init"
  by (simp add: cap_init_def balanced_def settled_def closing_def is_closing_def)

interpretation cap_balance: invariant "cap_step E" balanced "\<lambda>c. c = cap_init" for E
  by unfold_locales (auto intro: balanced_step balanced_init)

lemma run_from: "run step evs s = Some s' \<Longrightarrow> reachable (\<lambda>c. c = s) step s'"
  by (rule run_reachable [OF reachable.first]) simp_all

lemma resume_settled [simp]: "at c = Settled r \<Longrightarrow> resume c = c"
  by (simp add: resume_def)

lemma settled_handlers:
  assumes "at c = Settled r"
  shows "at (on_ffmpeg_error b m c) = Settled r" "at (on_ffmpeg_close code c) = Settled r"
    "at (on_signal raw c) = Settled r" "at (on_ws_error m c) = Settled r" "at (on_signaling_close k c) = Settled r"
    "at (on_candidate ob c) = Settled r" "at (on_rtp bs c) = Settled r"
  using assms by (simp_all add: handler_defs split: option.split)

lemma settled_stays:
  assumes "settled c" "cap_step E ev c = Some c'"
  shows "at c' = at c"
proof -
  obtain r where "at c = Settled r" using assms(1) by (auto simp: settled_iff)
  with assms(2) show ?thesis
    by (cases ev) (auto simp: cap_step_def settled_handlers reject_answer_def split: if_splits)
qed

text \<open>What the promises are where the function waits for them.\<close>

definition awaits :: "cap \<Rightarrow> bool" where
  "awaits c =
     (case at c of
        Picking \<Rightarrow> \<not> spawned c \<and> \<not> peer c \<and> socket c = None \<and> \<not> timer_on c \<and> applying c = 0 \<and> adding c = 0 \<and>
          timeout c = Pending \<and> opened c = Pending \<and> ffmpegOutcome c = Pending \<and> remoteAnswered c = Pending
      | Opening \<Rightarrow> opened c = Pending \<and> ffmpegOutcome c = Pending \<and> timeout c = Pending
      | Answering \<Rightarrow> remoteAnswered c = Pending \<and> ffmpegOutcome c = Pending \<and> timeout c = Pending
      | Framing \<Rightarrow> ffmpegOutcome c = Pending \<and> timeout c = Pending
      | _ \<Rightarrow> True)"

lemma map_pending [simp]: "map_js_promise f p = Pending \<longleftrightarrow> p = Pending"
  by (cases p) simp_all

lemma race_pending: "race ps = Pending \<longleftrightarrow> (\<forall>p \<in> set ps. p = Pending)"
  by (induction ps) simp_all

lemma awaits_frame: "awaits (await_frame c)"
proof (cases "race [ffmpegOutcome c, map_js_promise (\<lambda>_. []) (timeout c)]")
  case Pending
  then have "ffmpegOutcome c = Pending \<and> timeout c = Pending" by (simp add: race_pending del: race.simps)
  with Pending show ?thesis by (simp add: await_frame_def awaits_def del: race.simps)
qed (simp_all add: await_frame_def awaits_def finish_def del: race.simps)

lemma awaits_resume:
  assumes "at c \<noteq> Picking"
  shows "awaits (resume c)"
proof (cases "at c")
  case Opening
  let ?r = "race [opened c, map_js_promise (\<lambda>_. ()) (ffmpegOutcome c), timeout c]"
  have "?r = Pending \<longleftrightarrow> opened c = Pending \<and> ffmpegOutcome c = Pending \<and> timeout c = Pending"
    by (simp add: race_pending del: race.simps)
  with Opening show ?thesis
    by (cases ?r) (simp_all add: resume_def awaits_def finish_def act_def del: race.simps)
next
  case Answering
  let ?r = "race [remoteAnswered c, map_js_promise (\<lambda>_. ()) (ffmpegOutcome c), timeout c]"
  have "?r = Pending \<longleftrightarrow> remoteAnswered c = Pending \<and> ffmpegOutcome c = Pending \<and> timeout c = Pending"
    by (simp add: race_pending del: race.simps)
  with Answering awaits_frame show ?thesis
    by (cases ?r) (simp_all add: resume_def awaits_def finish_def act_def del: race.simps)
qed (use assms awaits_frame in \<open>simp_all add: resume_def awaits_def\<close>)

text \<open>Nothing but the timer rejects \<open>timeout\<close>, and nothing resolves it.\<close>

lemma resume_timeout [simp]: "timeout (resume c) = timeout c" "timer_on (resume c) = timer_on c"
  by (cases rule: resume_cases [of c]; simp add: act_def finish_def)+

lemma resume_outcome [simp]: "ffmpegOutcome (resume c) = ffmpegOutcome c" "stdoutChunks (resume c) = stdoutChunks c"
  "ff_closed (resume c) = ff_closed c" "spawned (resume c) = spawned c"
  by (cases rule: resume_cases [of c]; simp add: act_def finish_def)+

lemma step_timeout:
  assumes "cap_step E ev c = Some c'"
  shows "timeout c' = (if ev = Timeout then reject_with (TimedOut (timeoutMs E)) (timeout c) else timeout c)"
  using assms
  by (cases ev) (auto simp: cap_step_def handler_defs after_port_def finish_def split: if_splits option.splits cap_loc.splits)

lemma awaits_quiet: "awaits c \<Longrightarrow> at c \<noteq> Picking \<Longrightarrow> at c' = at c \<Longrightarrow> opened c' = opened c \<Longrightarrow>
    ffmpegOutcome c' = ffmpegOutcome c \<Longrightarrow> timeout c' = timeout c \<Longrightarrow> remoteAnswered c' = remoteAnswered c \<Longrightarrow> awaits c'"
  by (auto simp: awaits_def split: cap_loc.splits)

lemma awaits_step:
  assumes "awaits c" "cap_step E ev c = Some c'"
  shows "awaits c'"
proof (cases "at c = Picking")
  case True
  then have "\<not> spawned c" "\<not> peer c" "socket c = None" "\<not> timer_on c" "applying c = 0" "adding c = 0"
    "timeout c = Pending" "opened c = Pending" "ffmpegOutcome c = Pending"
    using assms(1) by (simp_all add: awaits_def)
  with True assms(2) show ?thesis
    by (cases ev) (auto simp: cap_step_def awaits_def after_port_def finish_def act_def Let_def split: if_splits option.splits)
next
  case False
  note q = awaits_quiet [OF assms(1) False] and r = awaits_resume
  show ?thesis
  proof (cases ev)
    case (LocalSet sdp)
    then show ?thesis using assms(2) by (auto simp: cap_step_def after_description_def intro!: r split: if_splits)
  next
    case (WsMessage raw)
    then show ?thesis using assms(2)
      by (auto simp: cap_step_def on_signal_def act_def intro: q split: if_splits option.splits)
  next
    case (FfmpegError b m)
    then show ?thesis using assms(2) False
      by (auto simp: cap_step_def on_ffmpeg_error_def reject_ffmpeg_def intro!: r intro: q split: if_splits)
  next
    case (WsError m)
    then show ?thesis using assms(2) False
      by (auto simp: cap_step_def on_ws_error_def reject_answer_def Let_def intro!: r intro: q split: if_splits)
  next
    case (FfmpegClose code)
    then show ?thesis using assms(2) False
      by (auto simp: cap_step_def on_ffmpeg_close_def reject_ffmpeg_def Let_def intro!: r split: if_splits)
  qed (use assms(2) False in \<open>auto simp: cap_step_def on_signaling_close_def on_candidate_def on_rtp_def reject_answer_def
      send_signal_def act_def finish_def Let_def awaits_def [of "act _ _"] awaits_def [of "finish _ _"] awaits_def [of "_\<lparr>acts := _\<rparr>"]
      intro!: r intro: q split: if_splits option.splits cap_loc.splits\<close>)
qed

lemma awaits_init: "awaits cap_init"
  by (simp add: cap_init_def awaits_def)

interpretation cap_awaits: invariant "cap_step E" awaits "\<lambda>c. c = cap_init" for E
  by unfold_locales (auto intro: awaits_step awaits_init)

text \<open>Once the capture has settled its socket is closing, and what it would send goes nowhere.\<close>

definition shut :: "cap \<Rightarrow> bool" where
  "shut c = (settled c \<longrightarrow> (\<forall>r. socket c = Some r \<longrightarrow> CLOSING \<le> r))"

lemma closing_states [simp]: "CLOSING \<le> ws_close r" "\<not> CLOSING \<le> CONNECTING" "\<not> CLOSING \<le> OPEN"
  by (simp_all add: less_eq_ready_state_def ws_close_def)

lemma shut_finish: "shut (finish r c)"
  by (auto simp: shut_def finish_def)

lemma shut_resume: "shut c \<Longrightarrow> shut (resume c)"
  by (cases rule: resume_cases [of c]) (auto simp: shut_finish, auto simp: shut_def settled_def act_def)

lemma shut_live: "at c \<in> {Picking, Opening, Offering, Describing, Answering, Framing} \<Longrightarrow> shut c"
  by (auto simp: shut_def settled_def)

lemma shut_quiet: "shut c \<Longrightarrow> at c' = at c \<Longrightarrow> socket c' = socket c \<or> socket c' = Some CLOSED \<Longrightarrow> shut c'"
  by (auto simp: shut_def settled_def)

lemma shut_step:
  assumes "shut c" "awaits c" "cap_step E ev c = Some c'"
  shows "shut c'"
proof (cases ev)
  case (PortPicked port path)
  with assms show ?thesis
    by (auto simp: cap_step_def after_port_def Let_def intro: shut_finish shut_live split: if_splits option.splits)
next
  case (PortFailed err)
  with assms show ?thesis by (auto simp: cap_step_def shut_def awaits_def split: if_splits)
next
  case (SdpFailed err)
  with assms show ?thesis by (auto simp: cap_step_def shut_def awaits_def split: if_splits)
next
  case (LocalSet sdp)
  have "shut (after_description sdp c)" unfolding after_description_def by (rule shut_resume, rule shut_live) simp
  with LocalSet assms(3) show ?thesis by (auto simp: cap_step_def split: if_splits)
next
  case WsOpen
  have "shut (c\<lparr>socket := Some OPEN, opened := resolve_with () (opened c)\<rparr>)" if "socket c = Some CONNECTING"
    using assms(1) that by (auto simp: shut_def settled_def)
  with WsOpen assms(3) show ?thesis by (auto simp: cap_step_def intro: shut_resume split: if_splits)
next
  case (WsError msg)
  let ?s = "map_option (\<lambda>r. if r = CONNECTING then CLOSING else r) (socket c)"
  have "shut d" if "at d = at c" "socket d = ?s" for d using assms(1) that by (auto simp: shut_def settled_def)
  with WsError assms(3) show ?thesis
    by (auto simp: cap_step_def on_ws_error_def reject_answer_def Let_def intro: shut_resume split: if_splits)
next
  case OfferMade
  with assms(3) show ?thesis by (auto simp: cap_step_def act_def intro!: shut_live split: if_splits)
qed (use assms(3) shut_quiet [OF assms(1)] in \<open>auto simp: cap_step_def on_ffmpeg_error_def on_ffmpeg_close_def on_signaling_close_def
    on_candidate_def on_rtp_def on_signal_def reject_ffmpeg_def reject_answer_def send_signal_def act_def Let_def
    intro!: shut_resume shut_finish split: if_splits option.splits cap_loc.splits\<close>)

lemma shut_init: "shut cap_init"
  by (simp add: shut_def settled_def cap_init_def)

interpretation cap_shut: invariant "cap_step E" "\<lambda>c. shut c \<and> awaits c" "\<lambda>c. c = cap_init" for E
  by unfold_locales (auto intro: shut_step awaits_step awaits_init shut_init)

definition signals :: "cap \<Rightarrow> string list" where
  "signals c = [m. SendSignal m \<leftarrow> acts c]"

lemma settled_silent:
  assumes "settled c" "shut c" "cap_step E ev c = Some c'"
  shows "signals c' = signals c"
proof -
  obtain r where r: "at c = Settled r" using assms(1) by (auto simp: settled_iff)
  have "socket c \<noteq> Some OPEN" using assms(1,2) by (auto simp: shut_def)
  then show ?thesis using r assms(3)
    by (cases ev) (auto simp: cap_step_def handler_defs sendSignal_def signals_def split: if_splits option.splits)
qed

text \<open>
  C35. Everything is closed. In every run each thing that the capture has opened (the file, the process, the
  UDP socket, the peer connection and the signaling socket) is closed exactly once when its promise
  settles and not before, and once it has settled its result stays and it sends no signal.
\<close>

theorem capture_cleans_up:
  assumes "cap_run E evs = Some c"
  shows "closed (acts c) = (if settled c then to_close (acts c) else {#}) \<and>
    (settled c \<longrightarrow> (\<forall>ev c'. cap_step E ev c = Some c' \<longrightarrow> at c' = at c \<and> signals c' = signals c))"
proof -
  have "balanced c" using assms by (intro cap_balance.always run_from)
  moreover have "shut c \<and> awaits c" using assms by (intro cap_shut.always run_from)
  ultimately show ?thesis using settled_stays settled_silent by (auto simp: balanced_def)
qed

definition demo_cap :: cap_env where
  "demo_cap = \<lparr>signalingUrl = ''wss://v'', iceServers = JArr [], timeoutMs = 20000, ffmpegPath = ''ffmpeg'',
     peer_fails = (\<lambda>_. None), socket_fails = (\<lambda>_. None)\<rparr>"

lemma capture_cleans_up_witness:
  "\<exists>c. cap_run demo_cap [PortPicked 5004 ''a.sdp'', Timeout] = Some c \<and> settled c \<and>
    closed (acts c) = to_close (acts c) \<and> count (closed (acts c)) KillFfmpeg = 1"
proof -
  obtain c where c: "cap_run demo_cap [PortPicked 5004 ''a.sdp'', Timeout] = Some c" "settled c" "count (closed (acts c)) KillFfmpeg = 1"
    by (simp add: cap_step_def after_port_def demo_cap_def cap_init_def act_def Let_def resume_def reject_with_def
        settled_def finish_def cleanup_acts_def is_closing_def)
  with capture_cleans_up [OF c(1)] show ?thesis by simp
qed

section \<open>The timer ends it\<close>

lemma run_timeout:
  "run (cap_step E) evs c = Some c' \<Longrightarrow> timeout c \<noteq> Pending \<or> Timeout \<in> set evs \<Longrightarrow> timeout c' \<noteq> Pending"
proof (induction evs arbitrary: c)
  case (Cons ev evs)
  then obtain c1 where c1: "cap_step E ev c = Some c1" "run (cap_step E) evs c1 = Some c'" by (auto split: option.splits)
  have "timeout c1 \<noteq> Pending \<or> Timeout \<in> set evs"
    using Cons.prems(2) step_timeout [OF c1(1)] by (auto simp: reject_with_def)
  with Cons.IH c1(2) show ?case by blast
qed simp

lemma resume_late: "timeout c \<noteq> Pending \<Longrightarrow> at c = Answering \<Longrightarrow> settled (resume c)"
  using awaits_resume [of c] by (cases rule: resume_cases [of c]) (auto simp: settled_iff finish_def awaits_def)

lemma description_late: "timeout c \<noteq> Pending \<Longrightarrow> settled (after_description sdp c)"
  unfolding after_description_def by (rule resume_late) (auto simp: send_signal_def act_def split: option.split)

text \<open>
  C36. The timer ends the capture. Once the timer has fired its promise is settled, unless the function is
  waiting for the peer connection to make or to install its offer, which no race covers; then it settles
  as soon as the offer is there.
\<close>

theorem capture_settles:
  assumes "cap_run E evs = Some c" "Timeout \<in> set evs"
  shows "settled c \<or>
    at c = Offering \<and> (\<forall>sdp. \<exists>c'. run (cap_step E) [OfferMade, LocalSet sdp] c = Some c' \<and> settled c') \<or>
    at c = Describing \<and> (\<forall>sdp. \<exists>c'. run (cap_step E) [LocalSet sdp] c = Some c' \<and> settled c')"
proof -
  have t: "timeout c \<noteq> Pending" using run_timeout [OF assms(1)] assms(2) by blast
  have "awaits c" using assms(1) by (intro cap_awaits.always run_from)
  with t have "settled c \<or> at c = Offering \<or> at c = Describing" by (auto simp: awaits_def settled_def split: cap_loc.splits)
  then consider (over) "settled c" | (offering) "at c = Offering" | (describing) "at c = Describing" by blast
  then show ?thesis
  proof cases
    case offering
    then show ?thesis using t by (auto simp: cap_step_def act_def intro!: description_late)
  next
    case describing
    then show ?thesis using t by (auto simp: cap_step_def intro!: description_late)
  qed simp
qed

lemma capture_settles_witness:
  "\<exists>c. cap_run demo_cap [PortPicked 5004 ''a.sdp'', WsOpen, Timeout] = Some c \<and> at c = Offering \<and>
    (\<exists>c'. run (cap_step demo_cap) [OfferMade, LocalSet ''v=0''] c = Some c' \<and> settled c')"
proof -
  obtain c where c: "cap_run demo_cap [PortPicked 5004 ''a.sdp'', WsOpen, Timeout] = Some c" "at c = Offering"
    by (simp add: cap_step_def after_port_def demo_cap_def cap_init_def act_def Let_def resume_def reject_with_def resolve_with_def)
  have "\<not> settled c" using c(2) by (simp add: settled_def)
  with capture_settles [OF c(1)] c show ?thesis by auto
qed

section \<open>The frame\<close>

definition ffmpeg_out :: "cap_event list \<Rightarrow> bytes list" where
  "ffmpeg_out evs = concat (map (\<lambda>ev. case ev of FfmpegOut chunk \<Rightarrow> [chunk] | _ \<Rightarrow> []) evs)"

definition framed :: "cap_event list \<Rightarrow> cap \<Rightarrow> bool" where
  "framed evs c =
     (stdoutChunks c = ffmpeg_out evs \<and> (\<forall>u. timeout c \<noteq> Resolved u) \<and>
      (\<forall>b. ffmpegOutcome c = Resolved b \<longrightarrow> b = concat (ffmpeg_out evs) \<and> ffmpeg_out evs \<noteq> [] \<and> ff_closed c) \<and>
      (\<forall>b. at c = Settled (Inr b) \<longrightarrow> ffmpegOutcome c = Resolved b) \<and>
      (ff_closed c \<longrightarrow> (\<exists>code. FfmpegClose code \<in> set evs)))"

lemma resume_frame:
  assumes "at (resume c) = Settled (Inr b)" "\<forall>u. timeout c \<noteq> Resolved u" "\<forall>b. at c \<noteq> Settled (Inr b)"
  shows "ffmpegOutcome c = Resolved b"
proof -
  have frame: "ffmpegOutcome c = Resolved b" if "at (await_frame c) = Settled (Inr b)"
    using that assms(2) by (cases "timeout c") (auto simp: await_frame_def finish_def split: js_promise.splits if_splits)
  show ?thesis
  proof (cases "at c")
    case Opening
    then show ?thesis using assms(1)
      by (cases "race [opened c, map_js_promise (\<lambda>_. ()) (ffmpegOutcome c), timeout c]")
        (simp_all add: resume_def finish_def act_def del: race.simps)
  next
    case Answering
    then show ?thesis using assms(1) frame
      by (cases "race [remoteAnswered c, map_js_promise (\<lambda>_. ()) (ffmpegOutcome c), timeout c]")
        (simp_all add: resume_def finish_def act_def del: race.simps)
  qed (use assms frame in \<open>simp_all add: resume_def\<close>)
qed

lemma framed_resume:
  assumes "framed evs c"
  shows "framed evs (resume c)"
proof -
  have "ffmpegOutcome c = Resolved b" if "at (resume c) = Settled (Inr b)" for b
  proof (cases "settled c")
    case True
    then have "resume c = c" by (auto simp: settled_iff)
    with that assms show ?thesis by (simp add: framed_def)
  next
    case False
    then have "\<forall>b. at c \<noteq> Settled (Inr b)" by (auto simp: settled_def)
    with that assms show ?thesis by (intro resume_frame) (simp_all add: framed_def)
  qed
  with assms show ?thesis by (simp add: framed_def)
qed

lemma framed_quiet:
  assumes "framed evs c" "ffmpeg_out [ev] = []" "stdoutChunks c' = stdoutChunks c" "ff_closed c' = ff_closed c"
    and "timeout c' = timeout c \<or> (\<exists>e. timeout c' = Rejected e)"
    and "ffmpegOutcome c' = ffmpegOutcome c \<or> (\<exists>e. ffmpegOutcome c' = Rejected e) \<and> ffmpegOutcome c = Pending"
    and "at c' = at c \<or> (\<forall>b. at c' \<noteq> Settled (Inr b))"
  shows "framed (evs @ [ev]) c'"
proof -
  have out: "ffmpeg_out (evs @ [ev]) = ffmpeg_out evs" using assms(2) by (simp add: ffmpeg_out_def)
  have f: "stdoutChunks c = ffmpeg_out evs" "\<forall>u. timeout c \<noteq> Resolved u" "ff_closed c \<longrightarrow> (\<exists>code. FfmpegClose code \<in> set evs)"
    "\<forall>b. ffmpegOutcome c = Resolved b \<longrightarrow> b = concat (ffmpeg_out evs) \<and> ffmpeg_out evs \<noteq> [] \<and> ff_closed c"
    "\<forall>b. at c = Settled (Inr b) \<longrightarrow> ffmpegOutcome c = Resolved b"
    using assms(1) by (simp_all add: framed_def)
  have "\<forall>u. timeout c' \<noteq> Resolved u" using f(2) assms(5) by auto
  moreover have "\<forall>b. ffmpegOutcome c' = Resolved b \<longrightarrow> b = concat (ffmpeg_out evs) \<and> ffmpeg_out evs \<noteq> [] \<and> ff_closed c'"
    using f(4) assms(4,6) by auto
  moreover have "\<forall>b. at c' = Settled (Inr b) \<longrightarrow> ffmpegOutcome c' = Resolved b" using f(5) assms(6,7) by auto
  moreover have "ff_closed c' \<longrightarrow> (\<exists>code. FfmpegClose code \<in> set (evs @ [ev]))" using f(3) assms(4) by auto
  ultimately show ?thesis using f(1) assms(3) by (simp add: framed_def out)
qed

lemma framed_step:
  assumes "framed evs c" "cap_step E ev c = Some c'"
  shows "framed (evs @ [ev]) c'"
proof -
  note q = framed_quiet [OF assms(1)] and r = framed_resume
  show ?thesis
  proof (cases ev)
    case (FfmpegOut chunk)
    with assms show ?thesis by (auto simp: cap_step_def framed_def ffmpeg_out_def split: if_splits)
  next
    case (FfmpegClose code)
    let ?c = "c\<lparr>ff_closed := True\<rparr>"
    have out: "ffmpeg_out (evs @ [ev]) = ffmpeg_out evs" by (simp add: ffmpeg_out_def FfmpegClose)
    have "framed (evs @ [ev]) (?c\<lparr>ffmpegOutcome := resolve_with (concat (stdoutChunks c)) (ffmpegOutcome c)\<rparr>)" if "stdoutChunks c \<noteq> []"
      using assms(1) that FfmpegClose unfolding framed_def out by (auto simp: resolve_with_def)
    moreover have "framed (evs @ [ev]) (reject_ffmpeg err ?c)" for err
      using assms(1) FfmpegClose unfolding framed_def out by (auto simp: reject_ffmpeg_def reject_with_def)
    ultimately show ?thesis using assms(2) FfmpegClose
      by (auto simp: cap_step_def on_ffmpeg_close_def Let_def intro!: r split: if_splits)
  next
    case (PortPicked port path)
    with assms show ?thesis
      by (auto simp: cap_step_def after_port_def act_def finish_def ffmpeg_out_def Let_def intro!: q split: if_splits option.splits)
  next
    case (LocalSet sdp)
    with assms show ?thesis
      by (auto simp: cap_step_def after_description_def send_signal_def act_def ffmpeg_out_def intro!: r q split: if_splits option.splits)
  next
    case (WsMessage raw)
    with assms show ?thesis
      by (auto simp: cap_step_def on_signal_def act_def ffmpeg_out_def intro!: q split: if_splits option.splits)
  qed (use assms(2) in \<open>auto simp: cap_step_def on_ffmpeg_error_def on_ws_error_def on_signaling_close_def on_candidate_def on_rtp_def
      reject_ffmpeg_def reject_answer_def reject_with_def send_signal_def act_def finish_def ffmpeg_out_def Let_def
      intro!: r q split: if_splits option.splits cap_loc.splits\<close>)
qed

lemma framed_run: "cap_run E evs = Some c \<Longrightarrow> framed evs c"
proof (induction evs arbitrary: c rule: rev_induct)
  case Nil
  then show ?case by (auto simp: cap_init_def framed_def ffmpeg_out_def)
next
  case (snoc ev evs)
  then obtain c1 where "cap_run E evs = Some c1" "cap_step E ev c1 = Some c" by (auto simp: run_append split: option.splits)
  with snoc.IH show ?case by (blast intro: framed_step)
qed

text \<open>
  A result is FFmpeg's output. When the capture resolves, its value is everything that FFmpeg wrote to
  its output, in order, which is not nothing, and FFmpeg has ended.
\<close>

theorem capture_returns_output:
  assumes "cap_run E evs = Some c" "at c = Settled (Inr buffer)"
  shows "buffer = concat (ffmpeg_out evs) \<and> ffmpeg_out evs \<noteq> [] \<and> (\<exists>code. FfmpegClose code \<in> set evs)"
  using framed_run [OF assms(1)] assms(2) by (auto simp: framed_def)

section \<open>A negotiation that succeeds\<close>

lemma run_output:
  assumes "spawned c" "\<not> ff_closed c"
  shows "run (cap_step E) (map FfmpegOut bs) c = Some (c\<lparr>stdoutChunks := stdoutChunks c @ bs\<rparr>)"
  using assms by (induction bs arbitrary: c) (simp_all add: cap_step_def)

definition negotiation :: "int \<Rightarrow> string \<Rightarrow> string \<Rightarrow> string \<Rightarrow> cap_event list" where
  "negotiation port path sdp raw = [PortPicked port path, WsOpen, OfferMade, LocalSet sdp, WsMessage raw, RemoteSet]"

definition negotiated :: "cap_env \<Rightarrow> int \<Rightarrow> string \<Rightarrow> string \<Rightarrow> jsval \<Rightarrow> cap" where
  "negotiated E port path sdp answer = cap_init\<lparr>at := Framing, sdpPath := path, rtpPort := port, spawned := True, peer := True,
     socket := Some OPEN, remoteAnswered := Resolved (), opened := Resolved (), ff_raced := True, answer_raced := True,
     ff_listens := True, ws_listens := True, timer_on := True, candidates_on := True,
     acts := [PickPort, WriteSdp path (sdp_text port), SpawnFfmpeg (ffmpegPath E) (ffmpeg_args path), OpenUdp,
       NewPeer (iceServers E) H264_CODECS, ConnectSignaling (signalingUrl E), StartTimer (timer_delay (Some (timeoutMs E))),
       CreateOffer, SetLocal,
       SendSignal (signal_text ''SDP_OFFER'' [(''type'', JStr ''offer''), (''sdp'', JStr sdp)] ''MASTER''), SetRemote answer]\<rparr>"

lemma run_negotiation:
  assumes "peer_fails E (iceServers E) = None" "socket_fails E (signalingUrl E) = None"
    and "parseSignalMessage raw = Some (JStr ''SDP_ANSWER'', answer)"
  shows "cap_run E (negotiation port path sdp raw) = Some (negotiated E port path sdp answer)"
  using assms
  by (simp add: negotiation_def negotiated_def cap_step_def after_port_def cap_init_def act_def Let_def resume_def resolve_with_def
      after_description_def send_signal_def sendSignal_def on_signal_def await_frame_def)

text \<open>
  C37. A capture that succeeds. When the signaling socket opens and the camera's answer comes, the capture
  sends one message, which the other side reads as the offer of the peer connection, hands the answer
  to the peer connection, and resolves with what FFmpeg writes when FFmpeg ends; no error is left over.
\<close>

theorem capture_negotiates:
  assumes "peer_fails E (iceServers E) = None" "socket_fails E (signalingUrl E) = None"
    and "parseSignalMessage raw = Some (JStr ''SDP_ANSWER'', answer)" "bs \<noteq> []"
  shows "\<exists>c offer. cap_run E (negotiation port path sdp raw @ map FfmpegOut bs @ [FfmpegClose code]) = Some c \<and>
    at c = Settled (Inr (concat bs)) \<and> uncaught c = [] \<and>
    [m. SendSignal m \<leftarrow> acts c] = [offer] \<and> [v. SetRemote v \<leftarrow> acts c] = [answer] \<and>
    parseSignalMessage offer = Some (JStr ''SDP_OFFER'', JObj [(''type'', JStr ''offer''), (''sdp'', JStr sdp)])"
proof -
  let ?n = "negotiated E port path sdp answer" and ?p = "[(''type'', JStr ''offer''), (''sdp'', JStr sdp)]"
  have n: "spawned ?n" "\<not> ff_closed ?n" "stdoutChunks ?n = []" "ffmpegOutcome ?n = Pending" "at ?n = Framing"
    "timeout ?n = Pending" "uncaught ?n = []"
    by (simp_all add: negotiated_def cap_init_def)
  let ?c = "finish (Inr (concat bs)) (?n\<lparr>stdoutChunks := bs, ff_closed := True, ffmpegOutcome := Resolved (concat bs)\<rparr>)"
  have "cap_run E (negotiation port path sdp raw @ map FfmpegOut bs @ [FfmpegClose code]) = Some ?c"
    using run_negotiation [OF assms(1-3)] run_output [OF n(1,2)] n assms(4)
    by (simp add: run_append cap_step_def on_ffmpeg_close_def resolve_with_def resume_def await_frame_def)
  moreover have "[m. SendSignal m \<leftarrow> acts ?c] = [signal_text ''SDP_OFFER'' ?p ''MASTER'']" "[v. SetRemote v \<leftarrow> acts ?c] = [answer]"
    by (simp_all add: finish_def negotiated_def cleanup_acts_def)
  moreover have "parseSignalMessage (signal_text ''SDP_OFFER'' ?p ''MASTER'') = Some (JStr ''SDP_OFFER'', JObj ?p)"
    by (rule signal_roundtrip) simp_all
  ultimately show ?thesis using n(7) by (auto simp: finish_def)
qed

lemma capture_returns_output_witness:
  "\<exists>c. cap_run demo_cap [PortPicked 5004 ''a.sdp'', FfmpegOut [255], FfmpegOut [216], FfmpegClose (Some 0),
      OfferMade, LocalSet ''v=0''] = Some c \<and> at c = Settled (Inr [255, 216])"
proof -
  let ?evs = "[PortPicked 5004 ''a.sdp'', FfmpegOut [255], FfmpegOut [216], FfmpegClose (Some 0), OfferMade, LocalSet ''v=0'']"
  obtain c where c: "cap_run demo_cap ?evs = Some c" "at c = Settled (Inr [255, 216])"
    by (simp add: cap_step_def after_port_def demo_cap_def cap_init_def act_def Let_def resume_def resolve_with_def finish_def
        on_ffmpeg_close_def after_description_def send_signal_def sendSignal_def await_frame_def)
  have "[255, 216] = concat (ffmpeg_out ?evs)" using capture_returns_output [OF c] by blast
  with c show ?thesis by blast
qed

lemma capture_negotiates_witness:
  "\<exists>c offer. cap_run demo_cap (negotiation 5004 ''a.sdp'' ''v=0'' (signal_text ''SDP_ANSWER'' [(''sdp'', JStr ''v=1'')] ''c'')
      @ map FfmpegOut [[255], [216]] @ [FfmpegClose (Some 0)]) = Some c \<and> at c = Settled (Inr [255, 216]) \<and>
    parseSignalMessage offer = Some (JStr ''SDP_OFFER'', JObj [(''type'', JStr ''offer''), (''sdp'', JStr ''v=0'')])"
proof -
  have "parseSignalMessage (signal_text ''SDP_ANSWER'' [(''sdp'', JStr ''v=1'')] ''c'')
      = Some (JStr ''SDP_ANSWER'', JObj [(''sdp'', JStr ''v=1'')])"
    by (rule signal_roundtrip) simp_all
  from capture_negotiates [OF _ _ this, of demo_cap "[[255], [216]]" 5004 "''a.sdp''" "''v=0''" "Some 0"]
  show ?thesis by (auto simp: demo_cap_def)
qed

section \<open>A signaling socket that never opens\<close>

text \<open>The events that are neither the signaling socket's nor output of FFmpeg.\<close>

definition unsignaled :: "cap_event \<Rightarrow> bool" where
  "unsignaled ev = (case ev of WsOpen \<Rightarrow> False | WsMessage _ \<Rightarrow> False | WsError _ \<Rightarrow> False | WsClose _ \<Rightarrow> False
     | FfmpegOut _ \<Rightarrow> False | _ \<Rightarrow> True)"

definition unopened :: "cap \<Rightarrow> bool" where
  "unopened c =
     ((at c = Opening \<or> settled c) \<and> socket c \<in> {Some CONNECTING, Some CLOSING} \<and> ws_listens c \<and> applying c = 0 \<and> adding c = 0 \<and>
      remoteAnswered c = Pending \<and> \<not> answer_raced c \<and> opened c = Pending \<and> stdoutChunks c = [] \<and>
      (\<forall>b. ffmpegOutcome c \<noteq> Resolved b) \<and> (\<forall>u. timeout c \<noteq> Resolved u))"

lemma unopened_resume:
  assumes "unopened c"
  shows "unopened (resume c)"
proof -
  have no: "(\<forall>b. ffmpegOutcome c \<noteq> Resolved b) \<and> (\<forall>u. timeout c \<noteq> Resolved u)" using assms by (simp add: unopened_def)
  have r: "race [opened c, map_js_promise (\<lambda>_. ()) (ffmpegOutcome c), timeout c] \<noteq> Resolved u" for u
    using assms no by (cases "ffmpegOutcome c") (auto simp: unopened_def)
  have "resume c = c \<or> (\<exists>e. resume c = finish (Inl e) c)"
    using assms r by (auto simp: resume_def unopened_def settled_iff simp del: race.simps split: cap_loc.split js_promise.split)
  then show ?thesis using assms by (auto simp: unopened_def finish_def settled_def ws_close_def)
qed

lemma unopened_step:
  assumes "unopened c" "unsignaled ev" "cap_step E ev c = Some c'"
  shows "unopened c'"
proof -
  have res: "unopened (resume d)" if "unopened d" for d using that by (rule unopened_resume)
  have at: "at c \<noteq> Picking" "at c \<noteq> Offering" "at c \<noteq> Describing" "at c \<noteq> Answering" "at c \<noteq> Framing"
    using assms(1) by (auto simp: unopened_def settled_def)
  have frozen: "unopened d" if "at d = at c" "socket d = socket c" "ws_listens d = ws_listens c" "applying d = applying c"
    "adding d = adding c" "remoteAnswered d = remoteAnswered c" "answer_raced d = answer_raced c" "opened d = opened c"
    "stdoutChunks d = stdoutChunks c" "\<forall>b. ffmpegOutcome d \<noteq> Resolved b" "\<forall>u. timeout d \<noteq> Resolved u" for d
    using assms(1) that by (auto simp: unopened_def settled_def)
  have c: "stdoutChunks c = []" "\<forall>b. ffmpegOutcome c \<noteq> Resolved b" "\<forall>u. timeout c \<noteq> Resolved u" "applying c = 0" "adding c = 0"
    "socket c \<noteq> Some OPEN"
    using assms(1) by (auto simp: unopened_def)
  then show ?thesis using assms(2,3) at
    by (cases ev) (auto simp: cap_step_def unsignaled_def on_ffmpeg_error_def on_ffmpeg_close_def reject_ffmpeg_def reject_with_def
        on_candidate_def on_rtp_def send_signal_def sendSignal_def act_def Let_def
        intro!: res frozen split: if_splits cap_loc.splits)
qed

lemma unopened_run: "unopened c \<Longrightarrow> list_all unsignaled evs \<Longrightarrow> run (cap_step E) evs c = Some c' \<Longrightarrow> unopened c'"
  by (induction evs arbitrary: c) (auto split: option.splits dest: unopened_step)

text \<open>
  C38. An error that nobody awaits. When the first event of the signaling socket is an error and FFmpeg has
  written nothing, whatever else has happened before (the timer, whose clean-up aborts the connection,
  included), the capture is rejected, and the same error also rejects the promise of the camera's answer,
  for which nobody waits: it reaches the process as an unhandled rejection.
\<close>

theorem signaling_error_unhandled:
  assumes "peer_fails E (iceServers E) = None" "socket_fails E (signalingUrl E) = None" "list_all unsignaled evs"
    and "cap_run E (PortPicked port path # evs @ [WsError msg]) = Some c"
  shows "(\<exists>err. at c = Settled (Inl err)) \<and> UnhandledRejection (Passed msg) \<in> set (uncaught c)"
proof -
  let ?c0 = "after_port E port path cap_init"
  have c0: "unopened ?c0" using assms(1,2) by (simp add: after_port_def cap_init_def act_def unopened_def Let_def)
  have "cap_step E (PortPicked port path) cap_init = Some ?c0" by (simp add: cap_step_def cap_init_def)
  then obtain c1 where c1: "run (cap_step E) evs ?c0 = Some c1" "c = on_ws_error msg c1"
    using assms(4) by (auto simp: run_append cap_step_def split: option.splits if_splits)
  have u: "unopened c1" using unopened_run [OF c0 assms(3) c1(1)] .
  have "cap_run E (PortPicked port path # evs) = Some c1" using c1(1) by (simp add: cap_step_def cap_init_def)
  then have "framed (PortPicked port path # evs) c1" by (rule framed_run)
  then have "\<not> (\<exists>b. at c1 = Settled (Inr b))" using u by (auto simp: framed_def unopened_def)
  with u have "at c1 = Opening \<or> (\<exists>err. at c1 = Settled (Inl err))"
    unfolding unopened_def settled_iff by (metis sum.exhaust)
  then show ?thesis using u
    by (auto simp: c1(2) on_ws_error_def unopened_def reject_answer_def reject_with_def resume_def finish_def Let_def)
qed

lemma signaling_error_unhandled_witness:
  "\<exists>c. cap_run demo_cap [PortPicked 5004 ''a.sdp'', Timeout, WsError ''closed before the connection was established''] = Some c \<and>
    uncaught c \<noteq> []"
proof -
  obtain c where "cap_run demo_cap (PortPicked 5004 ''a.sdp'' # [Timeout] @ [WsError ''closed before the connection was established'']) = Some c"
    by (simp add: cap_step_def after_port_def demo_cap_def cap_init_def act_def Let_def resume_def reject_with_def finish_def
        ws_close_def)
  from this signaling_error_unhandled [OF _ _ _ this] show ?thesis by (auto simp: demo_cap_def unsignaled_def)
qed

end
