(* ===== verification/SnapshotFlow.thy ===== *)
theory SnapshotFlow
  imports CaptureProps CacheProps Dashboard
begin

text \<open>
  Snapshots from the dashboard to FFmpeg: the route \<open>/api/snapshot\<close> of \<open>src/cam-frontend/server.js\<close> over
  \<open>getCameraSnapshotImage\<close> and \<open>cameraCaptureSnapshot\<close> of \<open>src/src/index.js\<close>, with the machine of \<open>Capture\<close> as the
  capture. The invariant \<open>fresh_frames\<close> says what the cache of captured frames holds; it is an
  interpretation of \<open>session_preorder\<close>, so that every method of the client keeps it.
\<close>

section \<open>The capture as a call\<close>

text \<open>
  What is outside a capture: the events that it meets, the time it takes, and the text of error output of
  FFmpeg that is not UTF-8. A capture that is not settled by its events never returns; the errors that
  nobody awaits are added to those of the process.
\<close>

record capture_world =
  meets :: "string \<Rightarrow> jsval \<Rightarrow> int \<Rightarrow> st \<Rightarrow> cap_event list"
  took :: "string \<Rightarrow> jsval \<Rightarrow> int \<Rightarrow> st \<Rightarrow> nat"
  garbled :: "cap_error \<Rightarrow> string"
  ffmpeg_found :: string
  peer_throws :: "jsval \<Rightarrow> string option"
  socket_throws :: "string \<Rightarrow> string option"

definition capture_env :: "capture_world \<Rightarrow> string \<Rightarrow> jsval \<Rightarrow> int \<Rightarrow> cap_env" where
  "capture_env W url ice ms = \<lparr>signalingUrl = url, iceServers = ice, timeoutMs = ms, ffmpegPath = ffmpeg_found W,
     peer_fails = peer_throws W, socket_fails = socket_throws W\<rparr>"

definition capture_exn :: "capture_world \<Rightarrow> cap_error \<Rightarrow> exn" where
  "capture_exn W err = Error (case cap_message (ffmpeg_found W) err of Some m \<Rightarrow> m | None \<Rightarrow> garbled W err)"

definition crash_exn :: "capture_world \<Rightarrow> crash \<Rightarrow> exn" where
  "crash_exn W cr = (case cr of UnhandledRejection err \<Rightarrow> capture_exn W err | UncaughtError msg \<Rightarrow> Error msg)"

definition capture_call :: "capture_world \<Rightarrow> jsval \<Rightarrow> jsval \<Rightarrow> int \<Rightarrow> bytes m" where
  "capture_call W url ice ms s =
     (let u = js_string url in
      case cap_run (capture_env W u ice ms) (meets W u ice ms s) of
        None \<Rightarrow> None
      | Some c \<Rightarrow>
          let s' = s\<lparr>now := now s + int (took W u ice ms s), unhandled := unhandled s @ map (crash_exn W) (uncaught c)\<rparr> in
          (case at c of
             Settled (Inr buffer) \<Rightarrow> Some (Inr buffer, s')
           | Settled (Inl err) \<Rightarrow> Some (Inl (capture_exn W err), s')
           | _ \<Rightarrow> None))"

section \<open>Frames of a camera\<close>

definition live_opts :: conn_options where
  "live_opts = default_conn_options\<lparr>o_noCache := JBool True, o_includeClientId := JBool False\<rparr>"

text \<open>
  \<open>b\<close> is a frame of the camera \<open>mac\<close> that was ready at time \<open>t\<close>: all that FFmpeg wrote, and not nothing, in a
  capture over a connection that was just requested for this camera.
\<close>

definition frame_of :: "env \<Rightarrow> capture_world \<Rightarrow> jsval \<Rightarrow> bytes \<Rightarrow> int \<Rightarrow> bool" where
  "frame_of E W mac b t = (\<exists>model s0 conn s1 url ice ms.
     getCameraWebRTCConnectionInfo E mac model live_opts s0 = Some (Inr conn, s1) \<and>
     url = js_string (oget conn ''signalingUrl'') \<and> ice = oget conn ''iceServers'' \<and>
     b = concat (ffmpeg_out (meets W url ice ms s1)) \<and> ffmpeg_out (meets W url ice ms s1) \<noteq> [] \<and>
     t = now s1 + int (took W url ice ms s1))"

definition fresh_frames :: "env \<Rightarrow> capture_world \<Rightarrow> st \<Rightarrow> bool" where
  "fresh_frames E W s = (\<forall>mp mac b expiresAt. capture_cache s = Some mp \<longrightarrow> mp mac = Some (b, expiresAt) \<longrightarrow>
     frame_of E W mac b (expiresAt - 10000) \<and> expiresAt - 10000 \<le> now s)"

definition keeps_frames :: "env \<Rightarrow> capture_world \<Rightarrow> st \<Rightarrow> st \<Rightarrow> bool" where
  "keeps_frames E W s s' =
     ((\<forall>t. fresh_frames E W t \<longrightarrow> fresh_frames E W (others E t)) \<longrightarrow> fresh_frames E W s \<longrightarrow> fresh_frames E W s')"

lemma fresh_later: "fresh_frames E W s \<Longrightarrow> capture_cache s' = capture_cache s \<Longrightarrow> now s \<le> now s' \<Longrightarrow> fresh_frames E W s'"
  by (fastforce simp: fresh_frames_def)

lemma keeps_later: "capture_cache s' = capture_cache s \<Longrightarrow> now s \<le> now s' \<Longrightarrow> keeps_frames E W s s'"
  by (auto simp: keeps_frames_def intro: fresh_later)

interpretation frames: session_preorder "keeps_frames E W" "\<lambda>_. True" E for E W
  by unfold_locales
    (auto simp: keeps_frames_def resetDebounceIfNeeded_def bumpDebounce_def Let_def intro: fresh_later)

section \<open>Every step keeps the cache\<close>

lemmas frame_rules = frames.rel_rules frames.rel_maybeLogin frames.rel_sleepMilli frames.rel_api_call

lemma frames_getCamera: "relates (keeps_frames E W) (getCamera E mac)"
proof -
  have "relates (keeps_frames E W) (request E u d)" for u d
    unfolding request_def handleRequest_def handleRetry_def by (auto intro!: frame_rules split: option.split)
  then show ?thesis
    unfolding getCamera_def getCameras_def getDevicesByType_def getDeviceList_def getObjectListSafe_def getObjectList_def
    by (intro frame_rules)
qed

lemma frames_stream_answer: "relates (keeps_frames E W) (stream_answer E r)"
  unfolding stream_answer_def Let_def by (intro frame_rules frames.rel_tokenError frames.rel_refresh)

lemma frames_stream: "relates (keeps_frames E W) (cameraGetStreamInfo E mac model sub)"
  unfolding cameraGetStreamInfo_def axios_post_def Let_def
  by (intro frame_rules frames.rel_checkRate frames_stream_answer frames.rel_send TrueI)

lemma frames_client_id: "relates (keeps_frames E W) (createCameraStreamClientId E d p)"
proof (rule relatesI)
  fix s r s' assume "createCameraStreamClientId E d p s = Some (r, s')"
  then obtain n where "s' = s\<lparr>rand_calls := n\<rparr>" by (blast dest: client_id_effect)
  then show "keeps_frames E W s s'" by (simp add: keeps_later)
qed

lemma frames_connection: "relates (keeps_frames E W) (getCameraWebRTCConnectionInfo E mac model opts)"
proof -
  have "relates (keeps_frames E W) (conn_finish E mac model opts bc)" for bc
    by (cases bc) (auto simp: conn_finish_def Let_def intro!: frame_rules frames_client_id)
  then show ?thesis
    unfolding conn_info_unfold Let_def
    by (intro frame_rules frames.rel_modS frames_stream)
      (auto split: option.split intro!: frame_rules frames_stream frames.rel_modS keeps_later simp: stream_put_def)
qed

section \<open>What a capture returns\<close>

lemma capture_call_frame:
  assumes "capture_call W url ice ms s = Some (Inr b, s')"
  shows "b = concat (ffmpeg_out (meets W (js_string url) ice ms s))" "ffmpeg_out (meets W (js_string url) ice ms s) \<noteq> []"
    "now s' = now s + int (took W (js_string url) ice ms s)"
proof -
  let ?evs = "meets W (js_string url) ice ms s" and ?E = "capture_env W (js_string url) ice ms"
  obtain c where c: "cap_run ?E ?evs = Some c" "at c = Settled (Inr b)"
    "now s' = now s + int (took W (js_string url) ice ms s)"
    using assms by (auto simp: capture_call_def Let_def split: option.splits cap_loc.splits sum.splits)
  with framed_run [OF c(1)] show "b = concat (ffmpeg_out ?evs)" "ffmpeg_out ?evs \<noteq> []"
    "now s' = now s + int (took W (js_string url) ice ms s)"
    by (auto simp: framed_def)
qed

lemma frames_capture: "relates (keeps_frames E W) (capture_call W url ice ms)"
  by (rule relatesI)
    (auto simp: capture_call_def Let_def intro!: keeps_later split: option.splits cap_loc.splits sum.splits)

lemma fresh_store:
  assumes "fresh_frames E W s" "frame_of E W mac b (now s)"
  shows "fresh_frames E W (s\<lparr>capture_cache := cache_store (capture_cache s) (now s) mac b 10000\<rparr>)"
  using assms by (auto simp: fresh_frames_def cache_store_def split: if_splits)

text \<open>A snapshot is in the cache and not over, or it was captured now.\<close>

lemma cameraCaptureSnapshot_frame:
  assumes others: "\<forall>t. fresh_frames E W t \<longrightarrow> fresh_frames E W (others E t)" and "fresh_frames E W s"
    and call: "cameraCaptureSnapshot E (capture_call W) mac model ms (JBool False) 10000 s = Some (r, s')"
  shows "fresh_frames E W s' \<and>
    (\<forall>b. r = Inr b \<longrightarrow> (\<exists>t. frame_of E W mac b t \<and> t \<le> now s' \<and> now s' < t + 10000))"
proof -
  let ?s = "s\<lparr>capture_cache := ensure_cache (capture_cache s)\<rparr>"
  have fresh: "fresh_frames E W ?s"
    using assms(2) by (auto simp: fresh_frames_def ensure_cache_def split: option.splits)
  note keep = frames_connection [THEN relatesD] frames_capture [THEN relatesD]
  show ?thesis
  proof (cases "capture_get ?s mac")
    case (Some b)
    then have "r = Inr b" "s' = ?s"
      using call by (auto simp: cameraCaptureSnapshot_def capture_get_def bindE_def)
    with Some fresh show ?thesis
      by (fastforce simp: capture_get_def cache_lookup_def fresh_frames_def split: option.splits if_splits)
  next
    case None
    then have call': "bindE (getCameraWebRTCConnectionInfo E mac model live_opts) (\<lambda>conn.
        bindE (capture_call W (oget conn ''signalingUrl'') (oget conn ''iceServers'') ms) (\<lambda>buffer.
        seqE (modS (\<lambda>s. s\<lparr>capture_cache := cache_store (capture_cache s) (now s) mac buffer 10000\<rparr>))
          (ret buffer))) ?s = Some (r, s')"
      using call by (simp add: cameraCaptureSnapshot_def capture_get_def live_opts_def bindE_def whenE_def)
    from call' show ?thesis
    proof (cases rule: bindE_cases)
      case conn: (returned conn s1)
      then have k1: "fresh_frames E W s1" using keep(1) others fresh by (auto simp: keeps_frames_def)
      from conn(2) show ?thesis
      proof (cases rule: bindE_cases)
        case (returned b s2)
        have k2: "fresh_frames E W s2" using keep(2) [OF returned(1)] others k1 by (auto simp: keeps_frames_def)
        have f: "frame_of E W mac b (now s2)"
          unfolding frame_of_def using conn(1) capture_call_frame [OF returned(1)] by blast
        have "r = Inr b" "s' = s2\<lparr>capture_cache := cache_store (capture_cache s2) (now s2) mac b 10000\<rparr>"
          using returned(2) by (simp_all add: seqE_def bindE_def)
        with fresh_store [OF k2 f] f show ?thesis by (auto intro!: exI [of _ "now s2"])
      qed (use keep(2) others k1 in \<open>auto simp: keeps_frames_def\<close>)
    qed (use keep(1) others fresh in \<open>auto simp: keeps_frames_def\<close>)
  qed
qed

section \<open>The route\<close>

definition recent :: "env \<Rightarrow> capture_world \<Rightarrow> jsval \<Rightarrow> bytes \<Rightarrow> st \<Rightarrow> bool" where
  "recent E W mac b s = (\<exists>t. frame_of E W mac b t \<and> t \<le> now s \<and> now s < t + 10000)"

lemma keeps_hoare:
  assumes "relates (keeps_frames E W) m" "\<forall>t. fresh_frames E W t \<longrightarrow> fresh_frames E W (others E t)"
  shows "hoare (fresh_frames E W) m (\<lambda>_. fresh_frames E W) (\<lambda>_. fresh_frames E W)"
  using assms by (auto intro!: hoareI simp: keeps_frames_def dest: relatesD)

lemma getCamera_mac:
  assumes "getCamera E mac s = Some (Inr camera, s')" "truthy camera"
  shows "own_prop camera ''mac'' = mac"
proof -
  obtain c where "find_device (same_mac mac) c = Inr camera"
    using assms(1) by (auto simp: getCamera_def liftE_def elim!: bindE_cases)
  then have "same_mac mac camera = Inr True"
    using assms(2) by (auto simp: find_device_def bindR_def split: sum.splits dest!: find_js_Some)
  then show ?thesis
    by (auto simp: same_mac_def bindR_def get_prop_def lift_msg_def js_prop_def split: sum.splits if_splits)
qed

lemma getCamera_triple:
  assumes "\<forall>t. fresh_frames E W t \<longrightarrow> fresh_frames E W (others E t)"
  shows "hoare (fresh_frames E W) (getCamera E mac)
    (\<lambda>camera s. fresh_frames E W s \<and> (truthy camera \<longrightarrow> own_prop camera ''mac'' = mac)) (\<lambda>_. fresh_frames E W)"
proof -
  note k = keeps_hoare [OF frames_getCamera assms, of mac]
  show ?thesis by (rule hoareI) (auto dest: getCamera_mac hoareD_value [OF k] hoareD_throw [OF k])
qed

lemma image_triple:
  assumes others: "\<forall>t. fresh_frames E W t \<longrightarrow> fresh_frames E W (others E t)"
  shows "hoare (fresh_frames E W) (getCameraSnapshotImage E (capture_call W) mac skip 20000 (JBool False) 10000)
    (\<lambda>(b, src) s. fresh_frames E W s \<and> (src = Capture \<longrightarrow> recent E W mac b s)) (\<lambda>_. fresh_frames E W)"
    (is "hoare ?I _ ?Q ?X")
proof -
  note keep = keeps_hoare [OF _ others]
  have snap: "hoare ?I (cameraCaptureSnapshot E (capture_call W) mac model 20000 (JBool False) 10000)
      (\<lambda>b s. ?I s \<and> recent E W mac b s) ?X" for model
    by (rule hoareI; drule (1) cameraCaptureSnapshot_frame [OF others]) (simp_all add: recent_def)
  have take: "hoare ?I (bindE (cameraCaptureSnapshot E (capture_call W) mac model 20000 (JBool False) 10000)
      (\<lambda>b. ret (b, Capture))) ?Q ?X" for model
    by (rule hoare_bindE [OF snap]) (simp add: hoare_def)
  have live: "hoare ?I (bindE (getCamera E mac) (\<lambda>camera.
      if \<not> truthy camera then throw (Error (''Camera not found: '' @ js_string mac))
      else bindE (cameraCaptureSnapshot E (capture_call W) (own_prop camera ''mac'') (own_prop camera ''product_model'')
             20000 (JBool False) 10000) (\<lambda>buffer. ret (buffer, Capture)))) ?Q ?X" (is "hoare _ ?live _ _")
  proof (rule hoare_bindE [OF getCamera_triple [OF others]])
    fix camera
    show "hoare (\<lambda>s. ?I s \<and> (truthy camera \<longrightarrow> own_prop camera ''mac'' = mac))
        (if \<not> truthy camera then throw (Error (''Camera not found: '' @ js_string mac))
         else bindE (cameraCaptureSnapshot E (capture_call W) (own_prop camera ''mac'') (own_prop camera ''product_model'')
                20000 (JBool False) 10000) (\<lambda>buffer. ret (buffer, Capture))) ?Q ?X"
    proof (cases "truthy camera \<and> own_prop camera ''mac'' = mac")
      case True
      with take show ?thesis by simp
    qed (auto simp: hoare_def throw_def)
  qed
  have cloud: "relates (keeps_frames E W) (getCameraSnapshot E mac)"
    unfolding getCameraSnapshot_def by (intro frame_rules frames_getCamera)
  have download: "relates (keeps_frames E W) (catchE (bindE (axios_get E u [] [])
      (\<lambda>resp. ret (Some (buffer_from (resp_data resp))))) (\<lambda>_. ret None))" for u
    unfolding axios_get_def by (intro frame_rules frames.rel_send TrueI)
  have download': "hoare ?I (bindE (catchE (bindE (axios_get E u [] [])
        (\<lambda>resp. ret (Some (buffer_from (resp_data resp))))) (\<lambda>_. ret None)) (\<lambda>got.
      case got of Some buffer \<Rightarrow> ret (buffer, Cloud) | None \<Rightarrow> ?live)) ?Q ?X" for u
    by (rule hoare_bindE [OF keep [OF download]]) (use live in \<open>auto simp: hoare_def split: option.split\<close>)
  show ?thesis
    unfolding getCameraSnapshotImage_def Let_def
    using live by (auto intro!: hoare_bindE [OF keep [OF cloud]] download')
qed


section \<open>An example\<close>

definition snap_camera :: jsval where
  "snap_camera = demo_device ''a'' ''Camera''"

definition snap_server :: "nat \<Rightarrow> http_request \<Rightarrow> exn + http_response" where
  "snap_server i q = (if i < 2 then Inr (ok_body (list_body [snap_camera])) else stream_server i q)"

definition snap_world :: capture_world where
  "snap_world = \<lparr>meets = (\<lambda>_ _ _ _. [PortPicked 5004 ''a.sdp'', FfmpegOut [255], FfmpegOut [216], FfmpegClose (Some 0), OfferMade,
     LocalSet ''v=0'']), took = (\<lambda>_ _ _ _. 3000), garbled = (\<lambda>_. ''''), ffmpeg_found = ''ffmpeg'', peer_throws = (\<lambda>_. None),
     socket_throws = (\<lambda>_. None)\<rparr>"

lemma snap_capture: "\<exists>s'. capture_call snap_world url ice ms s = Some (Inr [255, 216], s')"
  by (simp add: capture_call_def snap_world_def capture_env_def cap_step_def after_port_def cap_init_def act_def Let_def
      resume_def resolve_with_def finish_def on_ffmpeg_close_def after_description_def send_signal_def sendSignal_def
      await_frame_def)

lemma snap_getCamera:
  assumes "truthy (access_token s)" "\<not> dumpData s" "length (sent s) < 2"
  shows "\<exists>q n. getCamera (demo_env snap_server) (JStr ''a'') s = Some (Inr snap_camera, s\<lparr>sent := sent s @ [q], now := n\<rparr>)"
proof -
  have "serves (demo_env snap_server) s (list_body [snap_camera])"
    using assms by (simp add: serves_def quiet_def snap_server_def list_body_accepted)
  note list = getDeviceList_accepted [OF this]
  have "same_lower ''product_type'' (JStr ''Camera'') snap_camera = Inr True" "same_mac (JStr ''a'') snap_camera = Inr True"
    by (simp_all add: snap_camera_def same_lower_def demo_device_def lower_of_def string_method_def same_mac_def)
  then show ?thesis
    by (auto simp: getCamera_def getCameras_def getDevicesByType_def bindE_def list filter_devices_def find_device_def
        array_of_def after_def)
qed

lemma snap_connection:
  assumes "truthy (access_token s)" "2 \<le> length (sent s)"
  shows "\<exists>conn s'. getCameraWebRTCConnectionInfo (demo_env snap_server) mac model live_opts s = Some (Inr conn, s')"
proof -
  let ?info = "JObj [(''signaling_url'', JStr ''wss://k''), (''ice_servers'', JArr [])]"
  have info: "\<exists>s'. cameraGetStreamInfo (demo_env snap_server) mac model sub s = Some (Inr ?info, s')"
    if "truthy (access_token s)" "2 \<le> length (sent s)" for s sub
    using that
    by (simp add: cameraGetStreamInfo_def maybeLogin_def seqE_def bindE_def catchE_def web_signature_def
        web_create_signature_def signature_body_def lift_msg_def axios_post_def http_send_def http_dispatch_def
        http_await_def snap_server_def stream_server_def ok_body_def checkRateLimit_def rate_remaining_def stream_answer_def
        stream_entry_def own_prop_def Let_def del: stringify.simps)
  have "\<exists>b. make_bundle ?info = Inr b"
    by (simp add: make_bundle_def sanitizeCameraIceServers_def js_default_def array_of_def own_prop_def)
  then show ?thesis
    using info [of "s\<lparr>stream_cache := ensure_cache (stream_cache s)\<rparr>" False] assms
    by (auto simp: conn_info_unfold live_opts_def default_conn_options_def Let_def bindE_def seqE_def conn_finish_def whenE_def)
qed

lemma snap_image:
  assumes "truthy (access_token s)" "\<not> dumpData s" "sent s = []" "capture_cache s = None"
  shows "\<exists>s'. getCameraSnapshotImage (demo_env snap_server) (capture_call snap_world) (JStr ''a'') JUndef 20000 (JBool False) 10000 s
    = Some (Inr ([255, 216], Capture), s')"
proof -
  let ?E = "demo_env snap_server"
  obtain q n where g1: "getCamera ?E (JStr ''a'') s = Some (Inr snap_camera, s\<lparr>sent := [q], now := n\<rparr>)" (is "_ = Some (_, ?s1)")
    using snap_getCamera [of s] assms by auto
  obtain q' n' where g2: "getCamera ?E (JStr ''a'') ?s1 = Some (Inr snap_camera, ?s1\<lparr>sent := [q, q'], now := n'\<rparr>)"
      (is "_ = Some (_, ?s2)")
    using snap_getCamera [of ?s1] assms by auto
  have no: "\<not> truthy (opt_prop (cameraGetSnapshot snap_camera) ''url'')" and camera: "truthy snap_camera"
    by (simp_all add: snap_camera_def demo_device_def cameraGetSnapshot_def first_thumbnail_def)
  obtain conn s3 where conn: "getCameraWebRTCConnectionInfo ?E (JStr ''a'') (JStr ''M'') live_opts
      (?s2\<lparr>capture_cache := Some Map.empty\<rparr>) = Some (Inr conn, s3)"
    using snap_connection [of "?s2\<lparr>capture_cache := Some Map.empty\<rparr>" "JStr ''a''" "JStr ''M''"] assms(1) by auto
  obtain s4 where frame: "capture_call snap_world (oget conn ''signalingUrl'') (oget conn ''iceServers'') 20000 s3
      = Some (Inr [255, 216], s4)"
    using snap_capture by blast
  have fields: "own_prop snap_camera ''mac'' = JStr ''a''" "own_prop snap_camera ''product_model'' = JStr ''M''"
    by (simp_all add: snap_camera_def demo_device_def own_prop_def)
  have "cameraCaptureSnapshot ?E (capture_call snap_world) (JStr ''a'') (JStr ''M'') 20000 (JBool False) 10000 ?s2
      = Some (Inr [255, 216], s4\<lparr>capture_cache := cache_store (capture_cache s4) (now s4) (JStr ''a'') [255, 216] 10000\<rparr>)"
    using conn frame assms(4)
    by (simp add: cameraCaptureSnapshot_def ensure_cache_def cache_lookup_def bindE_def seqE_def live_opts_def whenE_def)
  then show ?thesis
    using no camera by (simp add: getCameraSnapshotImage_def getCameraSnapshot_def Let_def bindE_def g1 g2 fields)
qed


end
