(* ===== verification/Sha256.thy ===== *)
theory Sha256
  imports Md5
begin

unbundle bit_operations_syntax

text \<open>
  \<open>crypto.createHash("sha256")\<close> and \<open>crypto.createHmac("sha256", key)\<close> of Node's standard library on lists
  of bytes, with 32-bit words that wrap around. The constants are written in decimal.
\<close>

definition sha256_k :: "u32 list" where
  "sha256_k = [
     1116352408, 1899447441, 3049323471, 3921009573, 961987163, 1508970993,
     2453635748, 2870763221, 3624381080, 310598401, 607225278, 1426881987,
     1925078388, 2162078206, 2614888103, 3248222580, 3835390401, 4022224774,
     264347078, 604807628, 770255983, 1249150122, 1555081692, 1996064986,
     2554220882, 2821834349, 2952996808, 3210313671, 3336571891, 3584528711,
     113926993, 338241895, 666307205, 773529912, 1294757372, 1396182291,
     1695183700, 1986661051, 2177026350, 2456956037, 2730485921, 2820302411,
     3259730800, 3345764771, 3516065817, 3600352804, 4094571909, 275423344,
     430227734, 506948616, 659060556, 883997877, 958139571, 1322822218,
     1537002063, 1747873779, 1955562222, 2024104815, 2227730452, 2361852424,
     2428436474, 2756734187, 3204031479, 3329325298]"

type_synonym sha256_state = "u32 \<times> u32 \<times> u32 \<times> u32 \<times> u32 \<times> u32 \<times> u32 \<times> u32"

definition sha256_init :: sha256_state where
  "sha256_init = (1779033703, 3144134277, 1013904242, 2773480762, 1359893119, 2600822924, 528734635, 1541459225)"

definition small0 :: "u32 \<Rightarrow> u32" where
  "small0 x = word_rotr 7 x XOR word_rotr 18 x XOR drop_bit 3 x"

definition small1 :: "u32 \<Rightarrow> u32" where
  "small1 x = word_rotr 17 x XOR word_rotr 19 x XOR drop_bit 10 x"

definition big0 :: "u32 \<Rightarrow> u32" where
  "big0 x = word_rotr 2 x XOR word_rotr 13 x XOR word_rotr 22 x"

definition big1 :: "u32 \<Rightarrow> u32" where
  "big1 x = word_rotr 6 x XOR word_rotr 11 x XOR word_rotr 25 x"

text \<open>The message schedule: the block's 16 words, then \<open>n\<close> more, each from earlier ones.\<close>

fun sha256_extend :: "nat \<Rightarrow> u32 list \<Rightarrow> u32 list" where
  "sha256_extend 0 w = w"
| "sha256_extend (Suc n) w =
     (let t = length w in
      sha256_extend n (w @ [small1 (w ! (t - 2)) + w ! (t - 7) + small0 (w ! (t - 15)) + w ! (t - 16)]))"

fun sha256_round :: "sha256_state \<Rightarrow> u32 \<times> u32 \<Rightarrow> sha256_state" where
  "sha256_round (a, b, c, d, e, f, g, h) (k, w) =
     (let t1 = h + big1 e + ((e AND f) XOR (NOT e AND g)) + k + w;
          t2 = big0 a + ((a AND b) XOR (a AND c) XOR (b AND c))
      in (t1 + t2, a, b, c, d + t1, e, f, g))"

definition sha256_block :: "sha256_state \<Rightarrow> u32 list \<Rightarrow> sha256_state" where
  "sha256_block s m =
     (case (s, foldl sha256_round s (zip sha256_k (sha256_extend 48 m))) of
        ((a, b, c, d, e, f, g, h), (a', b', c', d', e', f', g', h')) \<Rightarrow>
          (a + a', b + b', c + c', d + d', e + e', f + f', g + g', h + h'))"

text \<open>Padding as in MD5, with the bit length in 8 big-endian bytes.\<close>

definition sha256_pad :: "bytes \<Rightarrow> bytes" where
  "sha256_pad bs =
     bs @ [128] @ replicate ((119 - length bs mod 64) mod 64) 0 @ rev (le_bytes 8 (8 * length bs))"

fun be_words :: "bytes \<Rightarrow> u32 list" where
  "be_words (a # b # c # d # r) = of_nat (16777216 * a + 65536 * b + 256 * c + d) # be_words r"
| "be_words _ = []"

function sha256_blocks :: "sha256_state \<Rightarrow> u32 list \<Rightarrow> sha256_state" where
  "sha256_blocks s w = (if length w < 16 then s else sha256_blocks (sha256_block s (take 16 w)) (drop 16 w))"
  by pat_completeness auto
termination
  by (relation "measure (\<lambda>(s, w). length w)") auto

declare sha256_blocks.simps [simp del]

definition be_bytes :: "u32 \<Rightarrow> bytes" where
  "be_bytes w = rev (le_bytes 4 (unat w))"

definition sha256_bytes :: "bytes \<Rightarrow> bytes" where
  "sha256_bytes bs =
     (case sha256_blocks sha256_init (be_words (sha256_pad bs)) of
        (a, b, c, d, e, f, g, h) \<Rightarrow> concat (map be_bytes [a, b, c, d, e, f, g, h]))"

definition sha256_hex :: "string \<Rightarrow> string" where
  "sha256_hex s = to_hex (sha256_bytes (utf8_encode s))"

definition sha256_key :: "bytes \<Rightarrow> bytes" where
  "sha256_key k = (let k' = (if 64 < length k then sha256_bytes k else k) in k' @ replicate (64 - length k') 0)"

definition hmac_sha256 :: "bytes \<Rightarrow> bytes \<Rightarrow> bytes" where
  "hmac_sha256 k m =
     sha256_bytes (map (xor_byte 92) (sha256_key k) @ sha256_bytes (map (xor_byte 54) (sha256_key k) @ m))"

lemma length_sha256 [simp]: "length (sha256_bytes bs) = 32"
  by (simp add: sha256_bytes_def be_bytes_def split: prod.split)

lemma byte_list_sha256 [simp]: "byte_list (sha256_bytes bs)"
proof -
  have "byte_list (rev xs) = byte_list xs" for xs by (simp add: byte_list_def)
  then show ?thesis by (simp add: sha256_bytes_def be_bytes_def split: prod.split)
qed

lemma length_hmac_sha256 [simp]: "length (hmac_sha256 k m) = 32"
  by (simp add: hmac_sha256_def)

end
