(* ===== verification/Roku.thy ===== *)
theory Roku
  imports Sha256 SignedServices "HOL-Library.AList"
begin

text \<open>
  The Roku login of \<open>src/src/rokuAuth.js\<close>: an anonymous Cognito identity, its temporary credentials, and
  a login request signed with them. The two calls of the AWS SDK are parameters. What the methods print
  on the console is left out.
\<close>

section \<open>Dates\<close>

text \<open>The civil date of a day that is counted from the first of January 1970.\<close>

definition civil :: "int \<Rightarrow> int \<times> int \<times> int" where
  "civil d =
     (let z = d + 719468; era = z div 146097; doe = z mod 146097;
          yoe = (doe - doe div 1460 + doe div 36524 - doe div 146096) div 365;
          doy = doe - (365 * yoe + yoe div 4 - yoe div 100); mp = (5 * doy + 2) div 153;
          month = (if mp < 10 then mp + 3 else mp - 9);
          year = yoe + era * 400 + (if month \<le> 2 then 1 else 0)
      in (year, month, doy - (153 * mp + 2) div 5 + 1))"

definition pad_left :: "nat \<Rightarrow> int \<Rightarrow> string" where
  "pad_left n i = (let s = show_nat (nat i) in replicate (n - length s) CHR ''0'' @ s)"

text \<open>\<open>new Date(t).toISOString()\<close> for the years 0 to 9999.\<close>

definition toISOString :: "int \<Rightarrow> string" where
  "toISOString t =
     (let days = t div 86400000; ms = t mod 86400000 in
      case civil days of (y, m, d) \<Rightarrow>
        pad_left 4 y @ ''-'' @ pad_left 2 m @ ''-'' @ pad_left 2 d @ ''T'' @ pad_left 2 (ms div 3600000) @ '':''
        @ pad_left 2 (ms div 60000 mod 60) @ '':'' @ pad_left 2 (ms div 1000 mod 60) @ ''.'' @ pad_left 3 (ms mod 1000) @ ''Z'')"

definition date_stamp :: "int \<Rightarrow> string" where
  "date_stamp t = hd (split_on CHR ''T'' (toISOString t))"

section \<open>Signing\<close>

text \<open>
  \<open>new URL(url).pathname\<close> of an absolute URL whose path is in normal form. \<open>querystring.stringify\<close> of a
  \<open>URLSearchParams\<close> object, which has no own keys, is always empty.
\<close>

definition url_pathname :: "string \<Rightarrow> string" where
  "url_pathname url =
     (let rest = dropWhile (\<lambda>c. c \<noteq> CHR ''/'') (drop 2 (dropWhile (\<lambda>c. c \<noteq> CHR ''/'') url));
          p = takeWhile (\<lambda>c. c \<notin> {CHR ''?'', CHR ''#''}) rest
      in if p = '''' then ''/'' else p)"

definition canonicalQuerystring :: string where
  "canonicalQuerystring = ''''"

definition canonicalHeaders :: "(string \<times> string) list \<Rightarrow> string" where
  "canonicalHeaders headers =
     concat (map (\<lambda>k. to_lower k @ '':'' @ js_trim (the (map_of headers k)) @ [CHR 0x0A]) (sort (map fst headers)))"

definition signedHeaders :: "(string \<times> string) list \<Rightarrow> string" where
  "signedHeaders headers = join '';'' (sort (map (\<lambda>(k, _). to_lower k) headers))"

definition awsRegion :: string where "awsRegion = ''us-east-1''"

definition getSignatureKey :: "string \<Rightarrow> string \<Rightarrow> string \<Rightarrow> string \<Rightarrow> bytes" where
  "getSignatureKey key dateStamp regionName serviceName =
     (let kDate = hmac_sha256 (utf8_encode (''AWS4'' @ key)) (utf8_encode dateStamp);
          kRegion = hmac_sha256 kDate (utf8_encode regionName);
          kService = hmac_sha256 kRegion (utf8_encode serviceName)
      in hmac_sha256 kService (utf8_encode ''aws4_request''))"

definition canonicalRequest :: "string \<Rightarrow> string \<Rightarrow> (string \<times> string) list \<Rightarrow> string \<Rightarrow> string" where
  "canonicalRequest meth url headers body =
     join [CHR 0x0A] [meth, url_pathname url, canonicalQuerystring, canonicalHeaders headers, signedHeaders headers, sha256_hex body]"

definition credentialScope :: "int \<Rightarrow> string" where
  "credentialScope t = date_stamp t @ ''/'' @ awsRegion @ ''/execute-api/aws4_request''"

definition stringToSign :: "int \<Rightarrow> string \<Rightarrow> string" where
  "stringToSign t creq =
     join [CHR 0x0A] [''AWS4-HMAC-SHA256'', toISOString t, credentialScope t, sha256_hex creq]"

definition signature :: "int \<Rightarrow> string \<Rightarrow> string \<Rightarrow> string" where
  "signature t secret creq =
     to_hex (hmac_sha256 (getSignatureKey secret (date_stamp t) awsRegion ''execute-api'') (utf8_encode (stringToSign t creq)))"

definition signRequest ::
  "int \<Rightarrow> string \<Rightarrow> string \<Rightarrow> (string \<times> string) list \<Rightarrow> string \<Rightarrow> jsval \<Rightarrow> exn + (string \<times> string) list" where
  "signRequest t meth url headers body credentials =
     bindR (get_prop credentials ''SecretKey'') (\<lambda>secret.
     Inr (AList.update ''Authorization''
       (''AWS4-HMAC-SHA256 Credential='' @ js_string (own_prop credentials ''AccessKeyId'') @ ''/'' @ credentialScope t
        @ '', SignedHeaders='' @ signedHeaders headers
        @ '', Signature='' @ signature t (js_string secret) (canonicalRequest meth url headers body)) headers))"

section \<open>The object\<close>

record roku =
  r_username :: jsval
  r_password :: jsval
  r_token :: jsval
  cognitoId :: jsval
  callbacks :: "jsval list"

text \<open>The SDK's answers to \<open>getId\<close> and \<open>getCredentialsForIdentity\<close>, and the callback for tokens.\<close>

record aws =
  getId :: "string \<Rightarrow> exn + jsval"
  getCredentialsForIdentity :: "jsval \<Rightarrow> exn + jsval"
  tokenCallback :: "(jsval \<Rightarrow> exn + unit) option"

type_synonym 'a rm = "(st \<times> roku, exn, 'a) eff"

definition on_client :: "'a m \<Rightarrow> 'a rm" where
  "on_client f = (\<lambda>(s, r). case f s of None \<Rightarrow> None | Some (res, s') \<Rightarrow> Some (res, s', r))"

definition modR :: "(roku \<Rightarrow> roku) \<Rightarrow> unit rm" where
  "modR f = modS (\<lambda>(s, r). (s, f r))"

definition construct_roku :: "jsval \<Rightarrow> jsval \<Rightarrow> roku" where
  "construct_roku u p = \<lparr>r_username = u, r_password = p, r_token = JNull, cognitoId = JUndef, callbacks = []\<rparr>"

definition awsIdPool :: string where
  "awsIdPool = awsRegion @ '':11747937-25e8-402f-8e72-6873a618692c''"

definition loginHost :: string where "loginHost = ''iot.prod.mobile.roku.com''"
definition loginUri :: string where "loginUri = ''https://'' @ loginHost @ ''/user/login''"

definition initializeCognitoId :: "aws \<Rightarrow> unit rm" where
  "initializeCognitoId A =
     bindE (liftE (bindR (getId A awsIdPool) (\<lambda>data. get_prop data ''IdentityId''))) (\<lambda>i. modR (\<lambda>r. r\<lparr>cognitoId := i\<rparr>))"

definition getAWSCredentials :: "aws \<Rightarrow> jsval rm" where
  "getAWSCredentials A =
     bindE (getS (\<lambda>(s, r). cognitoId r)) (\<lambda>i.
     liftE (bindR (getCredentialsForIdentity A i) (\<lambda>data. get_prop data ''Credentials'')))"

definition login_headers :: "int \<Rightarrow> (string \<times> string) list" where
  "login_headers t =
     [(''Accept'', ''application/json''),
      (''User-Agent'', ''Owl/0 CFNetwork/1496.0.7 Darwin/23.5.0''),
      (''Content-Type'', ''application/json; charset=UTF-8''),
      (''Host'', loginHost),
      (''apiweb-env'', ''prod''),
      (''app'', ''harold''),
      (''client_id'', ''62D8CC2A-F64E-46FC-9A18-F0C6F90E9A43_Owl''),
      (''appversion'', ''3.0.2''),
      (''assertion-challenge'', ''6bfd613a96324175a90970349a5150d4''),
      (''Connection'', ''keep-alive''),
      (''assertion-request-ts'', show_int t),
      (''osversion'', ''17.5.1''),
      (''profile-id-is-uuid'', ''true''),
      (''version'', ''2.0''),
      (''x-roku-reserved-client-id'', ''x-roku-reserved-client-id''),
      (''x-roku-reserved-correlation'', '' mob_3E1E8CAE-7AAC-494D-B33C-05E44B3B09EB''),
      (''x-roku-reserved-culture-code'', ''en_US''),
      (''x-roku-reserved-dev-id'', ''1a2f5fd09622fd2b68be13fff92f09aebb6837fd''),
      (''x-roku-reserved-lat'', ''true''),
      (''x-roku-reserved-locale'', ''en_US''),
      (''x-roku-reserved-mobile-experiment-ids'', ''''),
      (''x-roku-reserved-profile-id'', ''6CD68D77-B0FC-488C-83CD-D141191568E4''),
      (''x-roku-reserved-request-id'', ''15703A04-15B7-4F95-B838-BCBDC8D0E3BB''),
      (''x-roku-reserved-rida'', ''''),
      (''x-roku-reserved-session-id'', ''D90F5E79-E28E-4439-8909-2B96A47DE82F''),
      (''x-roku-reserved-time-zone-offset'', ''-05:00'')]"

definition login_payload :: "jsval \<Rightarrow> jsval \<Rightarrow> string" where
  "login_payload u p = stringify (JObj [(''email'', u), (''password'', p)])"

text \<open>The token of an answer without a message.\<close>

definition token_of :: "jsval \<Rightarrow> exn + jsval" where
  "token_of body =
     bindR (get_prop body ''data'') (\<lambda>d.
     bindR (get_prop d ''partnerAccess'') (\<lambda>pa.
     bindR (get_prop pa ''token'') (\<lambda>accessToken.
     bindR (get_prop (own_prop d ''oauth'') ''refreshToken'') (\<lambda>refreshToken.
     Inr (JObj [(''accessToken'', accessToken), (''refreshToken'', refreshToken)])))))"

definition roku_answer :: "aws \<Rightarrow> http_response \<Rightarrow> jsval rm" where
  "roku_answer A response =
     bindE (liftE (get_prop (resp_data response) ''message'')) (\<lambda>msg.
     if truthy msg then throw (Error ''UnknownApiError'')
     else bindE (liftE (token_of (resp_data response))) (\<lambda>token.
       seqE (modR (\<lambda>r. r\<lparr>r_token := token\<rparr>))
       (seqE (case tokenCallback A of None \<Rightarrow> ret ()
              | Some f \<Rightarrow> seqE (modR (\<lambda>r. r\<lparr>callbacks := callbacks r @ [token]\<rparr>)) (liftE (f token)))
        (ret token))))"

definition getTokenWithUsernamePassword :: "aws \<Rightarrow> env \<Rightarrow> jsval \<Rightarrow> jsval \<Rightarrow> jsval rm" where
  "getTokenWithUsernamePassword A E u p =
     seqE (bindE (getS (\<lambda>(s, r). cognitoId r)) (\<lambda>i. if truthy i then ret () else initializeCognitoId A))
     (seqE (modR (\<lambda>r. r\<lparr>r_username := u, r_password := p\<rparr>))
     (bindE (getAWSCredentials A) (\<lambda>credentials.
      bindE (getS (\<lambda>(s, r). now s)) (\<lambda>t.
      bindE (liftE (signRequest t ''POST'' loginUri (login_headers t) (login_payload u p) credentials)) (\<lambda>headers.
      bindE (on_client (axios_post E loginUri (JStr (login_payload u p)) (map (\<lambda>(k, v). (k, JStr v)) headers)))
        (roku_answer A))))))"

text \<open>The client's method that uses it: a new object for each call; the token is only logged.\<close>

definition authenticateAndFetchData :: "aws \<Rightarrow> env \<Rightarrow> unit m" where
  "authenticateAndFetchData A E =
     (\<lambda>s. case getTokenWithUsernamePassword A E (username (cfg E)) (password (cfg E))
              (s, construct_roku (username (cfg E)) (password (cfg E))) of
            None \<Rightarrow> None
          | Some (res, s', _) \<Rightarrow> Some (map_sum id (\<lambda>_. ()) res, s'))"

end
