(* ===== verification/RokuProps.thy ===== *)
theory RokuProps
  imports Roku ClientProps
begin

text \<open>
  The Roku login: what a login does, where a token can come from, and the order of the signed headers.
\<close>

lemma on_client_simps:
  "f s = Some (res, s') \<Longrightarrow> on_client f (s, r) = Some (res, s', r)"
  by (simp add: on_client_def)

lemma rm_getS: "bindE (getS f) k x = k (f x) x"
  by simp

lemma rm_modR: "seqE (modR f) k (s, r) = k (s, f r)" "modR f (s, r) = Some (Inr (), s, f r)"
  by (simp_all add: modR_def)

lemma rm_post:
  "on_client (axios_post E url data headers) (s, r) =
     (let rq = \<lparr>rq_method = ''POST'', rq_url = url, rq_base = JUndef, rq_headers = headers, rq_params = [], rq_data = data\<rparr>
      in Some (net E (length (sent s)) rq, s\<lparr>sent := sent s @ [rq], now := now s + int (latency E (length (sent s)))\<rparr>, r))"
  by (simp add: on_client_def axios_post_def http_send_def bindE_def http_dispatch_def http_await_def Let_def)

lemma rm_bind_post:
  "bindE (on_client (axios_post E url data headers)) k (s, r) =
     (let rq = \<lparr>rq_method = ''POST'', rq_url = url, rq_base = JUndef, rq_headers = headers, rq_params = [], rq_data = data\<rparr>;
          s' = s\<lparr>sent := sent s @ [rq], now := now s + int (latency E (length (sent s)))\<rparr>
      in case net E (length (sent s)) rq of Inl e \<Rightarrow> Some (Inl e, s', r) | Inr a \<Rightarrow> k a (s', r))"
  unfolding bindE_def rm_post by (simp add: Let_def split: sum.split)

section \<open>A login that succeeds\<close>

text \<open>
  What a service does that shares the secret: it takes the headers without the authorization and the
  body, makes the signature in the client's way and compares.
\<close>

definition roku_verifies :: "int \<Rightarrow> string \<Rightarrow> http_request \<Rightarrow> bool" where
  "roku_verifies t secret rq =
     (let headers = [(k, js_string v). (k, v) \<leftarrow> rq_headers rq, k \<noteq> ''Authorization''] in
      suffix (''Signature='' @ signature t secret (canonicalRequest (rq_method rq) (rq_url rq) headers (js_string (rq_data rq))))
        (js_string (oget (rq_headers rq) ''Authorization'')))"

lemma no_authorization: "''Authorization'' \<notin> fst ` set (login_headers t)"
  by (simp add: login_headers_def)

lemma update_last: "k \<notin> fst ` set h \<Longrightarrow> AList.update k v h = h @ [(k, v)]"
  by (induction h) auto

lemma oget_last: "k \<notin> fst ` set ob \<Longrightarrow> oget (ob @ [(k, v)]) k = v"
  by (induction ob) auto

lemma signed_verifies:
  assumes "signRequest t ''POST'' url h body cred = Inr h'" "get_prop cred ''SecretKey'' = Inr secret" "''Authorization'' \<notin> fst ` set h"
  shows "roku_verifies t (js_string secret) \<lparr>rq_method = ''POST'', rq_url = url, rq_base = JUndef,
    rq_headers = map (\<lambda>(k, v). (k, JStr v)) h', rq_params = [], rq_data = JStr body\<rparr>"
proof -
  obtain a where h': "h' = h @ [(''Authorization'', a @ ''Signature='' @ signature t (js_string secret) (canonicalRequest ''POST'' url h body))]"
    using assms by (auto simp: signRequest_def update_last)
  have keep: "[(k, js_string v). (k, v) \<leftarrow> map (\<lambda>(k, v). (k, JStr v)) h, k \<noteq> ''Authorization''] = h"
    using assms(3) by (induction h) auto
  have "oget (map (\<lambda>(k, v). (k, JStr v)) h' ) ''Authorization''
      = JStr (a @ ''Signature='' @ signature t (js_string secret) (canonicalRequest ''POST'' url h body))"
    using oget_last [of "''Authorization''" "map (\<lambda>(k, v). (k, JStr v)) h"] assms(3) by (auto simp: h' image_image case_prod_beta)
  then show ?thesis using keep by (simp add: roku_verifies_def h' suffix_def Let_def)
qed


definition demo_aws :: aws where
  "demo_aws = \<lparr>getId = (\<lambda>_. Inr (JObj [(''IdentityId'', JStr ''us-east-1:1'')])),
     getCredentialsForIdentity = (\<lambda>_. Inr (JObj [(''Credentials'', JObj [(''AccessKeyId'', JStr ''AK''), (''SecretKey'', JStr ''sk'')])])),
     tokenCallback = Some (\<lambda>_. Inr ())\<rparr>"

definition demo_answer :: http_response where
  "demo_answer = \<lparr>resp_status = JNum 200, resp_headers = [], resp_data = JObj [(''data'',
     JObj [(''partnerAccess'', JObj [(''token'', JStr ''at'')]), (''oauth'', JObj [(''refreshToken'', JStr ''rt'')])])]\<rparr>"

definition demo_roku_env :: env where
  "demo_roku_env = (demo_env no_server)\<lparr>net := \<lambda>_ _. Inr demo_answer\<rparr>"

abbreviation demo_token :: jsval where
  "demo_token \<equiv> JObj [(''accessToken'', JStr ''at''), (''refreshToken'', JStr ''rt'')]"

lemma demo_accepts: "get_prop (resp_data demo_answer) ''message'' = Inr JUndef" "token_of (resp_data demo_answer) = Inr demo_token"
  by (simp_all add: demo_answer_def token_of_def own_prop_def)


section \<open>Where a token comes from\<close>

definition accepted :: "env \<Rightarrow> st \<Rightarrow> st \<Rightarrow> jsval \<Rightarrow> bool" where
  "accepted E s s' tok =
     (\<exists>rq rsp msg. sent s' = sent s @ [rq] \<and> net E (length (sent s)) rq = Inr rsp \<and>
        get_prop (resp_data rsp) ''message'' = Inr msg \<and> \<not> truthy msg \<and> token_of (resp_data rsp) = Inr tok)"

lemma answer_cases:
  assumes "roku_answer A rsp (s, r) = Some (res, s', r')"
  shows "s' = s \<and> ((\<exists>msg. get_prop (resp_data rsp) ''message'' = Inr msg \<and> \<not> truthy msg \<and> token_of (resp_data rsp) = Inr (r_token r') \<and>
      (\<forall>tok. res = Inr tok \<longrightarrow> tok = r_token r')) \<or>
    r_token r' = r_token r \<and> callbacks r' = callbacks r \<and> (\<exists>err. res = Inl err))"
proof (cases "get_prop (resp_data rsp) ''message''")
  case (Inl e)
  then have "roku_answer A rsp = throw e" by (simp add: roku_answer_def)
  then show ?thesis using assms by auto
next
  case (Inr msg)
  show ?thesis
  proof (cases "token_of (resp_data rsp)")
    case (Inl e)
    then have "roku_answer A rsp = (if truthy msg then throw (Error ''UnknownApiError'') else throw e)"
      by (simp add: roku_answer_def Inr throw_def)
    then show ?thesis using assms by (auto split: if_splits)
  next
    case tok: (Inr tok)
    then show ?thesis using assms Inr
      by (auto simp: roku_answer_def seqE_def bindE_def modR_def split: if_splits option.splits sum.splits)
  qed
qed

lemma send_cases:
  assumes "bindE (on_client (axios_post E url data headers)) (roku_answer A) (s, r) = Some (res, s', r')"
  shows "accepted E s s' (r_token r') \<and> (\<forall>tok. res = Inr tok \<longrightarrow> tok = r_token r') \<or>
    r_token r' = r_token r \<and> callbacks r' = callbacks r \<and> (\<exists>err. res = Inl err) \<and> length (sent s') \<le> Suc (length (sent s))"
proof -
  define rq where "rq = \<lparr>rq_method = ''POST'', rq_url = url, rq_base = JUndef, rq_headers = headers, rq_params = [], rq_data = data\<rparr>"
  define s1 where "s1 = s\<lparr>sent := sent s @ [rq], now := now s + int (latency E (length (sent s)))\<rparr>"
  have run: "(case net E (length (sent s)) rq of Inl e \<Rightarrow> Some (Inl e, s1, r) | Inr a \<Rightarrow> roku_answer A a (s1, r)) = Some (res, s', r')"
    using assms unfolding rm_bind_post Let_def rq_def s1_def by simp
  have sent1: "sent s1 = sent s @ [rq]" by (simp add: s1_def)
  show ?thesis
  proof (cases "net E (length (sent s)) rq")
    case (Inl e)
    with run sent1 show ?thesis by auto
  next
    case (Inr rsp)
    with run have "roku_answer A rsp (s1, r) = Some (res, s', r')" by simp
    from answer_cases [OF this] Inr sent1 show ?thesis by (auto simp: accepted_def)
  qed
qed

lemma identity_cases:
  assumes "bindE (getS (\<lambda>(s, r). cognitoId r)) (\<lambda>i. if truthy i then ret () else initializeCognitoId A) (s, r) = Some (q, s1, r1)"
  shows "s1 = s \<and> r_token r1 = r_token r \<and> callbacks r1 = callbacks r"
  using assms by (auto simp: initializeCognitoId_def bindE_def modR_def split: if_splits sum.splits)

lemma credentials_cases: "getAWSCredentials A (s, r) = Some (q, x) \<Longrightarrow> x = (s, r)"
  by (auto simp: getAWSCredentials_def)

text \<open>
  Tokens come from an accepted answer only. Whatever the SDK, the service and the callback do, a login
  sends at most one request; a token that it returns or keeps is the one of an answer without a message
  to that request, and otherwise it fails and the object's token and callback are untouched.
\<close>

theorem roku_token_from_answer:
  assumes "getTokenWithUsernamePassword A E u p (s, r) = Some (res, s', r')"
  shows "accepted E s s' (r_token r') \<and> (\<forall>tok. res = Inr tok \<longrightarrow> tok = r_token r') \<or>
    r_token r' = r_token r \<and> callbacks r' = callbacks r \<and> (\<exists>err. res = Inl err) \<and> length (sent s') \<le> Suc (length (sent s))"
proof -
  have failed: ?thesis if "s' = s" "r_token r' = r_token r" "callbacks r' = callbacks r" "\<exists>err. res = Inl err"
    using that by simp
  from assms [unfolded getTokenWithUsernamePassword_def] show ?thesis
  proof (cases rule: seqE_cases)
    case (rejected e)
    then show ?thesis using identity_cases [OF rejected(1)] failed by blast
  next
    case (returned _ x1)
    obtain s1 r1 where x1: "x1 = (s1, r1)" by (cases x1)
    note same = identity_cases [OF returned(1) [unfolded x1]]
    let ?r2 = "r1\<lparr>r_username := u, r_password := p\<rparr>"
    from returned(2) [unfolded x1 rm_modR] show ?thesis
    proof (cases rule: bindE_cases)
      case (rejected e)
      then show ?thesis using credentials_cases [OF rejected(1)] same failed by auto
    next
      case (returned cred x2)
      then have x2: "x2 = (s1, ?r2)" using credentials_cases by blast
      let ?sr = "signRequest (now s1) ''POST'' loginUri (login_headers (now s1)) (login_payload u p) cred"
      show ?thesis
      proof (cases ?sr)
        case (Inl e)
        then have "res = Inl e" "s' = s" "r' = ?r2" using returned(2) same by (auto simp: x2)
        then show ?thesis using same failed by simp
      next
        case (Inr h)
        then have "bindE (on_client (axios_post E loginUri (JStr (login_payload u p)) (map (\<lambda>(k, v). (k, JStr v)) h))) (roku_answer A)
            (s1, ?r2) = Some (res, s', r')"
          using returned(2) by (simp add: x2)
        from send_cases [OF this] same show ?thesis by simp
      qed
    qed
  qed
qed

lemma roku_token_from_answer_witness:
  "\<exists>s' r'. getTokenWithUsernamePassword (demo_aws\<lparr>getId := \<lambda>_. Inl (Error ''offline'')\<rparr>) demo_roku_env (JStr ''u'') (JStr ''p'')
      (demo_state (JStr ''''), construct_roku (JStr ''u'') (JStr ''p'')) = Some (Inl (Error ''offline''), s', r') \<and> r_token r' = JNull"
proof -
  let ?A = "demo_aws\<lparr>getId := \<lambda>_. Inl (Error ''offline'')\<rparr>" and ?r = "construct_roku (JStr ''u'') (JStr ''p'')"
  have run: "getTokenWithUsernamePassword ?A demo_roku_env (JStr ''u'') (JStr ''p'') (demo_state (JStr ''''), ?r)
      = Some (Inl (Error ''offline''), demo_state (JStr ''''), ?r)"
    by (simp add: getTokenWithUsernamePassword_def initializeCognitoId_def construct_roku_def seqE_def bindE_def throw_def)
  from roku_token_from_answer [OF run] show ?thesis using run by (auto simp: accepted_def construct_roku_def)
qed

section \<open>The order of the headers\<close>

text \<open>
  The canonical headers of the signature scheme: the lines in the order of the signed names, which are
  the lower-case ones.
\<close>

definition sigv4_headers :: "(string \<times> string) list \<Rightarrow> string" where
  "sigv4_headers headers =
     concat (map (\<lambda>k. to_lower k @ '':'' @ js_trim (the (map_of headers k)) @ [CHR 0x0A]) (sort_key to_lower (map fst headers)))"

definition header_names :: "string list" where
  "header_names = map fst (login_headers 0)"

lemma login_names: "map fst (login_headers t) = header_names"
  by (simp add: login_headers_def header_names_def)

lemma name_orders:
  "take 2 (sort header_names) = [''Accept'', ''Connection'']" "take 2 (sort_key to_lower header_names) = [''Accept'', ''apiweb-env'']"
  by code_simp+

lemma take_two: "take 2 xs = [a, b] \<Longrightarrow> \<exists>ys. xs = a # b # ys"
  by (cases xs; cases "tl xs") auto

text \<open>
  C40. The headers are not in the order that is signed. The signed header names are in the order of their
  lower-case forms, but the canonical headers are in the order of the names as written, where the
  capital letters come first: for the headers of a login the text that is signed is never the one of the
  signature scheme.
\<close>

theorem roku_headers_misordered:
  "canonicalHeaders (login_headers t) \<noteq> sigv4_headers (login_headers t) \<and>
   signedHeaders (login_headers t) = join '';'' (map to_lower (sort_key to_lower (map fst (login_headers t)))) \<and>
   signedHeaders (login_headers t) \<noteq> join '';'' (map to_lower (sort (map fst (login_headers t))))"
proof -
  obtain ys zs where o: "sort header_names = ''Accept'' # ''Connection'' # ys" "sort_key to_lower header_names = ''Accept'' # ''apiweb-env'' # zs"
    using name_orders [THEN take_two] by blast
  have "to_lower ''Connection'' = ''connection''" "to_lower ''apiweb-env'' = ''apiweb-env''" by code_simp+
  then have "canonicalHeaders (login_headers t) \<noteq> sigv4_headers (login_headers t)"
    by (simp add: canonicalHeaders_def sigv4_headers_def login_names o)
  moreover have low: "sort (map to_lower header_names) = map to_lower (sort_key to_lower header_names)" by code_simp
  moreover have "join '';'' (map to_lower (sort_key to_lower header_names)) \<noteq> join '';'' (map to_lower (sort header_names))"
    by code_simp
  moreover have "signedHeaders (login_headers t) = join '';'' (sort (map to_lower header_names))"
    unfolding signedHeaders_def login_names [of t, symmetric] map_map comp_def by (simp add: case_prod_unfold)
  ultimately show ?thesis unfolding login_names low(1) by simp
qed

end
