(* ===== verification/Startup.thy ===== *)
theory Startup
  imports DashTransport EufyServer ClientProps
begin

text \<open>
  The start of the two servers: what \<open>src/cam-frontend/server.js\<close> and \<open>src/eufy/server.js\<close> take from the
  environment. A variable is a text or not there.
\<close>

type_synonym process_env = "string \<Rightarrow> string option"

definition env_val :: "process_env \<Rightarrow> string \<Rightarrow> jsval" where
  "env_val penv k = (case penv k of None \<Rightarrow> JUndef | Some s \<Rightarrow> JStr s)"

definition env_or :: "process_env \<Rightarrow> string \<Rightarrow> jsval \<Rightarrow> jsval" where
  "env_or penv k dflt = js_or (env_val penv k) dflt"

section \<open>The dashboard\<close>

definition dash_options :: "process_env \<Rightarrow> obj" where
  "dash_options penv =
     [(''username'', env_val penv ''USERNAME''), (''password'', env_val penv ''PASSWORD''), (''keyId'', env_val penv ''KEY_ID''),
      (''apiKey'', env_val penv ''API_KEY''), (''persistPath'', env_val penv ''PERSIST_PATH''),
      (''logLevel'', env_val penv ''LOG_LEVEL''), (''apiLogEnabled'', env_val penv ''API_LOG_ENABLED'')]"

definition wyze :: "string \<Rightarrow> process_env \<Rightarrow> config" where
  "wyze packageVersion penv = construct_config packageVersion (dash_options penv)"

definition dash_port :: "process_env \<Rightarrow> int option" where
  "dash_port penv = js_number (env_or penv ''VIEWER_PORT'' (JNum 3030))"

text \<open>The text that the constructor of URLs gets.\<close>

definition eufyBaseUrl :: "process_env \<Rightarrow> string" where
  "eufyBaseUrl penv = js_string (env_or penv ''EUFY_BASE_URL'' (JStr ''http://localhost:3040''))"

section \<open>The viewer process\<close>

record eufy_config =
  ec_username :: jsval
  ec_password :: jsval
  ec_country :: jsval
  ec_language :: jsval
  ec_persistentDir :: string
  p2pConnectionSetup :: "int option"
  pollingIntervalMinutes :: int
  eventDurationSeconds :: int
  acceptInvitations :: bool

text \<open>\<open>path_resolve\<close> is \<open>path.resolve\<close> in the working directory of the process.\<close>

definition eufy_config_of :: "(string \<Rightarrow> string) \<Rightarrow> process_env \<Rightarrow> eufy_config" where
  "eufy_config_of path_resolve penv =
     \<lparr>ec_username = env_val penv ''EUFY_USERNAME'', ec_password = env_val penv ''EUFY_PASSWORD'',
      ec_country = env_or penv ''EUFY_COUNTRY'' (JStr ''US''), ec_language = env_or penv ''EUFY_LANGUAGE'' (JStr ''en''),
      ec_persistentDir = path_resolve (js_string (env_or penv ''EUFY_PERSIST_DIR'' (JStr ''./persist''))),
      p2pConnectionSetup = (case penv ''EUFY_P2P_SETUP'' of None \<Rightarrow> Some 0 | Some s \<Rightarrow> js_number (JStr s)),
      pollingIntervalMinutes = 10, eventDurationSeconds = 10,
      acceptInvitations = (penv ''EUFY_ACCEPT_INVITATIONS'' = Some ''true'')\<rparr>"

definition eufy_port :: "process_env \<Rightarrow> int option" where
  "eufy_port penv = js_number (env_or penv ''EUFY_VIEWER_PORT'' (JNum 3040))"

text \<open>The binary of the package, when it loads and exists, or the one on the path.\<close>

definition eufy_resolveFfmpegPath :: "string option \<Rightarrow> (string \<Rightarrow> bool) \<Rightarrow> string" where
  "eufy_resolveFfmpegPath ffmpegStatic existsSync =
     (case ffmpegStatic of Some p \<Rightarrow> if p \<noteq> '''' \<and> existsSync p then p else ''ffmpeg'' | None \<Rightarrow> ''ffmpeg'')"

text \<open>The level of the SDK's log, with the table of the SDK as a parameter.\<close>

definition library_log_level :: "(string \<Rightarrow> 'a option) \<Rightarrow> 'a \<Rightarrow> process_env \<Rightarrow> 'a" where
  "library_log_level LogLevel Info penv =
     (let levelName = to_lower (js_string (env_or penv ''EUFY_LOG_LEVEL'' (JStr ''info'')))
      in case LogLevel (to_upper (take 1 levelName) @ drop 1 levelName) of Some level \<Rightarrow> level | None \<Rightarrow> Info)"

definition eufy_process :: "process_env \<Rightarrow> (string \<times> bytes \<times> int) list \<Rightarrow> string option \<Rightarrow> int \<Rightarrow> est option" where
  "eufy_process penv files schedule t =
     eufy_main (env_val penv ''EUFY_USERNAME'') (env_val penv ''EUFY_PASSWORD'') files schedule t"

section \<open>Properties\<close>

text \<open>Without settings of their own the two processes find each other.\<close>

lemma default_servers_meet:
  "penv ''EUFY_BASE_URL'' = None \<Longrightarrow> penv ''EUFY_VIEWER_PORT'' = None \<Longrightarrow>
   \<exists>n. eufy_port penv = Some n \<and> eufyBaseUrl penv = ''http://localhost:'' @ show_int n"
  by (intro exI [of _ 3040]) (auto simp: eufy_port_def eufyBaseUrl_def env_or_def env_val_def js_or_def show_int_def show_nat.simps)

text \<open>
  C17. The dashboard passes a text as the switch of the client's log, and every text but the empty one is
  true: with \<open>API_LOG_ENABLED="false"\<close>, as in \<open>.env.example\<close>, each login writes its request to the log, with the
  hash of the password and the key of the API.
\<close>

theorem dashboard_logs_login:
  assumes "cfg E = wyze v penv" "penv ''API_LOG_ENABLED'' = Some flag" "flag \<noteq> ''''" "penv ''PASSWORD'' = Some pw"
    "penv ''API_KEY'' = Some ak" "penv ''KEY_ID'' = Some kid"
  shows "\<exists>r s' ob data headers. login_start E s = Some (Inr r, s') \<and>
    logs s' = logs s @ [''Performing request: '' @ stringify (JObj ob)] \<and>
    oget ob ''data'' = JObj data \<and> oget data ''password'' = JStr (createPassword pw) \<and>
    oget ob ''headers'' = JObj headers \<and> oget headers ''apikey'' = JStr ak"
proof -
  have c: "apiLogEnabled (cfg E)" "apiKey (cfg E) = JStr ak" "keyId (cfg E) = JStr kid" "password (cfg E) = JStr pw"
    using assms by (simp_all add: wyze_def construct_config_def dash_options_def env_val_def Let_def)
  let ?data = "[(''email'', username (cfg E)), (''password'', JStr (createPassword pw))]"
  let ?ob = "request_config E login_url ?data (login_config E)"
  have data: "oget ?ob ''data'' = JObj ?data" "oget ?data ''password'' = JStr (createPassword pw)"
    by (simp_all add: request_config_def login_config_def oget_spread)
  obtain h where h: "oget ?ob ''headers'' = JObj h" "oget h ''apikey'' = JStr ak"
    by (simp add: request_config_def login_config_def oget_spread c)
  obtain r s' where "login_start E s = Some (Inr r, s') \<and> logs s' = logs s @ [''Performing request: '' @ stringify (JObj ?ob)]"
    using c by (simp add: login_start_def nullish_def login_data_def perform_dispatch_def log_line_def whenE_def Let_def
        http_dispatch_def liftE_def bindE_def seqE_def modS_def ret_def del: stringify.simps)
  with data h show ?thesis by blast
qed

lemma dashboard_logs_login_witness:
  "\<exists>E s r s'. login_start E s = Some (Inr r, s') \<and> length (logs s') = length (logs s) + 1"
proof -
  let ?penv = "[''API_LOG_ENABLED'' \<mapsto> ''false'', ''PASSWORD'' \<mapsto> ''p'', ''API_KEY'' \<mapsto> ''a'', ''KEY_ID'' \<mapsto> ''k'']"
  let ?E = "(demo_env no_server)\<lparr>cfg := wyze ''1'' ?penv\<rparr>"
  have "cfg ?E = wyze ''1'' ?penv" "?penv ''API_LOG_ENABLED'' = Some ''false''" "''false'' \<noteq> ''''"
    "?penv ''PASSWORD'' = Some ''p''" "?penv ''API_KEY'' = Some ''a''" "?penv ''KEY_ID'' = Some ''k''" by simp_all
  from dashboard_logs_login [OF this, of "demo_state JNull"] obtain r s' ob where
    "login_start ?E (demo_state JNull) = Some (Inr r, s')"
    "logs s' = logs (demo_state JNull) @ [''Performing request: '' @ stringify (JObj ob)]" by (auto simp del: stringify.simps)
  then show ?thesis by (intro exI [of _ ?E] exI [of _ "demo_state JNull"] exI [of _ r] exI [of _ s']) (simp del: stringify.simps)
qed

end
