(* ===== verification/Vocabulary.thy ===== *)
theory Vocabulary
  imports Vacuum
begin

text \<open>
  The tables of \<open>src/src/types.js\<close> that the client exports without reading them itself, the export tables
  of \<open>types.js\<close> and the stream states that \<open>index.js\<close> exports. A table is the object of its entries.
\<close>

section \<open>Property names and units\<close>

definition propertyIds :: obj where
  "propertyIds =
     [(''NOTIFICATION'', JStr ''P1''), (''ON'', JStr ''P3''), (''AVAILABLE'', JStr ''P5''),
      (''BRIGHTNESS'', JStr ''P1501''), (''COLOR_TEMP'', JStr ''P1502''),
      (''CAMERA_SIREN'', JStr ''P1049''), (''CAMERA_FLOOD_LIGHT'', JStr ''P1056'')]"

definition wyzeWallSwitch :: obj where
  "wyzeWallSwitch = [(''CLASSIC'', JNum 1), (''IOT'', JNum 2)]"

definition wyzeColorProperty :: obj where
  "wyzeColorProperty = [(''WYZE_COLOR_TEMP_MIN'', JNum 2700), (''WYZE_COLOR_TEMP_MAX'', JNum 6500)]"

definition homeKitColorProperty :: obj where
  "homeKitColorProperty = [(''HOMEKIT_COLOR_TEMP_MIN'', JNum 500), (''HOMEKIT_COLOR_TEMP_MAX'', JNum 140)]"

definition wyze2HomekitUnits :: obj where
  "wyze2HomekitUnits = [(''C'', JNum 0), (''F'', JNum 1)]"

definition wyze2HomekitStates :: obj where
  "wyze2HomekitStates = [(''off'', JNum 0), (''heat'', JNum 1), (''cool'', JNum 2), (''auto'', JNum 3)]"

definition wyze2HomekitWorkingStates :: obj where
  "wyze2HomekitWorkingStates = [(''idle'', JNum 0), (''heating'', JNum 1), (''cooling'', JNum 2)]"

definition GET_PAYLOAD :: "string set" where
  "GET_PAYLOAD = {''param_info''}"

section \<open>Vacuums\<close>

datatype vacuum_status = STANDBY | CLEANING | RETURNING_TO_CHARGE | DOCKED | MAPPING | PAUSED | ERROR

fun VacuumStatus :: "vacuum_status \<Rightarrow> int" where
  "VacuumStatus STANDBY = 1"
| "VacuumStatus CLEANING = 2"
| "VacuumStatus RETURNING_TO_CHARGE = 3"
| "VacuumStatus DOCKED = 4"
| "VacuumStatus MAPPING = 5"
| "VacuumStatus PAUSED = 6"
| "VacuumStatus ERROR = 7"

text \<open>The words of the event tracking; each is its own value.\<close>

definition VenusDotArg1 :: "string list" where
  "VenusDotArg1 = [''Vacuum'']"

definition VenusDotArg2 :: "string list" where
  "VenusDotArg2 = [''Whole'', ''Spot'', ''SelectRooms'', ''ManualRecharge'', ''FinishRecharge'', ''BreakCharging'', ''BreakRecharge'']"

definition VenusDotArg3 :: "string list" where
  "VenusDotArg3 = [''Start'', ''Resume'', ''Pause'', ''FalsePause'']"

text \<open>A control type has a description of its own.\<close>

lemma control_types_described:
  "\<exists>d. map_of VacuumControlTypeDescription (VacuumControlType t) = Some d \<and>
    (\<forall>u. map_of VacuumControlTypeDescription (VacuumControlType u) = Some d \<longrightarrow> u = t)"
  by (cases t; simp add: VacuumControlTypeDescription_def; intro allI; case_tac u; simp)

section \<open>Streams\<close>

datatype stream_status = OFFLINE | STOPPING | DISABLED | STOPPED | CONNECTING | CONNECTED

fun StreamStatus :: "stream_status \<Rightarrow> int" where
  "StreamStatus OFFLINE = - 90"
| "StreamStatus STOPPING = - 1"
| "StreamStatus DISABLED = 0"
| "StreamStatus STOPPED = 1"
| "StreamStatus CONNECTING = 2"
| "StreamStatus CONNECTED = 3"

lemma stream_codes_distinct: "StreamStatus a = StreamStatus b \<Longrightarrow> a = b"
  by (cases a; cases b) simp_all

end
