(* ===== verification/Spec2Isabelle.thy ===== *)
theory Spec2Isabelle
  imports PayloadFactory RecoveryProps DeviceProps SignedProps BulbProps CacheProps EufyProps EufySchedule EufySnapshots
    EufySessions EufyShutdown BodyReader DashProps DashTypes SiteProps CaptureProps SnapshotFlow RokuProps Startup Vocabulary
begin

text \<open>
  The \<open>wyze-api\<close> client and its camera front ends.

  \<^bold>\<open>The program.\<close> \<open>src/src/\<close> is a client library: the class \<open>WyzeAPI\<close> (\<open>index.js\<close>) logs in, keeps and
  refreshes two tokens, sends requests to six services of the vendor's cloud, each with its own signature
  (\<open>crypto.js\<close>, \<open>payloadFactory.js\<close>), talks to bulbs in the local network (\<open>util.js\<close>) and fetches frames
  of cameras over WebRTC (\<open>cameraStreamCapture.js\<close>). \<open>src/eufy/server.js\<close> is a process of its own that drives
  the SDK of another vendor: it has login challenges, cached and scheduled snapshots, and video sessions.
  \<open>src/cam-frontend/server.js\<close> is the dashboard: it serves browsers with the client's methods and passes the
  rest, the video sockets included, on to the Eufy process.

  \<^bold>\<open>Theories and code.\<close> Definitions have the names of the code where Isabelle allows it.
  \<^item> \<open>Prelude\<close>, \<open>JsValue\<close>, \<open>JsonText\<close>, \<open>Base64\<close>, \<open>JsMethods\<close>: the parts of JavaScript and Node that the code
    uses, as values (\<open>jsval\<close>: parsed JSON with \<open>undefined\<close> and \<open>NaN\<close>, objects in insertion order) and total
    functions; operations that can throw give a sum with the exception. \<open>Md5\<close> and \<open>Sha256\<close>: digests and HMACs
    on 32-bit words. \<open>Effects\<close>: asynchronous methods as state transformers that throw (\<open>Inl\<close>), return
    (\<open>Inr\<close>) or never settle (\<open>None\<close>); \<open>hoare\<close> triples, and the locale \<open>effect_preorder\<close> of the relations
    between first and last states that sequencing respects. \<open>Machine\<close>: partial step functions, runs,
    reachable states, and the locales \<open>step_invariant\<close> and \<open>invariant\<close>. \<open>Sockets\<close>: the states of a web socket
    in their linear order.
  \<^item> \<open>WyzeTypes\<close> and \<open>Vocabulary\<close> (\<open>constants.js\<close>, \<open>types.js\<close>), \<open>Crypto\<close> (\<open>crypto.js\<close>), \<open>PayloadFactory\<close>
    (\<open>payloadFactory.js\<close>), \<open>Util\<close> (\<open>util.js\<close>).
  \<^item> \<open>index.js\<close>: \<open>WyzeState\<close> has the object's state \<open>st\<close> (tokens, debounce, caches, and as its surroundings
    the clock, the disk, the requests sent and the log), the environment \<open>env\<close> (what server, disk and
    packages answer), the constructor and the token file; \<open>Client\<close> the request path from \<open>request\<close> over
    \<open>handleApiResponse\<close> to \<open>refreshToken\<close> and \<open>maybeLogin\<close>; \<open>Devices\<close> and \<open>DeviceCommands\<close> the lists, lookups,
    properties and commands; \<open>SignedServices\<close> locks, thermostats, irrigation and home monitoring; \<open>Vacuum\<close>
    and \<open>Iot3\<close> their services; \<open>CameraHelpers\<close> and \<open>CameraStream\<close> cameras, stream information, the cache of
    connections and the reconnecting loop.
  \<^item> \<open>Signaling\<close> and \<open>Capture\<close>: \<open>cameraStreamCapture.js\<close>; \<open>Roku\<close>: \<open>rokuAuth.js\<close>.
  \<^item> \<open>EufyState\<close> (module variables, timers, promises and pending awaits as the record \<open>est\<close>) and \<open>EufyServer\<close>
    (every handler of \<open>eufy/server.js\<close>; \<open>eufy_step\<close> is the process on one event); \<open>EufyShutdown\<close> adds the handler
    of the interrupt signal (\<open>process_step\<close>).
  \<^item> \<open>Dashboard\<close> (routes of \<open>cam-frontend/server.js\<close>), \<open>DashTransport\<close> (\<open>proxyToEufy\<close>, one request on two
    connections), \<open>DashSocket\<close> (its upgrade handler and socket proxy) and \<open>BodyReader\<close> (\<open>readJsonBody\<close> of both
    servers, event by event). \<open>Startup\<close>: what both servers take from the environment.
  \<^item> \<open>Site\<close> composes both servers: browsers, the dashboard's proxied requests and the viewer process in one
    machine, with what is in flight between the processes.

  \<^bold>\<open>How the parts meet.\<close> Methods of the client are programs of type \<open>'a m\<close> over \<open>st\<close>, composed as the code
  composes them; the dashboard's routes are programs over the same state. The Eufy process, the two
  proxies and the frame capture are machines on events: an event is a request, a message, a timer or the
  end of an await; its handler runs to the next await, so interleavings are the orders of events.

  \<^bold>\<open>What is proved.\<close>
  \<^item> \<open>ClientProofs\<close>, \<open>SessionProofs\<close>: frames of the request path from the locales \<open>client_preorder\<close> and
    \<open>session_preorder\<close>, interpreted on histories, debounce bounds, request counts and signatures.
    \<open>ClientProps\<close>, \<open>SessionProps\<close>, \<open>RecoveryProps\<close>: login, token file, refresh, retries, termination and a
    case in which a refresh never settles.
  \<^item> \<open>DeviceProps\<close>, \<open>BulbProps\<close>, \<open>SignedProps\<close>: what commands send; every signed request verifies.
    \<open>CameraProps\<close>, \<open>CacheProps\<close>: stream information, the locale \<open>ttl_cache\<close> with both caches, the loop's waits.
  \<^item> \<open>EufyFrames\<close>: what handlers leave alone, as locales whose laws are the elementary updates. \<open>EufyProps\<close>: the
    login refines an abstract dialogue. \<open>EufySchedule\<close>, \<open>EufySnapshots\<close>, \<open>EufySessions\<close>: timers, shared wakes,
    viewers. \<open>EufyShutdown\<close>: the cameras are stopped and the process ends.
  \<^item> \<open>DashProps\<close>: the dashboard against the Eufy process and the client. \<open>DashTypes\<close>: the types of its answers.
    \<open>TransportProps\<close>, \<open>SiteProps\<close>: what a proxied request passes on, alone and in every run of both servers,
    and what becomes of event streams that are left. \<open>CaptureProps\<close>: everything is closed, the
    timer ends the capture, the frame is FFmpeg's output. \<open>SnapshotFlow\<close>: the route \<open>/api/snapshot\<close> over the
    client's snapshot methods and the capture machine (\<open>capture_call\<close>), with an invariant of the cached
    frames. \<open>RokuProps\<close>: where tokens come from.

  \<^bold>\<open>Bounds.\<close> The JSON parser has the fuel \<open>2 * length + 1\<close>, which is enough for every text
  (\<open>pval_fuel_enough\<close>). \<open>reconnect_loop\<close> ends by a measure on the attempts left; the mutual recursion of
  requests and refreshes is a \<open>partial_function\<close>, and that it settles is a property with the hypothesis
  it needs. Timer delays are clamped as Node does (\<open>timer_delay\<close>). Hash words are \<open>32 word\<close>.

  \<^bold>\<open>Domain.\<close> Characters are code units below 256; a dash or an ellipsis of a message is written in
  ASCII. Numbers are integers, so a text with a fraction or an exponent is outside. Object keys keep their
  order of insertion, which for keys that look like array indices is not JavaScript's. Other tasks of the
  client's process run only in the waits of the debounce loop (\<open>others\<close>). Log lines are modelled on the
  request path only. The routes take a request body as a whole,
  which \<open>BodyReader\<close> justifies for chunks of whole characters. Awaits that only take a microtask are
  merged with the step before them. Names in query strings are taken without escapes.

  \<^bold>\<open>Parameters.\<close> The AES block cipher of OpenSSL, the packages \<open>utf8\<close> and \<open>uuid-by-string\<close>, random numbers,
  the text of a failed login's result, the AWS SDK, the Eufy SDK, FFmpeg, \<open>werift\<close> and \<open>ws\<close>: arguments of the
  definitions or events. Hypotheses on them state what they document (a cipher decrypts what it
  encrypted, \<open>utf8\<close> keeps ASCII).

  \<^bold>\<open>Not modelled.\<close> The unit conversions on floating-point numbers; the transport of thumbnails; the HTML
  pages; console output of the two servers; the scripts under \<open>src/example\<close>, which print the results of
  methods that are modelled.
\<close>

end
